(* ===== verification/Prelude.thy ===== *)
theory Prelude
  imports Main "HOL-Library.Word"
begin

text \<open>
  Shared vocabulary of the development: the machine integers of the C code, the C library
  routines whose effect on a value matters (bounded string copies, the byte image of a
  \<open>uint32_t\<close>), linear searches over fixed tables, and the lemma collections that the component
  theories extend.
\<close>

unbundle bit_operations_syntax

section \<open>Types\<close>

type_synonym u8 = "8 word"
type_synonym u16 = "16 word"
type_synonym u32 = "32 word"
type_synonym u64 = "64 word"
type_synonym i32 = "32 word"

text \<open>A pointer to an object that a library allocated: NULL is \<open>None\<close>.\<close>

type_synonym handle = nat

text \<open>A memory fault that the C code can run into; the model stops there.\<close>

datatype c_fault = BufferOverrun | NullDereference

text \<open>What \<open>fork\<close> returns to the calling process; the forked child is modelled on its own.\<close>

datatype fork_result = ForkFailed | ForkParent int

section \<open>Lemma collections\<close>

named_theorems frame_simps \<open>fields that an operation does not write\<close>
named_theorems inv_intros \<open>operations keep their component's invariant\<close>
named_theorems call_simps \<open>the external calls that an operation makes\<close>

section \<open>Bounded string copies\<close>

text \<open>
  \<open>snprintf(buf, n, "%s", s)\<close> stores at most \<open>n - 1\<close> characters and a terminator: read back as a
  C string, the buffer holds the first \<open>n - 1\<close> characters of \<open>s\<close>.
\<close>

definition c_snprintf :: "nat \<Rightarrow> string \<Rightarrow> string" where
  "c_snprintf n s = take (n - 1) s"

lemma c_snprintf_id [simp]: "length s < n \<Longrightarrow> c_snprintf n s = s"
  by (simp add: c_snprintf_def)

lemma c_snprintf_length: "0 < n \<Longrightarrow> length (c_snprintf n s) < n"
  by (simp add: c_snprintf_def)

lemma c_snprintf_neq: "0 < n \<Longrightarrow> n \<le> length s \<Longrightarrow> c_snprintf n s \<noteq> s"
  using c_snprintf_length [of n s] by auto

section \<open>Decimal numerals\<close>

text \<open>\<open>printf\<close>'s \<open>%d\<close> and \<open>%u\<close>.\<close>

definition digit_char :: "nat \<Rightarrow> char" where
  "digit_char d = char_of (48 + d)"

fun dec_nat :: "nat \<Rightarrow> string" where
  "dec_nat n = (if n < 10 then [digit_char n] else dec_nat (n div 10) @ [digit_char (n mod 10)])"

declare dec_nat.simps [simp del]

definition c_dec :: "int \<Rightarrow> string" where
  "c_dec i = (if i < 0 then CHR ''-'' # dec_nat (nat (- i)) else dec_nat (nat i))"

text \<open>
  \<open>atoi\<close>: blanks, an optional sign, then the longest run of digits. (A value that does not fit an
  \<open>int\<close> is undefined in C.)
\<close>

definition is_digit :: "char \<Rightarrow> bool" where
  "is_digit c \<longleftrightarrow> 48 \<le> (of_char c :: nat) \<and> (of_char c :: nat) \<le> 57"

fun atoi_digits :: "int \<Rightarrow> string \<Rightarrow> int" where
  "atoi_digits acc [] = acc"
| "atoi_digits acc (c # cs) =
     (if is_digit c then atoi_digits (acc * 10 + int (of_char c - 48)) cs else acc)"

definition is_space :: "char \<Rightarrow> bool" where
  "is_space c \<longleftrightarrow> c = CHR '' '' \<or> (9 \<le> (of_char c :: nat) \<and> (of_char c :: nat) \<le> 13)"

definition c_atoi :: "string \<Rightarrow> int" where
  "c_atoi s = (case dropWhile is_space s of [] \<Rightarrow> 0
     | c # cs \<Rightarrow> if c = CHR ''-'' then - atoi_digits 0 cs
                else if c = CHR ''+'' then atoi_digits 0 cs else atoi_digits 0 (c # cs))"

lemma of_digit_char [simp]: "d < 10 \<Longrightarrow> (of_char (digit_char d) :: nat) = 48 + d"
  by (simp add: digit_char_def)

lemma is_digit_digit_char [simp]: "d < 10 \<Longrightarrow> is_digit (digit_char d)"
  by (simp add: is_digit_def)

lemma atoi_digits_append:
  "\<forall>c \<in> set cs. is_digit c \<Longrightarrow> atoi_digits acc (cs @ ds) = atoi_digits (atoi_digits acc cs) ds"
  by (induction cs arbitrary: acc) auto

lemma dec_nat_digits: "\<forall>c \<in> set (dec_nat n). is_digit c"
proof (induction n rule: dec_nat.induct)
  case (1 n)
  then show ?case by (subst dec_nat.simps) auto
qed

lemma atoi_dec_nat: "atoi_digits 0 (dec_nat n) = int n"
proof (induction n rule: dec_nat.induct)
  case (1 n)
  show ?case
  proof (cases "n < 10")
    case True
    then show ?thesis by (simp add: dec_nat.simps [of n])
  next
    case False
    have "int (n div 10) * 10 + int (n mod 10) = int n"
      by (metis div_mult_mod_eq of_nat_add of_nat_mult of_nat_numeral)
    with 1 False show ?thesis
      by (simp add: dec_nat.simps [of n] atoi_digits_append dec_nat_digits)
  qed
qed

lemma dec_nat_neq_Nil [simp]: "dec_nat n \<noteq> []"
  by (subst dec_nat.simps) simp

lemma dec_nat_hd: "dec_nat n = c # cs \<Longrightarrow> is_digit c"
  using dec_nat_digits [of n] by simp

lemma is_digitD: "is_digit c \<Longrightarrow> \<not> is_space c \<and> c \<noteq> CHR ''-'' \<and> c \<noteq> CHR ''+''"
  by (auto simp: is_digit_def is_space_def)

lemma atoi_c_dec [simp]: "c_atoi (c_dec i) = i"
proof (cases "i < 0")
  case True
  then show ?thesis by (simp add: c_dec_def c_atoi_def is_space_def atoi_dec_nat)
next
  case False
  obtain c cs where c: "dec_nat (nat i) = c # cs"
    by (cases "dec_nat (nat i)") simp_all
  then have "is_digit c" by (rule dec_nat_hd)
  with False c atoi_dec_nat [of "nat i"] show ?thesis
    by (simp add: c_dec_def c_atoi_def is_digitD)
qed

lemma length_dec_nat: "n < 10 ^ k \<Longrightarrow> 0 < k \<Longrightarrow> length (dec_nat n) \<le> k"
proof (induction n arbitrary: k rule: dec_nat.induct)
  case (1 n)
  show ?case
  proof (cases "n < 10")
    case True
    then show ?thesis using "1.prems" by (simp add: dec_nat.simps [of n])
  next
    case False
    obtain l where k: "k = Suc l" using "1.prems"(2) by (cases k) simp_all
    have "n div 10 < 10 ^ l" using "1.prems"(1) k by (simp add: less_mult_imp_div_less mult.commute)
    moreover have "0 < l" using False "1.prems"(1) k by (cases l) simp_all
    ultimately show ?thesis using "1.IH" [OF False] k False by (simp add: dec_nat.simps [of n])
  qed
qed

text \<open>A 32-bit number needs at most 11 characters.\<close>

lemma length_c_dec:
  assumes "- (2 ^ 31) \<le> i" "i < 2 ^ 31"
  shows "length (c_dec i) < 16"
proof -
  have "nat \<bar>i\<bar> < 10 ^ 10" using assms by (simp add: nat_less_iff abs_less_iff)
  then have "length (dec_nat (nat \<bar>i\<bar>)) \<le> 10" by (rule length_dec_nat) simp
  then show ?thesis by (cases "i < 0") (simp_all add: c_dec_def)
qed

section \<open>Signals\<close>

datatype signal = SIGINT | SIGTERM | SIGCHLD

text \<open>The flags of a process that its signal handler sets.\<close>

record sig_flags =
  g_running :: bool
  g_child_exited :: bool

definition initial_flags :: sig_flags where
  "initial_flags = \<lparr>g_running = True, g_child_exited = False\<rparr>"

text \<open>What \<open>epoll_wait\<close> returns: the ready descriptors with what they lead to, EINTR, or another error.\<close>

datatype 'e epoll_answer = EpollEvents "'e list" | EpollIntr | EpollError

text \<open>
  Where an event loop is after some of its iterations: it waits in one of them for ever, it goes on, or
  it was left.
\<close>

datatype 'd progress = Stuck | Running 'd | Left 'd

text \<open>
  Both programs end in a loop of this form. What an iteration keeps, the loop keeps: of an iteration a
  client of this interface has to know only that, and the loop's two equations.
\<close>

locale event_loop =
  fixes running :: "'s \<Rightarrow> bool"
    and iteration :: "'r \<Rightarrow> 's \<Rightarrow> (bool \<times> 's) option"
    and run :: "'r list \<Rightarrow> 's \<Rightarrow> 's progress"
    and good :: "'s \<Rightarrow> bool"
  assumes run_Nil: "run [] s = (if running s then Running s else Left s)"
    and run_Cons: "run (r # rs) s =
      (if \<not> running s then Left s
       else (case iteration r s of None \<Rightarrow> Stuck | Some (go, s1) \<Rightarrow> if go then run rs s1 else Left s1))"
    and keeps: "iteration r s = Some (go, s1) \<Longrightarrow> good s \<Longrightarrow> good s1"
begin

lemma run_good: "good s \<Longrightarrow> run rs s = Running s' \<or> run rs s = Left s' \<Longrightarrow> good s'"
proof (induction rs arbitrary: s)
  case Nil
  then show ?case by (auto simp: run_Nil split: if_splits)
next
  case (Cons r rs)
  show ?case
  proof (cases "running s")
    case True
    show ?thesis
    proof (cases "iteration r s")
      case None
      then show ?thesis using Cons.prems True by (simp add: run_Cons)
    next
      case (Some x)
      obtain go s1 where x: "x = (go, s1)" by fastforce
      then have "good s1" using Some Cons.prems(1) keeps by blast
      then show ?thesis using Cons Some x True by (auto simp: run_Cons split: if_splits)
    qed
  next
    case False
    then show ?thesis using Cons.prems by (auto simp: run_Cons)
  qed
qed

end

text \<open>Handlers that may never return, one after the other.\<close>

fun run_all :: "('e \<Rightarrow> 's \<Rightarrow> 's option) \<Rightarrow> 'e list \<Rightarrow> 's \<Rightarrow> 's option" where
  "run_all f [] s = Some s"
| "run_all f (e # es) s = (case f e s of None \<Rightarrow> None | Some s1 \<Rightarrow> run_all f es s1)"

lemma run_all_inv:
  assumes "run_all f es s = Some s'" "P s" "\<And>e s s'. P s \<Longrightarrow> f e s = Some s' \<Longrightarrow> P s'"
  shows "P s'"
  using assms(1,2)
proof (induction es arbitrary: s)
  case (Cons e es)
  then obtain s1 where "f e s = Some s1" "run_all f es s1 = Some s'" by (auto split: option.splits)
  then show ?case using Cons.IH Cons.prems(2) assms(3) by blast
qed simp

section \<open>The bytes of a 32-bit integer\<close>

text \<open>
  \<open>memcpy(buf, &x, 4)\<close> on a little-endian machine. Both ends of every socket of the program run
  on one host, so only the round trip below matters.
\<close>

definition le32_bytes :: "u32 \<Rightarrow> u8 list" where
  "le32_bytes x = [ucast x, ucast (drop_bit 8 x), ucast (drop_bit 16 x), ucast (drop_bit 24 x)]"

definition le32_of :: "u8 list \<Rightarrow> u32" where
  "le32_of bs =
     ucast (bs ! 0) OR push_bit 8 (ucast (bs ! 1)) OR push_bit 16 (ucast (bs ! 2))
       OR push_bit 24 (ucast (bs ! 3))"

lemma length_le32_bytes [simp]: "length (le32_bytes x) = 4"
  by (simp add: le32_bytes_def)

lemma le32_roundtrip [simp]: "le32_of (le32_bytes x) = x"
proof (rule bit_word_eqI)
  fix n assume n: "n < LENGTH(32)"
  then consider "n < 8" | "8 \<le> n \<and> n < 16" | "16 \<le> n \<and> n < 24" | "24 \<le> n \<and> n < 32"
    by fastforce
  then show "bit (le32_of (le32_bytes x)) n \<longleftrightarrow> bit x n"
    by cases
      (auto simp: le32_of_def le32_bytes_def bit_or_iff bit_push_bit_iff bit_ucast_iff
         bit_drop_bit_eq)
qed

lemma le32_of_append [simp]: "le32_of (le32_bytes x @ ys) = x"
proof -
  have "le32_of (le32_bytes x @ ys) = le32_of (le32_bytes x)"
    by (simp add: le32_of_def le32_bytes_def)
  then show ?thesis by simp
qed

section \<open>Linear searches\<close>

text \<open>\<open>for (i = 0; i < N; i++) if (P(a[i])) return i;\<close> over an array \<open>a\<close> of \<open>N\<close> entries.\<close>

fun first_index :: "('a \<Rightarrow> bool) \<Rightarrow> 'a list \<Rightarrow> nat option" where
  "first_index P [] = None"
| "first_index P (x # xs) = (if P x then Some 0 else map_option Suc (first_index P xs))"

lemma first_index_None: "first_index P xs = None \<longleftrightarrow> (\<forall>x \<in> set xs. \<not> P x)"
  by (induction xs) auto

lemma first_index_Some:
  "first_index P xs = Some i \<longleftrightarrow> i < length xs \<and> P (xs ! i) \<and> (\<forall>j < i. \<not> P (xs ! j))"
proof (induction xs arbitrary: i)
  case Nil
  then show ?case by simp
next
  case (Cons x xs)
  then show ?case
    by (cases i) (auto simp: less_Suc_eq_0_disj nth_Cons split: nat.splits)
qed

lemma first_index_length: "first_index P xs = Some i \<Longrightarrow> i < length xs"
  by (simp add: first_index_Some)

lemma first_index_holds: "first_index P xs = Some i \<Longrightarrow> P (xs ! i)"
  by (simp add: first_index_Some)

lemma nth_update_cases:
  "j < length xs \<Longrightarrow> (xs[i := x]) ! j = (if i = j then x else xs ! j)"
  by (simp add: nth_list_update)

lemma ball_update: "\<forall>x \<in> set xs. P x \<Longrightarrow> P y \<Longrightarrow> \<forall>x \<in> set (xs[i := y]). P x"
  by (auto dest: set_update_subset_insert [THEN subsetD])

text \<open>How the number of entries with a property changes when one entry is replaced.\<close>

definition count_if :: "('a \<Rightarrow> bool) \<Rightarrow> 'a list \<Rightarrow> nat" where
  "count_if P xs = length (filter P xs)"

lemma count_if_update:
  assumes "i < length xs"
  shows "int (count_if P (xs[i := y])) =
           int (count_if P xs) + (if P y then 1 else 0) - (if P (xs ! i) then 1 else 0)"
  using assms
proof (induction xs arbitrary: i)
  case Nil
  then show ?case by simp
next
  case (Cons x xs)
  show ?case
  proof (cases i)
    case 0
    then show ?thesis by (simp add: count_if_def)
  next
    case (Suc k)
    then show ?thesis using Cons.IH [of k] Cons.prems by (auto simp: count_if_def split: if_splits)
  qed
qed

lemma count_if_le: "count_if P xs \<le> length xs"
  by (simp add: count_if_def)

lemma count_if_full: "first_index (\<lambda>x. \<not> P x) xs = None \<longleftrightarrow> count_if P xs = length xs"
proof (induction xs)
  case Nil
  then show ?case by (simp add: count_if_def)
next
  case (Cons x xs)
  have "length (filter P xs) \<noteq> Suc (length xs)"
    by (metis Suc_n_not_le_n length_filter_le)
  with Cons show ?case by (auto simp: count_if_def)
qed

section \<open>Lists read or written piece by piece\<close>

lemma take_piece:
  assumes "k + n \<le> len"
  shows "take n (drop k xs) @ drop (k + n) (take len xs) = drop k (take len xs)"
proof -
  have "drop k (take len xs) = take (n + (len - (k + n))) (drop k xs)"
    using assms by (simp add: drop_take)
  also have "\<dots> = take n (drop k xs) @ take (len - (k + n)) (drop n (drop k xs))"
    by (rule take_add)
  also have "drop n (drop k xs) = drop (k + n) xs"
    by (simp add: add.commute)
  finally show ?thesis by (simp add: drop_take)
qed

section \<open>Trailing characters\<close>

text \<open>\<open>while (n > 0 && P(buf[n - 1])) n--;\<close>\<close>

fun strip_end :: "('a \<Rightarrow> bool) \<Rightarrow> 'a list \<Rightarrow> nat \<Rightarrow> nat" where
  "strip_end P xs 0 = 0"
| "strip_end P xs (Suc n) = (if P (xs ! n) then strip_end P xs n else Suc n)"

lemma strip_end_le: "strip_end P xs n \<le> n"
  by (induction n) auto

lemma strip_end_last: "0 < strip_end P xs n \<Longrightarrow> \<not> P (xs ! (strip_end P xs n - 1))"
  by (induction n) auto

lemma strip_end_stripped: "strip_end P xs n \<le> i \<Longrightarrow> i < n \<Longrightarrow> P (xs ! i)"
  by (induction n) (auto simp: less_Suc_eq split: if_splits)

lemma strip_end_zero: "strip_end P xs n = 0 \<longleftrightarrow> (\<forall>i < n. P (xs ! i))"
  by (induction n) (auto simp: less_Suc_eq)

end
