(* ===== verification/Ipc.thy ===== *)
theory Ipc
  imports Prelude
begin

text \<open>
  The message layer between daemon and session worker (\<open>src/common/ipc.h\<close>, \<open>src/common/ipc.c\<close>):
  the message record, \<open>ipc_send_msg\<close>, \<open>ipc_recv_msg\<close>, the round trip between them and what each of
  them does with malformed input. \<open>sendmsg\<close> and \<open>recvmsg\<close> belong to the kernel: the first is a
  parameter, the second an answer record; \<open>delivers\<close> names what SOCK_SEQPACKET promises.
\<close>

section \<open>Messages\<close>

definition WLRDP_MSG_NEW_CLIENT :: u32 where "WLRDP_MSG_NEW_CLIENT = 1"
definition WLRDP_MSG_DISCONNECT :: u32 where "WLRDP_MSG_DISCONNECT = 2"
definition WLRDP_MSG_RESIZE :: u32 where "WLRDP_MSG_RESIZE = 3"
definition WLRDP_MSG_STATUS :: u32 where "WLRDP_MSG_STATUS = 4"
definition WLRDP_MSG_SHUTDOWN :: u32 where "WLRDP_MSG_SHUTDOWN = 5"

lemmas msg_type_defs = WLRDP_MSG_NEW_CLIENT_def WLRDP_MSG_DISCONNECT_def WLRDP_MSG_RESIZE_def
  WLRDP_MSG_STATUS_def WLRDP_MSG_SHUTDOWN_def

datatype session_status = StatusReady | StatusActive | StatusDisconnected | StatusTerminated

fun status_code :: "session_status \<Rightarrow> u32" where
  "status_code StatusReady = 0"
| "status_code StatusActive = 1"
| "status_code StatusDisconnected = 2"
| "status_code StatusTerminated = 3"

text \<open>\<open>payload\<close> is an array of 256 bytes, of which the first \<open>payload_len\<close> count.\<close>

record ipc_msg =
  msg_type :: u32
  payload_len :: u32
  payload :: "u8 list"

definition payload_size :: nat where "payload_size = 256"

definition msg_wf :: "ipc_msg \<Rightarrow> bool" where
  "msg_wf m \<longleftrightarrow> length (payload m) = payload_size \<and> unat (payload_len m) \<le> payload_size"

text \<open>\<open>{ .type = t, .payload_len = n }\<close> followed by a copy of \<open>n\<close> bytes: the rest is zero.\<close>

definition mk_msg :: "u32 \<Rightarrow> u8 list \<Rightarrow> ipc_msg" where
  "mk_msg t bs = \<lparr>msg_type = t, payload_len = of_nat (length bs),
     payload = bs @ replicate (payload_size - length bs) 0\<rparr>"

lemma mk_msg_fields [simp]:
  "msg_type (mk_msg t bs) = t" "payload_len (mk_msg t bs) = of_nat (length bs)"
  "payload (mk_msg t bs) = bs @ replicate (payload_size - length bs) 0"
  by (simp_all add: mk_msg_def)

lemma unat_small_length: "length bs \<le> payload_size \<Longrightarrow> unat (of_nat (length bs) :: u32) = length bs"
  by (simp add: payload_size_def unat_of_nat)

lemma mk_msg_wf: "length bs \<le> payload_size \<Longrightarrow> msg_wf (mk_msg t bs)"
  by (simp add: msg_wf_def unat_small_length)

section \<open>Sending\<close>

text \<open>What \<open>sendmsg\<close> is given: the bytes of the iovec and the SCM_RIGHTS descriptor, if any.\<close>

record packet =
  pkt_bytes :: "u8 list"
  pkt_fd :: "int option"

text \<open>
  The local buffer has 8 + 256 bytes, and both \<open>memcpy\<close> and the source array end there:
  \<open>payload_len\<close> is not checked, so a larger value overruns them.
\<close>

definition ipc_send_msg :: "(packet \<Rightarrow> int) \<Rightarrow> ipc_msg \<Rightarrow> int \<Rightarrow> c_fault + bool \<times> packet" where
  "ipc_send_msg sendmsg m fd =
    (let total = 8 + payload_len m in
     if payload_size < unat (payload_len m) then Inl BufferOverrun
     else
       let buf = le32_bytes (msg_type m) @ le32_bytes (payload_len m)
                   @ take (unat (payload_len m)) (payload m);
           pkt = \<lparr>pkt_bytes = take (unat total) buf, pkt_fd = (if 0 \<le> fd then Some fd else None)\<rparr>;
           n = sendmsg pkt
       in if n < 0 then Inr (False, pkt) else Inr (nat n = unat total, pkt))"

text \<open>The packet of a well-formed message.\<close>

definition packet_of :: "ipc_msg \<Rightarrow> int \<Rightarrow> packet" where
  "packet_of m fd = \<lparr>pkt_bytes = le32_bytes (msg_type m) @ le32_bytes (payload_len m)
       @ take (unat (payload_len m)) (payload m),
     pkt_fd = (if 0 \<le> fd then Some fd else None)\<rparr>"

lemma unat_total:
  assumes "unat (n :: u32) \<le> payload_size"
  shows "unat (8 + n) = 8 + unat n"
  using assms by (simp add: payload_size_def unat_word_ariths)

lemma length_packet_of:
  "msg_wf m \<Longrightarrow> length (pkt_bytes (packet_of m fd)) = 8 + unat (payload_len m)"
  by (simp add: packet_of_def msg_wf_def)

lemma ipc_send_msg_wf:
  assumes "msg_wf m"
  shows "ipc_send_msg sendmsg m fd =
           Inr (sendmsg (packet_of m fd) = int (8 + unat (payload_len m)), packet_of m fd)"
proof -
  obtain k where k: "unat (payload_len m) = k" by simp
  have le: "k \<le> payload_size" and tot: "unat (8 + payload_len m) = 8 + k"
    using assms k by (simp_all add: msg_wf_def unat_total)
  have tk: "take (8 + k) (le32_bytes (msg_type m) @ le32_bytes (payload_len m) @ take k (payload m))
      = le32_bytes (msg_type m) @ le32_bytes (payload_len m) @ take k (payload m)"
    by (simp add: take_append)
  show ?thesis
    using le unfolding ipc_send_msg_def packet_of_def Let_def tot k tk by auto
qed

section \<open>Receiving\<close>

datatype cmsg = CMsg (cmsg_level: int) (cmsg_type: int) (cmsg_fd: int)

definition SOL_SOCKET :: int where "SOL_SOCKET = 1"
definition SCM_RIGHTS :: int where "SCM_RIGHTS = 1"

text \<open>
  What \<open>recvmsg\<close> leaves behind: its result, the local buffer of 264 bytes (whose tail is whatever
  the stack held) and the first control message.
\<close>

record recv_answer =
  rx_n :: int
  rx_buf :: "u8 list"
  rx_cmsg :: "cmsg option"

definition recv_fd :: "recv_answer \<Rightarrow> int" where
  "recv_fd rx = (case rx_cmsg rx of
       Some c \<Rightarrow> if cmsg_level c = SOL_SOCKET \<and> cmsg_type c = SCM_RIGHTS then cmsg_fd c else -1
     | None \<Rightarrow> -1)"

text \<open>
  \<open>ipc_recv_msg\<close> fills the caller's message \<open>m\<close>; the result is the returned flag, the message
  afterwards and \<open>*out_fd\<close>.
\<close>

definition ipc_recv_msg :: "recv_answer \<Rightarrow> ipc_msg \<Rightarrow> bool \<times> ipc_msg \<times> int" where
  "ipc_recv_msg rx m =
    (if rx_n rx \<le> 0 then (False, m, -1)
     else if nat (rx_n rx) < 8 then (False, m, -1)
     else
       let m1 = m\<lparr>msg_type := le32_of (rx_buf rx), payload_len := le32_of (drop 4 (rx_buf rx))\<rparr>;
           len = unat (payload_len m1)
       in if payload_size < len then (False, m1, -1)
          else
            let m2 = (if 0 < len \<and> 8 + len \<le> nat (rx_n rx)
                      then m1\<lparr>payload := take len (drop 8 (rx_buf rx)) @ drop len (payload m1)\<rparr>
                      else m1)
            in (True, m2, recv_fd rx))"

text \<open>
  SOCK_SEQPACKET keeps record boundaries and delivers a record whole, with its descriptor
  installed in the receiver. The number of a descriptor that is passed stands for its open file: the receiver
  gets that file under a new number of its own, which is written with the number of the sender here.
\<close>

definition delivers :: "packet \<Rightarrow> recv_answer \<Rightarrow> bool" where
  "delivers p rx \<longleftrightarrow>
     rx_n rx = int (length (pkt_bytes p)) \<and>
     take (length (pkt_bytes p)) (rx_buf rx) = pkt_bytes p \<and>
     rx_cmsg rx = map_option (CMsg SOL_SOCKET SCM_RIGHTS) (pkt_fd p)"

lemma recv_fd_delivers:
  "delivers (packet_of m fd) rx \<Longrightarrow> recv_fd rx = (if 0 \<le> fd then fd else -1)"
  by (simp add: delivers_def packet_of_def recv_fd_def SOL_SOCKET_def SCM_RIGHTS_def)

lemma delivers_buf:
  assumes "msg_wf m" "delivers (packet_of m fd) rx"
  obtains junk where
    "rx_buf rx = le32_bytes (msg_type m) @ le32_bytes (payload_len m)
       @ take (unat (payload_len m)) (payload m) @ junk"
proof -
  let ?b = "pkt_bytes (packet_of m fd)"
  have "take (length ?b) (rx_buf rx) = ?b"
    using assms(2) by (simp add: delivers_def)
  then have "rx_buf rx = ?b @ drop (length ?b) (rx_buf rx)"
    by (metis append_take_drop_id)
  then show thesis
    by (intro that [of "drop (length ?b) (rx_buf rx)"]) (simp add: packet_of_def)
qed

text \<open>The message layer as a whole: what is received after a well-formed message was sent.\<close>

lemma recv_packet_of:
  assumes wf: "msg_wf m" and dl: "delivers (packet_of m fd) rx"
  shows "ipc_recv_msg rx m0 =
     (True,
      m0\<lparr>msg_type := msg_type m, payload_len := payload_len m,
         payload := take (unat (payload_len m)) (payload m)
                      @ drop (unat (payload_len m)) (payload m0)\<rparr>,
      if 0 \<le> fd then fd else -1)"
proof -
  let ?n = "unat (payload_len m)"
  obtain k where k: "?n = k" by simp
  obtain junk where buf: "rx_buf rx = le32_bytes (msg_type m) @ le32_bytes (payload_len m)
       @ take ?n (payload m) @ junk"
    using wf dl by (rule delivers_buf)
  have n: "rx_n rx = int (8 + k)"
    using wf dl k by (simp add: delivers_def length_packet_of)
  have t: "le32_of (rx_buf rx) = msg_type m" and l: "le32_of (drop 4 (rx_buf rx)) = payload_len m"
    by (simp_all add: buf)
  have le: "k \<le> payload_size" and lp: "length (payload m) = payload_size"
    using wf k by (simp_all add: msg_wf_def)
  have pl: "take k (drop 8 (rx_buf rx)) = take k (payload m)"
    using le lp k by (simp add: buf)
  show ?thesis
    using le by (simp add: ipc_recv_msg_def n t l k pl recv_fd_delivers [OF dl] Let_def)
qed

section \<open>Properties\<close>

definition blank_msg :: ipc_msg where
  "blank_msg = \<lparr>msg_type = 0, payload_len = 0, payload = replicate payload_size 0\<rparr>"

text \<open>
  C12: a well-formed message that \<open>ipc_send_msg\<close> hands to the socket, delivered as one record,
  comes out of \<open>ipc_recv_msg\<close> with the same type, the same payload and the same descriptor
  (-1 where none was attached), whatever the receiver's message held before.
\<close>

theorem ipc_roundtrip:
  assumes "msg_wf m" and "ipc_send_msg sendmsg m fd = Inr (ok, p)" and "delivers p rx"
  shows "\<exists>m'. ipc_recv_msg rx m0 = (True, m', if 0 \<le> fd then fd else -1) \<and>
     msg_type m' = msg_type m \<and> payload_len m' = payload_len m \<and>
     take (unat (payload_len m)) (payload m') = take (unat (payload_len m)) (payload m)"
proof -
  have "p = packet_of m fd"
    using assms(1,2) by (simp add: ipc_send_msg_wf)
  then have "delivers (packet_of m fd) rx" using assms(3) by simp
  note recv_packet_of [OF assms(1) this, of m0]
  moreover have "unat (payload_len m) \<le> length (payload m)"
    using assms(1) by (simp add: msg_wf_def)
  ultimately show ?thesis by simp
qed

theorem ipc_roundtrip_witness:
  "\<exists>m'. ipc_recv_msg \<lparr>rx_n = 12, rx_buf = le32_bytes 4 @ le32_bytes 4 @ le32_bytes 2 @ replicate 252 0,
       rx_cmsg = Some (CMsg 1 1 9)\<rparr> blank_msg = (True, m', if 0 \<le> (9::int) then 9 else -1) \<and>
     msg_type m' = msg_type (mk_msg 4 (le32_bytes 2)) \<and>
     payload_len m' = payload_len (mk_msg 4 (le32_bytes 2)) \<and>
     take (unat (payload_len (mk_msg 4 (le32_bytes 2)))) (payload m') =
       take (unat (payload_len (mk_msg 4 (le32_bytes 2)))) (payload (mk_msg 4 (le32_bytes 2)))"
proof (rule ipc_roundtrip)
  show wf: "msg_wf (mk_msg 4 (le32_bytes 2))"
    by (rule mk_msg_wf) (simp add: payload_size_def)
  show "ipc_send_msg (\<lambda>p. int (length (pkt_bytes p))) (mk_msg 4 (le32_bytes 2)) 9 =
      Inr (True, packet_of (mk_msg 4 (le32_bytes 2)) 9)"
    using wf by (simp add: ipc_send_msg_wf length_packet_of)
  show "delivers (packet_of (mk_msg 4 (le32_bytes 2)) 9) \<lparr>rx_n = 12,
      rx_buf = le32_bytes 4 @ le32_bytes 4 @ le32_bytes 2 @ replicate 252 0,
      rx_cmsg = Some (CMsg 1 1 9)\<rparr>"
    by (simp add: delivers_def packet_of_def SOL_SOCKET_def SCM_RIGHTS_def)
qed

text \<open>
  C13: whatever arrives on the socket, \<open>ipc_recv_msg\<close> keeps the caller's message within its
  bounds: the payload array keeps its 256 bytes, and an accepted message has a payload length that
  fits the array. A record of fewer than 8 bytes, an end of file and an oversized length are refused.
\<close>

theorem ipc_recv_bounds:
  assumes "length (payload m0) = 256" "length (rx_buf rx) = 264"
    and "ipc_recv_msg rx m0 = (ok, m', fd)"
  shows "length (payload m') = 256 \<and> (ok \<longrightarrow> msg_wf m' \<and> 8 \<le> rx_n rx)"
proof -
  have "payload_size = 256" by (simp add: payload_size_def)
  with assms show ?thesis
    by (auto simp: ipc_recv_msg_def msg_wf_def Let_def split: if_splits)
qed

theorem ipc_recv_bounds_witness:
  "msg_wf (fst (snd (ipc_recv_msg \<lparr>rx_n = 20, rx_buf = replicate 264 0, rx_cmsg = None\<rparr> blank_msg)))"
proof -
  let ?rx = "\<lparr>rx_n = 20, rx_buf = replicate 264 0, rx_cmsg = None\<rparr>"
  obtain m' fd where r: "ipc_recv_msg ?rx blank_msg = (True, m', fd)"
    by (simp add: ipc_recv_msg_def le32_of_def payload_size_def Let_def)
  then show ?thesis
    using ipc_recv_bounds [OF _ _ r] by (simp add: blank_msg_def payload_size_def)
qed

text \<open>
  C34: a record that is shorter than its header says is nevertheless accepted: \<open>ipc_recv_msg\<close>
  returns true and leaves the caller's old payload bytes in place.
\<close>

theorem ipc_recv_short_record:
  assumes "8 \<le> rx_n rx" "le32_of (drop 4 (rx_buf rx)) = n" "0 < n" "unat n \<le> 256"
    and "rx_n rx < 8 + int (unat n)"
  shows "\<exists>m'. ipc_recv_msg rx m0 = (True, m', recv_fd rx) \<and> payload_len m' = n \<and> payload m' = payload m0"
proof -
  have "\<not> 8 + unat n \<le> nat (rx_n rx)" using assms(1,5) by linarith
  with assms(1-4) show ?thesis
    by (simp add: ipc_recv_msg_def payload_size_def Let_def)
qed

theorem ipc_recv_short_record_witness:
  "\<exists>m'. ipc_recv_msg \<lparr>rx_n = 8, rx_buf = le32_bytes 4 @ le32_bytes 4 @ replicate 256 0, rx_cmsg = None\<rparr>
      blank_msg = (True, m', recv_fd \<lparr>rx_n = 8, rx_buf = le32_bytes 4 @ le32_bytes 4 @ replicate 256 0,
        rx_cmsg = None\<rparr>) \<and> payload_len m' = 4 \<and> payload m' = payload blank_msg"
  by (rule ipc_recv_short_record) simp_all

end
