(* ===== verification/Calls.thy ===== *)
theory Calls
  imports Ipc
begin

text \<open>
  The calls that the session worker makes into code that is not part of the repository (FreeRDP,
  Wayland, xkbcommon, the kernel). The operations of the session side append the calls they make to
  a trace, in program order; the results of the calls are arguments of the operations. A
  dereference of a NULL pointer is recorded as the pseudo-call \<open>Crash\<close>: the program does not
  get past it.
\<close>

section \<open>Data that crosses the interface\<close>

text \<open>RDPGFX_CAPSET, RDPGFX_H264_METABLOCK, AUDIO_FORMAT: the fields the program looks at.\<close>

record capset =
  cap_version :: u32
  cap_flags :: u32

record h264_metablock =
  numRegionRects :: u32

record audio_format =
  wFormatTag :: u16
  nChannels :: u16
  nSamplesPerSec :: u32
  wBitsPerSample :: u16

text \<open>The codec that a surface command or a SurfaceBits command names.\<close>

datatype codec_id = CodecAVC420 | CodecAVC444 | CodecAVC444v2 | CodecProgressive | CodecNSCodec | CodecNone

text \<open>
  RDPGFX_SURFACE_COMMAND and SURFACE_BITS_COMMAND. \<open>cmd_extra\<close> is the AVC444 stream header
  \<open>cbAvc420EncodedBitstream1\<close> with its LC byte, where there is one.
\<close>

record surface_cmd =
  cmd_surface :: u16
  cmd_codec :: codec_id
  cmd_right :: u32
  cmd_bottom :: u32
  cmd_length :: u32
  cmd_extra :: "(u32 \<times> u8) option"

section \<open>Calls by library\<close>

datatype gfx_call =
    GfxContextNew handle
  | GfxContextFree handle
  | GfxOpen handle
  | GfxClose handle
  | GfxCapsConfirm "capset option"
  | GfxResetGraphics u32 u32 u32 u32
  | GfxCreateSurface u16 u32 u32
  | GfxMapSurface u16
  | GfxDeleteSurface u16
  | GfxStartFrame u32
  | GfxSurfaceCommand surface_cmd
  | GfxEndFrame u32

datatype vcm_call = VcmOpenServer handle | VcmManagerOpen handle | VcmCloseServer handle

datatype disp_call = DispContextNew handle | DispContextFree handle | DispOpen handle | DispClose handle

datatype snd_call =
    SndContextNew handle
  | SndContextFree handle
  | SndInitialize handle
  | SndStart handle
  | SndStop handle
  | SndSelectFormat nat
  | SndHandleMessages
  | SndSendSamples u32 u16

datatype clp_call =
    ClpContextNew handle
  | ClpContextFree handle
  | ClpOpen handle
  | ClpClose handle
  | ClpFormatListResponse
  | ClpFormatDataRequest u32
  | ClpFormatList "u32 list"
  | ClpFormatDataResponse bool nat

datatype peer_call =
    PeerNew handle
  | PeerContextNew
  | PeerInitialize
  | PeerContextFree
  | PeerFree
  | PeerLoadCertificate "string option"
  | PeerSetCertificate
  | PeerLoadKey "string option"
  | PeerSetKey
  | PeerSetBool string bool
  | PeerSetUint32 string u32
  | PeerSurfaceBits surface_cmd
  | PeerPointerHide
  | PeerResize u32 u32 u32

datatype wl_object =
    WlDisplay | WlRegistry | WlSeat | WlOutput | WlShm | WlShmPool | WlBuffer
  | ScreencopyManager | ScreencopyFrame
  | VirtualPointerManager | VirtualPointer | VirtualKeyboardManager | VirtualKeyboard
  | DataControlManager | DataControlDevice | DataControlSource | DataControlOffer

datatype wl_call =
    WlDestroy wl_object handle
  | WlFlush
  | CaptureOutput
  | FrameCopy "handle option"
  | ShmCreatePool int u32
  | PoolCreateBuffer u32 u32 u32
  | PtrMotionAbsolute u32 u32 u32 u32
  | PtrButton u32 bool
  | PtrAxis i32
  | PtrFrame
  | KbdKey u32 bool
  | XkbUpdateKey u32 bool
  | VkbdKeymap int nat
  | KbdModifiers u32 u32 u32 u32
  | OfferReceive handle
  | SourceOffer handle
  | SetSelection handle

datatype sys_call =
    SysClose int
  | SysShmOpen int
  | SysShmUnlink
  | SysFtruncate int nat
  | SysMmap int nat
  | SysMunmap nat
  | SysBlockingRead
  | SysWrite "u8 list"
  | SysSystem string
  | SysIpcSend int packet
  | SysEpollAdd int
  | SysEpollDel int
  | SysKill int string
  | SysWaitpid int
  | SysUnlink string
  | SysMkdir string
  | SysSetenv string string
  | SysFork
  | SysExec "string list"
  | SysExit int
  | SysNanosleep nat

datatype pw_call =
    PwInit
  | PwDeinit
  | PwLoopNew handle
  | PwLoopDestroy handle
  | PwContextNew handle
  | PwContextDestroy handle
  | PwCoreConnect handle
  | PwCoreDisconnect handle
  | PwStreamNew handle
  | PwStreamConnect handle
  | PwStreamDestroy handle
  | PwQueueBuffer

datatype listener_call = ListenerNew | ListenerOpen int | ListenerClose | ListenerFree

datatype xkb_call =
    XkbContextNew handle
  | XkbContextUnref handle
  | XkbKeymapNew handle
  | XkbKeymapUnref handle
  | XkbKeymapString handle
  | XkbStringFree handle
  | XkbStateNew handle
  | XkbStateUnref handle

text \<open>
  The codec contexts: H.264, Progressive, NSCodec, and WinPR's streams and region. \<open>EncRealloc\<close> carries the
  size that was asked for and whether \<open>realloc\<close> could provide it.
\<close>

datatype enc_call =
    EncH264New handle
  | EncH264Options handle
  | EncH264Reset handle u32 u32
  | EncH264Free handle
  | EncAvc444Compress handle u32 u32 u32 u8
  | EncAvc420Compress handle u32 u32 u32
  | EncProgressiveNew handle
  | EncProgressiveSurface handle u32 u32
  | EncProgressiveReset handle
  | EncProgressiveDeleteSurface handle
  | EncProgressiveFree handle
  | EncProgressiveCompress handle u32 u32 u32 u32
  | EncRegionInit
  | EncRegionUninit
  | EncNscNew handle
  | EncNscParameters handle u32
  | EncNscFree handle
  | EncNscCompose handle u32 u32 u32
  | EncStreamNew handle u32
  | EncStreamFree handle
  | EncImageCopy u32 u32 u32 u32
  | EncRealloc u32 bool
  | EncFree

datatype call =
    Gfx gfx_call
  | Vcm vcm_call
  | Disp disp_call
  | Snd snd_call
  | Clp clp_call
  | Peer peer_call
  | Wl wl_call
  | Sys sys_call
  | Enc enc_call
  | Xkb xkb_call
  | Pw pw_call
  | Lst listener_call
  | Crash c_fault

text \<open>\<open>if (p) xxx_destroy(p);\<close>\<close>

definition destroy_opt :: "wl_object \<Rightarrow> handle option \<Rightarrow> call list" where
  "destroy_opt obj h = (case h of None \<Rightarrow> [] | Some x \<Rightarrow> [Wl (WlDestroy obj x)])"

lemma destroy_opt_simps [simp]:
  "destroy_opt obj None = []" "destroy_opt obj (Some x) = [Wl (WlDestroy obj x)]"
  by (simp_all add: destroy_opt_def)

section \<open>Resources of the channel libraries\<close>

text \<open>A context that has to be given back: acquired and released by these calls.\<close>

datatype resource =
    ResGfx handle | ResDisp handle | ResSnd handle | ResClp handle | ResVcm handle
  | ResXkbContext handle | ResXkbKeymap handle | ResXkbString handle | ResXkbState handle
  | ResShm int
  | ResH264 handle | ResProgressive handle | ResNsc handle | ResStream handle | ResConvBuf
  | ResPwLoop handle | ResPwContext handle | ResPwCore handle | ResPwStream handle

fun acquires :: "call \<Rightarrow> resource option" where
  "acquires (Gfx (GfxContextNew h)) = Some (ResGfx h)"
| "acquires (Disp (DispContextNew h)) = Some (ResDisp h)"
| "acquires (Snd (SndContextNew h)) = Some (ResSnd h)"
| "acquires (Clp (ClpContextNew h)) = Some (ResClp h)"
| "acquires (Vcm (VcmOpenServer h)) = Some (ResVcm h)"
| "acquires (Xkb (XkbContextNew h)) = Some (ResXkbContext h)"
| "acquires (Xkb (XkbKeymapNew h)) = Some (ResXkbKeymap h)"
| "acquires (Xkb (XkbKeymapString h)) = Some (ResXkbString h)"
| "acquires (Xkb (XkbStateNew h)) = Some (ResXkbState h)"
| "acquires (Sys (SysShmOpen fd)) = Some (ResShm fd)"
| "acquires (Enc (EncH264New h)) = Some (ResH264 h)"
| "acquires (Enc (EncProgressiveNew h)) = Some (ResProgressive h)"
| "acquires (Enc (EncNscNew h)) = Some (ResNsc h)"
| "acquires (Enc (EncStreamNew h n)) = Some (ResStream h)"
| "acquires (Enc (EncRealloc n True)) = Some ResConvBuf"
| "acquires (Pw (PwLoopNew h)) = Some (ResPwLoop h)"
| "acquires (Pw (PwContextNew h)) = Some (ResPwContext h)"
| "acquires (Pw (PwCoreConnect h)) = Some (ResPwCore h)"
| "acquires (Pw (PwStreamNew h)) = Some (ResPwStream h)"
| "acquires _ = None"

fun releases :: "call \<Rightarrow> resource option" where
  "releases (Gfx (GfxContextFree h)) = Some (ResGfx h)"
| "releases (Disp (DispContextFree h)) = Some (ResDisp h)"
| "releases (Snd (SndContextFree h)) = Some (ResSnd h)"
| "releases (Clp (ClpContextFree h)) = Some (ResClp h)"
| "releases (Vcm (VcmCloseServer h)) = Some (ResVcm h)"
| "releases (Xkb (XkbContextUnref h)) = Some (ResXkbContext h)"
| "releases (Xkb (XkbKeymapUnref h)) = Some (ResXkbKeymap h)"
| "releases (Xkb (XkbStringFree h)) = Some (ResXkbString h)"
| "releases (Xkb (XkbStateUnref h)) = Some (ResXkbState h)"
| "releases (Sys (SysClose fd)) = Some (ResShm fd)"
| "releases (Enc (EncH264Free h)) = Some (ResH264 h)"
| "releases (Enc (EncProgressiveFree h)) = Some (ResProgressive h)"
| "releases (Enc (EncNscFree h)) = Some (ResNsc h)"
| "releases (Enc (EncStreamFree h)) = Some (ResStream h)"
| "releases (Enc EncFree) = Some ResConvBuf"
| "releases (Pw (PwLoopDestroy h)) = Some (ResPwLoop h)"
| "releases (Pw (PwContextDestroy h)) = Some (ResPwContext h)"
| "releases (Pw (PwCoreDisconnect h)) = Some (ResPwCore h)"
| "releases (Pw (PwStreamDestroy h)) = Some (ResPwStream h)"
| "releases _ = None"

text \<open>The resources held after a trace, starting from a set of resources.\<close>

fun held :: "call list \<Rightarrow> resource set \<Rightarrow> resource set" where
  "held [] R = R"
| "held (c # cs) R =
     held cs ((case acquires c of None \<Rightarrow> R | Some r \<Rightarrow> insert r R)
                - (case releases c of None \<Rightarrow> {} | Some r \<Rightarrow> {r}))"

lemma held_append [simp]: "held (xs @ ys) R = held ys (held xs R)"
  by (induction xs arbitrary: R) auto

text \<open>Calls that neither acquire nor release anything leave the set alone.\<close>

lemma held_neutral:
  "\<forall>c \<in> set cs. acquires c = None \<and> releases c = None \<Longrightarrow> held cs R = R"
  by (induction cs) auto

text \<open>
  The size of the encoder's conversion buffer after a trace, as the calls of \<open>realloc\<close> and \<open>free\<close> say: \<open>None\<close>
  if there is no buffer. A \<open>realloc\<close> that fails leaves the old one.
\<close>

fun conv_alloc :: "call list \<Rightarrow> u32 option \<Rightarrow> u32 option" where
  "conv_alloc [] b = b"
| "conv_alloc (c # cs) b =
     conv_alloc cs (case c of
         Enc (EncRealloc n ok) \<Rightarrow> if ok then Some n else b
       | Enc EncFree \<Rightarrow> None
       | _ \<Rightarrow> b)"

lemma conv_alloc_append [simp]: "conv_alloc (xs @ ys) b = conv_alloc ys (conv_alloc xs b)"
  by (induction xs arbitrary: b) auto

section \<open>Interfaces\<close>

text \<open>
  Wayland globals. Every connection of the worker handles the registry in the same way: for
  each announced global, a handler binds the interfaces it needs into slots of its state and ignores
  the rest. What the init functions rely on is that after the roundtrip a slot is filled exactly if
  the interface was announced.
\<close>

type_synonym global = "u32 \<times> string"

text \<open>
  What the display server answers to a connection: the display (NULL if it cannot be opened), its
  registry, the globals it announces and the object that binding a global makes.
\<close>

record wl_answer =
  wa_display :: "handle option"
  wa_registry :: handle
  wa_globals :: "global list"
  wa_bind :: "u32 \<Rightarrow> handle"

fun announce :: "('s \<Rightarrow> global \<Rightarrow> 's) \<Rightarrow> global list \<Rightarrow> 's \<Rightarrow> 's" where
  "announce h [] s = s"
| "announce h (g # gs) s = announce h gs (h s g)"

lemma announce_frame: "(\<And>s g. f (h s g) = f s) \<Longrightarrow> f (announce h gs s) = f s"
  by (induction gs arbitrary: s) simp_all

locale global_binder =
  fixes handler :: "'s \<Rightarrow> global \<Rightarrow> 's"
    and slot :: "'s \<Rightarrow> 'h option"
    and iface :: string
  assumes binds: "slot (handler s (n, iface)) \<noteq> None"
    and ignores: "i \<noteq> iface \<Longrightarrow> slot (handler s (n, i)) = slot s"
begin

lemma bound_stays: "slot s \<noteq> None \<Longrightarrow> slot (announce handler gs s) \<noteq> None"
proof (induction gs arbitrary: s)
  case Nil
  then show ?case by simp
next
  case (Cons g gs)
  obtain n i where "g = (n, i)" by (cases g)
  with Cons show ?case using binds ignores by (cases "i = iface") simp_all
qed

lemma bound_iff:
  assumes "slot s = None"
  shows "slot (announce handler gs s) \<noteq> None \<longleftrightarrow> iface \<in> snd ` set gs"
  using assms
proof (induction gs arbitrary: s)
  case Nil
  then show ?case by simp
next
  case (Cons g gs)
  obtain n i where g: "g = (n, i)" by (cases g)
  show ?case
  proof (cases "i = iface")
    case True
    then show ?thesis using g bound_stays binds [of s n] by simp
  next
    case False
    then show ?thesis using g Cons.IH [of "handler s g"] Cons.prems ignores [OF False] by auto
  qed
qed

end

end
