(* ===== verification/Input.thy ===== *)
theory Input
  imports Calls
begin

text \<open>
  The input sink of the worker (\<open>src/session/input.h\<close>, \<open>src/session/input.c\<close>): a Wayland connection
  with a virtual pointer and a virtual keyboard, and the xkb state that tracks the modifiers. Time
  stamps of the requests are not recorded.
\<close>

section \<open>State\<close>

record input =
  inp_display :: "handle option"
  inp_registry :: "handle option"
  inp_seat :: "handle option"
  inp_vptr_mgr :: "handle option"
  inp_vptr :: "handle option"
  inp_vkbd_mgr :: "handle option"
  inp_vkbd :: "handle option"
  inp_xkb_state :: "handle option"
  inp_width :: u32
  inp_height :: u32

definition zero_input :: input where
  "zero_input = \<lparr>inp_display = None, inp_registry = None, inp_seat = None, inp_vptr_mgr = None,
     inp_vptr = None, inp_vkbd_mgr = None, inp_vkbd = None, inp_xkb_state = None,
     inp_width = 0, inp_height = 0\<rparr>"

section \<open>Keymap upload\<close>

text \<open>The answers of xkbcommon and the kernel; \<open>ka_size\<close> is the length of the keymap's text.\<close>

record keymap_answer =
  ka_context :: "handle option"
  ka_keymap :: "handle option"
  ka_string :: "handle option"
  ka_size :: nat
  ka_shm :: "int option"
  ka_truncate :: bool
  ka_mmap :: bool
  ka_state :: "handle option"

definition setup_keymap :: "keymap_answer \<Rightarrow> input \<Rightarrow> bool \<times> input \<times> call list" where
  "setup_keymap a inp =
    (case ka_context a of
       None \<Rightarrow> (False, inp, [])
     | Some ctx \<Rightarrow>
     case ka_keymap a of
       None \<Rightarrow> (False, inp, [Xkb (XkbContextNew ctx), Xkb (XkbContextUnref ctx)])
     | Some keymap \<Rightarrow>
     case ka_string a of
       None \<Rightarrow> (False, inp, [Xkb (XkbContextNew ctx), Xkb (XkbKeymapNew keymap),
                            Xkb (XkbKeymapUnref keymap), Xkb (XkbContextUnref ctx)])
     | Some str \<Rightarrow>
       let size = ka_size a + 1;
           made = [Xkb (XkbContextNew ctx), Xkb (XkbKeymapNew keymap), Xkb (XkbKeymapString str)];
           undo = [Xkb (XkbStringFree str), Xkb (XkbKeymapUnref keymap), Xkb (XkbContextUnref ctx)]
       in case ka_shm a of
         None \<Rightarrow> (False, inp, made @ undo)
       | Some fd \<Rightarrow>
         let shm = made @ [Sys (SysShmOpen fd), Sys SysShmUnlink, Sys (SysFtruncate fd size)]
         in if \<not> ka_truncate a then (False, inp, shm @ [Sys (SysClose fd)] @ undo)
            else if \<not> ka_mmap a then (False, inp, shm @ [Sys (SysMmap fd size), Sys (SysClose fd)] @ undo)
            else
              (ka_state a \<noteq> None, inp\<lparr>inp_xkb_state := ka_state a\<rparr>,
               shm @ [Sys (SysMmap fd size), Sys (SysMunmap size), Wl (VkbdKeymap fd size),
                      Sys (SysClose fd), Xkb (XkbStringFree str)]
                   @ (case ka_state a of None \<Rightarrow> [] | Some st \<Rightarrow> [Xkb (XkbStateNew st)])
                   @ [Xkb (XkbKeymapUnref keymap), Xkb (XkbContextUnref ctx)]))"

section \<open>Set-up and tear-down\<close>

definition input_registry_global :: "(u32 \<Rightarrow> handle) \<Rightarrow> input \<Rightarrow> global \<Rightarrow> input" where
  "input_registry_global bind inp g =
    (if snd g = ''zwlr_virtual_pointer_manager_v1'' then inp\<lparr>inp_vptr_mgr := Some (bind (fst g))\<rparr>
     else if snd g = ''zwp_virtual_keyboard_manager_v1'' then inp\<lparr>inp_vkbd_mgr := Some (bind (fst g))\<rparr>
     else if snd g = ''wl_seat''
     then (if inp_seat inp = None then inp\<lparr>inp_seat := Some (bind (fst g))\<rparr> else inp)
     else inp)"

definition input_destroy :: "input \<Rightarrow> input \<times> call list" where
  "input_destroy inp =
    (zero_input,
     (case inp_xkb_state inp of None \<Rightarrow> [] | Some st \<Rightarrow> [Xkb (XkbStateUnref st)])
       @ destroy_opt VirtualKeyboard (inp_vkbd inp) @ destroy_opt VirtualPointer (inp_vptr inp)
       @ destroy_opt VirtualKeyboardManager (inp_vkbd_mgr inp)
       @ destroy_opt VirtualPointerManager (inp_vptr_mgr inp) @ destroy_opt WlSeat (inp_seat inp)
       @ destroy_opt WlRegistry (inp_registry inp) @ destroy_opt WlDisplay (inp_display inp))"

text \<open>\<open>devs\<close> are the virtual pointer and the virtual keyboard that the managers make.\<close>

definition input_init ::
    "wl_answer \<Rightarrow> handle \<times> handle \<Rightarrow> keymap_answer \<Rightarrow> u32 \<Rightarrow> u32 \<Rightarrow> bool \<times> input \<times> call list" where
  "input_init a devs ka width height =
    (let inp0 = zero_input\<lparr>inp_width := width, inp_height := height\<rparr> in
     case wa_display a of
       None \<Rightarrow> (False, inp0, [])
     | Some d \<Rightarrow>
        (let inp1 = inp0\<lparr>inp_display := Some d, inp_registry := Some (wa_registry a)\<rparr>;
             inp2 = announce (input_registry_global (wa_bind a)) (wa_globals a) inp1
         in if inp_vptr_mgr inp2 = None \<or> inp_vkbd_mgr inp2 = None \<or> inp_seat inp2 = None
            then (let (inp3, cs) = input_destroy inp2 in (False, inp3, cs))
            else
              (let inp3 = inp2\<lparr>inp_vptr := Some (fst devs), inp_vkbd := Some (snd devs)\<rparr>;
                   (ok, inp4, cs) = setup_keymap ka inp3
               in if \<not> ok then (let (inp5, cs') = input_destroy inp4 in (False, inp5, cs @ cs'))
                  else (True, inp4, cs @ [Wl WlFlush]))))"

section \<open>Events\<close>

definition input_update_size :: "input \<Rightarrow> u32 \<Rightarrow> u32 \<Rightarrow> input" where
  "input_update_size inp width height = inp\<lparr>inp_width := width, inp_height := height\<rparr>"

text \<open>A request on a proxy that is NULL is a fault.\<close>

definition on_proxy :: "handle option \<Rightarrow> wl_call list \<Rightarrow> call list" where
  "on_proxy p cs = (case p of None \<Rightarrow> [Crash NullDereference] | Some h \<Rightarrow> map Wl cs)"

definition input_pointer_motion :: "input \<Rightarrow> u32 \<Rightarrow> u32 \<Rightarrow> call list" where
  "input_pointer_motion inp x y =
    on_proxy (inp_vptr inp) [PtrMotionAbsolute x y (inp_width inp) (inp_height inp), PtrFrame]"

definition input_pointer_button :: "input \<Rightarrow> u32 \<Rightarrow> bool \<Rightarrow> call list" where
  "input_pointer_button inp button pressed = on_proxy (inp_vptr inp) [PtrButton button pressed, PtrFrame]"

definition input_pointer_axis :: "input \<Rightarrow> i32 \<Rightarrow> call list" where
  "input_pointer_axis inp value = on_proxy (inp_vptr inp) [PtrAxis (value * 256), PtrFrame]"

text \<open>\<open>mods\<close>: what xkbcommon reports after the update (depressed, latched, locked, layout).\<close>

definition input_keyboard_key :: "u32 \<times> u32 \<times> u32 \<times> u32 \<Rightarrow> input \<Rightarrow> u32 \<Rightarrow> bool \<Rightarrow> call list" where
  "input_keyboard_key mods inp key pressed =
    (case mods of (depressed, latched, locked, layout) \<Rightarrow>
       on_proxy (inp_vkbd inp)
         [KbdKey key pressed, XkbUpdateKey (key + 8) pressed, KbdModifiers depressed latched locked layout])"

definition input_flush :: "input \<Rightarrow> call list" where
  "input_flush inp = on_proxy (inp_display inp) [WlFlush]"

section \<open>Lemmas\<close>

interpretation input_vptr: global_binder "input_registry_global bind" inp_vptr_mgr
    "''zwlr_virtual_pointer_manager_v1''" for bind
  by unfold_locales (auto simp: input_registry_global_def)

interpretation input_vkbd: global_binder "input_registry_global bind" inp_vkbd_mgr
    "''zwp_virtual_keyboard_manager_v1''" for bind
  by unfold_locales (auto simp: input_registry_global_def)

interpretation input_seat: global_binder "input_registry_global bind" inp_seat "''wl_seat''" for bind
  by unfold_locales (auto simp: input_registry_global_def)

lemma announce_input_frame [simp]:
  "inp_display (announce (input_registry_global bind) gs inp) = inp_display inp"
  "inp_width (announce (input_registry_global bind) gs inp) = inp_width inp"
  "inp_height (announce (input_registry_global bind) gs inp) = inp_height inp"
  "inp_xkb_state (announce (input_registry_global bind) gs inp) = inp_xkb_state inp"
  by (rule announce_frame, simp add: input_registry_global_def)+

lemma setup_keymap_state:
  "setup_keymap a inp = (ok, inp', cs) \<Longrightarrow>
     \<exists>st. inp' = inp\<lparr>inp_xkb_state := st\<rparr> \<and> (ok \<longrightarrow> st \<noteq> None) \<and> (\<not> ok \<and> inp_xkb_state inp = None \<longrightarrow> st = None)"
  by (auto simp: setup_keymap_def Let_def split: option.splits if_splits
      intro: exI [of _ "inp_xkb_state inp"])

lemma held_destroy_opt [simp]: "held (destroy_opt obj h) R = R"
  by (cases h) simp_all

text \<open>The keymap, its text, the xkb context and the shared memory are given back on every path.\<close>

lemma setup_keymap_held:
  "setup_keymap a inp = (ok, inp', cs) \<Longrightarrow> inp_xkb_state inp = None \<Longrightarrow>
     held cs {} = (case inp_xkb_state inp' of None \<Rightarrow> {} | Some st \<Rightarrow> {ResXkbState st})"
  by (auto simp: setup_keymap_def Let_def split: option.splits if_splits)

text \<open>A connection whose proxies all exist: no request goes to NULL.\<close>

definition input_ready :: "input \<Rightarrow> bool" where
  "input_ready inp \<longleftrightarrow> inp_display inp \<noteq> None \<and> inp_vptr inp \<noteq> None \<and> inp_vkbd inp \<noteq> None \<and>
     inp_xkb_state inp \<noteq> None"

lemma input_ready_update_size [simp]: "input_ready (input_update_size inp w h) = input_ready inp"
  by (simp add: input_ready_def input_update_size_def)

lemma on_proxy_no_crash: "p \<noteq> None \<Longrightarrow> Crash f \<notin> set (on_proxy p cs)"
  by (auto simp: on_proxy_def)

lemma input_ready_no_crash:
  assumes "input_ready inp"
  shows "Crash f \<notin> set (input_pointer_motion inp x y)"
    "Crash f \<notin> set (input_pointer_button inp b pressed)"
    "Crash f \<notin> set (input_pointer_axis inp v)"
    "Crash f \<notin> set (input_keyboard_key mods inp k pressed)"
    "Crash f \<notin> set (input_flush inp)"
  using assms
  by (auto simp: input_ready_def input_pointer_motion_def input_pointer_button_def
      input_pointer_axis_def input_keyboard_key_def input_flush_def on_proxy_no_crash split: prod.splits)

text \<open>
  Starting the input connection succeeds only with everything in place (both managers and a
  seat announced, pointer, keyboard and modifier state made, the size stored), and a failed start
  leaves the zeroed state and nothing of the keymap set-up behind.
\<close>

theorem input_init_spec:
  assumes "input_init a devs ka w h = (ok, inp, cs)"
  shows "if ok
    then input_ready inp \<and> inp_width inp = w \<and> inp_height inp = h \<and>
      {''zwlr_virtual_pointer_manager_v1'', ''zwp_virtual_keyboard_manager_v1'', ''wl_seat''}
        \<subseteq> snd ` set (wa_globals a) \<and>
      held cs {} = {ResXkbState (the (inp_xkb_state inp))}
    else inp_display inp = None \<and> \<not> input_ready inp \<and> held cs {} = {}"
proof (cases "wa_display a")
  case None
  then show ?thesis using assms by (auto simp: input_init_def zero_input_def input_ready_def)
next
  case (Some d)
  define i1 where "i1 = zero_input\<lparr>inp_width := w, inp_height := h, inp_display := Some d,
    inp_registry := Some (wa_registry a)\<rparr>"
  define i2 where "i2 = announce (input_registry_global (wa_bind a)) (wa_globals a) i1"
  define i3 where "i3 = i2\<lparr>inp_vptr := Some (fst devs), inp_vkbd := Some (snd devs)\<rparr>"
  obtain kok i4 kcs where k: "setup_keymap ka i3 = (kok, i4, kcs)" by (metis prod_cases3)
  have start: "inp_vptr_mgr i1 = None" "inp_vkbd_mgr i1 = None" "inp_seat i1 = None"
    by (simp_all add: i1_def zero_input_def)
  have bound: "inp_vptr_mgr i2 \<noteq> None \<longleftrightarrow> ''zwlr_virtual_pointer_manager_v1'' \<in> snd ` set (wa_globals a)"
    "inp_vkbd_mgr i2 \<noteq> None \<longleftrightarrow> ''zwp_virtual_keyboard_manager_v1'' \<in> snd ` set (wa_globals a)"
    "inp_seat i2 \<noteq> None \<longleftrightarrow> ''wl_seat'' \<in> snd ` set (wa_globals a)"
    unfolding i2_def
    by (rule input_vptr.bound_iff [OF start(1)], rule input_vkbd.bound_iff [OF start(2)],
      rule input_seat.bound_iff [OF start(3)])
  have xkb: "inp_xkb_state i2 = None" "inp_xkb_state i3 = None"
    by (simp_all add: i3_def i2_def i1_def zero_input_def)
  have "input_init a devs ka w h =
     (if inp_vptr_mgr i2 = None \<or> inp_vkbd_mgr i2 = None \<or> inp_seat i2 = None
      then (False, fst (input_destroy i2), snd (input_destroy i2))
      else if kok then (True, i4, kcs @ [Wl WlFlush])
      else (False, fst (input_destroy i4), kcs @ snd (input_destroy i4)))"
    using Some k by (simp add: input_init_def i1_def i2_def i3_def Let_def split_beta)
  note eq = this [unfolded assms]
  obtain st where i4: "i4 = i3\<lparr>inp_xkb_state := st\<rparr>" and st: "kok \<longrightarrow> st \<noteq> None" "\<not> kok \<longrightarrow> st = None"
    using setup_keymap_state [OF k] xkb by blast
  have h: "held kcs {} = (case st of None \<Rightarrow> {} | Some s \<Rightarrow> {ResXkbState s})"
    using setup_keymap_held [OF k] xkb i4 by simp
  have size: "inp_width i3 = w" "inp_height i3 = h" "inp_display i3 = Some d"
    by (simp_all add: i3_def i2_def i1_def)
  show ?thesis
    using eq bound h st size xkb(1)
    by (auto simp: i4 i3_def input_destroy_def input_ready_def zero_input_def
        split: if_splits option.splits)
qed

definition demo_keymap :: keymap_answer where
  "demo_keymap = \<lparr>ka_context = Some 1, ka_keymap = Some 2, ka_string = Some 3, ka_size = 10,
     ka_shm = Some 7, ka_truncate = True, ka_mmap = True, ka_state = Some 4\<rparr>"

definition demo_wl_input :: wl_answer where
  "demo_wl_input = \<lparr>wa_display = Some 1, wa_registry = 2, wa_globals = [(1, ''wl_seat''),
     (2, ''zwlr_virtual_pointer_manager_v1''), (3, ''zwp_virtual_keyboard_manager_v1'')],
     wa_bind = (\<lambda>n. 10 + unat n)\<rparr>"

definition demo_input :: input where
  "demo_input = fst (snd (input_init demo_wl_input (20, 21) demo_keymap 1920 1080))"

lemma demo_input_ok: "fst (input_init demo_wl_input (20, 21) demo_keymap 1920 1080)"
  by code_simp

theorem input_init_spec_witness: "input_ready demo_input \<and> inp_width demo_input = 1920"
proof -
  obtain ok inp cs where r: "input_init demo_wl_input (20, 21) demo_keymap 1920 1080 = (ok, inp, cs)"
    by (metis prod_cases3)
  have ok using demo_input_ok r by simp
  with input_init_spec [OF r] r show ?thesis by (simp add: demo_input_def)
qed

lemma demo_input_ready: "input_ready demo_input"
  by code_simp

end
