(* ===== verification/PeerInput.thy ===== *)
theory PeerInput
  imports Input "HOL-Library.Signed_Division"
begin

text \<open>
  The RDP input callbacks of \<open>src/session/rdp_peer.c\<close>: keyboard scancodes become evdev keys, mouse
  events become virtual-pointer requests. \<open>ctx->input\<close> may be NULL (\<open>None\<close>).
\<close>

section \<open>Constants of the RDP protocol and of the input-event codes\<close>

definition KBD_FLAGS_EXTENDED :: u16 where "KBD_FLAGS_EXTENDED = 0x100"
definition KBD_FLAGS_RELEASE :: u16 where "KBD_FLAGS_RELEASE = 0x8000"

definition PTR_FLAGS_WHEEL_NEGATIVE :: u16 where "PTR_FLAGS_WHEEL_NEGATIVE = 0x100"
definition PTR_FLAGS_WHEEL :: u16 where "PTR_FLAGS_WHEEL = 0x200"
definition PTR_FLAGS_MOVE :: u16 where "PTR_FLAGS_MOVE = 0x800"
definition PTR_FLAGS_BUTTON1 :: u16 where "PTR_FLAGS_BUTTON1 = 0x1000"
definition PTR_FLAGS_BUTTON2 :: u16 where "PTR_FLAGS_BUTTON2 = 0x2000"
definition PTR_FLAGS_BUTTON3 :: u16 where "PTR_FLAGS_BUTTON3 = 0x4000"
definition PTR_FLAGS_DOWN :: u16 where "PTR_FLAGS_DOWN = 0x8000"

definition BTN_LEFT :: u32 where "BTN_LEFT = 0x110"
definition BTN_RIGHT :: u32 where "BTN_RIGHT = 0x111"
definition BTN_MIDDLE :: u32 where "BTN_MIDDLE = 0x112"

section \<open>Keyboard\<close>

text \<open>
  The table of \<open>on_keyboard_event\<close>: KEY_KPENTER, KEY_RIGHTCTRL, KEY_KPSLASH, KEY_RIGHTALT, KEY_HOME,
  KEY_UP, KEY_PAGEUP, KEY_LEFT, KEY_RIGHT, KEY_END, KEY_DOWN, KEY_PAGEDOWN, KEY_INSERT, KEY_DELETE,
  KEY_LEFTMETA, KEY_RIGHTMETA, KEY_COMPOSE, in this order.
\<close>

definition extended_keys :: "(u8 \<times> u32) list" where
  "extended_keys =
    [(0x1C, 96), (0x1D, 97), (0x35, 98), (0x38, 100), (0x47, 102), (0x48, 103), (0x49, 104),
     (0x4B, 105), (0x4D, 106), (0x4F, 107), (0x50, 108), (0x51, 109), (0x52, 110), (0x53, 111),
     (0x5B, 125), (0x5C, 126), (0x5D, 127)]"

definition evdev_key :: "u16 \<Rightarrow> u8 \<Rightarrow> u32" where
  "evdev_key flags code =
    (if flags AND KBD_FLAGS_EXTENDED \<noteq> 0
     then (case map_of extended_keys code of Some k \<Rightarrow> k | None \<Rightarrow> ucast code)
     else ucast code)"

definition on_keyboard_event :: "u32 \<times> u32 \<times> u32 \<times> u32 \<Rightarrow> input option \<Rightarrow> u16 \<Rightarrow> u8 \<Rightarrow> call list" where
  "on_keyboard_event mods inp flags code =
    (case inp of
       None \<Rightarrow> []
     | Some i \<Rightarrow> input_keyboard_key mods i (evdev_key flags code) (flags AND KBD_FLAGS_RELEASE = 0))"

section \<open>Mouse\<close>

text \<open>
  \<open>value\<close> of the wheel branch: an \<open>int16_t\<close> that holds the low nine bits, negated for a negative
  rotation, and divided by 120 with C's truncating division. It stays within 511 in size, so that
  neither the conversion nor the negation overflows.
\<close>

definition wheel_steps :: "u16 \<Rightarrow> int" where
  "wheel_steps flags =
    (let v = uint (flags AND 0x01FF);
         v' = (if flags AND PTR_FLAGS_WHEEL_NEGATIVE \<noteq> 0 then - v else v)
     in v' sdiv 120)"

definition button_if :: "u16 \<Rightarrow> u16 \<Rightarrow> u32 \<Rightarrow> input \<Rightarrow> call list" where
  "button_if flags bit_flag button inp =
    (if flags AND bit_flag \<noteq> 0 then input_pointer_button inp button (flags AND PTR_FLAGS_DOWN \<noteq> 0) else [])"

definition on_mouse_event :: "input option \<Rightarrow> u16 \<Rightarrow> u16 \<Rightarrow> u16 \<Rightarrow> call list" where
  "on_mouse_event inp flags x y =
    (case inp of
       None \<Rightarrow> []
     | Some i \<Rightarrow>
       (if flags AND PTR_FLAGS_MOVE \<noteq> 0 then input_pointer_motion i (ucast x) (ucast y) else [])
         @ button_if flags PTR_FLAGS_BUTTON1 BTN_LEFT i
         @ button_if flags PTR_FLAGS_BUTTON2 BTN_RIGHT i
         @ button_if flags PTR_FLAGS_BUTTON3 BTN_MIDDLE i
         @ (if flags AND PTR_FLAGS_WHEEL \<noteq> 0
            then input_pointer_axis i (word_of_int (wheel_steps flags)) else []))"

definition on_extended_mouse_event :: "input option \<Rightarrow> u16 \<Rightarrow> u16 \<Rightarrow> u16 \<Rightarrow> call list" where
  "on_extended_mouse_event inp flags x y =
    (case inp of None \<Rightarrow> [] | Some i \<Rightarrow> input_pointer_motion i (ucast x) (ucast y))"

section \<open>Properties\<close>

lemma input_handlers_no_crash:
  assumes "\<forall>i. inp = Some i \<longrightarrow> input_ready i"
  shows "Crash f \<notin> set (on_keyboard_event mods inp flags code)"
    "Crash f \<notin> set (on_mouse_event inp flags x y)"
    "Crash f \<notin> set (on_extended_mouse_event inp flags x y)"
  using assms
  by (auto simp: on_keyboard_event_def on_mouse_event_def on_extended_mouse_event_def button_if_def
      input_ready_no_crash split: option.splits if_splits)

text \<open>
  C24: no stuck keys. The release event of a key addresses the same evdev key as its press event
  (for every scancode, extended or not), the pressed state differs, and no two extended keys of the
  table share a key with each other; a connected input sink never faults on them.
\<close>

theorem keyboard_press_release_match:
  assumes "input_ready inp" "flags AND KBD_FLAGS_RELEASE = 0"
  shows "(\<exists>k. on_keyboard_event m1 (Some inp) flags code = input_keyboard_key m1 inp k True \<and>
           on_keyboard_event m2 (Some inp) (flags OR KBD_FLAGS_RELEASE) code = input_keyboard_key m2 inp k False) \<and>
     inj_on (evdev_key KBD_FLAGS_EXTENDED) (fst ` set extended_keys) \<and>
     Crash f \<notin> set (on_keyboard_event m1 (Some inp) flags code)"
proof -
  have "(flags OR KBD_FLAGS_RELEASE) AND KBD_FLAGS_EXTENDED = flags AND KBD_FLAGS_EXTENDED"
    by (simp add: KBD_FLAGS_RELEASE_def KBD_FLAGS_EXTENDED_def word_bw_lcs bit.conj_disj_distrib2)
  then have "evdev_key (flags OR KBD_FLAGS_RELEASE) code = evdev_key flags code"
    by (simp add: evdev_key_def)
  moreover have "(flags OR KBD_FLAGS_RELEASE) AND KBD_FLAGS_RELEASE \<noteq> 0"
    by (simp add: KBD_FLAGS_RELEASE_def bit.conj_disj_distrib2)
  moreover have "inj_on (evdev_key KBD_FLAGS_EXTENDED) (fst ` set extended_keys)"
    by (simp add: inj_on_def extended_keys_def evdev_key_def KBD_FLAGS_EXTENDED_def)
  ultimately show ?thesis
    using assms by (auto simp: on_keyboard_event_def input_ready_no_crash)
qed

theorem keyboard_press_release_match_witness:
  "on_keyboard_event (0, 0, 0, 0) (Some demo_input) 0x100 0x48 =
     [Wl (KbdKey 103 True), Wl (XkbUpdateKey 111 True), Wl (KbdModifiers 0 0 0 0)] \<and>
   inj_on (evdev_key KBD_FLAGS_EXTENDED) (fst ` set extended_keys)"
proof -
  have "(0x100 :: u16) AND KBD_FLAGS_RELEASE = 0" by (simp add: KBD_FLAGS_RELEASE_def)
  from keyboard_press_release_match [OF demo_input_ready this]
  have "inj_on (evdev_key KBD_FLAGS_EXTENDED) (fst ` set extended_keys)" by simp
  moreover have "on_keyboard_event (0, 0, 0, 0) (Some demo_input) 0x100 0x48 =
     [Wl (KbdKey 103 True), Wl (XkbUpdateKey 111 True), Wl (KbdModifiers 0 0 0 0)]"
    by code_simp
  ultimately show ?thesis by simp
qed

lemma wheel_table:
  "list_all (\<lambda>n. wheel_steps (0x200 OR of_nat n) = int (n div 120) \<and>
       wheel_steps (0x300 OR of_nat (256 - n)) = - int ((512 - n) div 120)) [1..<256]"
  by code_simp

lemma wheel_flag_bits:
  "list_all (\<lambda>n. (0x200 OR of_nat n) AND PTR_FLAGS_WHEEL \<noteq> 0 \<and> (0x200 OR of_nat n) AND PTR_FLAGS_MOVE = 0 \<and>
       (0x200 OR of_nat n) AND PTR_FLAGS_BUTTON1 = 0 \<and> (0x200 OR of_nat n) AND PTR_FLAGS_BUTTON2 = 0 \<and>
       (0x200 OR of_nat n) AND PTR_FLAGS_BUTTON3 = 0 \<and>
       (0x300 OR of_nat n) AND PTR_FLAGS_WHEEL \<noteq> 0 \<and> (0x300 OR of_nat n) AND PTR_FLAGS_MOVE = 0 \<and>
       (0x300 OR of_nat n) AND PTR_FLAGS_BUTTON1 = 0 \<and> (0x300 OR of_nat n) AND PTR_FLAGS_BUTTON2 = 0 \<and>
       (0x300 OR of_nat n) AND PTR_FLAGS_BUTTON3 = 0) [1..<256]"
  by code_simp

text \<open>
  C35: the wheel. A rotation of n units away from the user (\<open>0x200 | n\<close>) scrolls by n/120 steps; a
  rotation of n units towards the user, which RDP encodes as the nine-bit two's complement
  \<open>0x300 | (256 - n)\<close>, scrolls by (512 - n)/120 steps the other way: one notch gives three steps,
  because the sign bit stays in the magnitude.
\<close>

theorem wheel_rotation:
  assumes "1 \<le> n" "n < 256"
  shows "on_mouse_event (Some inp) (0x200 OR of_nat n) x y =
      input_pointer_axis inp (word_of_int (int (n div 120))) \<and>
    on_mouse_event (Some inp) (0x300 OR of_nat (256 - n)) x y =
      input_pointer_axis inp (word_of_int (- int ((512 - n) div 120)))"
proof -
  have n: "n \<in> set [1..<256]" "256 - n \<in> set [1..<256]" using assms by auto
  from n wheel_flag_bits show ?thesis
    using bspec [OF wheel_table [unfolded list_all_iff] n(1)]
      bspec [OF wheel_flag_bits [unfolded list_all_iff] n(1)]
      bspec [OF wheel_flag_bits [unfolded list_all_iff] n(2)]
    by (simp add: on_mouse_event_def button_if_def)
qed

theorem wheel_rotation_witness:
  "on_mouse_event (Some demo_input) 0x278 0 0 = input_pointer_axis demo_input 1 \<and>
   on_mouse_event (Some demo_input) 0x388 0 0 = input_pointer_axis demo_input (- 3)"
  using wheel_rotation [of 120 demo_input 0 0] by simp

end
