(* ===== verification/Clipboard.thy ===== *)
theory Clipboard
  imports Calls
begin

text \<open>
  The clipboard bridge (\<open>src/session/clipboard.h\<close>, \<open>src/session/clipboard.c\<close>): the Wayland side
  (data-control source, device and offers), the RDP side (the CLIPRDR callbacks) and the state
  between them. The loops over \<open>read\<close> and \<open>write\<close> are total functions over the kernel's choices.
\<close>

section \<open>State\<close>

definition CLIPBOARD_MIME_TYPE :: string where
  "CLIPBOARD_MIME_TYPE = ''text/plain;charset=utf-8''"

definition CLIPBOARD_MAX_SIZE :: nat where
  "CLIPBOARD_MAX_SIZE = 16 * 1024 * 1024"

text \<open>Clipboard format numbers of Windows.\<close>

definition CF_TEXT :: u32 where "CF_TEXT = 1"
definition CF_OEMTEXT :: u32 where "CF_OEMTEXT = 7"
definition CF_UNICODETEXT :: u32 where "CF_UNICODETEXT = 13"

text \<open>
  \<open>cb_wl_text\<close> holds the bytes that were written into the buffer \<open>wl_clipboard_text\<close>, and
  \<open>cb_wl_cap\<close> the size that was allocated for it. \<open>cb_offers\<close> is the heap of \<open>struct clipboard_offer\<close>:
  the \<open>has_text\<close> flag of each one that was allocated and not freed, by its offer.
\<close>

record clipboard =
  cb_display :: "handle option"
  cb_registry :: "handle option"
  cb_seat :: "handle option"
  cb_dcm :: "handle option"
  cb_source :: "handle option"
  cb_device :: "handle option"
  cb_wl_text :: "u8 list option"
  cb_wl_cap :: nat
  cb_wl_len :: nat
  cb_pending_text :: "u8 list option"
  cb_pending_len :: nat
  cb_on_changed :: bool
  cb_setting_from_rdp :: bool
  cb_cliprdr :: "handle option"
  cb_offers :: "handle \<Rightarrow> bool option"

definition zero_clipboard :: clipboard where
  "zero_clipboard = \<lparr>cb_display = None, cb_registry = None, cb_seat = None, cb_dcm = None,
     cb_source = None, cb_device = None, cb_wl_text = None, cb_wl_cap = 0, cb_wl_len = 0,
     cb_pending_text = None, cb_pending_len = 0, cb_on_changed = False, cb_setting_from_rdp = False,
     cb_cliprdr = None, cb_offers = (\<lambda>_. None)\<rparr>"

section \<open>Data source: handing our text to a Wayland client\<close>

text \<open>
  The loop of \<open>source_send\<close>. \<open>wr i\<close> is what the \<open>i\<close>-th \<open>write\<close> would accept (0 for an error); no
  call takes more than it was given.
\<close>

function write_loop :: "(nat \<Rightarrow> nat) \<Rightarrow> nat \<Rightarrow> u8 list \<Rightarrow> nat \<Rightarrow> nat \<Rightarrow> u8 list list" where
  "write_loop wr i text len written =
    (if written < len
     then (let n = min (wr i) (len - written)
           in if n = 0 then []
              else take n (drop written text) # write_loop wr (Suc i) text len (written + n))
     else [])"
  by pat_completeness auto
termination
  by (relation "measure (\<lambda>(wr, i, text, len, written). len - written)") auto

declare write_loop.simps [simp del]

definition source_send :: "(nat \<Rightarrow> nat) \<Rightarrow> clipboard \<Rightarrow> string \<Rightarrow> int \<Rightarrow> call list" where
  "source_send wr cb mime fd =
    (case cb_pending_text cb of
       Some text \<Rightarrow>
         if mime = CLIPBOARD_MIME_TYPE
         then map (Sys \<circ> SysWrite) (write_loop wr 0 text (cb_pending_len cb) 0) else []
     | None \<Rightarrow> []) @ [Sys (SysClose fd)]"

definition source_cancelled :: "clipboard \<Rightarrow> handle \<Rightarrow> clipboard \<times> call list" where
  "source_cancelled cb source =
    (let (cb1, cs) = (if cb_source cb = Some source
                      then (cb\<lparr>cb_source := None\<rparr>, [Wl (WlDestroy DataControlSource source)])
                      else (cb, []))
     in (cb1\<lparr>cb_pending_text := None, cb_pending_len := 0, cb_setting_from_rdp := False\<rparr>, cs))"

section \<open>Data offers: reading the Wayland clipboard\<close>

definition offer_offer :: "clipboard \<Rightarrow> handle \<Rightarrow> string \<Rightarrow> clipboard" where
  "offer_offer cb offer mime =
    (if mime = CLIPBOARD_MIME_TYPE \<and> cb_offers cb offer \<noteq> None
     then cb\<lparr>cb_offers := (cb_offers cb)(offer \<mapsto> True)\<rparr> else cb)"

text \<open>
  The loop of \<open>read_offer_text\<close>. The pipe is read in blocking mode: \<open>data\<close> is what the other side still writes
  to it, \<open>closed\<close> tells whether all its write ends are closed after that. \<open>rd i\<close> bounds what the \<open>i\<close>-th \<open>read\<close>
  returns; 0 is an error, for example an interruption by a signal. A \<open>read\<close> of an empty pipe that is not
  closed never returns: then the value of the loop is \<open>None\<close>. \<open>al c\<close> tells whether \<open>realloc\<close> to \<open>c\<close> bytes
  succeeds. The result is the bytes read and the size of the buffer.
\<close>

definition next_capacity :: "nat \<Rightarrow> nat \<Rightarrow> nat" where
  "next_capacity tot capacity =
    (if capacity < tot + 4096
     then min CLIPBOARD_MAX_SIZE (if capacity = 0 then 4096 else capacity * 2)
     else capacity)"

function read_loop ::
    "(nat \<Rightarrow> nat) \<Rightarrow> (nat \<Rightarrow> bool) \<Rightarrow> bool \<Rightarrow> nat \<Rightarrow> u8 list \<Rightarrow> u8 list \<Rightarrow> nat \<Rightarrow> (u8 list \<times> nat) option" where
  "read_loop rd al closed i data buf capacity =
    (let tot = length buf; cap' = next_capacity tot capacity in
     if CLIPBOARD_MAX_SIZE \<le> tot then Some (buf, capacity)
     else if capacity < tot + 4096 \<and> \<not> al cap' then Some (buf, capacity)
     else if rd i = 0 \<or> cap' \<le> tot then Some (buf, cap')
     else if data = [] then (if closed then Some (buf, cap') else None)
     else
       let n = min (min (rd i) (cap' - tot)) (length data)
       in read_loop rd al closed (Suc i) (drop n data) (buf @ take n data) cap')"
  by pat_completeness auto
termination
  by (relation "measure (\<lambda>(rd, al, closed, i, data, buf, capacity). length data)") auto

declare read_loop.simps [simp del]

record read_answer =
  ra_pipe :: "(int \<times> int) option"
  ra_data :: "u8 list"
  ra_closed :: bool
  ra_read :: "nat \<Rightarrow> nat"
  ra_alloc :: "nat \<Rightarrow> bool"

text \<open>
  The last component of the result is the text that the callback \<open>on_wl_clipboard_changed\<close> is
  called with, if it is called. The value is \<open>None\<close> if the operation never returns.
\<close>

definition read_offer_text ::
    "read_answer \<Rightarrow> clipboard \<Rightarrow> handle \<Rightarrow> (clipboard \<times> call list \<times> u8 list option) option" where
  "read_offer_text a cb offer =
    (case ra_pipe a of
       None \<Rightarrow> Some (cb, [], None)
     | Some (fd0, fd1) \<Rightarrow>
        (case read_loop (ra_read a) (ra_alloc a) (ra_closed a) 0 (ra_data a) [] 0 of
           None \<Rightarrow> None
         | Some (buf, cap) \<Rightarrow>
             (let cs = [Wl (OfferReceive offer), Sys (SysClose fd1), Wl WlFlush, Sys SysBlockingRead,
                        Sys (SysClose fd0)]
              in Some (if 0 < length buf
                       then (cb\<lparr>cb_wl_text := Some buf, cb_wl_cap := cap, cb_wl_len := length buf,
                                cb_setting_from_rdp := False\<rparr>, cs,
                             if cb_on_changed cb \<and> \<not> cb_setting_from_rdp cb then Some buf else None)
                       else (cb\<lparr>cb_setting_from_rdp := False\<rparr>, cs, None)))))"

definition device_data_offer :: "bool \<Rightarrow> clipboard \<Rightarrow> handle \<Rightarrow> clipboard" where
  "device_data_offer calloc_ok cb offer =
    (if \<not> calloc_ok then cb else cb\<lparr>cb_offers := (cb_offers cb)(offer \<mapsto> False)\<rparr>)"

definition device_selection ::
    "read_answer \<Rightarrow> clipboard \<Rightarrow> handle option \<Rightarrow> (clipboard \<times> call list \<times> u8 list option) option" where
  "device_selection a cb offer =
    (case offer of
       None \<Rightarrow> Some (cb, [], None)
     | Some h \<Rightarrow>
        (case cb_offers cb h of
           None \<Rightarrow> Some (cb, [Wl (WlDestroy DataControlOffer h)], None)
         | Some has_text \<Rightarrow>
            (case (if has_text then read_offer_text a cb h else Some (cb, [], None)) of
               None \<Rightarrow> None
             | Some (cb1, cs, note) \<Rightarrow>
                 Some (cb1\<lparr>cb_offers := (cb_offers cb1)(h := None)\<rparr>,
                       cs @ [Wl (WlDestroy DataControlOffer h)], note))))"

definition device_finished :: "clipboard \<Rightarrow> handle \<Rightarrow> clipboard \<times> call list" where
  "device_finished cb device =
    (if cb_device cb = Some device
     then (cb\<lparr>cb_device := None\<rparr>, [Wl (WlDestroy DataControlDevice device)]) else (cb, []))"

definition device_primary_selection :: "clipboard \<Rightarrow> handle option \<Rightarrow> clipboard \<times> call list" where
  "device_primary_selection cb offer =
    (case offer of None \<Rightarrow> (cb, []) | Some h \<Rightarrow> (cb, [Wl (WlDestroy DataControlOffer h)]))"

section \<open>Set-up and tear-down\<close>

text \<open>\<open>bind\<close> is \<open>wl_registry_bind\<close>: the object made for a global.\<close>

definition clipboard_registry_global :: "(u32 \<Rightarrow> handle) \<Rightarrow> clipboard \<Rightarrow> global \<Rightarrow> clipboard" where
  "clipboard_registry_global bind cb g =
    (if snd g = ''ext_data_control_manager_v1'' then cb\<lparr>cb_dcm := Some (bind (fst g))\<rparr>
     else if snd g = ''wl_seat''
     then (if cb_seat cb = None then cb\<lparr>cb_seat := Some (bind (fst g))\<rparr> else cb)
     else cb)"

definition clipboard_destroy :: "clipboard \<Rightarrow> clipboard \<times> call list" where
  "clipboard_destroy cb =
    (zero_clipboard\<lparr>cb_offers := cb_offers cb\<rparr>,
     destroy_opt DataControlSource (cb_source cb) @ destroy_opt DataControlDevice (cb_device cb)
       @ destroy_opt DataControlManager (cb_dcm cb) @ destroy_opt WlSeat (cb_seat cb)
       @ destroy_opt WlRegistry (cb_registry cb) @ destroy_opt WlDisplay (cb_display cb))"

definition clipboard_init ::
    "wl_answer \<Rightarrow> handle \<Rightarrow> bool \<Rightarrow> bool \<times> clipboard \<times> call list" where
  "clipboard_init a new_device on_change =
    (let cb0 = zero_clipboard\<lparr>cb_on_changed := on_change\<rparr> in
     case wa_display a of
       None \<Rightarrow> (False, cb0, [])
     | Some d \<Rightarrow>
        (let cb1 = cb0\<lparr>cb_display := Some d, cb_registry := Some (wa_registry a)\<rparr>;
             cb2 = announce (clipboard_registry_global (wa_bind a)) (wa_globals a) cb1
         in if cb_dcm cb2 = None \<or> cb_seat cb2 = None
            then (let (cb3, cs) = clipboard_destroy cb2 in (False, cb3, cs))
            else (True, cb2\<lparr>cb_device := Some new_device\<rparr>, [])))"

section \<open>Setting the Wayland clipboard from RDP\<close>

record set_answer =
  sa_malloc :: bool
  sa_source :: handle

definition clipboard_set_text :: "set_answer \<Rightarrow> clipboard \<Rightarrow> u8 list \<Rightarrow> clipboard \<times> call list" where
  "clipboard_set_text a cb text =
    (case cb_device cb of
       None \<Rightarrow> (cb, [])
     | Some dev \<Rightarrow>
       if cb_dcm cb = None then (cb, [])
       else
         (let cs = destroy_opt DataControlSource (cb_source cb);
              cb1 = cb\<lparr>cb_source := None\<rparr>
          in if \<not> sa_malloc a then (cb1\<lparr>cb_pending_text := None\<rparr>, cs)
             else (cb1\<lparr>cb_pending_text := Some text, cb_pending_len := length text,
                       cb_source := Some (sa_source a), cb_setting_from_rdp := True\<rparr>,
                   cs @ [Wl (SourceOffer (sa_source a)), Wl (SetSelection (sa_source a)), Wl WlFlush])))"

section \<open>The CLIPRDR callbacks\<close>

definition on_cliprdr_client_format_list :: "u32 list \<Rightarrow> call list" where
  "on_cliprdr_client_format_list ids =
    (let has_text = first_index (\<lambda>f. f = CF_TEXT \<or> f = CF_UNICODETEXT \<or> f = CF_OEMTEXT) ids \<noteq> None
     in [Clp ClpFormatListResponse] @
        (if has_text then [Clp (ClpFormatDataRequest CF_UNICODETEXT)] else []))"

text \<open>\<open>to_utf8\<close> is WinPR's conversion of the first \<open>n\<close> UTF-16 units of a buffer.\<close>

definition on_cliprdr_client_format_data_response ::
    "(u8 list \<Rightarrow> nat \<Rightarrow> u8 list option) \<Rightarrow> set_answer \<Rightarrow> clipboard \<Rightarrow> bool \<Rightarrow> u8 list option \<Rightarrow> u32
       \<Rightarrow> clipboard \<times> call list" where
  "on_cliprdr_client_format_data_response to_utf8 a cb ok data len =
    (if \<not> ok then (cb, [])
     else case data of
       None \<Rightarrow> (cb, [])
     | Some bytes \<Rightarrow>
       if len = 0 then (cb, [])
       else case to_utf8 bytes (unat len div 2) of
         None \<Rightarrow> (cb, [])
       | Some utf8 \<Rightarrow>
         if 0 < length utf8
         then clipboard_set_text a cb (take (strip_end (\<lambda>b. b = 0) utf8 (length utf8)) utf8)
         else (cb, []))"

text \<open>\<open>to_utf16\<close> is WinPR's conversion, of which the program uses the number of units.\<close>

definition on_cliprdr_client_format_data_request ::
    "(u8 list \<Rightarrow> nat option) \<Rightarrow> clipboard \<Rightarrow> u32 \<Rightarrow> call list" where
  "on_cliprdr_client_format_data_request to_utf16 cb fmt =
    (case cb_wl_text cb of
       None \<Rightarrow> [Clp (ClpFormatDataResponse False 0)]
     | Some text \<Rightarrow>
       if 0 < cb_wl_len cb \<and> (fmt = CF_UNICODETEXT \<or> fmt = CF_TEXT)
       then (if fmt = CF_UNICODETEXT
             then (case to_utf16 (take (cb_wl_len cb) text) of
                     Some wlen \<Rightarrow> [Clp (ClpFormatDataResponse True ((wlen + 1) * 2))]
                   | None \<Rightarrow> [Clp (ClpFormatDataResponse False 0)])
             else [Clp (ClpFormatDataResponse True (cb_wl_len cb + 1))])
       else [Clp (ClpFormatDataResponse False 0)])"

record chan_answer =
  ch_new :: "handle option"
  ch_open :: bool

definition clipboard_open_cliprdr :: "chan_answer \<Rightarrow> clipboard \<Rightarrow> bool \<times> clipboard \<times> call list" where
  "clipboard_open_cliprdr a cb =
    (case ch_new a of
       None \<Rightarrow> (False, cb, [])
     | Some h \<Rightarrow>
       if \<not> ch_open a
       then (False, cb, [Clp (ClpContextNew h), Clp (ClpOpen h), Clp (ClpContextFree h)])
       else (True, cb\<lparr>cb_cliprdr := Some h\<rparr>, [Clp (ClpContextNew h), Clp (ClpOpen h)]))"

definition clipboard_close_cliprdr :: "clipboard \<Rightarrow> clipboard \<times> call list" where
  "clipboard_close_cliprdr cb =
    (case cb_cliprdr cb of
       None \<Rightarrow> (cb, [])
     | Some h \<Rightarrow> (cb\<lparr>cb_cliprdr := None\<rparr>, [Clp (ClpClose h), Clp (ClpContextFree h)]))"

definition clipboard_notify_rdp :: "clipboard \<Rightarrow> call list" where
  "clipboard_notify_rdp cb =
    (case cb_cliprdr cb of None \<Rightarrow> [] | Some h \<Rightarrow> [Clp (ClpFormatList [CF_UNICODETEXT, CF_TEXT])])"

section \<open>The loops\<close>

lemma write_loop_step:
  assumes "written < len" "n = min (wr i) (len - written)" "n \<noteq> 0"
  shows "write_loop wr i bs len written =
    take n (drop written bs) # write_loop wr (Suc i) bs len (written + n)"
  using assms by (subst write_loop.simps) (simp add: Let_def)

lemma write_loop_stop:
  "\<not> written < len \<or> min (wr i) (len - written) = 0 \<Longrightarrow> write_loop wr i bs len written = []"
  by (subst write_loop.simps) (auto simp: Let_def)

lemma write_loop_prefix: "\<exists>rest. concat (write_loop wr i bs len written) @ rest = drop written (take len bs)"
proof (induction wr i bs len written rule: write_loop.induct)
  case (1 wr i bs len written)
  define n where "n = min (wr i) (len - written)"
  show ?case
  proof (cases "written < len \<and> n \<noteq> 0")
    case True
    then obtain rest where
      "concat (write_loop wr (Suc i) bs len (written + n)) @ rest = drop (written + n) (take len bs)"
      using 1 [of n] n_def by auto
    moreover have "written + n \<le> len" using True unfolding n_def by linarith
    ultimately show ?thesis
      using True take_piece [of written n len bs]
      by (intro exI [of _ rest]) (simp add: write_loop_step [of written len n wr i] n_def [symmetric])
  next
    case False
    then show ?thesis by (simp add: write_loop_stop n_def)
  qed
qed

lemma write_loop_complete:
  assumes "\<forall>i. 0 < wr i"
  shows "concat (write_loop wr i bs len written) = drop written (take len bs)"
  using assms
proof (induction wr i bs len written rule: write_loop.induct)
  case (1 wr i bs len written)
  define n where "n = min (wr i) (len - written)"
  show ?case
  proof (cases "written < len")
    case True
    then have "n \<noteq> 0" using "1.prems" n_def by (simp add: min_def)
    with 1 True n_def have "concat (write_loop wr (Suc i) bs len (written + n)) = drop (written + n) (take len bs)"
      by auto
    moreover have "written + n \<le> len" using True unfolding n_def by linarith
    ultimately show ?thesis
      using True \<open>n \<noteq> 0\<close> take_piece [of written n len bs]
      by (simp add: write_loop_step [of written len n wr i] n_def [symmetric])
  next
    case False
    then show ?thesis by (simp add: write_loop_stop)
  qed
qed

lemma next_capacity_max:
  "capacity \<le> CLIPBOARD_MAX_SIZE \<Longrightarrow> next_capacity tot capacity \<le> CLIPBOARD_MAX_SIZE"
  by (simp add: next_capacity_def)

lemma next_capacity_mono: "capacity \<le> CLIPBOARD_MAX_SIZE \<Longrightarrow> capacity \<le> next_capacity tot capacity"
  by (auto simp: next_capacity_def)

lemma next_capacity_room:
  assumes "tot \<le> capacity" "capacity = 0 \<or> 4096 \<le> capacity" "tot < CLIPBOARD_MAX_SIZE"
  shows "tot < next_capacity tot capacity"
  using assms by (auto simp: next_capacity_def CLIPBOARD_MAX_SIZE_def)

lemma next_capacity_min:
  "capacity = 0 \<or> 4096 \<le> capacity \<Longrightarrow> 4096 \<le> next_capacity tot capacity"
  by (auto simp: next_capacity_def CLIPBOARD_MAX_SIZE_def)

lemma read_loop_stop:
  assumes "CLIPBOARD_MAX_SIZE \<le> length buf \<or>
    capacity < length buf + 4096 \<and> \<not> al (next_capacity (length buf) capacity)"
  shows "read_loop rd al closed i data buf capacity = Some (buf, capacity)"
  using assms by (subst read_loop.simps) (auto simp: Let_def)

lemma read_loop_step:
  assumes "length buf < CLIPBOARD_MAX_SIZE" "length buf + 4096 \<le> capacity \<or> al c"
    and "c = next_capacity (length buf) capacity" "n = min (min (rd i) (c - length buf)) (length data)"
  shows "read_loop rd al closed i data buf capacity =
    (if rd i = 0 \<or> c \<le> length buf then Some (buf, c)
     else if data = [] then (if closed then Some (buf, c) else None)
     else read_loop rd al closed (Suc i) (drop n data) (buf @ take n data) c)"
proof -
  have go: "(CLIPBOARD_MAX_SIZE \<le> length buf) = False" "(capacity < length buf + 4096 \<and> \<not> al c) = False"
    using assms(1,2) by auto
  show ?thesis
    unfolding read_loop.simps [of rd al closed i data buf capacity] Let_def assms(3) [symmetric]
      assms(4) [symmetric] go if_False ..
qed

text \<open>For every behaviour of the kernel: the bytes are a prefix of the pipe's content, in a buffer
  that is large enough and never larger than the limit.\<close>

lemma read_loop_bounds:
  assumes "read_loop rd al closed i data buf capacity = Some (res, cap)"
    and "length buf \<le> capacity" "capacity \<le> CLIPBOARD_MAX_SIZE"
  shows "length res \<le> cap \<and> cap \<le> CLIPBOARD_MAX_SIZE \<and> (\<exists>n. res = buf @ take n data)"
  using assms
proof (induction rd al closed i data buf capacity rule: read_loop.induct)
  case (1 rd al closed i data buf capacity)
  define c where "c = next_capacity (length buf) capacity"
  define n where "n = min (min (rd i) (c - length buf)) (length data)"
  have c: "capacity \<le> c" "c \<le> CLIPBOARD_MAX_SIZE"
    using "1.prems"(3) by (simp_all add: c_def next_capacity_max next_capacity_mono)
  show ?case
  proof (cases "CLIPBOARD_MAX_SIZE \<le> length buf \<or> (capacity < length buf + 4096 \<and> \<not> al c)")
    case True
    then have "res = buf" "cap = capacity" using "1.prems"(1) by (auto simp: read_loop_stop c_def)
    then show ?thesis using "1.prems"(2,3) by (auto intro: exI [of _ 0])
  next
    case go: False
    then have step: "read_loop rd al closed i data buf capacity =
        (if rd i = 0 \<or> c \<le> length buf then Some (buf, c)
         else if data = [] then (if closed then Some (buf, c) else None)
         else read_loop rd al closed (Suc i) (drop n data) (buf @ take n data) c)"
      by (intro read_loop_step c_def n_def) auto
    show ?thesis
    proof (cases "rd i = 0 \<or> c \<le> length buf \<or> data = []")
      case True
      then have "res = buf" "cap = c" using "1.prems"(1) step by (auto split: if_splits)
      then show ?thesis using "1.prems"(2) c by (auto intro: exI [of _ 0])
    next
      case n: False
      have next_step: "read_loop rd al closed (Suc i) (drop n data) (buf @ take n data) c = Some (res, cap)"
        using "1.prems"(1) step n by simp
      have "length (buf @ take n data) \<le> c"
        using "1.prems"(2) c(1) by (auto simp: n_def)
      then have "length res \<le> cap \<and> cap \<le> CLIPBOARD_MAX_SIZE \<and>
          (\<exists>k. res = (buf @ take n data) @ take k (drop n data))"
        using "1.IH" [OF refl c_def _ _ _ _ n_def next_step] go n c(2) c_def by auto
      then show ?thesis by (auto simp flip: take_add)
    qed
  qed
qed

text \<open>
  If no read fails and the allocator does not, the loop returns exactly if the limit is reached or the
  pipe is closed, and then everything up to the limit has arrived.
\<close>

lemma read_loop_complete:
  assumes "\<forall>i. 0 < rd i" "al = (\<lambda>_. True)" "length buf \<le> capacity" "capacity \<le> CLIPBOARD_MAX_SIZE"
    and "capacity = 0 \<or> 4096 \<le> capacity"
  shows "if closed \<or> CLIPBOARD_MAX_SIZE \<le> length buf + length data
     then \<exists>cap. read_loop rd al closed i data buf capacity =
         Some (buf @ take (CLIPBOARD_MAX_SIZE - length buf) data, cap)
     else read_loop rd al closed i data buf capacity = None"
  using assms
proof (induction rd al closed i data buf capacity rule: read_loop.induct)
  case (1 rd al closed i data buf capacity)
  define c where "c = next_capacity (length buf) capacity"
  define n where "n = min (min (rd i) (c - length buf)) (length data)"
  have c: "capacity \<le> c" "c \<le> CLIPBOARD_MAX_SIZE" "4096 \<le> c"
    using "1.prems" by (simp_all add: c_def next_capacity_max next_capacity_mono next_capacity_min)
  show ?case
  proof (cases "CLIPBOARD_MAX_SIZE \<le> length buf")
    case True
    then show ?thesis by (simp add: read_loop_stop)
  next
    case False
    have room: "length buf < c"
      unfolding c_def using "1.prems" False by (intro next_capacity_room) auto
    then have go: "\<not> (rd i = 0 \<or> c \<le> length buf)" using "1.prems"(1) by (metis less_irrefl not_less)
    have step: "read_loop rd al closed i data buf capacity =
        (if data = [] then (if closed then Some (buf, c) else None)
         else read_loop rd al closed (Suc i) (drop n data) (buf @ take n data) c)"
      using "1.prems"(2) False go read_loop_step [where rd = rd and i = i, OF _ _ c_def n_def] by auto
    show ?thesis
    proof (cases "data = []")
      case True
      then show ?thesis using step False by (cases closed) auto
    next
      case n: False
      have le: "length (buf @ take n data) \<le> c" "n \<le> length data" "n \<le> CLIPBOARD_MAX_SIZE - length buf"
        using "1.prems"(3) c(1,2) by (auto simp: n_def)
      have len: "length (buf @ take n data) + length (drop n data) = length buf + length data" using le(2) by simp
      have "take n data @ take (CLIPBOARD_MAX_SIZE - length (buf @ take n data)) (drop n data)
          = take (n + (CLIPBOARD_MAX_SIZE - length (buf @ take n data))) data"
        by (rule take_add [symmetric])
      also have "n + (CLIPBOARD_MAX_SIZE - length (buf @ take n data)) = CLIPBOARD_MAX_SIZE - length buf"
        using le by simp
      finally have whole: "(buf @ take n data) @ take (CLIPBOARD_MAX_SIZE - length (buf @ take n data)) (drop n data)
          = buf @ take (CLIPBOARD_MAX_SIZE - length buf) data"
        by simp
      have "if closed \<or> CLIPBOARD_MAX_SIZE \<le> length buf + length data
        then \<exists>cap. read_loop rd al closed (Suc i) (drop n data) (buf @ take n data) c =
            Some (buf @ take (CLIPBOARD_MAX_SIZE - length buf) data, cap)
        else read_loop rd al closed (Suc i) (drop n data) (buf @ take n data) c = None"
        using "1.IH" [OF refl c_def _ _ go n n_def] le(1) c "1.prems"(1,2) False unfolding len whole by auto
      moreover have "read_loop rd al closed i data buf capacity =
          read_loop rd al closed (Suc i) (drop n data) (buf @ take n data) c"
        using step n by simp
      ultimately show ?thesis by (simp only:)
    qed
  qed
qed

section \<open>The registry handler\<close>

interpretation clip_dcm: global_binder "clipboard_registry_global bind" cb_dcm
    "''ext_data_control_manager_v1''" for bind
  by unfold_locales (auto simp: clipboard_registry_global_def)

interpretation clip_seat: global_binder "clipboard_registry_global bind" cb_seat "''wl_seat''" for bind
  by unfold_locales (auto simp: clipboard_registry_global_def)

lemma announce_clipboard_frame [simp]:
  "cb_display (announce (clipboard_registry_global bind) gs cb) = cb_display cb"
  "cb_on_changed (announce (clipboard_registry_global bind) gs cb) = cb_on_changed cb"
  by (rule announce_frame, simp add: clipboard_registry_global_def)+

section \<open>Properties\<close>

lemma read_offer_text_fits:
  assumes "ra_pipe a = Some fds" and "read_offer_text a cb offer = Some (cb', cs, nt)"
  shows "\<not> cb_setting_from_rdp cb' \<and>
     (cb_wl_text cb' = cb_wl_text cb \<and> nt = None \<or>
      (\<exists>n. cb_wl_text cb' = Some (take n (ra_data a)) \<and> cb_wl_len cb' = length (take n (ra_data a)) \<and>
         0 < cb_wl_len cb' \<and> cb_wl_len cb' \<le> cb_wl_cap cb' \<and> cb_wl_cap cb' \<le> 16 * 1024 * 1024))"
proof -
  obtain buf cap where rl: "read_loop (ra_read a) (ra_alloc a) (ra_closed a) 0 (ra_data a) [] 0 = Some (buf, cap)"
    using assms by (cases fds) (auto simp: read_offer_text_def split: option.splits)
  then have "length buf \<le> cap \<and> cap \<le> CLIPBOARD_MAX_SIZE \<and> (\<exists>n. buf = take n (ra_data a))"
    using read_loop_bounds [OF rl] by simp
  with assms rl show ?thesis
    by (cases fds) (auto simp: read_offer_text_def CLIPBOARD_MAX_SIZE_def Let_def split: if_splits)
qed

text \<open>
  C20: whatever the kernel and the allocator do, reading a Wayland selection stores a prefix of
  what the offering client wrote, its length is the stored length, it fits the buffer allocated for
  it, and the buffer never exceeds 16 MiB; and the echo flag is cleared whenever the pipe was read.
\<close>

theorem read_offer_text_bounds:
  assumes "ra_pipe a = Some fds" and "read_offer_text a cb offer = Some (cb', cs, nt)"
  shows "\<not> cb_setting_from_rdp cb' \<and>
     (cb_wl_text cb' = cb_wl_text cb \<and> nt = None \<or>
      (\<exists>n. cb_wl_text cb' = Some (take n (ra_data a)) \<and> cb_wl_len cb' = length (take n (ra_data a)) \<and>
         0 < cb_wl_len cb' \<and> cb_wl_len cb' \<le> cb_wl_cap cb' \<and> cb_wl_cap cb' \<le> 16 * 1024 * 1024))"
  using assms by (rule read_offer_text_fits)

text \<open>A reading without failures: when it returns, and what it has stored then.\<close>

lemma read_offer_text_all:
  assumes "ra_pipe a = Some fds" "\<forall>i. 0 < ra_read a i" "\<forall>c. ra_alloc a c" "ra_data a \<noteq> []"
    and "ra_closed a \<or> 16 * 1024 * 1024 \<le> length (ra_data a)"
  obtains cb' cs nt where "read_offer_text a cb offer = Some (cb', cs, nt)"
    "cb_wl_text cb' = Some (take (16 * 1024 * 1024) (ra_data a))"
    "cb_wl_len cb' = min (length (ra_data a)) (16 * 1024 * 1024)"
    "nt = (if cb_on_changed cb \<and> \<not> cb_setting_from_rdp cb
             then Some (take (16 * 1024 * 1024) (ra_data a)) else None)"
    "cb_wl_len cb' \<le> cb_wl_cap cb'" "cb_wl_cap cb' \<le> 16 * 1024 * 1024"
proof -
  have "\<exists>cap. read_loop (ra_read a) (ra_alloc a) (ra_closed a) 0 (ra_data a) [] 0 =
      Some (take CLIPBOARD_MAX_SIZE (ra_data a), cap)"
    using read_loop_complete [where rd = "ra_read a" and al = "ra_alloc a" and buf = "[]" and capacity = 0
        and closed = "ra_closed a" and i = 0 and data = "ra_data a"] assms(2,3,5)
    by (auto simp: fun_eq_iff CLIPBOARD_MAX_SIZE_def split: if_splits)
  then obtain cap where
    rl: "read_loop (ra_read a) (ra_alloc a) (ra_closed a) 0 (ra_data a) [] 0 = Some (take CLIPBOARD_MAX_SIZE (ra_data a), cap)"
    by blast
  then have "read_offer_text a cb offer \<noteq> None"
    using assms(1) by (cases fds) (simp add: read_offer_text_def Let_def)
  then obtain cb' cs nt where r: "read_offer_text a cb offer = Some (cb', cs, nt)" by (metis prod_cases3 not_None_eq)
  have "cb_wl_text cb' = Some (take (16 * 1024 * 1024) (ra_data a))"
    "cb_wl_len cb' = min (length (ra_data a)) (16 * 1024 * 1024)" "cb_wl_cap cb' = cap"
    "nt = (if cb_on_changed cb \<and> \<not> cb_setting_from_rdp cb
             then Some (take (16 * 1024 * 1024) (ra_data a)) else None)"
    using assms(1,4) rl r
    by (cases fds; auto simp: read_offer_text_def CLIPBOARD_MAX_SIZE_def Let_def min.commute)+
  moreover have "length (take CLIPBOARD_MAX_SIZE (ra_data a)) \<le> cap \<and> cap \<le> CLIPBOARD_MAX_SIZE"
    using read_loop_bounds [OF rl] by simp
  ultimately show thesis using r that by (auto simp: CLIPBOARD_MAX_SIZE_def min.commute)
qed

text \<open>The other case: nobody closes the pipe and the limit is not reached.\<close>

lemma read_offer_text_blocks:
  assumes "ra_pipe a = Some fds" "\<forall>i. 0 < ra_read a i" "\<forall>c. ra_alloc a c"
    and "\<not> ra_closed a" "length (ra_data a) < 16 * 1024 * 1024"
  shows "read_offer_text a cb offer = None"
proof -
  have "read_loop (ra_read a) (ra_alloc a) (ra_closed a) 0 (ra_data a) [] 0 = None"
    using read_loop_complete [where rd = "ra_read a" and al = "ra_alloc a" and buf = "[]" and capacity = 0
        and closed = "ra_closed a" and i = 0 and data = "ra_data a"] assms(2-5)
    by (auto simp: fun_eq_iff CLIPBOARD_MAX_SIZE_def split: if_splits)
  then show ?thesis using assms(1) by (cases fds) (simp add: read_offer_text_def)
qed

text \<open>
  C21: if neither the kernel nor the allocator fails, a non-empty selection whose owner closes the pipe,
  or that reaches the limit of 16 MiB, is read to the end: the operation returns, everything up to the
  limit is stored, and the RDP side is told about it exactly if the selection does not come from the
  RDP side itself.
\<close>

theorem read_offer_text_complete:
  assumes "ra_pipe a = Some fds" "\<forall>i. 0 < ra_read a i" "\<forall>c. ra_alloc a c" "ra_data a \<noteq> []"
    and "ra_closed a \<or> 16 * 1024 * 1024 \<le> length (ra_data a)"
  shows "\<exists>cb' cs nt. read_offer_text a cb offer = Some (cb', cs, nt) \<and>
     cb_wl_text cb' = Some (take (16 * 1024 * 1024) (ra_data a)) \<and>
     cb_wl_len cb' = min (length (ra_data a)) (16 * 1024 * 1024) \<and>
     nt = (if cb_on_changed cb \<and> \<not> cb_setting_from_rdp cb
             then Some (take (16 * 1024 * 1024) (ra_data a)) else None)"
  using read_offer_text_all [OF assms, of cb offer] by metis

definition demo_read :: read_answer where
  "demo_read = \<lparr>ra_pipe = Some (5, 6), ra_data = [104, 105], ra_closed = True, ra_read = (\<lambda>_. 1), ra_alloc = (\<lambda>_. True)\<rparr>"

lemma demo_read_facts:
  "ra_pipe demo_read = Some (5, 6)" "\<forall>i. 0 < ra_read demo_read i" "\<forall>c. ra_alloc demo_read c"
  "ra_data demo_read = [104, 105]" "ra_closed demo_read"
  by (simp_all add: demo_read_def)

theorem read_offer_text_bounds_witness:
  "\<exists>cb' cs nt. read_offer_text demo_read (zero_clipboard\<lparr>cb_setting_from_rdp := True\<rparr>) 3 = Some (cb', cs, nt) \<and>
     \<not> cb_setting_from_rdp cb'"
proof -
  obtain cb' cs nt where r:
    "read_offer_text demo_read (zero_clipboard\<lparr>cb_setting_from_rdp := True\<rparr>) 3 = Some (cb', cs, nt)"
    using read_offer_text_all [of demo_read "(5, 6)"] demo_read_facts by (metis list.discI)
  then show ?thesis using read_offer_text_bounds [OF demo_read_facts(1) r] by simp
qed

theorem read_offer_text_complete_witness:
  "\<exists>cb' cs. read_offer_text demo_read (zero_clipboard\<lparr>cb_on_changed := True\<rparr>) 3 = Some (cb', cs, Some [104, 105])"
  using read_offer_text_complete [of demo_read "(5, 6)" "zero_clipboard\<lparr>cb_on_changed := True\<rparr>" 3] demo_read_facts
  by (auto simp: zero_clipboard_def)

text \<open>
  C22: a Wayland client that pastes receives a prefix of the pending text and nothing else, all
  of it if every write makes progress, only for the offered MIME type; and its pipe is closed last.
\<close>

theorem source_send_writes_pending_text:
  assumes "cb_pending_text cb = Some text" "cb_pending_len cb = length text"
  shows "\<exists>ws. source_send wr cb mime fd = map (Sys \<circ> SysWrite) ws @ [Sys (SysClose fd)] \<and>
     (\<exists>rest. concat ws @ rest = text) \<and>
     (mime \<noteq> ''text/plain;charset=utf-8'' \<longrightarrow> ws = []) \<and>
     (mime = ''text/plain;charset=utf-8'' \<and> (\<forall>i. 0 < wr i) \<longrightarrow> concat ws = text)"
proof (cases "mime = CLIPBOARD_MIME_TYPE")
  case True
  have "\<exists>rest. concat (write_loop wr 0 text (length text) 0) @ rest = text"
    using write_loop_prefix [of wr 0 "text" "length text" 0] by simp
  moreover have "(\<forall>i. 0 < wr i) \<Longrightarrow> concat (write_loop wr 0 text (length text) 0) = text"
    using write_loop_complete [of wr 0 "text" "length text" 0] by simp
  ultimately show ?thesis
    using True assms
    by (intro exI [of _ "write_loop wr 0 text (length text) 0"])
      (auto simp: source_send_def CLIPBOARD_MIME_TYPE_def)
next
  case False
  then show ?thesis
    using assms by (intro exI [of _ "[]"]) (auto simp: source_send_def CLIPBOARD_MIME_TYPE_def)
qed

theorem source_send_writes_pending_text_witness:
  "\<exists>ws. source_send (\<lambda>_. 1) (zero_clipboard\<lparr>cb_pending_text := Some [104, 105], cb_pending_len := 2\<rparr>)
      ''text/plain;charset=utf-8'' 9 = map (Sys \<circ> SysWrite) ws @ [Sys (SysClose 9)] \<and>
    concat ws = [104, 105]"
  using source_send_writes_pending_text [of "zero_clipboard\<lparr>cb_pending_text := Some [104, 105], cb_pending_len := 2\<rparr>"
      "[104, 105]" "\<lambda>_. 1" "''text/plain;charset=utf-8''" 9]
  by auto

text \<open>
  The selection that \<open>clipboard_set_text\<close> has just made. Its announcement comes back to the worker, which
  reads it: the text would have to be written by \<open>source_send\<close> of the same thread, so the pipe stays empty
  and open. The read returns only if a signal interrupts it, and then without a notification.
\<close>

abbreviation offered :: "handle \<Rightarrow> clipboard \<Rightarrow> clipboard" where
  "offered h cb \<equiv> offer_offer (device_data_offer True cb h) h ''text/plain;charset=utf-8''"

lemma own_selection:
  assumes "ra_pipe a = Some fds" "ra_alloc a 4096" "ra_data a = []" "\<not> ra_closed a"
  shows "0 < ra_read a 0 \<Longrightarrow> device_selection a (offered h cb) (Some h) = None"
    and "ra_read a 0 = 0 \<Longrightarrow> \<exists>cb' cs. device_selection a (offered h cb) (Some h) = Some (cb', cs, None) \<and>
       \<not> cb_setting_from_rdp cb' \<and> cb_wl_text cb' = cb_wl_text cb"
proof -
  have "next_capacity 0 0 = 4096" by (simp add: next_capacity_def CLIPBOARD_MAX_SIZE_def)
  then have rl: "read_loop (ra_read a) (ra_alloc a) (ra_closed a) 0 (ra_data a) [] 0 =
      (if ra_read a 0 = 0 then Some ([], 4096) else None)"
    using read_loop_step [where rd = "ra_read a" and al = "ra_alloc a" and closed = "ra_closed a" and i = 0
        and data = "[]" and buf = "[]" and capacity = 0, OF _ _ refl refl] assms(2-4)
    by (simp add: CLIPBOARD_MAX_SIZE_def)
  have st: "cb_offers (offered h cb) h = Some True" "cb_wl_text (offered h cb) = cb_wl_text cb"
    by (simp_all add: offer_offer_def device_data_offer_def CLIPBOARD_MIME_TYPE_def)
  show "0 < ra_read a 0 \<Longrightarrow> device_selection a (offered h cb) (Some h) = None"
    using rl assms(1) st by (cases fds) (simp add: device_selection_def read_offer_text_def)
  show "ra_read a 0 = 0 \<Longrightarrow> \<exists>cb' cs. device_selection a (offered h cb) (Some h) = Some (cb', cs, None) \<and>
       \<not> cb_setting_from_rdp cb' \<and> cb_wl_text cb' = cb_wl_text cb"
    using rl assms(1) st by (cases fds) (simp add: device_selection_def read_offer_text_def Let_def)
qed

definition demo_clipboard :: clipboard where
  "demo_clipboard = zero_clipboard\<lparr>cb_device := Some 1, cb_dcm := Some 2, cb_on_changed := True\<rparr>"

text \<open>
  The clipboard starts if and only if the Wayland display can be opened and the compositor
  announces both the data-control manager and a seat; a failed start gives back the display
  connection it had opened.
\<close>

theorem clipboard_init_spec:
  assumes "clipboard_init a dev on_change = (ok, cb, cs)"
  shows "(ok \<longleftrightarrow> wa_display a \<noteq> None \<and>
            {''ext_data_control_manager_v1'', ''wl_seat''} \<subseteq> snd ` set (wa_globals a)) \<and>
     (ok \<longrightarrow> cb_device cb = Some dev \<and> cb_display cb = wa_display a \<and> cb_on_changed cb = on_change) \<and>
     (\<not> ok \<longrightarrow> cb_display cb = None \<and> (\<forall>d. wa_display a = Some d \<longrightarrow> Wl (WlDestroy WlDisplay d) \<in> set cs))"
proof (cases "wa_display a")
  case None
  then show ?thesis using assms by (auto simp: clipboard_init_def zero_clipboard_def)
next
  case (Some d)
  define c1 where "c1 = zero_clipboard\<lparr>cb_on_changed := on_change, cb_display := Some d,
    cb_registry := Some (wa_registry a)\<rparr>"
  define c2 where "c2 = announce (clipboard_registry_global (wa_bind a)) (wa_globals a) c1"
  have dcm: "cb_dcm c2 \<noteq> None \<longleftrightarrow> ''ext_data_control_manager_v1'' \<in> snd ` set (wa_globals a)"
    unfolding c2_def by (rule clip_dcm.bound_iff) (simp add: c1_def zero_clipboard_def)
  have seat: "cb_seat c2 \<noteq> None \<longleftrightarrow> ''wl_seat'' \<in> snd ` set (wa_globals a)"
    unfolding c2_def by (rule clip_seat.bound_iff) (simp add: c1_def zero_clipboard_def)
  have disp: "cb_display c2 = Some d" "cb_on_changed c2 = on_change"
    by (simp_all add: c2_def c1_def)
  have "clipboard_init a dev on_change = (if cb_dcm c2 = None \<or> cb_seat c2 = None
      then (let (c3, cs) = clipboard_destroy c2 in (False, c3, cs))
      else (True, c2\<lparr>cb_device := Some dev\<rparr>, []))"
    using Some by (simp add: clipboard_init_def c1_def c2_def Let_def)
  note eq = this [unfolded assms]
  show ?thesis
  proof (cases "cb_dcm c2 = None \<or> cb_seat c2 = None")
    case True
    then have "ok = False" "cb_display cb = None" "Wl (WlDestroy WlDisplay d) \<in> set cs"
      using eq disp by (simp_all add: clipboard_destroy_def destroy_opt_def zero_clipboard_def)
    with True dcm seat Some show ?thesis by auto
  next
    case False
    with eq disp dcm seat Some show ?thesis by auto
  qed
qed

theorem clipboard_init_spec_witness:
  "\<not> fst (clipboard_init \<lparr>wa_display = Some 1, wa_registry = 2, wa_globals = [(1, ''wl_seat'')],
      wa_bind = (\<lambda>_. 3)\<rparr> 4 True)"
proof -
  obtain ok cb cs where r: "clipboard_init \<lparr>wa_display = Some 1, wa_registry = 2,
      wa_globals = [(1, ''wl_seat'')], wa_bind = (\<lambda>_. 3)\<rparr> 4 True = (ok, cb, cs)"
    by (metis prod_cases3)
  from clipboard_init_spec [OF r] r show ?thesis by simp
qed

text \<open>
  A primary selection destroys the offer but not the record that was allocated for it when it
  was announced: the record stays on the heap with no offer left that could lead to it.
\<close>

theorem primary_selection_leaks_offer:
  "device_primary_selection (device_data_offer True cb h) (Some h) =
     (device_data_offer True cb h, [Wl (WlDestroy DataControlOffer h)]) \<and>
   cb_offers (fst (device_primary_selection (device_data_offer True cb h) (Some h))) h = Some False"
  by (simp add: device_primary_selection_def device_data_offer_def)

text \<open>
  C39: a selection of 16 MiB or more fills the buffer completely, and the answer to a CF_TEXT
  request then announces one byte more than the buffer has.
\<close>

theorem cf_text_reads_past_buffer:
  assumes "ra_pipe a = Some fds" "\<forall>i. 0 < ra_read a i" "\<forall>c. ra_alloc a c"
    and "16 * 1024 * 1024 \<le> length (ra_data a)"
  shows "\<exists>cb' cs nt. read_offer_text a cb offer = Some (cb', cs, nt) \<and>
     on_cliprdr_client_format_data_request conv cb' 1 = [Clp (ClpFormatDataResponse True (cb_wl_cap cb' + 1))]"
proof -
  have ne: "ra_data a \<noteq> []" using assms(4) by auto
  obtain cb' cs nt where r: "read_offer_text a cb offer = Some (cb', cs, nt)"
    "cb_wl_text cb' = Some (take (16 * 1024 * 1024) (ra_data a))"
    "cb_wl_len cb' = min (length (ra_data a)) (16 * 1024 * 1024)"
    "cb_wl_len cb' \<le> cb_wl_cap cb'" "cb_wl_cap cb' \<le> 16 * 1024 * 1024"
    using read_offer_text_all [OF assms(1-3) ne disjI2 [OF assms(4)], of cb offer] by metis
  then have "cb_wl_len cb' = 16 * 1024 * 1024" "cb_wl_cap cb' = 16 * 1024 * 1024" using assms(4) by simp_all
  then show ?thesis
    using r(1,2) by (simp add: on_cliprdr_client_format_data_request_def CF_TEXT_def CF_UNICODETEXT_def)
qed

theorem cf_text_reads_past_buffer_witness:
  "\<exists>cb' cs nt. read_offer_text (demo_read\<lparr>ra_data := replicate (16 * 1024 * 1024) 120\<rparr>) zero_clipboard 3 =
       Some (cb', cs, nt) \<and>
     on_cliprdr_client_format_data_request (\<lambda>_. None) cb' 1 =
       [Clp (ClpFormatDataResponse True (cb_wl_cap cb' + 1))]"
  by (rule cf_text_reads_past_buffer [where fds = "(5, 6)"]) (simp_all add: demo_read_def)

end
