(* ===== verification/RdpPeer.thy ===== *)
theory RdpPeer
  imports PeerInput Clipboard
begin

text \<open>
  The RDP peer (\<open>src/session/rdp_peer.h\<close>, \<open>src/session/rdp_peer.c\<close>, without its input callbacks): the
  peer context, the life cycle of the dynamic channels (VCM, RDPGFX, DISP, CLIPRDR, RDPSND), the
  negotiation of the graphics codec and the sending of frames and audio. An operation returns the
  new context and the calls it makes; what the libraries answer is an argument.
\<close>

section \<open>State\<close>

datatype send_mode =
  WLRDP_SEND_SURFACE_BITS | WLRDP_SEND_GFX_AVC420 | WLRDP_SEND_GFX_AVC444 | WLRDP_SEND_GFX_AVC444V2
  | WLRDP_SEND_GFX_PROGRESSIVE

text \<open>Pointers to objects of the server (input, clipboard, audio, resize callback) are flags.\<close>

record peer_ctx =
  pc_input :: bool
  pc_width :: u32
  pc_height :: u32
  pc_activated :: bool
  pc_on_resize :: bool
  pc_gfx_context :: "handle option"
  pc_gfx_vcm :: "handle option"
  pc_gfx_surface_id :: u16
  pc_gfx_opened :: bool
  pc_gfx_ready :: bool
  pc_gfx_frame_id :: u32
  pc_disp_context :: "handle option"
  pc_disp_opened :: bool
  pc_cliprdr_context :: "handle option"
  pc_cliprdr_opened :: bool
  pc_clipboard :: bool
  pc_rdpsnd_context :: "handle option"
  pc_rdpsnd_opened :: bool
  pc_rdpsnd_ready :: bool
  pc_audio :: bool
  pc_send_mode :: send_mode
  pc_pixel_format :: u32

text \<open>The context as \<open>freerdp_peer_context_new\<close> hands it out: zeroed.\<close>

definition zero_ctx :: peer_ctx where
  "zero_ctx = \<lparr>pc_input = False, pc_width = 0, pc_height = 0, pc_activated = False, pc_on_resize = False,
     pc_gfx_context = None, pc_gfx_vcm = None, pc_gfx_surface_id = 0, pc_gfx_opened = False,
     pc_gfx_ready = False, pc_gfx_frame_id = 0, pc_disp_context = None, pc_disp_opened = False,
     pc_cliprdr_context = None, pc_cliprdr_opened = False, pc_clipboard = False,
     pc_rdpsnd_context = None, pc_rdpsnd_opened = False, pc_rdpsnd_ready = False, pc_audio = False,
     pc_send_mode = WLRDP_SEND_SURFACE_BITS, pc_pixel_format = 0\<rparr>"

text \<open>The settings of the connection that the code reads.\<close>

record rdp_settings =
  set_desktop_width :: u32
  set_desktop_height :: u32
  set_scale :: u32
  set_color_depth :: u32
  set_nscodec :: bool
  set_gfx_pipeline :: bool
  set_os_major :: u32

section \<open>The graphics surface and the clean-up of all channels\<close>

record surface_answer =
  su_reset :: bool
  su_create :: bool
  su_map :: bool

text \<open>A failing ResetGraphics is only logged. A call through a NULL context is a fault.\<close>

definition gfx_create_surface ::
    "surface_answer \<Rightarrow> peer_ctx \<Rightarrow> u32 \<Rightarrow> u32 \<Rightarrow> bool \<times> peer_ctx \<times> call list" where
  "gfx_create_surface a ctx width height =
    (case pc_gfx_context ctx of
       None \<Rightarrow> (False, ctx, [Crash NullDereference])
     | Some gfx \<Rightarrow>
       let cs = [Gfx (GfxResetGraphics width height (width - 1) (height - 1)),
                 Gfx (GfxCreateSurface 1 width height)] in
       if \<not> su_create a then (False, ctx, cs)
       else if \<not> su_map a then (False, ctx, cs @ [Gfx (GfxMapSurface 1)])
       else (True, ctx\<lparr>pc_gfx_surface_id := 1\<rparr>, cs @ [Gfx (GfxMapSurface 1)]))"

text \<open>\<open>gfx_cleanup\<close> closes and frees what is open, one channel after the other, then the VCM.\<close>

definition cleanup_gfx :: "peer_ctx \<Rightarrow> peer_ctx \<times> call list" where
  "cleanup_gfx ctx =
    (case pc_gfx_context ctx of
       None \<Rightarrow> (ctx, [])
     | Some gfx \<Rightarrow>
       (ctx\<lparr>pc_gfx_context := None\<rparr>,
        (if pc_gfx_surface_id ctx \<noteq> 0 then [Gfx (GfxDeleteSurface (pc_gfx_surface_id ctx))] else [])
          @ (if pc_gfx_opened ctx then [Gfx (GfxClose gfx)] else []) @ [Gfx (GfxContextFree gfx)]))"

definition cleanup_rdpsnd :: "peer_ctx \<Rightarrow> peer_ctx \<times> call list" where
  "cleanup_rdpsnd ctx =
    (case pc_rdpsnd_context ctx of
       None \<Rightarrow> (ctx, [])
     | Some sn \<Rightarrow>
       (ctx\<lparr>pc_rdpsnd_context := None, pc_rdpsnd_opened := False, pc_rdpsnd_ready := False\<rparr>,
        (if pc_rdpsnd_opened ctx then [Snd (SndStop sn)] else []) @ [Snd (SndContextFree sn)]))"

definition cleanup_cliprdr :: "peer_ctx \<Rightarrow> clipboard \<Rightarrow> peer_ctx \<times> clipboard \<times> call list" where
  "cleanup_cliprdr ctx clip =
    (if pc_cliprdr_opened ctx \<and> pc_clipboard ctx
     then (let (clip', cs) = clipboard_close_cliprdr clip
           in (ctx\<lparr>pc_cliprdr_context := None, pc_cliprdr_opened := False\<rparr>, clip', cs))
     else (ctx, clip, []))"

definition cleanup_disp :: "peer_ctx \<Rightarrow> peer_ctx \<times> call list" where
  "cleanup_disp ctx =
    (case pc_disp_context ctx of
       None \<Rightarrow> (ctx, [])
     | Some disp \<Rightarrow>
       (ctx\<lparr>pc_disp_context := None\<rparr>,
        (if pc_disp_opened ctx then [Disp (DispClose disp)] else []) @ [Disp (DispContextFree disp)]))"

definition cleanup_vcm :: "peer_ctx \<Rightarrow> peer_ctx \<times> call list" where
  "cleanup_vcm ctx =
    (let (ctx1, cs) = (case pc_gfx_vcm ctx of
                         None \<Rightarrow> (ctx, [])
                       | Some vcm \<Rightarrow> (ctx\<lparr>pc_gfx_vcm := None\<rparr>, [Vcm (VcmCloseServer vcm)]))
     in (ctx1\<lparr>pc_gfx_opened := False, pc_gfx_ready := False, pc_gfx_surface_id := 0, pc_disp_opened := False\<rparr>, cs))"

definition gfx_cleanup :: "peer_ctx \<Rightarrow> clipboard \<Rightarrow> peer_ctx \<times> clipboard \<times> call list" where
  "gfx_cleanup ctx clip =
    (let (ctx1, cs1) = cleanup_gfx ctx;
         (ctx2, cs2) = cleanup_rdpsnd ctx1;
         (ctx3, clip3, cs3) = cleanup_cliprdr ctx2 clip;
         (ctx4, cs4) = cleanup_disp ctx3;
         (ctx5, cs5) = cleanup_vcm ctx4
     in (ctx5, clip3, cs1 @ cs2 @ cs3 @ cs4 @ cs5))"

section \<open>Capability negotiation\<close>

text \<open>Constants of the RDPGFX and RDP protocols.\<close>

definition RDPGFX_CAPVERSION_81 :: u32 where "RDPGFX_CAPVERSION_81 = 0x00080105"
definition RDPGFX_CAPVERSION_10 :: u32 where "RDPGFX_CAPVERSION_10 = 0x000A0002"
definition RDPGFX_CAPVERSION_107 :: u32 where "RDPGFX_CAPVERSION_107 = 0x000A0701"
definition RDPGFX_CAPS_FLAG_AVC420_ENABLED :: u32 where "RDPGFX_CAPS_FLAG_AVC420_ENABLED = 0x10"
definition RDPGFX_CAPS_FLAG_AVC_DISABLED :: u32 where "RDPGFX_CAPS_FLAG_AVC_DISABLED = 0x20"
definition OSMAJORTYPE_MACINTOSH :: u32 where "OSMAJORTYPE_MACINTOSH = 3"
definition OSMAJORTYPE_IOS :: u32 where "OSMAJORTYPE_IOS = 5"
definition OSMAJORTYPE_OSX :: u32 where "OSMAJORTYPE_OSX = 6"

definition is_macos_client :: "u32 \<Rightarrow> bool" where
  "is_macos_client os \<longleftrightarrow> os = OSMAJORTYPE_MACINTOSH \<or> os = OSMAJORTYPE_OSX \<or> os = OSMAJORTYPE_IOS"

definition caps_rank :: "bool \<Rightarrow> capset \<Rightarrow> int" where
  "caps_rank mac cap =
    (if RDPGFX_CAPVERSION_10 \<le> cap_version cap
     then (if cap_flags cap AND RDPGFX_CAPS_FLAG_AVC_DISABLED = 0
           then (if mac then 2 else if RDPGFX_CAPVERSION_107 \<le> cap_version cap then 4 else 3)
           else 0)
     else if RDPGFX_CAPVERSION_81 \<le> cap_version cap \<and> cap_flags cap AND RDPGFX_CAPS_FLAG_AVC420_ENABLED \<noteq> 0
     then 2
     else if RDPGFX_CAPVERSION_81 \<le> cap_version cap then 1
     else 0)"

text \<open>The scan over \<open>pdu->capsSets\<close>: \<open>best_rank\<close> and \<open>chosen\<close> after the entries from index \<open>i\<close> on.\<close>

fun caps_scan :: "bool \<Rightarrow> capset list \<Rightarrow> nat \<Rightarrow> int \<Rightarrow> nat \<Rightarrow> int \<times> nat" where
  "caps_scan mac [] i best chosen = (best, chosen)"
| "caps_scan mac (c # cs) i best chosen =
     (let rank = caps_rank mac c in
      if best < rank then caps_scan mac cs (Suc i) rank i else caps_scan mac cs (Suc i) best chosen)"

definition rank_mode :: "int \<Rightarrow> send_mode" where
  "rank_mode r =
    (if r = 4 then WLRDP_SEND_GFX_AVC444V2 else if r = 3 then WLRDP_SEND_GFX_AVC444
     else if r = 2 then WLRDP_SEND_GFX_AVC420 else if r = 1 then WLRDP_SEND_GFX_PROGRESSIVE
     else WLRDP_SEND_SURFACE_BITS)"

record caps_answer =
  cz_confirm :: u32
  cz_surface :: surface_answer

text \<open>
  The first component of the result is the return code. For an empty list the address of element 0
  is taken all the same: the confirmation then carries no capability set (\<open>None\<close>).
\<close>

definition gfx_caps_advertise ::
    "caps_answer \<Rightarrow> rdp_settings \<Rightarrow> capset list \<Rightarrow> peer_ctx \<Rightarrow> clipboard
       \<Rightarrow> u32 \<times> peer_ctx \<times> clipboard \<times> call list" where
  "gfx_caps_advertise a st caps ctx clip =
    (let mac = is_macos_client (set_os_major st);
         (best, chosen0) = caps_scan mac caps 0 (- 1) 0;
         chosen = (if best < 0 \<and> 0 < length caps then 0 else chosen0);
         ctx1 = ctx\<lparr>pc_send_mode := rank_mode best\<rparr>;
         cs1 = [Gfx (GfxCapsConfirm (if chosen < length caps then Some (caps ! chosen) else None))]
     in if cz_confirm a \<noteq> 0 then (cz_confirm a, ctx1, clip, cs1)
        else if pc_gfx_surface_id ctx1 = 0
        then (let (ok, ctx2, cs2) = gfx_create_surface (cz_surface a) ctx1 (pc_width ctx1) (pc_height ctx1)
              in if ok then (0, ctx2\<lparr>pc_gfx_ready := True\<rparr>, clip, cs1 @ cs2)
                 else (let (ctx3, clip3, cs3) = gfx_cleanup (ctx2\<lparr>pc_send_mode := WLRDP_SEND_SURFACE_BITS\<rparr>) clip
                       in (0, ctx3, clip3, cs1 @ cs2 @ cs3)))
        else (0, ctx1, clip, cs1))"

section \<open>Opening the channels\<close>

record vcm_answer =
  va_open :: "handle option"
  va_manager :: bool

definition vcm_init :: "vcm_answer \<Rightarrow> peer_ctx \<Rightarrow> bool \<times> peer_ctx \<times> call list" where
  "vcm_init a ctx =
    (case va_open a of
       None \<Rightarrow> (False, ctx, [])
     | Some vcm \<Rightarrow>
       if \<not> va_manager a
       then (False, ctx\<lparr>pc_gfx_vcm := None\<rparr>,
             [Vcm (VcmOpenServer vcm), Vcm (VcmManagerOpen vcm), Vcm (VcmCloseServer vcm)])
       else (True, ctx\<lparr>pc_gfx_vcm := Some vcm\<rparr>, [Vcm (VcmOpenServer vcm), Vcm (VcmManagerOpen vcm)]))"

definition gfx_open :: "chan_answer \<Rightarrow> peer_ctx \<Rightarrow> bool \<times> peer_ctx \<times> call list" where
  "gfx_open a ctx =
    (case ch_new a of
       None \<Rightarrow> (False, ctx, [])
     | Some gfx \<Rightarrow>
       let ctx1 = ctx\<lparr>pc_gfx_context := Some gfx, pc_gfx_surface_id := 0, pc_gfx_frame_id := 0,
                      pc_gfx_opened := False\<rparr>;
           cs = [Gfx (GfxContextNew gfx), Gfx (GfxOpen gfx)]
       in if \<not> ch_open a then (False, ctx1\<lparr>pc_gfx_context := None\<rparr>, cs @ [Gfx (GfxContextFree gfx)])
          else (True, ctx1\<lparr>pc_gfx_opened := True\<rparr>, cs))"

definition disp_open :: "chan_answer \<Rightarrow> peer_ctx \<Rightarrow> bool \<times> peer_ctx \<times> call list" where
  "disp_open a ctx =
    (case ch_new a of
       None \<Rightarrow> (False, ctx, [])
     | Some disp \<Rightarrow>
       let cs = [Disp (DispContextNew disp), Disp (DispOpen disp)] in
       if \<not> ch_open a then (False, ctx, cs @ [Disp (DispContextFree disp)])
       else (True, ctx\<lparr>pc_disp_context := Some disp, pc_disp_opened := True\<rparr>, cs))"

record snd_answer =
  sn_new :: "handle option"
  sn_init :: bool
  sn_start :: bool

definition rdpsnd_open :: "snd_answer \<Rightarrow> peer_ctx \<Rightarrow> bool \<times> peer_ctx \<times> call list" where
  "rdpsnd_open a ctx =
    (case sn_new a of
       None \<Rightarrow> (False, ctx, [])
     | Some sn \<Rightarrow>
       let cs = [Snd (SndContextNew sn), Snd (SndInitialize sn)] in
       if \<not> sn_init a then (False, ctx, cs @ [Snd (SndContextFree sn)])
       else if \<not> sn_start a then (False, ctx, cs @ [Snd (SndStart sn), Snd (SndContextFree sn)])
       else (True, ctx\<lparr>pc_rdpsnd_context := Some sn, pc_rdpsnd_opened := True\<rparr>, cs @ [Snd (SndStart sn)]))"

section \<open>Channel callbacks\<close>

text \<open>
  The resize callback belongs to the server. A handler that may call it returns the arguments
  (width, height, scale) it calls it with, \<open>None\<close> if it does not.
\<close>

type_synonym resize_request = "(u32 \<times> u32 \<times> u32) option"

definition default_scale :: "u32 \<Rightarrow> u32" where
  "default_scale s = (if s = 0 then 100 else s)"

definition on_disp_monitor_layout :: "peer_ctx \<Rightarrow> (u32 \<times> u32 \<times> u32) list \<Rightarrow> resize_request" where
  "on_disp_monitor_layout ctx monitors =
    (case monitors of
       [] \<Rightarrow> None
     | (width, height, scale) # ms \<Rightarrow>
       if pc_on_resize ctx then Some (width, height, default_scale scale) else None)"

definition WAVE_FORMAT_PCM :: u16 where "WAVE_FORMAT_PCM = 1"

definition pcm_supported :: "audio_format \<Rightarrow> bool" where
  "pcm_supported f \<longleftrightarrow> wFormatTag f = WAVE_FORMAT_PCM \<and> nChannels f = 2 \<and> nSamplesPerSec f = 44100
     \<and> wBitsPerSample f = 16"

definition on_rdpsnd_activated :: "audio_format list \<Rightarrow> peer_ctx \<Rightarrow> peer_ctx \<times> call list" where
  "on_rdpsnd_activated formats ctx =
    (case first_index pcm_supported formats of
       None \<Rightarrow> (ctx, [])
     | Some i \<Rightarrow> (ctx\<lparr>pc_rdpsnd_ready := True\<rparr>, [Snd (SndSelectFormat i)]))"

section \<open>Peer callbacks\<close>

definition get_desktop_scale :: "rdp_settings \<Rightarrow> u32" where
  "get_desktop_scale st = default_scale (set_scale st)"

definition on_desktop_resize :: "rdp_settings \<Rightarrow> peer_ctx \<Rightarrow> resize_request" where
  "on_desktop_resize st ctx =
    (if pc_on_resize ctx then Some (set_desktop_width st, set_desktop_height st, get_desktop_scale st) else None)"

text \<open>A monitor is (left, top, right, bottom), signed 32-bit numbers; the sizes wrap.\<close>

definition on_remote_monitors ::
    "rdp_settings \<Rightarrow> peer_ctx \<Rightarrow> (i32 \<times> i32 \<times> i32 \<times> i32) list \<Rightarrow> resize_request" where
  "on_remote_monitors st ctx monitors =
    (case monitors of
       [] \<Rightarrow> None
     | (l, t, r, b) # ms \<Rightarrow>
       if pc_on_resize ctx then Some (r - l + 1, b - t + 1, get_desktop_scale st) else None)"

text \<open>Pixel formats of FreeRDP.\<close>

definition PIXEL_FORMAT_BGRX32 :: u32 where "PIXEL_FORMAT_BGRX32 = 0x20040888"
definition PIXEL_FORMAT_BGR24 :: u32 where "PIXEL_FORMAT_BGR24 = 0x18020888"
definition PIXEL_FORMAT_RGB16 :: u32 where "PIXEL_FORMAT_RGB16 = 0x10010565"

definition depth_format :: "u32 \<Rightarrow> u32" where
  "depth_format depth =
    (if depth = 32 then PIXEL_FORMAT_BGRX32 else if depth = 24 then PIXEL_FORMAT_BGR24
     else if depth = 16 then PIXEL_FORMAT_RGB16 else PIXEL_FORMAT_BGRX32)"

definition on_post_connect :: "vcm_answer \<Rightarrow> rdp_settings \<Rightarrow> peer_ctx \<Rightarrow> peer_ctx \<times> call list" where
  "on_post_connect a st ctx =
    (let ctx1 = ctx\<lparr>pc_pixel_format := depth_format (set_color_depth st)\<rparr> in
     if set_gfx_pipeline st then (let (ok, ctx2, cs) = vcm_init a ctx1 in (ctx2, cs)) else (ctx1, []))"

definition on_activate :: "rdp_settings \<Rightarrow> peer_ctx \<Rightarrow> peer_ctx \<times> call list \<times> resize_request" where
  "on_activate st ctx =
    (let ctx1 = ctx\<lparr>pc_activated := True\<rparr> in
     (ctx1, [Peer PeerPointerHide],
      if (set_desktop_width st \<noteq> pc_width ctx1 \<or> set_desktop_height st \<noteq> pc_height ctx1) \<and> pc_on_resize ctx1
      then Some (set_desktop_width st, set_desktop_height st, get_desktop_scale st) else None))"

section \<open>Set-up of a peer and queries\<close>

record peer_init_answer =
  pi_cert :: bool
  pi_set_cert :: bool
  pi_key :: bool
  pi_set_key :: bool

definition server_settings :: "call list" where
  "server_settings = map (\<lambda>(n, b). Peer (PeerSetBool n b))
    [(''TlsSecurity'', True), (''NlaSecurity'', False), (''RdpSecurity'', False),
     (''SurfaceCommandsEnabled'', True), (''NSCodec'', True), (''NSCodecAllowSubsampling'', True),
     (''SupportGraphicsPipeline'', True), (''GfxH264'', True), (''GfxAVC444'', False),
     (''GfxAVC444v2'', False), (''SupportMonitorLayoutPdu'', True), (''DynamicResolutionUpdate'', True),
     (''SupportDisplayControl'', True)]
   @ [Peer (PeerSetUint32 ''LargePointerFlag'' 1), Peer (PeerSetBool ''SuppressOutput'' True)]"

definition rdp_peer_init ::
    "peer_init_answer \<Rightarrow> string option \<Rightarrow> string option \<Rightarrow> bool \<Rightarrow> peer_ctx \<Rightarrow> bool \<times> peer_ctx \<times> call list" where
  "rdp_peer_init a cert_file key_file inp ctx =
    (let cs1 = [Peer (PeerLoadCertificate cert_file)] in
     if \<not> pi_cert a then (False, ctx, cs1)
     else
       let cs2 = cs1 @ [Peer PeerSetCertificate] in
       if \<not> pi_set_cert a then (False, ctx, cs2)
       else
         let cs3 = cs2 @ [Peer (PeerLoadKey key_file)] in
         if \<not> pi_key a then (False, ctx, cs3)
         else
           let cs4 = cs3 @ [Peer PeerSetKey] in
           if \<not> pi_set_key a then (False, ctx, cs4)
           else (True, ctx\<lparr>pc_input := inp, pc_send_mode := WLRDP_SEND_SURFACE_BITS\<rparr>, cs4 @ server_settings))"

definition rdp_peer_supports_gfx_h264 :: "peer_ctx \<Rightarrow> bool" where
  "rdp_peer_supports_gfx_h264 ctx \<longleftrightarrow>
     pc_gfx_ready ctx \<and> pc_send_mode ctx \<in> {WLRDP_SEND_GFX_AVC420, WLRDP_SEND_GFX_AVC444,
       WLRDP_SEND_GFX_AVC444V2, WLRDP_SEND_GFX_PROGRESSIVE}"

definition rdp_peer_get_send_mode :: "peer_ctx \<Rightarrow> send_mode" where
  "rdp_peer_get_send_mode ctx = (if \<not> pc_gfx_ready ctx then WLRDP_SEND_SURFACE_BITS else pc_send_mode ctx)"

text \<open>\<open>fd_of\<close>: the descriptor behind the VCM's event handle, \<open>None\<close> for an invalid handle.\<close>

definition rdp_peer_get_vcm_fd :: "(handle \<Rightarrow> int option) \<Rightarrow> peer_ctx \<Rightarrow> int" where
  "rdp_peer_get_vcm_fd fd_of ctx =
    (case pc_gfx_vcm ctx of None \<Rightarrow> - 1 | Some vcm \<Rightarrow> (case fd_of vcm of None \<Rightarrow> - 1 | Some fd \<Rightarrow> fd))"

section \<open>Polling the channel manager\<close>

datatype drdynvc_state = DRDYNVC_STATE_FAILED | DRDYNVC_STATE_READY | DRDYNVC_STATE_OTHER

record open_answer =
  op_gfx :: chan_answer
  op_disp :: chan_answer
  op_clip :: chan_answer
  op_snd :: snd_answer

text \<open>The last part of \<open>rdp_peer_check_vcm\<close>: all channels are opened, failures are only logged.\<close>

definition open_channels :: "open_answer \<Rightarrow> peer_ctx \<Rightarrow> clipboard \<Rightarrow> peer_ctx \<times> clipboard \<times> call list" where
  "open_channels a ctx clip =
    (let (ok1, ctx1, cs1) = gfx_open (op_gfx a) ctx;
         (ok2, ctx2, cs2) = disp_open (op_disp a) ctx1;
         (ctx3, clip3, cs3) =
           (if pc_clipboard ctx2
            then (let (ok, clip', cs) = clipboard_open_cliprdr (op_clip a) clip
                  in if ok then (ctx2\<lparr>pc_cliprdr_context := cb_cliprdr clip', pc_cliprdr_opened := True\<rparr>, clip', cs)
                     else (ctx2, clip', cs))
            else (ctx2, clip, []));
         (ok4, ctx4, cs4) = rdpsnd_open (op_snd a) ctx3
     in (ctx4, clip3, cs1 @ cs2 @ cs3 @ cs4))"

text \<open>
  The part of the worker's state that the callbacks of one connection share. The server's
  state extends it.
\<close>

record sess =
  ss_ctx :: peer_ctx
  ss_clip :: clipboard
  ss_trace :: "call list"

text \<open>
  \<open>pump\<close> is \<open>WTSVirtualChannelManagerCheckFileDescriptor\<close>, which runs the channel callbacks on the state;
  \<open>state\<close> is the answer of \<open>WTSVirtualChannelManagerGetDrdynvcState\<close>.
\<close>

definition rdp_peer_check_vcm ::
    "('a sess_scheme \<Rightarrow> bool \<times> 'a sess_scheme) \<Rightarrow> drdynvc_state \<Rightarrow> open_answer \<Rightarrow> 'a sess_scheme
       \<Rightarrow> bool \<times> 'a sess_scheme" where
  "rdp_peer_check_vcm pump state a s =
    (if pc_gfx_vcm (ss_ctx s) = None then (True, s)
     else if pc_gfx_opened (ss_ctx s) \<or> pc_gfx_ready (ss_ctx s) then pump s
     else
       (let (ok, s1) = pump s in
        if \<not> ok \<or> state = DRDYNVC_STATE_FAILED
        then (let (ctx, clip, cs) = gfx_cleanup (ss_ctx s1) (ss_clip s1)
              in (True, s1\<lparr>ss_ctx := ctx, ss_clip := clip, ss_trace := ss_trace s1 @ cs\<rparr>))
        else if state \<noteq> DRDYNVC_STATE_READY then (True, s1)
        else (let (ctx, clip, cs) = open_channels a (ss_ctx s1) (ss_clip s1)
              in (True, s1\<lparr>ss_ctx := ctx, ss_clip := clip, ss_trace := ss_trace s1 @ cs\<rparr>))))"

section \<open>Sending frames\<close>

text \<open>The arguments of \<open>rdp_peer_send_frame\<close>; \<open>fr_data\<close> tells whether \<open>data\<close> is not NULL.\<close>

record frame =
  fr_data :: bool
  fr_len :: u32
  fr_aux_len :: u32
  fr_meta :: "h264_metablock option"
  fr_aux_meta :: "h264_metablock option"
  fr_lc :: u8
  fr_width :: u32
  fr_height :: u32

record frame_answer =
  fa_start :: bool
  fa_command :: bool
  fa_end :: bool
  fa_bits :: bool

text \<open>StartFrame, SurfaceCommand, EndFrame with a new frame id; the first failure ends the frame.\<close>

definition send_gfx_command :: "frame_answer \<Rightarrow> peer_ctx \<Rightarrow> surface_cmd \<Rightarrow> bool \<times> peer_ctx \<times> call list" where
  "send_gfx_command a ctx cmd =
    (let ctx1 = ctx\<lparr>pc_gfx_frame_id := pc_gfx_frame_id ctx + 1\<rparr>; n = pc_gfx_frame_id ctx1 in
     case pc_gfx_context ctx1 of
       None \<Rightarrow> (False, ctx1, [Crash NullDereference])
     | Some gfx \<Rightarrow>
       if \<not> fa_start a then (False, ctx1, [Gfx (GfxStartFrame n)])
       else if \<not> fa_command a then (False, ctx1, [Gfx (GfxStartFrame n), Gfx (GfxSurfaceCommand cmd)])
       else (fa_end a, ctx1, [Gfx (GfxStartFrame n), Gfx (GfxSurfaceCommand cmd), Gfx (GfxEndFrame n)]))"

definition send_gfx_avc420 :: "frame_answer \<Rightarrow> peer_ctx \<Rightarrow> frame \<Rightarrow> bool \<times> peer_ctx \<times> call list" where
  "send_gfx_avc420 a ctx f =
    (if fr_meta f = None \<or> numRegionRects (the (fr_meta f)) = 0 \<or> fr_len f = 0 then (True, ctx, [])
     else send_gfx_command a ctx
       \<lparr>cmd_surface = pc_gfx_surface_id ctx, cmd_codec = CodecAVC420, cmd_right = fr_width f,
        cmd_bottom = fr_height f, cmd_length = fr_len f, cmd_extra = None\<rparr>)"

text \<open>
  \<open>cmd_extra\<close>: the size of the first bitstream with its metablock (4 bytes and 10 per region), and LC.
\<close>

definition send_gfx_avc444 :: "bool \<Rightarrow> frame_answer \<Rightarrow> peer_ctx \<Rightarrow> frame \<Rightarrow> bool \<times> peer_ctx \<times> call list" where
  "send_gfx_avc444 is_avc444v2 a ctx f =
    (if fr_meta f = None \<or> fr_aux_meta f = None \<or> (fr_len f = 0 \<and> fr_aux_len f = 0) then (True, ctx, [])
     else send_gfx_command a ctx
       \<lparr>cmd_surface = pc_gfx_surface_id ctx, cmd_codec = (if is_avc444v2 then CodecAVC444v2 else CodecAVC444),
        cmd_right = fr_width f, cmd_bottom = fr_height f, cmd_length = fr_len f + fr_aux_len f,
        cmd_extra = Some (4 + numRegionRects (the (fr_meta f)) * 10 + fr_len f, fr_lc f)\<rparr>)"

definition send_gfx_progressive :: "frame_answer \<Rightarrow> peer_ctx \<Rightarrow> frame \<Rightarrow> bool \<times> peer_ctx \<times> call list" where
  "send_gfx_progressive a ctx f =
    (if \<not> fr_data f \<or> fr_len f = 0 then (True, ctx, [])
     else send_gfx_command a ctx
       \<lparr>cmd_surface = pc_gfx_surface_id ctx, cmd_codec = CodecProgressive, cmd_right = fr_width f,
        cmd_bottom = fr_height f, cmd_length = fr_len f, cmd_extra = None\<rparr>)"

definition send_surface_bits :: "frame_answer \<Rightarrow> rdp_settings \<Rightarrow> frame \<Rightarrow> bool \<times> call list" where
  "send_surface_bits a st f =
    (fa_bits a,
     [Peer (PeerSurfaceBits \<lparr>cmd_surface = 0, cmd_codec = (if set_nscodec st then CodecNSCodec else CodecNone),
        cmd_right = fr_width f, cmd_bottom = fr_height f, cmd_length = fr_len f, cmd_extra = None\<rparr>)])"

definition rdp_peer_send_frame ::
    "frame_answer \<Rightarrow> rdp_settings \<Rightarrow> peer_ctx \<Rightarrow> frame \<Rightarrow> bool \<times> peer_ctx \<times> call list" where
  "rdp_peer_send_frame a st ctx f =
    (let bits = (let (ok, cs) = send_surface_bits a st f in (ok, ctx, cs)) in
     if pc_gfx_ready ctx
     then (case pc_send_mode ctx of
             WLRDP_SEND_GFX_AVC444V2 \<Rightarrow> send_gfx_avc444 True a ctx f
           | WLRDP_SEND_GFX_AVC444 \<Rightarrow> send_gfx_avc444 False a ctx f
           | WLRDP_SEND_GFX_AVC420 \<Rightarrow> send_gfx_avc420 a ctx f
           | WLRDP_SEND_GFX_PROGRESSIVE \<Rightarrow> send_gfx_progressive a ctx f
           | WLRDP_SEND_SURFACE_BITS \<Rightarrow> bits)
     else bits)"

section \<open>Size updates and audio\<close>

definition rdp_peer_update_size :: "surface_answer \<Rightarrow> peer_ctx \<Rightarrow> u32 \<Rightarrow> u32 \<Rightarrow> peer_ctx \<times> call list" where
  "rdp_peer_update_size a ctx width height =
    (let ctx1 = ctx\<lparr>pc_width := width, pc_height := height\<rparr> in
     if pc_gfx_ready ctx1 \<and> pc_gfx_context ctx1 \<noteq> None
     then (let (ok, ctx2, cs) = gfx_create_surface a ctx1 width height in (ctx2, cs)) else (ctx1, []))"

text \<open>\<open>ms\<close> is the monotonic clock in milliseconds; the time stamp keeps its low 16 bits.\<close>

definition rdp_peer_send_audio :: "nat \<Rightarrow> bool \<Rightarrow> peer_ctx \<Rightarrow> u32 \<Rightarrow> bool \<times> call list" where
  "rdp_peer_send_audio ms sent ctx n_frames =
    (if \<not> pc_rdpsnd_ready ctx \<or> pc_rdpsnd_context ctx = None then (False, [])
     else (sent, [Snd SndHandleMessages, Snd (SndSendSamples n_frames (of_nat (ms mod 65536)))]))"

end
