(* ===== verification/Encoder.thy ===== *)
theory Encoder
  imports Calls
begin

text \<open>
  The encoder (\<open>src/session/encoder.h\<close>, \<open>src/session/encoder.c\<close>): mode selection with the fallback to
  RAW, the four encode paths with their 32-bit size arithmetic, keyframe requests and destruction.
  What the codecs of FreeRDP produce is an argument of the operations.
\<close>

section \<open>State\<close>

datatype encoder_mode =
  WLRDP_ENCODER_RAW | WLRDP_ENCODER_NSAC | WLRDP_ENCODER_H264_FFMPEG | WLRDP_ENCODER_H264_FREERDP
  | WLRDP_ENCODER_PROGRESSIVE | WLRDP_ENCODER_MAX

text \<open>What \<open>out_buf\<close> points to.\<close>

datatype out_buffer = ConvBuf | StreamBuf handle | CodecBuf

record encoder =
  enc_mode :: encoder_mode
  enc_width :: u32
  enc_height :: u32
  enc_format :: u32
  enc_avc444_version :: u8
  enc_out_buf :: "out_buffer option"
  enc_out_len :: u32
  enc_aux_buf :: "out_buffer option"
  enc_aux_len :: u32
  enc_is_keyframe :: bool
  enc_avc444_lc :: u8
  enc_h264_meta :: h264_metablock
  enc_h264_aux_meta :: h264_metablock
  enc_h264_ctx :: "handle option"
  enc_prog_ctx :: "handle option"
  enc_nsc_ctx :: "handle option"
  enc_nsc_stream :: "handle option"
  enc_conv_buf :: bool
  enc_conv_size :: u32

definition zero_meta :: h264_metablock where "zero_meta = \<lparr>numRegionRects = 0\<rparr>"

definition zero_encoder :: encoder where
  "zero_encoder = \<lparr>enc_mode = WLRDP_ENCODER_RAW, enc_width = 0, enc_height = 0, enc_format = 0,
     enc_avc444_version = 0, enc_out_buf = None, enc_out_len = 0, enc_aux_buf = None, enc_aux_len = 0,
     enc_is_keyframe = False, enc_avc444_lc = 0, enc_h264_meta = zero_meta, enc_h264_aux_meta = zero_meta,
     enc_h264_ctx = None, enc_prog_ctx = None, enc_nsc_ctx = None, enc_nsc_stream = None,
     enc_conv_buf = False, enc_conv_size = 0\<rparr>"

definition encoder_clear_h264_metadata :: "encoder \<Rightarrow> encoder" where
  "encoder_clear_h264_metadata enc = enc\<lparr>enc_h264_meta := zero_meta, enc_h264_aux_meta := zero_meta\<rparr>"

section \<open>Initialisation\<close>

record init_answer =
  ei_h264 :: "handle option"
  ei_h264_reset :: bool
  ei_prog :: "handle option"
  ei_prog_surface :: bool
  ei_nsc :: "handle option"
  ei_nsc_format :: bool
  ei_nsc_stream :: "handle option"

definition raw_init :: "encoder \<Rightarrow> bool \<times> encoder" where
  "raw_init enc = (True, enc\<lparr>enc_mode := WLRDP_ENCODER_RAW\<rparr>)"

definition nsc_init :: "init_answer \<Rightarrow> encoder \<Rightarrow> bool \<times> encoder \<times> call list" where
  "nsc_init a enc =
    (case ei_nsc a of
       None \<Rightarrow> (False, enc, [])
     | Some nsc \<Rightarrow>
       let cs = [Enc (EncNscNew nsc), Enc (EncNscParameters nsc (enc_format enc))] in
       if \<not> ei_nsc_format a then (False, enc, cs @ [Enc (EncNscFree nsc)])
       else case ei_nsc_stream a of
         None \<Rightarrow> (False, enc, cs @ [Enc (EncNscFree nsc)])
       | Some st \<Rightarrow>
         (True, enc\<lparr>enc_nsc_ctx := Some nsc, enc_nsc_stream := Some st, enc_mode := WLRDP_ENCODER_NSAC\<rparr>,
          cs @ [Enc (EncStreamNew st (enc_width enc * enc_height enc * 4))]))"

definition h264_init :: "init_answer \<Rightarrow> encoder \<Rightarrow> bool \<times> encoder \<times> call list" where
  "h264_init a enc =
    (case ei_h264 a of
       None \<Rightarrow> (False, enc\<lparr>enc_h264_ctx := None\<rparr>, [])
     | Some h \<Rightarrow>
       let cs = [Enc (EncH264New h), Enc (EncH264Options h), Enc (EncH264Reset h (enc_width enc) (enc_height enc))] in
       if \<not> ei_h264_reset a then (False, enc\<lparr>enc_h264_ctx := None\<rparr>, cs @ [Enc (EncH264Free h)])
       else (True, enc\<lparr>enc_h264_ctx := Some h, enc_mode := WLRDP_ENCODER_H264_FREERDP\<rparr>, cs))"

definition progressive_init :: "init_answer \<Rightarrow> encoder \<Rightarrow> bool \<times> encoder \<times> call list" where
  "progressive_init a enc =
    (case ei_prog a of
       None \<Rightarrow> (False, enc\<lparr>enc_prog_ctx := None\<rparr>, [])
     | Some h \<Rightarrow>
       let cs = [Enc (EncProgressiveNew h), Enc (EncProgressiveSurface h (enc_width enc) (enc_height enc))] in
       if \<not> ei_prog_surface a then (False, enc\<lparr>enc_prog_ctx := None\<rparr>, cs @ [Enc (EncProgressiveFree h)])
       else (True, enc\<lparr>enc_prog_ctx := Some h, enc_mode := WLRDP_ENCODER_PROGRESSIVE\<rparr>, cs))"

text \<open>The three attempts are guarded by the requested mode; whatever fails falls through to RAW.\<close>

definition encoder_init ::
    "init_answer \<Rightarrow> encoder_mode \<Rightarrow> u32 \<Rightarrow> u32 \<Rightarrow> u8 \<Rightarrow> u32 \<Rightarrow> bool \<times> encoder \<times> call list" where
  "encoder_init a mode width height version format =
    (let enc0 = zero_encoder\<lparr>enc_width := width, enc_height := height, enc_format := format,
                  enc_avc444_version := version\<rparr>;
         (ok1, enc1, cs1) = (if mode = WLRDP_ENCODER_H264_FREERDP then h264_init a enc0 else (False, enc0, []))
     in if ok1 then (True, enc1, cs1)
        else
          let (ok2, enc2, cs2) =
            (if mode = WLRDP_ENCODER_PROGRESSIVE then progressive_init a enc1 else (False, enc1, []))
          in if ok2 then (True, enc2, cs1 @ cs2)
             else
               let (ok3, enc3, cs3) = (if mode = WLRDP_ENCODER_NSAC then nsc_init a enc2 else (False, enc2, []))
               in if ok3 then (True, enc3, cs1 @ cs2 @ cs3)
                  else (let (ok4, enc4) = raw_init enc3 in (ok4, enc4, cs1 @ cs2 @ cs3)))"

section \<open>Encoding\<close>

text \<open>
  The answers of the codecs. \<open>ea_bpp\<close> is \<open>FreeRDPGetBitsPerPixel\<close>; \<open>ea_pos\<close> the position of the NSCodec
  stream after the message was composed; the other fields are the return code and the out-parameters
  of the compressors (whether a buffer was stored, its length, and the metadata).
\<close>

record enc_answer =
  ea_bpp :: "u32 \<Rightarrow> u32"
  ea_realloc :: bool
  ea_copy :: bool
  ea_compose :: bool
  ea_pos :: nat
  ea_union :: bool
  ea_rc :: int
  ea_out :: "out_buffer option"
  ea_out_len :: u32
  ea_aux :: "out_buffer option"
  ea_aux_len :: u32
  ea_meta :: h264_metablock
  ea_aux_meta :: h264_metablock
  ea_lc :: u8

definition dst_stride :: "enc_answer \<Rightarrow> encoder \<Rightarrow> u32" where
  "dst_stride a enc = (enc_width enc * ea_bpp a (enc_format enc) + 7) div 8"

definition needed_size :: "enc_answer \<Rightarrow> encoder \<Rightarrow> u32" where
  "needed_size a enc = dst_stride a enc * enc_height enc"

text \<open>The first half of \<open>raw_encode\<close> and \<open>nsc_encode\<close>: grow the conversion buffer, then copy.\<close>

definition convert_pixels :: "enc_answer \<Rightarrow> encoder \<Rightarrow> u32 \<Rightarrow> bool \<times> encoder \<times> call list" where
  "convert_pixels a enc stride =
    (let needed = needed_size a enc;
         copy = Enc (EncImageCopy (dst_stride a enc) (enc_width enc) (enc_height enc) stride)
     in if enc_conv_size enc < needed
        then (if \<not> ea_realloc a then (False, enc, [Enc (EncRealloc needed False)])
              else (ea_copy a, enc\<lparr>enc_conv_buf := True, enc_conv_size := needed\<rparr>,
                    [Enc (EncRealloc needed True), copy]))
        else (ea_copy a, enc, [copy]))"

definition raw_encode :: "enc_answer \<Rightarrow> encoder \<Rightarrow> u32 \<Rightarrow> bool \<times> encoder \<times> call list" where
  "raw_encode a enc stride =
    (let (ok, enc1, cs) = convert_pixels a enc stride in
     if \<not> ok then (False, enc1, cs)
     else (True, enc1\<lparr>enc_out_buf := (if enc_conv_buf enc1 then Some ConvBuf else None),
             enc_out_len := needed_size a enc1, enc_aux_buf := None, enc_aux_len := 0,
             enc_is_keyframe := True\<rparr>, cs))"

definition nsc_encode :: "enc_answer \<Rightarrow> encoder \<Rightarrow> u32 \<Rightarrow> bool \<times> encoder \<times> call list" where
  "nsc_encode a enc stride =
    (let (ok, enc1, cs) = convert_pixels a enc stride in
     if \<not> ok then (False, enc1, cs)
     else case (enc_nsc_ctx enc1, enc_nsc_stream enc1) of
       (Some nsc, Some st) \<Rightarrow>
         let cs1 = cs @ [Enc (EncNscCompose nsc (enc_width enc1) (enc_height enc1) (dst_stride a enc1))] in
         if \<not> ea_compose a then (False, enc1, cs1)
         else (True, enc1\<lparr>enc_out_buf := Some (StreamBuf st), enc_out_len := word_of_nat (ea_pos a),
                 enc_aux_buf := None, enc_aux_len := 0, enc_is_keyframe := True\<rparr>, cs1)
     | _ \<Rightarrow> (False, enc1, cs @ [Crash NullDereference]))"

definition h264_encode :: "enc_answer \<Rightarrow> encoder \<Rightarrow> u32 \<Rightarrow> bool \<times> encoder \<times> call list" where
  "h264_encode a enc stride =
    (let enc1 = (encoder_clear_h264_metadata enc)\<lparr>enc_out_buf := None, enc_out_len := 0,
                  enc_aux_buf := None, enc_aux_len := 0, enc_avc444_lc := 0\<rparr>
     in case enc_h264_ctx enc1 of
       None \<Rightarrow> (False, enc1, [Crash NullDereference])
     | Some h \<Rightarrow>
       let (enc2, cs) =
         (if enc_avc444_version enc1 \<noteq> 0
          then (enc1\<lparr>enc_avc444_lc := ea_lc a, enc_out_buf := ea_out a, enc_out_len := ea_out_len a,
                     enc_aux_buf := ea_aux a, enc_aux_len := ea_aux_len a, enc_h264_meta := ea_meta a,
                     enc_h264_aux_meta := ea_aux_meta a\<rparr>,
                [Enc (EncAvc444Compress h stride (enc_width enc1) (enc_height enc1) (enc_avc444_version enc1))])
          else (enc1\<lparr>enc_out_buf := ea_out a, enc_out_len := ea_out_len a, enc_h264_meta := ea_meta a\<rparr>,
                [Enc (EncAvc420Compress h stride (enc_width enc1) (enc_height enc1))]))
       in if ea_rc a < 0 then (False, encoder_clear_h264_metadata enc2, cs)
          else (True, enc2\<lparr>enc_is_keyframe := True\<rparr>, cs))"

definition progressive_encode :: "enc_answer \<Rightarrow> encoder \<Rightarrow> u32 \<Rightarrow> bool \<times> encoder \<times> call list" where
  "progressive_encode a enc stride =
    (if \<not> ea_union a then (False, enc, [Enc EncRegionInit, Enc EncRegionUninit])
     else case enc_prog_ctx enc of
       None \<Rightarrow> (False, enc, [Enc EncRegionInit, Crash NullDereference])
     | Some h \<Rightarrow>
       let cs = [Enc EncRegionInit,
                 Enc (EncProgressiveCompress h (stride * enc_height enc) (enc_width enc) (enc_height enc) stride),
                 Enc EncRegionUninit];
           enc1 = enc\<lparr>enc_out_buf := ea_out a, enc_out_len := ea_out_len a\<rparr>
       in if ea_rc a < 0 then (False, enc1\<lparr>enc_out_buf := None, enc_out_len := 0\<rparr>, cs)
          else (True, enc1\<lparr>enc_aux_buf := None, enc_aux_len := 0, enc_is_keyframe := True\<rparr>, cs))"

definition encoder_encode :: "enc_answer \<Rightarrow> encoder \<Rightarrow> u32 \<Rightarrow> bool \<times> encoder \<times> call list" where
  "encoder_encode a enc stride =
    (case enc_mode enc of
       WLRDP_ENCODER_H264_FREERDP \<Rightarrow> h264_encode a enc stride
     | WLRDP_ENCODER_PROGRESSIVE \<Rightarrow> progressive_encode a enc stride
     | WLRDP_ENCODER_NSAC \<Rightarrow> nsc_encode a enc stride
     | _ \<Rightarrow> raw_encode a enc stride)"

definition encoder_request_keyframe :: "encoder \<Rightarrow> call list" where
  "encoder_request_keyframe enc =
    (if enc_mode enc = WLRDP_ENCODER_H264_FREERDP \<and> enc_h264_ctx enc \<noteq> None
     then [Enc (EncH264Reset (the (enc_h264_ctx enc)) (enc_width enc) (enc_height enc))]
     else if enc_mode enc = WLRDP_ENCODER_PROGRESSIVE \<and> enc_prog_ctx enc \<noteq> None
     then [Enc (EncProgressiveReset (the (enc_prog_ctx enc)))] else [])"

definition nsc_cleanup :: "encoder \<Rightarrow> encoder \<times> call list" where
  "nsc_cleanup enc =
    (enc\<lparr>enc_nsc_stream := None, enc_nsc_ctx := None\<rparr>,
     (case enc_nsc_stream enc of None \<Rightarrow> [] | Some st \<Rightarrow> [Enc (EncStreamFree st)])
       @ (case enc_nsc_ctx enc of None \<Rightarrow> [] | Some h \<Rightarrow> [Enc (EncNscFree h)]))"

definition raw_cleanup :: "encoder \<Rightarrow> encoder \<times> call list" where
  "raw_cleanup enc = (enc\<lparr>enc_conv_buf := False, enc_conv_size := 0\<rparr>, [Enc EncFree])"

definition encoder_destroy :: "encoder \<Rightarrow> encoder \<times> call list" where
  "encoder_destroy enc =
    (let enc0 = encoder_clear_h264_metadata enc;
         cs1 = (case enc_h264_ctx enc0 of None \<Rightarrow> [] | Some h \<Rightarrow> [Enc (EncH264Free h)]);
         enc1 = enc0\<lparr>enc_h264_ctx := None\<rparr>;
         cs2 = (case enc_prog_ctx enc1 of None \<Rightarrow> []
                | Some h \<Rightarrow> [Enc (EncProgressiveDeleteSurface h), Enc (EncProgressiveFree h)]);
         (enc3, cs3) = nsc_cleanup (enc1\<lparr>enc_prog_ctx := None\<rparr>);
         (enc4, cs4) = raw_cleanup enc3
     in (zero_encoder, cs1 @ cs2 @ cs3 @ cs4))"

section \<open>Well-formed encoders\<close>

text \<open>The codec contexts are exactly those of the mode.\<close>

definition enc_wf :: "encoder \<Rightarrow> bool" where
  "enc_wf enc \<longleftrightarrow>
     enc_mode enc \<noteq> WLRDP_ENCODER_H264_FFMPEG \<and> enc_mode enc \<noteq> WLRDP_ENCODER_MAX \<and>
     (enc_h264_ctx enc \<noteq> None \<longleftrightarrow> enc_mode enc = WLRDP_ENCODER_H264_FREERDP) \<and>
     (enc_prog_ctx enc \<noteq> None \<longleftrightarrow> enc_mode enc = WLRDP_ENCODER_PROGRESSIVE) \<and>
     (enc_nsc_ctx enc \<noteq> None \<longleftrightarrow> enc_mode enc = WLRDP_ENCODER_NSAC) \<and>
     (enc_nsc_stream enc \<noteq> None \<longleftrightarrow> enc_mode enc = WLRDP_ENCODER_NSAC)"

definition codec_resources :: "encoder \<Rightarrow> resource set" where
  "codec_resources enc = ResH264 ` set_option (enc_h264_ctx enc) \<union> ResProgressive ` set_option (enc_prog_ctx enc)
     \<union> ResNsc ` set_option (enc_nsc_ctx enc) \<union> ResStream ` set_option (enc_nsc_stream enc)"

text \<open>The conversion buffer with its recorded size, and the resource that it is.\<close>

definition conv_buffer :: "encoder \<Rightarrow> u32 option" where
  "conv_buffer enc = (if enc_conv_buf enc then Some (enc_conv_size enc) else None)"

definition conv_resource :: "u32 option \<Rightarrow> resource set" where
  "conv_resource b = (if b = None then {} else {ResConvBuf})"

definition enc_resources :: "encoder \<Rightarrow> resource set" where
  "enc_resources enc = codec_resources enc \<union> conv_resource (conv_buffer enc)"

text \<open>No library call of the requested mode fails.\<close>

definition init_succeeds :: "init_answer \<Rightarrow> encoder_mode \<Rightarrow> bool" where
  "init_succeeds a mode \<longleftrightarrow>
     (case mode of
        WLRDP_ENCODER_H264_FREERDP \<Rightarrow> ei_h264 a \<noteq> None \<and> ei_h264_reset a
      | WLRDP_ENCODER_PROGRESSIVE \<Rightarrow> ei_prog a \<noteq> None \<and> ei_prog_surface a
      | WLRDP_ENCODER_NSAC \<Rightarrow> ei_nsc a \<noteq> None \<and> ei_nsc_format a \<and> ei_nsc_stream a \<noteq> None
      | WLRDP_ENCODER_RAW \<Rightarrow> True
      | _ \<Rightarrow> False)"

lemmas enc_init_defs = encoder_init_def h264_init_def progressive_init_def nsc_init_def raw_init_def
  zero_encoder_def Let_def

lemmas enc_res_defs = enc_resources_def codec_resources_def conv_resource_def conv_buffer_def

lemma encoder_init_facts:
  assumes "encoder_init a mode w h v f = (ok, enc, cs)"
  shows "ok" "enc_wf enc" "held cs {} = enc_resources enc"
    "enc_width enc = w" "enc_height enc = h" "enc_format enc = f" "enc_avc444_version enc = v"
    "enc_mode enc = (if init_succeeds a mode then mode else WLRDP_ENCODER_RAW)"
    "enc_conv_size enc = 0" "\<not> enc_conv_buf enc" "conv_alloc cs None = None"
  using assms
  by (cases mode; auto simp: enc_init_defs enc_wf_def enc_res_defs init_succeeds_def
      split: option.splits if_splits)+

text \<open>
  Starting the encoder never fails. It ends in the requested mode if the libraries allow it and
  in RAW otherwise, with the requested geometry, exactly the contexts of its mode allocated, and
  everything that a failed attempt had allocated given back.
\<close>

theorem encoder_init_total:
  assumes "encoder_init a mode w h v f = (ok, enc, cs)"
  shows "ok \<and> enc_wf enc \<and> held cs {} = enc_resources enc \<and>
     enc_width enc = w \<and> enc_height enc = h \<and> enc_format enc = f \<and> enc_avc444_version enc = v \<and>
     enc_mode enc = (if init_succeeds a mode then mode else WLRDP_ENCODER_RAW)"
  using encoder_init_facts [OF assms] by simp

definition demo_init_answer :: init_answer where
  "demo_init_answer = \<lparr>ei_h264 = Some 1, ei_h264_reset = False, ei_prog = Some 2, ei_prog_surface = True,
     ei_nsc = Some 3, ei_nsc_format = True, ei_nsc_stream = Some 4\<rparr>"

theorem encoder_init_total_witness:
  "\<exists>enc cs. encoder_init demo_init_answer WLRDP_ENCODER_H264_FREERDP 1920 1080 0 0 = (True, enc, cs) \<and>
     enc_mode enc = WLRDP_ENCODER_RAW \<and> held cs {} = {}"
proof -
  obtain ok enc cs where r:
    "encoder_init demo_init_answer WLRDP_ENCODER_H264_FREERDP 1920 1080 0 0 = (ok, enc, cs)"
    by (metis prod_cases3)
  from encoder_init_total [OF r]
  have "ok" "enc_mode enc = WLRDP_ENCODER_RAW" "enc_wf enc" "held cs {} = enc_resources enc"
    by (simp_all add: demo_init_answer_def init_succeeds_def)
  then show ?thesis using r encoder_init_facts(10) [OF r] by (auto simp: enc_wf_def enc_res_defs)
qed

section \<open>A session of encodes\<close>

text \<open>What no encode changes: mode, geometry and contexts.\<close>

definition same_codec :: "encoder \<Rightarrow> encoder \<Rightarrow> bool" where
  "same_codec enc enc' \<longleftrightarrow>
     enc_mode enc' = enc_mode enc \<and> enc_h264_ctx enc' = enc_h264_ctx enc \<and>
     enc_prog_ctx enc' = enc_prog_ctx enc \<and> enc_nsc_ctx enc' = enc_nsc_ctx enc \<and>
     enc_nsc_stream enc' = enc_nsc_stream enc \<and> enc_width enc' = enc_width enc \<and>
     enc_height enc' = enc_height enc \<and> enc_format enc' = enc_format enc \<and>
     enc_avc444_version enc' = enc_avc444_version enc"

text \<open>
  A call of an encode gives nothing back and allocates at most the conversion buffer. An encode keeps the
  mode, and what the encoder knows of the buffer is what the calls made of it.
\<close>

fun quiet :: "call \<Rightarrow> bool" where
  "quiet (Enc c) \<longleftrightarrow> acquires (Enc c) \<in> {None, Some ResConvBuf} \<and> releases (Enc c) = None"
| "quiet _ \<longleftrightarrow> False"

definition encodes_quietly :: "encoder \<Rightarrow> bool \<times> encoder \<times> call list \<Rightarrow> bool" where
  "encodes_quietly enc r \<longleftrightarrow> same_codec enc (fst (snd r)) \<and> list_all quiet (snd (snd r)) \<and>
     conv_alloc (snd (snd r)) (conv_buffer enc) = conv_buffer (fst (snd r)) \<and>
     (enc_conv_buf enc \<or> enc_conv_size enc = 0 \<longrightarrow> enc_conv_buf (fst (snd r)) \<or> enc_conv_size (fst (snd r)) = 0)"

lemma convert_pixels_quiet: "encodes_quietly enc (convert_pixels a enc stride)"
  by (simp add: encodes_quietly_def convert_pixels_def same_codec_def conv_buffer_def Let_def)

lemma raw_encode_quiet: "encodes_quietly enc (raw_encode a enc stride)"
  using convert_pixels_quiet [of enc a stride]
  by (simp add: raw_encode_def encodes_quietly_def same_codec_def conv_buffer_def split_beta)

lemma nsc_encode_quiet:
  assumes "enc_nsc_ctx enc \<noteq> None" "enc_nsc_stream enc \<noteq> None"
  shows "encodes_quietly enc (nsc_encode a enc stride)"
proof -
  obtain ok enc1 cs where c: "convert_pixels a enc stride = (ok, enc1, cs)" by (metis prod_cases3)
  note q = convert_pixels_quiet [of enc a stride, unfolded c encodes_quietly_def fst_conv snd_conv]
  obtain nsc st where "enc_nsc_ctx enc1 = Some nsc" "enc_nsc_stream enc1 = Some st"
    using q assms by (auto simp: same_codec_def)
  moreover have "same_codec enc (enc1\<lparr>enc_out_buf := b, enc_out_len := n, enc_aux_buf := None, enc_aux_len := 0,
      enc_is_keyframe := True\<rparr>)" for b n
    using q by (simp add: same_codec_def)
  ultimately show ?thesis
    using q c by (cases "ea_compose a"; cases ok) (auto simp: nsc_encode_def encodes_quietly_def conv_buffer_def Let_def)
qed

lemma h264_encode_quiet:
  assumes "enc_h264_ctx enc \<noteq> None"
  shows "encodes_quietly enc (h264_encode a enc stride)"
  using assms
  by (simp add: h264_encode_def encodes_quietly_def same_codec_def encoder_clear_h264_metadata_def
      conv_buffer_def Let_def split: option.split)

lemma progressive_encode_quiet:
  assumes "enc_prog_ctx enc \<noteq> None"
  shows "encodes_quietly enc (progressive_encode a enc stride)"
  using assms
  by (cases "ea_rc a < 0")
    (auto simp: progressive_encode_def encodes_quietly_def same_codec_def conv_buffer_def Let_def)

lemma encoder_encode_quiet: "enc_wf enc \<Longrightarrow> encodes_quietly enc (encoder_encode a enc stride)"
  by (cases "enc_mode enc")
    (simp_all add: encoder_encode_def enc_wf_def raw_encode_quiet nsc_encode_quiet h264_encode_quiet
      progressive_encode_quiet)

lemma quiet_no_crash: "quiet c \<Longrightarrow> c \<noteq> Crash f"
  by (cases c) auto

lemma quiet_held:
  "list_all quiet cs \<Longrightarrow> held cs (R \<union> conv_resource b) = R \<union> conv_resource (conv_alloc cs b)"
proof (induction cs arbitrary: b)
  case (Cons c cs)
  then obtain e where c: "c = Enc e" by (cases c) auto
  have IH: "held cs (R \<union> conv_resource b) = R \<union> conv_resource (conv_alloc cs b)" for b
    using Cons by simp
  show ?case
  proof (cases e)
    case (EncRealloc n ok)
    have "insert ResConvBuf (R \<union> conv_resource b) = R \<union> conv_resource (Some n)"
      by (auto simp: conv_resource_def)
    then show ?thesis using IH [of "Some n"] IH [of b] c EncRealloc by (cases ok) simp_all
  qed (use IH [of b] Cons.prems c in simp_all)
qed simp

lemma encoder_encode_frame:
  assumes "encoder_encode a enc stride = (ok, enc', cs)" "enc_wf enc"
  shows "same_codec enc enc'" "list_all quiet cs" "conv_alloc cs (conv_buffer enc) = conv_buffer enc'"
    "enc_conv_buf enc \<or> enc_conv_size enc = 0 \<Longrightarrow> enc_conv_buf enc' \<or> enc_conv_size enc' = 0"
  using encoder_encode_quiet [OF assms(2), of a stride] assms(1) by (simp_all add: encodes_quietly_def)

lemma same_codec_keeps:
  "same_codec enc enc' \<Longrightarrow> enc_wf enc' = enc_wf enc"
  "same_codec enc enc' \<Longrightarrow> codec_resources enc' = codec_resources enc"
  by (simp_all add: same_codec_def enc_wf_def codec_resources_def)

lemma enc_wf_encode [inv_intros]:
  "encoder_encode a enc stride = (ok, enc', cs) \<Longrightarrow> enc_wf enc \<Longrightarrow> enc_wf enc'"
  using encoder_encode_frame(1) same_codec_keeps(1) by blast

lemma encoder_destroy_held:
  "enc_wf enc \<Longrightarrow> held (snd (encoder_destroy enc)) (enc_resources enc) = {}"
  by (auto simp: encoder_destroy_def nsc_cleanup_def raw_cleanup_def encoder_clear_h264_metadata_def
      enc_res_defs enc_wf_def Let_def split: option.splits)

text \<open>Frames encoded one after the other, each with the answers of the codecs for it.\<close>

fun encode_frames :: "(enc_answer \<times> u32) list \<Rightarrow> encoder \<Rightarrow> encoder \<times> call list" where
  "encode_frames [] enc = (enc, [])"
| "encode_frames ((a, stride) # fs) enc =
     (let (ok, enc1, cs1) = encoder_encode a enc stride; (enc2, cs2) = encode_frames fs enc1
      in (enc2, cs1 @ cs2))"

lemma encode_frames_keeps:
  "encode_frames fs enc = (enc', cs) \<Longrightarrow> enc_wf enc \<Longrightarrow>
     same_codec enc enc' \<and> list_all quiet cs \<and> conv_alloc cs (conv_buffer enc) = conv_buffer enc' \<and>
     (enc_conv_buf enc \<or> enc_conv_size enc = 0 \<longrightarrow> enc_conv_buf enc' \<or> enc_conv_size enc' = 0)"
proof (induction fs arbitrary: enc cs)
  case Nil
  then show ?case by (simp add: same_codec_def)
next
  case (Cons x fs)
  obtain a stride where x: "x = (a, stride)" by (cases x)
  obtain ok enc1 cs1 where e: "encoder_encode a enc stride = (ok, enc1, cs1)" by (metis prod_cases3)
  obtain cs2 where f: "encode_frames fs enc1 = (enc', cs2)" "cs = cs1 @ cs2"
    using Cons.prems(1) x e by (auto split: prod.splits)
  note one = encoder_encode_frame [OF e Cons.prems(2)]
    and rest = Cons.IH [OF f(1) enc_wf_encode [OF e Cons.prems(2)]]
  have "same_codec enc enc'" using rest one(1) by (simp add: same_codec_def)
  then show ?case using rest one(2-4) f(2) by auto
qed

text \<open>
  C17: the life of an encoder. Whatever the codecs answer and however many frames are encoded, the
  mode does not change, no path dereferences a missing context, and after the destruction
  nothing that the encoder allocated is left, neither a codec context nor the conversion buffer, and its
  state is the zeroed one.
\<close>

theorem encoder_lifecycle:
  assumes "encoder_init a mode w h v f = (ok, enc, cs1)" "encode_frames fs enc = (enc', cs2)"
    and "encoder_destroy enc' = (enc'', cs3)"
  shows "enc_mode enc' = enc_mode enc \<and> Crash x \<notin> set cs2 \<and> held (cs1 @ cs2 @ cs3) {} = {} \<and>
     conv_alloc (cs1 @ cs2 @ cs3) None = None \<and> enc'' = zero_encoder"
proof -
  note init = encoder_init_facts [OF assms(1)]
  have same: "same_codec enc enc'" and quiet: "list_all quiet cs2"
    and buf: "conv_alloc cs2 (conv_buffer enc) = conv_buffer enc'"
    using encode_frames_keeps [OF assms(2) init(2)] by blast+
  have "held cs2 (enc_resources enc) = enc_resources enc'"
    using quiet_held [OF quiet] same_codec_keeps(2) [OF same] buf by (simp add: enc_resources_def)
  moreover have "held cs3 (enc_resources enc') = {}"
    using encoder_destroy_held [of enc'] same_codec_keeps(1) [OF same] init(2) assms(3) by simp
  moreover have "enc'' = zero_encoder" "conv_alloc cs3 b = None" for b
    using assms(3) by (auto simp: encoder_destroy_def nsc_cleanup_def raw_cleanup_def Let_def
        split: prod.splits option.splits)
  moreover have "Crash x \<notin> set cs2" using quiet quiet_no_crash by (auto simp: list_all_iff)
  ultimately show ?thesis using init(3) same by (simp add: same_codec_def)
qed

definition demo_enc_answer :: enc_answer where
  "demo_enc_answer = \<lparr>ea_bpp = (\<lambda>_. 32), ea_realloc = True, ea_copy = True, ea_compose = True,
     ea_pos = 100, ea_union = True, ea_rc = 0, ea_out = Some CodecBuf, ea_out_len = 50, ea_aux = None,
     ea_aux_len = 0, ea_meta = \<lparr>numRegionRects = 1\<rparr>, ea_aux_meta = zero_meta, ea_lc = 0\<rparr>"

theorem encoder_lifecycle_witness:
  "\<exists>enc cs1 enc' cs2. encoder_init demo_init_answer WLRDP_ENCODER_NSAC 64 64 0 0 = (True, enc, cs1) \<and>
     encode_frames [(demo_enc_answer, 256), (demo_enc_answer, 256)] enc = (enc', cs2) \<and>
     conv_alloc (cs1 @ cs2) None = Some 16384 \<and>
     held (cs1 @ cs2 @ snd (encoder_destroy enc')) {} = {}"
proof -
  obtain ok enc cs1 where r: "encoder_init demo_init_answer WLRDP_ENCODER_NSAC 64 64 0 0 = (ok, enc, cs1)"
    by (metis prod_cases3)
  obtain enc' cs2 where e: "encode_frames [(demo_enc_answer, 256), (demo_enc_answer, 256)] enc = (enc', cs2)"
    by (metis prod.collapse)
  obtain enc'' cs3 where d: "encoder_destroy enc' = (enc'', cs3)" by (metis prod.collapse)
  have "conv_alloc (cs1 @ cs2) None = Some 16384"
    using r e by (auto simp: demo_init_answer_def demo_enc_answer_def enc_init_defs encoder_encode_def nsc_encode_def
        convert_pixels_def needed_size_def dst_stride_def)
  with encoder_lifecycle [OF r e d] r e d encoder_init_facts(1) [OF r] show ?thesis by auto
qed

section \<open>The conversion buffer\<close>

lemma dst_stride_covers:
  assumes "unat (enc_width enc) * unat (ea_bpp a (enc_format enc)) + 7 < 2 ^ 32"
  shows "unat (enc_width enc) * unat (ea_bpp a (enc_format enc)) \<le> 8 * unat (dst_stride a enc)"
proof -
  have "unat (enc_width enc * ea_bpp a (enc_format enc) + 7) =
      unat (enc_width enc) * unat (ea_bpp a (enc_format enc)) + 7"
    using assms by (simp add: unat_word_ariths)
  then have "unat (dst_stride a enc) = (unat (enc_width enc) * unat (ea_bpp a (enc_format enc)) + 7) div 8"
    by (simp add: dst_stride_def unat_div)
  then show ?thesis by linarith
qed

lemma needed_size_exact:
  assumes "unat (dst_stride a enc) * unat (enc_height enc) < 2 ^ 32"
  shows "unat (needed_size a enc) = unat (dst_stride a enc) * unat (enc_height enc)"
  using assms by (simp add: needed_size_def unat_word_ariths)

lemma dst_stride_exact:
  assumes "unat (enc_width enc) * unat (ea_bpp a (enc_format enc)) + 7 < 2 ^ 32"
  shows "unat (dst_stride a enc) = (unat (enc_width enc) * unat (ea_bpp a (enc_format enc)) + 7) div 8"
  using assms by (simp add: dst_stride_def unat_div unat_word_ariths)

text \<open>The copies of an encode: at most one, after the buffer has grown if it has to.\<close>

lemma encode_copy:
  assumes "encoder_encode a enc stride = (ok, enc', cs)"
    and "cs = pre @ Enc (EncImageCopy ds cw ch st) # post"
  shows "ds = dst_stride a enc" "cw = enc_width enc" "ch = enc_height enc" "st = stride"
    "conv_alloc pre (conv_buffer enc) =
       (if enc_conv_size enc < needed_size a enc then Some (needed_size a enc) else conv_buffer enc)"
proof -
  have "\<exists>pre' post'. snd (snd (convert_pixels a enc stride)) = pre' @ Enc (EncImageCopy ds cw ch st) # post' \<and> pre = pre'"
    using assms
    by (auto simp: encoder_encode_def raw_encode_def nsc_encode_def h264_encode_def progressive_encode_def
        Let_def append_eq_append_conv2 append_eq_Cons_conv Cons_eq_append_conv
        split: encoder_mode.splits prod.splits option.splits if_splits)
  then show "ds = dst_stride a enc" "cw = enc_width enc" "ch = enc_height enc" "st = stride"
    "conv_alloc pre (conv_buffer enc) =
       (if enc_conv_size enc < needed_size a enc then Some (needed_size a enc) else conv_buffer enc)"
    by (auto simp: convert_pixels_def Let_def append_eq_Cons_conv Cons_eq_append_conv split: if_splits)
qed





end
