(* ===== verification/Capture.thy ===== *)
theory Capture
  imports Calls
begin

text \<open>
  The screen capture (\<open>src/session/capture.h\<close>, \<open>src/session/capture.c\<close>): the shared-memory buffer and
  its reallocation, the events of a screencopy frame, set-up and destruction. The fields
  \<open>capturing\<close> and \<open>frame_ready\<close> of the struct are never used.
\<close>

section \<open>State\<close>

record capture =
  cap_display :: "handle option"
  cap_registry :: "handle option"
  cap_output :: "handle option"
  cap_shm :: "handle option"
  cap_mgr :: "handle option"
  cap_pool :: "handle option"
  cap_buffer :: "handle option"
  cap_pixels :: bool
  cap_shm_fd :: int
  cap_buf_size :: u32
  cap_width :: u32
  cap_height :: u32
  cap_stride :: u32
  cap_on_frame :: bool

definition zero_capture :: capture where
  "zero_capture = \<lparr>cap_display = None, cap_registry = None, cap_output = None, cap_shm = None,
     cap_mgr = None, cap_pool = None, cap_buffer = None, cap_pixels = False, cap_shm_fd = - 1,
     cap_buf_size = 0, cap_width = 0, cap_height = 0, cap_stride = 0, cap_on_frame = False\<rparr>"

section \<open>The shared-memory buffer\<close>

text \<open>\<open>al_shm\<close> is the descriptor that \<open>shm_open\<close> returns, \<open>None\<close> if it fails.\<close>

record alloc_answer =
  al_shm :: "int option"
  al_truncate :: bool
  al_mmap :: bool
  al_pool :: handle
  al_buffer :: handle

definition create_shm_file :: "alloc_answer \<Rightarrow> u32 \<Rightarrow> int \<times> call list" where
  "create_shm_file a bytes =
    (case al_shm a of
       None \<Rightarrow> (- 1, [])
     | Some fd \<Rightarrow>
       let cs = [Sys (SysShmOpen fd), Sys SysShmUnlink, Sys (SysFtruncate fd (unat bytes))] in
       if \<not> al_truncate a then (- 1, cs @ [Sys (SysClose fd)]) else (fd, cs))"

text \<open>The release of the old buffer, at the start of \<open>alloc_buffer\<close> and of \<open>capture_destroy\<close>.\<close>

definition release_buffer :: "capture \<Rightarrow> call list" where
  "release_buffer cap =
    destroy_opt WlBuffer (cap_buffer cap) @ destroy_opt WlShmPool (cap_pool cap)
      @ (if cap_pixels cap then [Sys (SysMunmap (unat (cap_buf_size cap)))] else [])
      @ (if 0 \<le> cap_shm_fd cap then [Sys (SysClose (cap_shm_fd cap))] else [])"

definition alloc_buffer :: "alloc_answer \<Rightarrow> capture \<Rightarrow> u32 \<Rightarrow> u32 \<Rightarrow> u32 \<Rightarrow> bool \<times> capture \<times> call list" where
  "alloc_buffer a cap width height stride =
    (let cs0 = release_buffer cap;
         size = stride * height;
         (fd, cs1) = create_shm_file a size;
         cap1 = cap\<lparr>cap_buffer := None, cap_pool := None, cap_pixels := False, cap_width := width,
                    cap_height := height, cap_stride := stride, cap_buf_size := size, cap_shm_fd := fd\<rparr>
     in if fd < 0 then (False, cap1, cs0 @ cs1)
        else if \<not> al_mmap a
        then (False, cap1, cs0 @ cs1 @ [Sys (SysMmap fd (unat size)), Sys (SysClose fd)])
        else (True, cap1\<lparr>cap_pixels := True, cap_pool := Some (al_pool a), cap_buffer := Some (al_buffer a)\<rparr>,
              cs0 @ cs1 @ [Sys (SysMmap fd (unat size)), Wl (ShmCreatePool fd size),
                           Wl (PoolCreateBuffer width height stride)]))"

section \<open>Frame events\<close>

text \<open>An unexpected pixel format is only logged.\<close>

definition frame_buffer ::
    "alloc_answer \<Rightarrow> capture \<Rightarrow> handle \<Rightarrow> u32 \<Rightarrow> u32 \<Rightarrow> u32 \<Rightarrow> u32 \<Rightarrow> capture \<times> call list" where
  "frame_buffer a cap frame format width height stride =
    (if width \<noteq> cap_width cap \<or> height \<noteq> cap_height cap \<or> stride \<noteq> cap_stride cap
     then (let (ok, cap1, cs) = alloc_buffer a cap width height stride
           in if \<not> ok then (cap1, cs @ [Wl (WlDestroy ScreencopyFrame frame)]) else (cap1, cs))
     else (cap, []))"

definition frame_buffer_done :: "capture \<Rightarrow> handle \<Rightarrow> call list" where
  "frame_buffer_done cap frame = [Wl (FrameCopy (cap_buffer cap))]"

text \<open>The last component are the arguments of the frame callback, if it is called.\<close>

definition frame_ready :: "capture \<Rightarrow> handle \<Rightarrow> call list \<times> (bool \<times> u32 \<times> u32 \<times> u32) option" where
  "frame_ready cap frame =
    ([Wl (WlDestroy ScreencopyFrame frame)],
     if cap_on_frame cap then Some (cap_pixels cap, cap_width cap, cap_height cap, cap_stride cap) else None)"

definition frame_failed :: "capture \<Rightarrow> handle \<Rightarrow> call list" where
  "frame_failed cap frame = [Wl (WlDestroy ScreencopyFrame frame)]"

section \<open>Set-up and tear-down\<close>

definition capture_registry_global :: "(u32 \<Rightarrow> handle) \<Rightarrow> capture \<Rightarrow> global \<Rightarrow> capture" where
  "capture_registry_global bind cap g =
    (if snd g = ''zwlr_screencopy_manager_v1'' then cap\<lparr>cap_mgr := Some (bind (fst g))\<rparr>
     else if snd g = ''wl_output''
     then (if cap_output cap = None then cap\<lparr>cap_output := Some (bind (fst g))\<rparr> else cap)
     else if snd g = ''wl_shm'' then cap\<lparr>cap_shm := Some (bind (fst g))\<rparr>
     else cap)"

definition capture_destroy :: "capture \<Rightarrow> capture \<times> call list" where
  "capture_destroy cap =
    (zero_capture,
     release_buffer cap @ destroy_opt ScreencopyManager (cap_mgr cap) @ destroy_opt WlOutput (cap_output cap)
       @ destroy_opt WlShm (cap_shm cap) @ destroy_opt WlRegistry (cap_registry cap)
       @ destroy_opt WlDisplay (cap_display cap))"

definition capture_init :: "wl_answer \<Rightarrow> bool \<Rightarrow> bool \<times> capture \<times> call list" where
  "capture_init a on_frame =
    (let cap0 = zero_capture\<lparr>cap_on_frame := on_frame\<rparr> in
     case wa_display a of
       None \<Rightarrow> (False, cap0, [])
     | Some d \<Rightarrow>
        (let cap1 = cap0\<lparr>cap_display := Some d, cap_registry := Some (wa_registry a)\<rparr>;
             cap2 = announce (capture_registry_global (wa_bind a)) (wa_globals a) cap1
         in if cap_mgr cap2 = None \<or> cap_output cap2 = None \<or> cap_shm cap2 = None
            then (let (cap3, cs) = capture_destroy cap2 in (False, cap3, cs))
            else (True, cap2, [])))"

definition capture_request_frame :: "bool \<Rightarrow> capture \<Rightarrow> bool \<times> call list" where
  "capture_request_frame made cap =
    (case cap_mgr cap of
       None \<Rightarrow> (False, [Crash NullDereference])
     | Some m \<Rightarrow> if \<not> made then (False, [Wl CaptureOutput]) else (True, [Wl CaptureOutput, Wl WlFlush]))"

section \<open>Lemmas\<close>

interpretation capture_mgr: global_binder "capture_registry_global bind" cap_mgr
    "''zwlr_screencopy_manager_v1''" for bind
  by unfold_locales (auto simp: capture_registry_global_def)

interpretation capture_output: global_binder "capture_registry_global bind" cap_output "''wl_output''" for bind
  by unfold_locales (auto simp: capture_registry_global_def)

interpretation capture_shm: global_binder "capture_registry_global bind" cap_shm "''wl_shm''" for bind
  by unfold_locales (auto simp: capture_registry_global_def)

lemma announce_capture_frame [simp]:
  "cap_display (announce (capture_registry_global bind) gs cap) = cap_display cap"
  "cap_on_frame (announce (capture_registry_global bind) gs cap) = cap_on_frame cap"
  by (rule announce_frame, simp add: capture_registry_global_def)+

text \<open>
  A usable buffer: allocated, mapped, of the size that its geometry needs (in 32-bit arithmetic),
  or the state before the first frame.
\<close>

definition cap_live :: "capture \<Rightarrow> bool" where
  "cap_live cap \<longleftrightarrow> cap_buffer cap \<noteq> None \<and> cap_pool cap \<noteq> None \<and> cap_pixels cap \<and> 0 \<le> cap_shm_fd cap \<and>
     cap_buf_size cap = cap_stride cap * cap_height cap"

definition cap_fresh :: "capture \<Rightarrow> bool" where
  "cap_fresh cap \<longleftrightarrow> cap_buffer cap = None \<and> cap_pool cap = None \<and> \<not> cap_pixels cap \<and> cap_shm_fd cap = - 1 \<and>
     cap_width cap = 0 \<and> cap_height cap = 0 \<and> cap_stride cap = 0"

definition cap_owned :: "capture \<Rightarrow> resource set" where
  "cap_owned cap = (if 0 \<le> cap_shm_fd cap then {ResShm (cap_shm_fd cap)} else {})"

text \<open>The kernel gives out memory, in a descriptor that is a descriptor.\<close>

definition alloc_ok :: "alloc_answer \<Rightarrow> bool" where
  "alloc_ok a \<longleftrightarrow> (case al_shm a of None \<Rightarrow> False | Some fd \<Rightarrow> 0 \<le> fd) \<and> al_truncate a \<and> al_mmap a"

lemma held_destroy_obj [simp]: "held (destroy_opt obj h) R = R"
  by (cases h) simp_all

lemma release_buffer_held: "held (release_buffer cap) R = R - cap_owned cap"
  by (simp add: release_buffer_def cap_owned_def)

lemma release_buffer_no_copy: "Wl (FrameCopy b) \<notin> set (release_buffer cap)"
  by (auto simp: release_buffer_def destroy_opt_def split: option.splits)

lemma alloc_buffer_ok:
  assumes "alloc_buffer a cap w h s = (ok, cap', cs)" "alloc_ok a"
  shows "ok" "cap_live cap'" "cap_width cap' = w" "cap_height cap' = h" "cap_stride cap' = s"
    "held cs (cap_owned cap) = cap_owned cap'" "Wl (FrameCopy b) \<notin> set cs" "cap_on_frame cap' = cap_on_frame cap"
    "cap_mgr cap' = cap_mgr cap"
proof -
  obtain fd where fd: "al_shm a = Some fd" "0 \<le> fd" "al_truncate a" "al_mmap a"
    using assms(2) by (auto simp: alloc_ok_def split: option.splits)
  have eq: "cap' = cap\<lparr>cap_width := w, cap_height := h, cap_stride := s, cap_buf_size := s * h,
      cap_shm_fd := fd, cap_pixels := True, cap_pool := Some (al_pool a), cap_buffer := Some (al_buffer a)\<rparr>"
    "cs = release_buffer cap @ [Sys (SysShmOpen fd), Sys SysShmUnlink, Sys (SysFtruncate fd (unat (s * h))),
      Sys (SysMmap fd (unat (s * h))), Wl (ShmCreatePool fd (s * h)), Wl (PoolCreateBuffer w h s)]" and "ok"
    using assms(1) fd by (auto simp: alloc_buffer_def create_shm_file_def Let_def)
  show ok by fact
  show "cap_live cap'" "cap_width cap' = w" "cap_height cap' = h" "cap_stride cap' = s"
    "cap_on_frame cap' = cap_on_frame cap" "cap_mgr cap' = cap_mgr cap"
    using fd by (simp_all add: eq(1) cap_live_def)
  show "held cs (cap_owned cap) = cap_owned cap'"
    using fd by (simp add: eq release_buffer_held) (simp add: cap_owned_def)
  show "Wl (FrameCopy b) \<notin> set cs"
    using release_buffer_no_copy by (simp add: eq(2))
qed

section \<open>A run of frames\<close>

datatype frame_event =
    EvBuffer alloc_answer handle u32 u32 u32 u32
  | EvBufferDone handle
  | EvReady handle
  | EvFailed handle

fun capture_event :: "frame_event \<Rightarrow> capture \<Rightarrow> capture \<times> call list \<times> (bool \<times> u32 \<times> u32 \<times> u32) option" where
  "capture_event (EvBuffer a fr fmt w h s) cap = (let (cap1, cs) = frame_buffer a cap fr fmt w h s in (cap1, cs, None))"
| "capture_event (EvBufferDone fr) cap = (cap, frame_buffer_done cap fr, None)"
| "capture_event (EvReady fr) cap = (let (cs, d) = frame_ready cap fr in (cap, cs, d))"
| "capture_event (EvFailed fr) cap = (cap, frame_failed cap fr, None)"

fun capture_run :: "frame_event list \<Rightarrow> capture \<Rightarrow> capture \<times> call list \<times> (bool \<times> u32 \<times> u32 \<times> u32) list" where
  "capture_run [] cap = (cap, [], [])"
| "capture_run (e # es) cap =
     (let (cap1, cs1, d) = capture_event e cap; (cap2, cs2, ds) = capture_run es cap1
      in (cap2, cs1 @ cs2, (case d of None \<Rightarrow> ds | Some x \<Rightarrow> x # ds)))"

fun event_allocs :: "frame_event \<Rightarrow> bool" where
  "event_allocs (EvBuffer a fr fmt w h s) = alloc_ok a"
| "event_allocs _ = True"

lemma capture_event_keeps:
  assumes "cap_live cap" "event_allocs e" "capture_event e cap = (cap', cs, d)"
  shows "cap_live cap'" "held cs (cap_owned cap) = cap_owned cap'" "Wl (FrameCopy None) \<notin> set cs"
    "d = None \<or> (\<exists>w h s. d = Some (True, w, h, s) \<and> cap_buf_size cap' = s * h)"
proof -
  have "cap_live cap' \<and> held cs (cap_owned cap) = cap_owned cap' \<and> Wl (FrameCopy None) \<notin> set cs \<and>
    (d = None \<or> (\<exists>w h s. d = Some (True, w, h, s) \<and> cap_buf_size cap' = s * h))"
  proof (cases e)
    case (EvBuffer a fr fmt w h s)
    obtain ok cap1 cs1 where al: "alloc_buffer a cap w h s = (ok, cap1, cs1)" by (metis prod_cases3)
    note keep = alloc_buffer_ok [OF al]
    show ?thesis
      using assms EvBuffer al keep by (auto simp: frame_buffer_def split: if_splits)
  next
    case (EvBufferDone fr)
    then show ?thesis using assms by (auto simp: frame_buffer_done_def cap_live_def)
  next
    case (EvReady fr)
    then show ?thesis using assms by (auto simp: frame_ready_def cap_live_def)
  next
    case (EvFailed fr)
    then show ?thesis using assms by (auto simp: frame_failed_def)
  qed
  then show "cap_live cap'" "held cs (cap_owned cap) = cap_owned cap'" "Wl (FrameCopy None) \<notin> set cs"
    "d = None \<or> (\<exists>w h s. d = Some (True, w, h, s) \<and> cap_buf_size cap' = s * h)" by blast+
qed

lemma capture_run_keeps:
  assumes "cap_live cap" "list_all event_allocs es" "capture_run es cap = (cap', cs, ds)"
  shows "cap_live cap' \<and> held cs (cap_owned cap) = cap_owned cap' \<and> Wl (FrameCopy None) \<notin> set cs \<and>
    list_all fst ds"
  using assms
proof (induction es arbitrary: cap cs ds)
  case Nil
  then show ?case by simp
next
  case (Cons e es)
  obtain cap1 cs1 d where e: "capture_event e cap = (cap1, cs1, d)" by (metis prod_cases3)
  obtain cs2 ds2 where r: "capture_run es cap1 = (cap', cs2, ds2)" "cs = cs1 @ cs2"
      "ds = (case d of None \<Rightarrow> ds2 | Some x \<Rightarrow> x # ds2)"
    using Cons.prems(3) e by (auto split: prod.splits)
  have "event_allocs e" "list_all event_allocs es" using Cons.prems(2) by simp_all
  note step = capture_event_keeps [OF Cons.prems(1) this(1) e] and IH = Cons.IH [OF _ this(2) r(1)]
  show ?case using step IH r(2,3) by (auto split: option.splits)
qed

section \<open>Properties\<close>

text \<open>
  C25: as long as the kernel gives out memory, a run of screencopy frames of any geometry (the first
  one not 0x0) never copies into a missing buffer, hands only mapped pixels to the encoder, keeps
  exactly one shared-memory file open, and the destruction closes it.
\<close>

theorem capture_run_safe:
  assumes "cap_fresh cap" "alloc_ok a" "(w, h, s) \<noteq> (0, 0, 0)" "list_all event_allocs es"
    and "capture_run (EvBuffer a fr fmt w h s # es) cap = (cap', cs, ds)"
  shows "cap_live cap' \<and> Wl (FrameCopy None) \<notin> set cs \<and> list_all fst ds \<and>
     held cs {} = {ResShm (cap_shm_fd cap')} \<and> held (cs @ snd (capture_destroy cap')) {} = {}"
proof -
  obtain ok cap1 cs1 where al: "alloc_buffer a cap w h s = (ok, cap1, cs1)" by (metis prod_cases3)
  note keep = alloc_buffer_ok [OF al assms(2)]
  have "w \<noteq> cap_width cap \<or> h \<noteq> cap_height cap \<or> s \<noteq> cap_stride cap"
    using assms(1,3) by (auto simp: cap_fresh_def)
  then have fb: "frame_buffer a cap fr fmt w h s = (cap1, cs1)"
    using al keep(1) by (simp add: frame_buffer_def)
  obtain cs2 where r: "capture_run es cap1 = (cap', cs2, ds)" "cs = cs1 @ cs2"
    using assms(5) fb by (auto split: prod.splits)
  have own: "cap_owned cap = {}" using assms(1) by (simp add: cap_fresh_def cap_owned_def)
  note run = capture_run_keeps [OF keep(2) assms(4) r(1)]
  have "held cs {} = cap_owned cap'" using keep(6) own run r(2) by simp
  moreover have "cap_owned cap' = {ResShm (cap_shm_fd cap')}"
    using run by (simp add: cap_live_def cap_owned_def)
  ultimately show ?thesis
    using run keep(7) r(2) by (simp add: capture_destroy_def release_buffer_held)
qed

definition demo_alloc :: "int \<Rightarrow> alloc_answer" where
  "demo_alloc fd = \<lparr>al_shm = Some fd, al_truncate = True, al_mmap = True, al_pool = 50, al_buffer = 51\<rparr>"

theorem capture_run_safe_witness:
  "\<exists>cap' cs ds. capture_run [EvBuffer (demo_alloc 7) 1 0 4 2 16, EvBufferDone 1, EvReady 1,
      EvBuffer (demo_alloc 8) 2 0 8 2 32, EvBufferDone 2, EvReady 2] zero_capture = (cap', cs, ds) \<and>
    held cs {} = {ResShm 8} \<and> Wl (FrameCopy None) \<notin> set cs"
proof -
  let ?es = "[EvBufferDone 1, EvReady 1, EvBuffer (demo_alloc 8) 2 0 8 2 32, EvBufferDone 2, EvReady 2]"
  obtain cap' cs ds where r: "capture_run (EvBuffer (demo_alloc 7) 1 0 4 2 16 # ?es) zero_capture = (cap', cs, ds)"
    by (metis prod_cases3)
  have "cap_shm_fd cap' = 8"
    using r by (auto simp: demo_alloc_def frame_buffer_def alloc_buffer_def create_shm_file_def
        zero_capture_def frame_buffer_done_def frame_ready_def Let_def)
  moreover have "cap_fresh zero_capture" "alloc_ok (demo_alloc 7)" "list_all event_allocs ?es"
    by (simp_all add: cap_fresh_def zero_capture_def alloc_ok_def demo_alloc_def)
  ultimately show ?thesis using capture_run_safe [OF _ _ _ _ r] r by simp
qed

text \<open>
  C38: one failed mapping wedges the capture. The new geometry is already stored when the mapping
  fails, so that the next frame of this geometry allocates nothing and is copied into a NULL buffer;
  and the descriptor, closed but not forgotten, is closed again by the destruction.
\<close>

theorem capture_failed_mmap_wedges:
  assumes "al_shm a = Some fd" "0 \<le> fd" "al_truncate a" "\<not> al_mmap a"
    and "w \<noteq> cap_width cap \<or> h \<noteq> cap_height cap \<or> s \<noteq> cap_stride cap"
    and "capture_run [EvBuffer a f1 fmt w h s, EvBuffer b f2 fmt w h s, EvBufferDone f2] cap = (cap', cs, ds)"
  shows "\<exists>cs0. cs = cs0 @ [Sys (SysClose fd), Wl (WlDestroy ScreencopyFrame f1), Wl (FrameCopy None)] \<and>
     Sys (SysClose fd) \<in> set (snd (capture_destroy cap'))"
  using assms
  by (auto simp: frame_buffer_def alloc_buffer_def create_shm_file_def frame_buffer_done_def
      capture_destroy_def release_buffer_def Let_def)

theorem capture_failed_mmap_wedges_witness:
  "\<exists>cap' cs ds cs0. capture_run [EvBuffer ((demo_alloc 7)\<lparr>al_mmap := False\<rparr>) 1 0 4 2 16,
      EvBuffer (demo_alloc 8) 2 0 4 2 16, EvBufferDone 2] zero_capture = (cap', cs, ds) \<and>
    cs = cs0 @ [Sys (SysClose 7), Wl (WlDestroy ScreencopyFrame 1), Wl (FrameCopy None)]"
proof -
  obtain cap' cs ds where r: "capture_run [EvBuffer ((demo_alloc 7)\<lparr>al_mmap := False\<rparr>) 1 0 4 2 16,
      EvBuffer (demo_alloc 8) 2 0 4 2 16, EvBufferDone 2] zero_capture = (cap', cs, ds)"
    by (metis prod_cases3)
  have "al_shm ((demo_alloc 7)\<lparr>al_mmap := False\<rparr>) = Some 7" "(0::int) \<le> 7"
    "al_truncate ((demo_alloc 7)\<lparr>al_mmap := False\<rparr>)" "\<not> al_mmap ((demo_alloc 7)\<lparr>al_mmap := False\<rparr>)"
    "(4::u32) \<noteq> cap_width zero_capture \<or> (2::u32) \<noteq> cap_height zero_capture \<or> (16::u32) \<noteq> cap_stride zero_capture"
    by (simp_all add: demo_alloc_def zero_capture_def)
  from capture_failed_mmap_wedges [OF this r] r show ?thesis by blast
qed

text \<open>
  The capture starts exactly if the display can be opened and announces the screencopy manager,
  an output and shared memory; it starts without a buffer, and a failed start closes the display.
\<close>

theorem capture_init_spec:
  assumes "capture_init a on_frame = (ok, cap, cs)"
  shows "(ok \<longleftrightarrow> wa_display a \<noteq> None \<and>
       {''zwlr_screencopy_manager_v1'', ''wl_output'', ''wl_shm''} \<subseteq> snd ` set (wa_globals a)) \<and>
     (ok \<longrightarrow> cap_fresh cap \<and> cap_mgr cap \<noteq> None \<and> cap_on_frame cap = on_frame) \<and>
     (\<not> ok \<longrightarrow> cap_display cap = None \<and> (\<forall>d. wa_display a = Some d \<longrightarrow> Wl (WlDestroy WlDisplay d) \<in> set cs))"
proof (cases "wa_display a")
  case None
  then show ?thesis using assms by (auto simp: capture_init_def zero_capture_def)
next
  case (Some d)
  define c1 where "c1 = zero_capture\<lparr>cap_on_frame := on_frame, cap_display := Some d,
    cap_registry := Some (wa_registry a)\<rparr>"
  define c2 where "c2 = announce (capture_registry_global (wa_bind a)) (wa_globals a) c1"
  have start: "cap_mgr c1 = None" "cap_output c1 = None" "cap_shm c1 = None"
    by (simp_all add: c1_def zero_capture_def)
  have bound: "cap_mgr c2 \<noteq> None \<longleftrightarrow> ''zwlr_screencopy_manager_v1'' \<in> snd ` set (wa_globals a)"
    "cap_output c2 \<noteq> None \<longleftrightarrow> ''wl_output'' \<in> snd ` set (wa_globals a)"
    "cap_shm c2 \<noteq> None \<longleftrightarrow> ''wl_shm'' \<in> snd ` set (wa_globals a)"
    unfolding c2_def
    by (rule capture_mgr.bound_iff [OF start(1)], rule capture_output.bound_iff [OF start(2)],
      rule capture_shm.bound_iff [OF start(3)])
  have "cap_fresh (announce (capture_registry_global (wa_bind a)) gs cap) = cap_fresh cap" for gs cap
    by (rule announce_frame) (simp add: cap_fresh_def capture_registry_global_def)
  then have fresh: "cap_fresh c2" by (simp add: c2_def) (simp add: c1_def cap_fresh_def zero_capture_def)
  have disp: "cap_display c2 = Some d" "cap_on_frame c2 = on_frame" by (simp_all add: c2_def c1_def)
  have "capture_init a on_frame = (if cap_mgr c2 = None \<or> cap_output c2 = None \<or> cap_shm c2 = None
      then (False, fst (capture_destroy c2), snd (capture_destroy c2)) else (True, c2, []))"
    using Some by (simp add: capture_init_def c1_def c2_def Let_def split_beta)
  note eq = this [unfolded assms]
  show ?thesis
  proof (cases "cap_mgr c2 = None \<or> cap_output c2 = None \<or> cap_shm c2 = None")
    case True
    then have "ok = False" "cap_display cap = None" "Wl (WlDestroy WlDisplay d) \<in> set cs"
      using eq disp by (simp_all add: capture_destroy_def zero_capture_def)
    with True bound Some show ?thesis by auto
  next
    case False
    with eq disp bound Some fresh show ?thesis by auto
  qed
qed

theorem capture_init_spec_witness:
  "\<not> fst (capture_init \<lparr>wa_display = Some 1, wa_registry = 2, wa_globals = [(1, ''wl_output'')],
      wa_bind = (\<lambda>_. 3)\<rparr> True)"
proof -
  obtain ok cap cs where r: "capture_init \<lparr>wa_display = Some 1, wa_registry = 2,
      wa_globals = [(1, ''wl_output'')], wa_bind = (\<lambda>_. 3)\<rparr> True = (ok, cap, cs)"
    by (metis prod_cases3)
  from capture_init_spec [OF r] r show ?thesis by simp
qed

end
