(* ===== verification/Audio.thy ===== *)
theory Audio
  imports Calls
begin

text \<open>
  The audio capture (\<open>src/session/audio.h\<close>, \<open>src/session/audio.c\<close>, built with PipeWire): the chain of
  objects from the loop to the stream, its set-up with every failure path, the process callback and
  the destruction.
\<close>

section \<open>State\<close>

record audio =
  aud_loop :: "handle option"
  aud_context :: "handle option"
  aud_core :: "handle option"
  aud_stream :: "handle option"
  aud_on_data :: bool
  aud_started :: bool

definition zero_audio :: audio where
  "zero_audio = \<lparr>aud_loop = None, aud_context = None, aud_core = None, aud_stream = None,
     aud_on_data = False, aud_started = False\<rparr>"

definition WLRDP_AUDIO_FRAME_SIZE :: u32 where "WLRDP_AUDIO_FRAME_SIZE = 4"

section \<open>Operations\<close>

definition audio_destroy :: "audio \<Rightarrow> audio \<times> call list" where
  "audio_destroy au =
    (au\<lparr>aud_stream := None, aud_core := None, aud_context := None, aud_loop := None, aud_started := False\<rparr>,
     (case aud_stream au of None \<Rightarrow> [] | Some h \<Rightarrow> [Pw (PwStreamDestroy h)])
       @ (case aud_core au of None \<Rightarrow> [] | Some h \<Rightarrow> [Pw (PwCoreDisconnect h)])
       @ (case aud_context au of None \<Rightarrow> [] | Some h \<Rightarrow> [Pw (PwContextDestroy h)])
       @ (case aud_loop au of None \<Rightarrow> [] | Some h \<Rightarrow> [Pw (PwLoopDestroy h)])
       @ (if aud_started au then [Pw PwDeinit] else []))"

record pw_answer =
  pw_loop :: "handle option"
  pw_context :: "handle option"
  pw_core :: "handle option"
  pw_stream :: "handle option"
  pw_connect :: bool

text \<open>
  The first failure paths free by hand and leave the freed pointers in the struct, the later ones
  use \<open>audio_destroy\<close>.
\<close>

definition audio_init :: "pw_answer \<Rightarrow> bool \<Rightarrow> bool \<times> audio \<times> call list" where
  "audio_init a on_data =
    (let au0 = zero_audio\<lparr>aud_on_data := on_data, aud_loop := pw_loop a\<rparr>; cs0 = [Pw PwInit] in
     case pw_loop a of
       None \<Rightarrow> (False, au0, cs0)
     | Some loop \<Rightarrow>
       let cs1 = cs0 @ [Pw (PwLoopNew loop)]; au1 = au0\<lparr>aud_context := pw_context a\<rparr> in
     case pw_context a of
       None \<Rightarrow> (False, au1, cs1 @ [Pw (PwLoopDestroy loop)])
     | Some cx \<Rightarrow>
       let cs2 = cs1 @ [Pw (PwContextNew cx)]; au2 = au1\<lparr>aud_core := pw_core a\<rparr> in
     case pw_core a of
       None \<Rightarrow> (False, au2, cs2 @ [Pw (PwContextDestroy cx), Pw (PwLoopDestroy loop)])
     | Some core \<Rightarrow>
       let cs3 = cs2 @ [Pw (PwCoreConnect core)]; au3 = au2\<lparr>aud_stream := pw_stream a\<rparr> in
     case pw_stream a of
       None \<Rightarrow> (let (au4, cs) = audio_destroy au3 in (False, au4, cs3 @ cs))
     | Some stream \<Rightarrow>
       let cs4 = cs3 @ [Pw (PwStreamNew stream), Pw (PwStreamConnect stream)] in
       if \<not> pw_connect a then (let (au4, cs) = audio_destroy au3 in (False, au4, cs4 @ cs))
       else (True, au3\<lparr>aud_started := True\<rparr>, cs4))"

text \<open>
  The process callback: \<open>buf\<close> is the dequeued buffer (\<open>None\<close> if there is none), its data pointer
  (NULL is \<open>None\<close>) with the chunk size. The last component of the result is the number of frames
  that \<open>on_data\<close> is called with.
\<close>

definition on_process :: "audio \<Rightarrow> u32 option option \<Rightarrow> call list \<times> u32 option" where
  "on_process au buf =
    (case buf of
       None \<Rightarrow> ([], None)
     | Some None \<Rightarrow> ([Pw PwQueueBuffer], None)
     | Some (Some n_bytes) \<Rightarrow>
       let n_frames = n_bytes div WLRDP_AUDIO_FRAME_SIZE in
       ([Pw PwQueueBuffer], if aud_on_data au \<and> 0 < n_frames then Some n_frames else None))"

definition audio_get_fd :: "(handle \<Rightarrow> int) \<Rightarrow> audio \<Rightarrow> int" where
  "audio_get_fd fd_of au = (case aud_loop au of None \<Rightarrow> - 1 | Some h \<Rightarrow> fd_of h)"

definition audio_dispatch :: "(handle \<Rightarrow> int) \<Rightarrow> audio \<Rightarrow> int" where
  "audio_dispatch iterate au = (case aud_loop au of None \<Rightarrow> 0 | Some h \<Rightarrow> iterate h)"

section \<open>Properties\<close>

definition aud_owned :: "audio \<Rightarrow> resource set" where
  "aud_owned au = ResPwLoop ` set_option (aud_loop au) \<union> ResPwContext ` set_option (aud_context au)
     \<union> ResPwCore ` set_option (aud_core au) \<union> ResPwStream ` set_option (aud_stream au)"

lemma audio_destroy_held: "held (snd (audio_destroy au)) (aud_owned au) = {}"
  by (cases "aud_stream au"; cases "aud_core au"; cases "aud_context au"; cases "aud_loop au")
    (auto simp: audio_destroy_def aud_owned_def)

text \<open>
  C36: the audio chain. A successful start holds the whole chain (loop, context, core, stream) and its
  destruction gives all of it back and shuts PipeWire down; a failed start leaves nothing allocated,
  but it never shuts PipeWire down again, although it had initialised it.
\<close>

theorem audio_chain:
  assumes "audio_init a on_data = (ok, au, cs)"
  shows "if ok
    then held cs {} = aud_owned au \<and> aud_loop au \<noteq> None \<and> aud_context au \<noteq> None \<and> aud_core au \<noteq> None \<and>
      aud_stream au \<noteq> None \<and> aud_on_data au = on_data \<and>
      held (cs @ snd (audio_destroy au)) {} = {} \<and> Pw PwDeinit \<in> set (snd (audio_destroy au))
    else held cs {} = {} \<and> Pw PwInit \<in> set cs \<and> Pw PwDeinit \<notin> set cs"
proof (cases ok)
  case True
  then have "held cs {} = aud_owned au" "aud_loop au \<noteq> None" "aud_context au \<noteq> None" "aud_core au \<noteq> None"
    "aud_stream au \<noteq> None" "aud_on_data au = on_data" "Pw PwDeinit \<in> set (snd (audio_destroy au))"
    using assms
    by (auto simp: audio_init_def audio_destroy_def aud_owned_def zero_audio_def Let_def
        split: option.splits if_splits)
  then show ?thesis using True audio_destroy_held [of au] by simp
next
  case False
  then show ?thesis
    using assms
    by (auto simp: audio_init_def audio_destroy_def zero_audio_def Let_def split: option.splits if_splits)
qed

definition demo_pw :: pw_answer where
  "demo_pw = \<lparr>pw_loop = Some 1, pw_context = Some 2, pw_core = Some 3, pw_stream = Some 4, pw_connect = True\<rparr>"

theorem audio_chain_witness:
  "\<exists>au cs. audio_init demo_pw True = (True, au, cs) \<and> held cs {} = aud_owned au \<and>
     held (cs @ snd (audio_destroy au)) {} = {}"
proof -
  obtain ok au cs where r: "audio_init demo_pw True = (ok, au, cs)" by (metis prod_cases3)
  then have ok by (auto simp: audio_init_def demo_pw_def Let_def)
  with audio_chain [OF r] r show ?thesis by (simp del: held_append)
qed

text \<open>The process callback never hands out more samples than the buffer has.\<close>

lemma on_process_bounds:
  assumes "on_process au (Some (Some n_bytes)) = (cs, Some n)"
  shows "0 < n \<and> 4 * unat n \<le> unat n_bytes \<and> cs = [Pw PwQueueBuffer]"
proof -
  have "n = n_bytes div 4" "0 < n" "cs = [Pw PwQueueBuffer]"
    using assms by (auto simp: on_process_def WLRDP_AUDIO_FRAME_SIZE_def Let_def split: if_splits)
  moreover have "unat (n_bytes div 4) = unat n_bytes div 4" by (simp add: unat_div)
  ultimately show ?thesis by simp
qed

end
