(* ===== verification/Compositor.thy ===== *)
theory Compositor
  imports Calls
begin

text \<open>
  The launcher of the compositor (\<open>src/session/compositor.h\<close>, \<open>src/session/compositor.c\<close>): the polling
  loops over the kernel's answers, the parsing of the display name, the wrapper command, and the
  termination of the child. Sleeping is a call of the trace, so that the blocking time of an
  operation is a function of its result.
\<close>

section \<open>Waiting for a file\<close>

text \<open>
  \<open>acc i\<close> is the result of the \<open>i\<close>-th \<open>access\<close>. The second component is the number of the 50 ms naps.
\<close>

function wait_loop :: "(nat \<Rightarrow> bool) \<Rightarrow> nat \<Rightarrow> int \<Rightarrow> int \<Rightarrow> bool \<times> nat" where
  "wait_loop acc i elapsed timeout_ms =
    (if elapsed < timeout_ms
     then (if acc i then (True, i) else wait_loop acc (Suc i) (elapsed + 50) timeout_ms)
     else (False, i))"
  by pat_completeness auto
termination
  by (relation "measure (\<lambda>(acc, i, elapsed, timeout_ms). nat (timeout_ms - elapsed))") auto

declare wait_loop.simps [simp del]

definition wait_for_file :: "(nat \<Rightarrow> bool) \<Rightarrow> int \<Rightarrow> bool \<times> call list" where
  "wait_for_file acc timeout_ms =
    (let (ok, naps) = wait_loop acc 0 0 timeout_ms in (ok, replicate naps (Sys (SysNanosleep 50))))"

section \<open>The display name\<close>

text \<open>
  \<open>contents\<close> is what the one \<open>read\<close> returns (\<open>None\<close> if \<open>open\<close> or \<open>read\<close> fails), at most \<open>out_size - 1\<close>
  bytes, none of them NUL; \<open>old\<close> is the name in the buffer before.
\<close>

definition is_newline :: "char \<Rightarrow> bool" where
  "is_newline c \<longleftrightarrow> c = CHR 0x0A \<or> c = CHR 0x0D"

definition read_display_name :: "string option \<Rightarrow> nat \<Rightarrow> string \<Rightarrow> bool \<times> string" where
  "read_display_name contents out_size old =
    (case contents of
       None \<Rightarrow> (False, old)
     | Some s \<Rightarrow>
       let out = take (out_size - 1) s; n = length out in
       if n = 0 then (False, old)
       else (let n' = strip_end is_newline out n in (0 < n', take n' out)))"

section \<open>Termination of the child\<close>

record compositor =
  co_pid :: int
  co_display_name :: string

text \<open>\<open>wp i\<close> is the result of the \<open>i\<close>-th \<open>waitpid(pid, ..., WNOHANG)\<close>; \<open>k\<close> polls are left.\<close>

fun destroy_poll :: "(nat \<Rightarrow> int) \<Rightarrow> int \<Rightarrow> nat \<Rightarrow> nat \<Rightarrow> bool \<times> call list" where
  "destroy_poll wp pid i 0 = (False, [])"
| "destroy_poll wp pid i (Suc k) =
     (if 0 < wp i then (True, [Sys (SysWaitpid pid)])
      else (let (dead, cs) = destroy_poll wp pid (Suc i) k
            in (dead, Sys (SysWaitpid pid) # Sys (SysNanosleep 100) # cs)))"

definition compositor_destroy :: "(nat \<Rightarrow> int) \<Rightarrow> compositor \<Rightarrow> compositor \<times> call list" where
  "compositor_destroy wp co =
    (if co_pid co \<le> 0 then (co, [])
     else (let (dead, cs) = destroy_poll wp (co_pid co) 0 20
           in (co\<lparr>co_pid := 0\<rparr>,
               [Sys (SysKill (co_pid co) ''SIGTERM'')] @ cs
                 @ (if dead then []
                    else [Sys (SysKill (co_pid co) ''SIGKILL''), Sys (SysWaitpid (co_pid co))]))))"

section \<open>Launching\<close>

definition display_file_of :: "int \<Rightarrow> string" where
  "display_file_of pid = c_snprintf 128 (''/tmp/wlrdp-display-'' @ c_dec pid)"

definition wrapper_command :: "string \<Rightarrow> int \<Rightarrow> int \<Rightarrow> string \<Rightarrow> string" where
  "wrapper_command display_file width height desktop_cmd =
    c_snprintf 1024 (''echo \"$WAYLAND_DISPLAY\" > '' @ display_file @ '' && ''
      @ ''wlr-randr --output HEADLESS-1 --custom-mode '' @ c_dec width @ ''x'' @ c_dec height
      @ '' 2>/dev/null; '' @ ''exec '' @ desktop_cmd)"

text \<open>The child: its environment, then the program it becomes; the exit is reached if it cannot become it.\<close>

definition compositor_child :: "int \<Rightarrow> string \<Rightarrow> int \<Rightarrow> int \<Rightarrow> call list" where
  "compositor_child parent_pid desktop_cmd width height =
    [Sys (SysSetenv ''WLR_BACKENDS'' ''headless''), Sys (SysSetenv ''WLR_HEADLESS_OUTPUTS'' ''1''),
     Sys (SysSetenv ''WLR_LIBINPUT_NO_DEVICES'' ''1''),
     Sys (SysExec [''cage'', ''--'', ''/bin/sh'', ''-c'',
       wrapper_command (display_file_of parent_pid) width height desktop_cmd]),
     Sys (SysExit 127)]"

text \<open>
  The kernel's answers to the launching process: \<open>XDG_RUNTIME_DIR\<close>, the ids, the result of \<open>fork\<close>, the
  successive results of \<open>access\<close> for each path, and the contents of the file with the display name.
\<close>

record launch_answer =
  la_xdg :: "string option"
  la_uid :: int
  la_pid :: int
  la_fork :: fork_result
  la_access :: "string \<Rightarrow> nat \<Rightarrow> bool"
  la_contents :: "string option"
  la_waitpid :: "nat \<Rightarrow> int"

definition runtime_dir :: "launch_answer \<Rightarrow> string \<times> call list" where
  "runtime_dir a =
    (case la_xdg a of
       Some d \<Rightarrow> (d, [])
     | None \<Rightarrow> (let dir = c_snprintf 64 (''/run/user/'' @ c_dec (la_uid a))
               in (dir, [Sys (SysMkdir dir), Sys (SysSetenv ''XDG_RUNTIME_DIR'' dir)])))"

definition compositor_launch ::
    "launch_answer \<Rightarrow> string \<Rightarrow> int \<Rightarrow> int \<Rightarrow> compositor \<Rightarrow> bool \<times> compositor \<times> call list" where
  "compositor_launch a desktop_cmd width height co =
    (let (xdg, cs0) = runtime_dir a;
         display_file = display_file_of (la_pid a);
         cs1 = cs0 @ [Sys (SysUnlink display_file), Sys SysFork]
     in case la_fork a of
       ForkFailed \<Rightarrow> (False, co, cs1)
     | ForkParent pid \<Rightarrow>
       (let co1 = co\<lparr>co_pid := pid\<rparr>;
            (found, cs2) = wait_for_file (la_access a display_file) 5000
        in if \<not> found
           then (let (co2, cs) = compositor_destroy (la_waitpid a) co1
                 in (False, co2, cs1 @ cs2 @ [Sys (SysUnlink display_file)] @ cs))
           else
             (let cs3 = cs1 @ cs2 @ [Sys (SysNanosleep 100), Sys (SysUnlink display_file)];
                  (named, name) = read_display_name (la_contents a) 64 (co_display_name co1);
                  co2 = co1\<lparr>co_display_name := name\<rparr>
              in if \<not> named
                 then (let (co3, cs) = compositor_destroy (la_waitpid a) co2 in (False, co3, cs3 @ cs))
                 else
                   (let (ready, cs4) = wait_for_file (la_access a (c_snprintf 512 (xdg @ ''/'' @ name))) 3000;
                        cs5 = cs3 @ cs4
                    in if \<not> ready
                       then (let (co3, cs) = compositor_destroy (la_waitpid a) co2 in (False, co3, cs5 @ cs))
                       else (True, co2, cs5)))))"

section \<open>Blocking time\<close>

text \<open>The milliseconds slept in a trace.\<close>

fun slept :: "call list \<Rightarrow> nat" where
  "slept [] = 0"
| "slept (Sys (SysNanosleep ms) # cs) = ms + slept cs"
| "slept (c # cs) = slept cs"

lemma slept_append [simp]: "slept (xs @ ys) = slept xs + slept ys"
  by (induction xs rule: slept.induct) auto

lemma slept_naps [simp]: "slept (replicate n (Sys (SysNanosleep ms))) = n * ms"
  by (induction n) auto

text \<open>
  The loop looks at the file every 50 ms as long as the time is not up; it finds the file at the
  first look that does.
\<close>

lemma wait_loop_time:
  "wait_loop acc i (50 * int i) (50 * int m) = (ok, n) \<Longrightarrow> i \<le> m \<Longrightarrow>
     i \<le> n \<and> n \<le> m \<and> (ok \<longrightarrow> n < m \<and> acc n) \<and> (\<not> ok \<longrightarrow> (\<forall>k. i \<le> k \<and> k < m \<longrightarrow> \<not> acc k))"
proof (induction "m - i" arbitrary: i)
  case 0
  then show ?case by (auto simp: wait_loop.simps)
next
  case (Suc d)
  then have lt: "i < m" and next_i: "50 * int i + 50 = 50 * int (Suc i)" by simp_all
  show ?case
  proof (cases "acc i")
    case True
    then show ?thesis using Suc.prems lt by (simp add: wait_loop.simps)
  next
    case False
    then have "wait_loop acc (Suc i) (50 * int (Suc i)) (50 * int m) = (ok, n)"
      using Suc.prems(1) lt unfolding next_i [symmetric] by (subst (asm) wait_loop.simps) simp
    moreover have "d = m - Suc i" "Suc i \<le> m" using Suc.hyps(2) lt by simp_all
    ultimately have IH: "Suc i \<le> n \<and> n \<le> m \<and> (ok \<longrightarrow> n < m \<and> acc n) \<and>
        (\<not> ok \<longrightarrow> (\<forall>k. Suc i \<le> k \<and> k < m \<longrightarrow> \<not> acc k))"
      by (intro Suc.hyps(1))
    have "\<not> acc k" if "\<not> ok" "i \<le> k" "k < m" for k
      using that IH False by (cases "k = i") auto
    then show ?thesis using IH by auto
  qed
qed

lemma wait_for_file_spec:
  assumes "wait_for_file acc (50 * int m) = (ok, cs)"
  shows "if ok then (\<exists>k < m. acc k) \<and> slept cs + 50 \<le> 50 * m else (\<forall>k < m. \<not> acc k) \<and> slept cs \<le> 50 * m"
    and "list_all (\<lambda>c. c = Sys (SysNanosleep 50)) cs"
proof -
  obtain n where w: "wait_loop acc 0 (50 * int 0) (50 * int m) = (ok, n)"
      "cs = replicate n (Sys (SysNanosleep 50))"
    using assms by (auto simp: wait_for_file_def split: prod.splits)
  show "if ok then (\<exists>k < m. acc k) \<and> slept cs + 50 \<le> 50 * m else (\<forall>k < m. \<not> acc k) \<and> slept cs \<le> 50 * m"
    using wait_loop_time [OF w(1)] w(2) by auto
  show "list_all (\<lambda>c. c = Sys (SysNanosleep 50)) cs" using w(2) by (simp add: list_all_iff)
qed

lemma destroy_poll_spec:
  assumes "destroy_poll wp pid i k = (dead, cs)"
  shows "(dead \<longleftrightarrow> (\<exists>j < k. 0 < wp (i + j))) \<and> slept cs \<le> 100 * k \<and>
    (\<forall>p sig. Sys (SysKill p sig) \<notin> set cs) \<and> (\<forall>f. Sys (SysUnlink f) \<notin> set cs)"
  using assms
proof (induction k arbitrary: i cs)
  case 0
  then show ?case by simp
next
  case (Suc k)
  show ?case
  proof (cases "0 < wp i")
    case True
    then show ?thesis using Suc.prems by (auto intro: exI [of _ 0])
  next
    case False
    then obtain cs' where r: "destroy_poll wp pid (Suc i) k = (dead, cs')"
        "cs = Sys (SysWaitpid pid) # Sys (SysNanosleep 100) # cs'"
      using Suc.prems by (auto split: prod.splits)
    have "(\<exists>j < Suc k. 0 < wp (i + j)) \<longleftrightarrow> (\<exists>j < k. 0 < wp (Suc i + j))"
      using False by (auto simp: less_Suc_eq_0_disj)
    then show ?thesis using Suc.IH [OF r(1)] r(2) by simp
  qed
qed

lemma destroy_poll_last: "destroy_poll wp pid i k = (True, cs) \<Longrightarrow> cs \<noteq> [] \<and> last cs = Sys (SysWaitpid pid)"
  by (induction wp pid i k arbitrary: cs rule: destroy_poll.induct) (auto split: if_splits prod.splits)

lemma compositor_destroy_facts:
  assumes "compositor_destroy wp co = (co', cs)" "0 < co_pid co"
  shows "co_pid co' = 0 \<and> co_display_name co' = co_display_name co \<and> slept cs \<le> 2000 \<and>
    hd cs = Sys (SysKill (co_pid co) ''SIGTERM'') \<and>
    (Sys (SysKill (co_pid co) ''SIGKILL'') \<in> set cs \<longleftrightarrow> (\<forall>i < 20. wp i \<le> 0)) \<and>
    last cs = Sys (SysWaitpid (co_pid co))"
proof -
  obtain dead ps where p: "destroy_poll wp (co_pid co) 0 20 = (dead, ps)" by fastforce
  note spec = destroy_poll_spec [OF p]
  have "co' = co\<lparr>co_pid := 0\<rparr>" "cs = [Sys (SysKill (co_pid co) ''SIGTERM'')] @ ps
      @ (if dead then [] else [Sys (SysKill (co_pid co) ''SIGKILL''), Sys (SysWaitpid (co_pid co))])"
    using assms p by (auto simp: compositor_destroy_def)
  moreover have "dead \<Longrightarrow> last ps = Sys (SysWaitpid (co_pid co)) \<and> ps \<noteq> []"
    using destroy_poll_last p by metis
  moreover have "dead \<longleftrightarrow> \<not> (\<forall>i < 20. wp i \<le> 0)" using spec by (auto simp: not_le)
  ultimately show ?thesis using spec by (cases dead) auto
qed

lemma destroy_nonempty: "compositor_destroy wp co = (co', cs) \<Longrightarrow> 0 < co_pid co \<Longrightarrow> cs \<noteq> []"
  by (auto simp: compositor_destroy_def split: prod.splits)

lemma hd_in: "hd cs = c \<Longrightarrow> cs \<noteq> [] \<Longrightarrow> c \<in> set cs"
  by (cases cs) simp_all

section \<open>Properties\<close>

lemma read_display_name_spec:
  assumes "read_display_name c n old = (True, name)"
  shows "name \<noteq> []" "length name \<le> n - 1" "\<not> is_newline (last name)"
proof -
  obtain s where c: "c = Some s" using assms by (cases c) (simp_all add: read_display_name_def)
  define out where "out = take (n - 1) s"
  define k where "k = strip_end is_newline out (length out)"
  have nm: "name = take k out" and k: "0 < k"
    using assms c by (auto simp: read_display_name_def Let_def k_def out_def split: if_splits)
  have le: "k \<le> length out" unfolding k_def by (rule strip_end_le)
  have len: "length name = k" using nm le by simp
  have "length out \<le> n - 1" by (simp add: out_def)
  then show "length name \<le> n - 1" using len le by linarith
  show ne: "name \<noteq> []" using len k by auto
  then have "last name = out ! (k - 1)" using nm len k by (simp add: last_conv_nth)
  moreover have "\<not> is_newline (out ! (k - 1))"
    using k strip_end_last unfolding k_def by blast
  ultimately show "\<not> is_newline (last name)" by simp
qed

lemma runtime_dir_quiet:
  assumes "runtime_dir a = (xdg, cs)"
  shows "slept cs = 0" "Sys SysFork \<notin> set cs" "Sys (SysKill p sig) \<notin> set cs"
  using assms by (auto simp: runtime_dir_def Let_def split: option.splits)

lemma after_fork:
  "Sys SysFork \<notin> set pre \<Longrightarrow> tl (dropWhile (\<lambda>c. c \<noteq> Sys SysFork) (pre @ Sys SysFork # rest)) = rest"
  by (subst dropWhile_append2) auto

lemma wait_for_file_launch:
  assumes "wait_for_file acc 5000 = (ok, cs)"
  shows "slept cs \<le> (if ok then 4950 else 5000)" "Sys (SysKill p sig) \<notin> set cs"
  using wait_for_file_spec [of acc 100 ok cs] assms by (auto simp: list_all_iff split: if_splits)

lemma wait_for_socket_launch:
  assumes "wait_for_file acc 3000 = (ok, cs)"
  shows "slept cs \<le> (if ok then 2950 else 3000)" "Sys (SysKill p sig) \<notin> set cs" "ok \<Longrightarrow> \<exists>k < 60. acc k"
  using wait_for_file_spec [of acc 60 ok cs] assms by (auto simp: list_all_iff split: if_splits)

text \<open>
  C28: launching the compositor. On success the state holds the forked process and its display name, which
  is not empty, fits its buffer and does not end in a newline, nothing was killed, and the socket had
  appeared; on failure the forked process has been told to terminate and waited for, and no process id
  is left. In both cases the display file was unlinked again after the fork. A successful launch blocks
  the worker for at most 8 seconds, a failed one for at most 10.05.
\<close>

theorem compositor_launch_spec:
  assumes "compositor_launch a cmd w h co = (ok, co', cs)" "la_fork a = ForkParent pid" "0 < pid"
  shows "(if ok
     then co_pid co' = pid \<and> co_display_name co' \<noteq> [] \<and> length (co_display_name co') < 64 \<and>
       \<not> is_newline (last (co_display_name co')) \<and> (\<forall>sig. Sys (SysKill pid sig) \<notin> set cs) \<and>
       (\<exists>k < 60. la_access a (c_snprintf 512 (fst (runtime_dir a) @ ''/'' @ co_display_name co')) k) \<and>
       slept cs \<le> 8000
     else co_pid co' = 0 \<and> Sys (SysKill pid ''SIGTERM'') \<in> set cs \<and> last cs = Sys (SysWaitpid pid) \<and>
       slept cs \<le> 10050) \<and>
    Sys (SysUnlink (display_file_of (la_pid a))) \<in> set (tl (dropWhile (\<lambda>c. c \<noteq> Sys SysFork) cs))"
proof -
  let ?f = "display_file_of (la_pid a)"
  obtain xdg cs0 where rt: "runtime_dir a = (xdg, cs0)" by fastforce
  obtain found cs2 where w: "wait_for_file (la_access a ?f) 5000 = (found, cs2)" by fastforce
  obtain named name where nm: "read_display_name (la_contents a) 64 (co_display_name co) = (named, name)" by fastforce
  let ?co = "co\<lparr>co_pid := pid, co_display_name := name\<rparr>"
  obtain ready cs4 where w': "wait_for_file (la_access a (c_snprintf 512 (xdg @ ''/'' @ name))) 3000 = (ready, cs4)"
    by fastforce
  note quiet = runtime_dir_quiet [OF rt] and wait = wait_for_file_launch [OF w] and wait' = wait_for_socket_launch [OF w']
  have tl: "tl (dropWhile (\<lambda>c. c \<noteq> Sys SysFork) (cs0 @ Sys (SysUnlink ?f) # Sys SysFork # rest)) = rest" for rest
    using after_fork [of "cs0 @ [Sys (SysUnlink ?f)]" rest] quiet(2) by simp
  show ?thesis
  proof (cases ok)
    case True
    then have r: "found" "named" "ready" "co' = ?co"
      "cs = cs0 @ Sys (SysUnlink ?f) # Sys SysFork # cs2 @ Sys (SysNanosleep 100) # Sys (SysUnlink ?f) # cs4"
      using assms(1,2) rt w w' nm by (auto simp: compositor_launch_def Let_def split: if_splits prod.splits)
    then have "slept cs2 \<le> 4950" "slept cs4 \<le> 2950" using wait(1) wait'(1) by simp_all
    moreover have "read_display_name (la_contents a) 64 (co_display_name co) = (True, name)" using nm r(2) by simp
    note read_display_name_spec [OF this]
    ultimately show ?thesis
      using True r wait(2) wait'(2,3) quiet rt by (simp add: tl)
  next
    case False
    obtain co1 cod csd naps where d: "compositor_destroy (la_waitpid a) co1 = (cod, csd)" "co_pid co1 = pid"
      and r: "co' = cod" "cs = cs0 @ Sys (SysUnlink ?f) # Sys SysFork # cs2 @ naps @ csd"
        "slept cs2 + slept naps \<le> 8050" "Sys (SysUnlink ?f) \<in> set naps"
    proof (cases "found \<and> named")
      case True
      then have "\<not> ready" "slept cs2 \<le> 4950"
        using False assms(1,2) rt w w' nm wait(1) by (auto simp: compositor_launch_def Let_def split: prod.splits)
      moreover obtain cod csd where "compositor_destroy (la_waitpid a) ?co = (cod, csd)" by fastforce
      ultimately show ?thesis
        using True assms(1,2) rt w w' nm wait'(1)
        by (intro that [of ?co cod csd "Sys (SysNanosleep 100) # Sys (SysUnlink ?f) # cs4"])
          (auto simp: compositor_launch_def Let_def)
    next
      case missing: False
      let ?co = "if found then ?co else co\<lparr>co_pid := pid\<rparr>"
      obtain cod csd where "compositor_destroy (la_waitpid a) ?co = (cod, csd)" by fastforce
      then show ?thesis
        using missing assms(1,2) rt w nm wait(1)
        by (intro that [of ?co cod csd "(if found then [Sys (SysNanosleep 100)] else []) @ [Sys (SysUnlink ?f)]"])
          (cases found; auto simp: compositor_launch_def Let_def)+
    qed
    have "0 < co_pid co1" using d(2) assms(3) by simp
    note kill = compositor_destroy_facts [OF d(1) this] and ne = destroy_nonempty [OF d(1) this]
    show ?thesis using False kill ne r quiet d(2) by (simp add: tl hd_in)
  qed
qed

text \<open>A launch that takes the whole eight seconds: the display file and the socket appear at the last look.\<close>

definition demo_launch :: launch_answer where
  "demo_launch = \<lparr>la_xdg = Some ''/run/user/1000'', la_uid = 1000, la_pid = 42, la_fork = ForkParent 43,
     la_access = (\<lambda>p i. if hd (tl p) = CHR ''t'' then i = 99 else i = 59),
     la_contents = Some (''wayland-0'' @ [CHR 0x0A]), la_waitpid = (\<lambda>i. 0)\<rparr>"

lemma wait_for_late_file:
  assumes "n < m" "t = 50 * int m"
  shows "wait_for_file (\<lambda>i. i = n) t = (True, replicate n (Sys (SysNanosleep 50)))"
proof -
  obtain ok k where w: "wait_loop (\<lambda>i. i = n) 0 (50 * int 0) (50 * int m) = (ok, k)" by fastforce
  then show ?thesis using wait_loop_time [OF w] assms by (auto simp: wait_for_file_def)
qed

theorem compositor_launch_spec_witness:
  "\<exists>co' cs. compositor_launch demo_launch ''foot'' 800 600 \<lparr>co_pid = 0, co_display_name = []\<rparr> = (True, co', cs) \<and>
     slept cs = 8000 \<and> co_pid co' = 43"
proof -
  let ?co = "\<lparr>co_pid = 0, co_display_name = []\<rparr>"
  have name: "read_display_name (Some (''wayland-0'' @ [CHR 0x0A])) 64 old = (True, ''wayland-0'')" for old
    by (simp add: read_display_name_def is_newline_def numeral_eq_Suc)
  have wfile: "wait_for_file (\<lambda>i. i = 99) 5000 = (True, replicate 99 (Sys (SysNanosleep 50)))"
    and wsock: "wait_for_file (\<lambda>i. i = 59) 3000 = (True, replicate 59 (Sys (SysNanosleep 50)))"
    by (rule wait_for_late_file [of _ 100], simp_all) (rule wait_for_late_file [of _ 60], simp_all)
  have paths: "hd (tl (display_file_of 42)) = CHR ''t''"
    "hd (tl (c_snprintf 512 (''/run/user/1000/wayland-0''))) \<noteq> CHR ''t''"
    by (simp_all add: display_file_of_def c_snprintf_def numeral_eq_Suc)
  obtain ok co' cs where r: "compositor_launch demo_launch ''foot'' 800 600 ?co = (ok, co', cs)" by (metis prod_cases3)
  moreover have ok and "slept cs = 8000"
    using r name wfile wsock paths
    by (auto simp: compositor_launch_def demo_launch_def runtime_dir_def Let_def)
  ultimately show ?thesis
    using compositor_launch_spec [OF r, of 43] by (simp add: demo_launch_def)
qed

end
