(* ===== verification/Options.thy ===== *)
theory Options
  imports Calls
begin

text \<open>
  What the two \<open>main\<close> functions share: the generated certificate, and command lines. \<open>getopt_long\<close> of the
  C library is modelled as both use it: long options with their unambiguous prefixes, \<open>--name=value\<close>, short
  options with an attached or a separate value, arguments that are no options, and the terminator. A result
  is the character that \<open>getopt_long\<close> returns, with \<open>optarg\<close>.
\<close>

section \<open>Command lines\<close>

text \<open>A long option: its name, whether it takes a value, and its character.\<close>

type_synonym long_option = "string \<times> bool \<times> char"

definition bad_option :: "char \<times> string" where "bad_option = (CHR ''?'', [])"

definition is_prefix :: "string \<Rightarrow> string \<Rightarrow> bool" where
  "is_prefix p s \<longleftrightarrow> take (length p) s = p"

definition find_long :: "long_option list \<Rightarrow> string \<Rightarrow> (bool \<times> char) option" where
  "find_long opts name =
    (case map_of opts name of
       Some x \<Rightarrow> Some x
     | None \<Rightarrow> (case filter (\<lambda>x. is_prefix name (fst x)) opts of [(n, x)] \<Rightarrow> Some x | _ \<Rightarrow> None))"

definition find_short :: "long_option list \<Rightarrow> char \<Rightarrow> bool option" where
  "find_short opts c = map_of (map (\<lambda>(n, b, d). (d, b)) opts) c"

text \<open>
  A cluster of short options continues after an option without a value. The lists are processed from
  the front; an option that takes a value consumes the next argument if none is attached.
\<close>

fun getopt_short :: "long_option list \<Rightarrow> string \<Rightarrow> (char \<times> string) list \<times> char option" where
  "getopt_short opts [] = ([], None)"
| "getopt_short opts (c # cs) =
    (case find_short opts c of
       None \<Rightarrow> (let (r, w) = getopt_short opts cs in (bad_option # r, w))
     | Some False \<Rightarrow> (let (r, w) = getopt_short opts cs in ((c, []) # r, w))
     | Some True \<Rightarrow> if cs = [] then ([], Some c) else ([(c, cs)], None))"

fun getopt_long :: "long_option list \<Rightarrow> string list \<Rightarrow> (char \<times> string) list" where
  "getopt_long opts [] = []"
| "getopt_long opts (arg # args) =
    (if arg = ''--'' then []
     else if take 2 arg = ''--''
     then (let name = takeWhile (\<lambda>c. c \<noteq> CHR ''='') (drop 2 arg);
               attached = dropWhile (\<lambda>c. c \<noteq> CHR ''='') (drop 2 arg)
           in case find_long opts name of
                None \<Rightarrow> bad_option # getopt_long opts args
              | Some (False, c) \<Rightarrow> (if attached = [] then (c, []) else bad_option) # getopt_long opts args
              | Some (True, c) \<Rightarrow>
                  (if attached \<noteq> [] then (c, tl attached) # getopt_long opts args
                   else (case args of
                           [] \<Rightarrow> [bad_option]
                         | v # rest \<Rightarrow> (c, v) # getopt_long opts rest)))
     else if take 1 arg = ''-'' \<and> 1 < length arg
     then (case getopt_short opts (tl arg) of
             (r, None) \<Rightarrow> r @ getopt_long opts args
           | (r, Some c) \<Rightarrow> r @ (case args of
                                 [] \<Rightarrow> [bad_option]
                               | v # rest \<Rightarrow> (c, v) # getopt_long opts rest))
     else getopt_long opts args)"

text \<open>The form in which the daemon writes an argument vector: a long option and its value.\<close>

lemma getopt_long_pair:
  assumes "map_of opts name = Some (True, c)" "CHR ''='' \<notin> set name" "name \<noteq> []"
  shows "getopt_long opts ((''--'' @ name) # v # args) = (c, v) # getopt_long opts args"
proof -
  have "takeWhile (\<lambda>c. c \<noteq> CHR ''='') name = name" "dropWhile (\<lambda>c. c \<noteq> CHR ''='') name = []"
    using assms(2) by (auto simp: takeWhile_eq_all_conv dropWhile_eq_Nil_conv)
  then show ?thesis using assms(1,3) by (simp add: find_long_def Let_def del: takeWhile_eq_all_conv dropWhile_eq_Nil_conv)
qed

section \<open>The generated certificate\<close>

definition generate_self_signed_cert :: "string \<Rightarrow> string \<Rightarrow> call list" where
  "generate_self_signed_cert cert_file key_file =
    [Sys (SysSystem (c_snprintf 1024
       (''openssl req -x509 -newkey rsa:2048 -keyout '' @ [CHR 0x27] @ key_file @ [CHR 0x27] @ '' -out ''
        @ [CHR 0x27] @ cert_file @ [CHR 0x27] @ '' -days 365 -nodes -subj '' @ [CHR 0x27] @ ''/CN=wlrdp''
        @ [CHR 0x27] @ '' 2>/dev/null'')))]"

definition auto_cert :: string where "auto_cert = ''/tmp/wlrdp-cert.pem''"
definition auto_key :: string where "auto_key = ''/tmp/wlrdp-key.pem''"

end
