(* ===== verification/Server.thy ===== *)
theory Server
  imports RdpPeer Encoder Capture Audio Compositor Options
begin

text \<open>
  The session worker (\<open>src/session/main.c\<close>), first part: its state, the choice and start of the encoder,
  the frame callback with its adaptive pacing, the resize callback, the audio and clipboard callbacks, and
  how clients are taken over, polled and dropped. Every operation takes what the libraries answer as an
  argument and appends the calls it makes to the trace of the state.
\<close>

section \<open>State\<close>

definition FRAME_INTERVAL_MIN_MS :: u32 where "FRAME_INTERVAL_MIN_MS = 16"
definition FRAME_INTERVAL_MAX_MS :: u32 where "FRAME_INTERVAL_MAX_MS = 100"
definition FRAME_INTERVAL_DEFAULT_MS :: u32 where "FRAME_INTERVAL_DEFAULT_MS = 33"

text \<open>
  \<open>struct wlrdp_server\<close> with the signal flags. The peer context and the clipboard are the fields of
  \<open>sess\<close>; the context is that of the client, if there is one. \<open>sv_client\<close> is the client with its settings.
\<close>

record server = sess +
  sv_port :: int
  sv_width :: i32
  sv_height :: i32
  sv_desktop_cmd :: string
  sv_cert_file :: "string option"
  sv_key_file :: "string option"
  sv_ipc_fd :: int
  sv_comp :: compositor
  sv_capture :: capture
  sv_input :: input
  sv_encoder :: encoder
  sv_clipboard_active :: bool
  sv_audio :: audio
  sv_audio_active :: bool
  sv_listener :: bool
  sv_client :: "rdp_settings option"
  sv_epoll_fd :: int
  sv_vcm_fd :: int
  sv_client_active :: bool
  sv_encoder_initialized :: bool
  sv_last_frame_ms :: u64
  sv_frame_interval_ms :: u32
  sv_flags :: sig_flags

definition act :: "call list \<Rightarrow> server \<Rightarrow> server" where
  "act cs s = s\<lparr>ss_trace := ss_trace s @ cs\<rparr>"

definition session_on_signal :: "signal \<Rightarrow> sig_flags \<Rightarrow> sig_flags" where
  "session_on_signal sig fl =
    (if sig = SIGINT \<or> sig = SIGTERM then fl\<lparr>g_running := False\<rparr>
     else if sig = SIGCHLD then fl\<lparr>g_child_exited := True\<rparr> else fl)"

definition stop_running :: "server \<Rightarrow> server" where
  "stop_running s = s\<lparr>sv_flags := (sv_flags s)\<lparr>g_running := False\<rparr>\<rparr>"

section \<open>The encoder of a client\<close>

definition close_encoder :: "server \<Rightarrow> server" where
  "close_encoder s =
    (if sv_encoder_initialized s
     then (let (enc, cs) = encoder_destroy (sv_encoder s)
           in act cs (s\<lparr>sv_encoder := enc, sv_encoder_initialized := False\<rparr>))
     else s)"

text \<open>Mode, AVC444 version and pixel format.\<close>

definition encoder_choice :: "server \<Rightarrow> encoder_mode \<times> u8 \<times> u32" where
  "encoder_choice s =
    (case sv_client s of
       None \<Rightarrow> (WLRDP_ENCODER_RAW, 0, PIXEL_FORMAT_BGRX32)
     | Some st \<Rightarrow>
       (let format = pc_pixel_format (ss_ctx s) in
        case rdp_peer_get_send_mode (ss_ctx s) of
          WLRDP_SEND_GFX_AVC444V2 \<Rightarrow> (WLRDP_ENCODER_H264_FREERDP, 2, format)
        | WLRDP_SEND_GFX_AVC444 \<Rightarrow> (WLRDP_ENCODER_H264_FREERDP, 1, format)
        | WLRDP_SEND_GFX_AVC420 \<Rightarrow> (WLRDP_ENCODER_H264_FREERDP, 0, format)
        | WLRDP_SEND_GFX_PROGRESSIVE \<Rightarrow> (WLRDP_ENCODER_PROGRESSIVE, 0, format)
        | WLRDP_SEND_SURFACE_BITS \<Rightarrow>
            (if set_nscodec st then WLRDP_ENCODER_NSAC else WLRDP_ENCODER_RAW, 0, format)))"

definition init_encoder_for_client :: "init_answer \<Rightarrow> server \<Rightarrow> server" where
  "init_encoder_for_client a s =
    (let s1 = close_encoder s;
         (mode, version, format) = encoder_choice s1;
         (ok, enc, cs) = encoder_init a mode (sv_width s1) (sv_height s1) version format;
         s2 = act cs (s1\<lparr>sv_encoder := enc\<rparr>)
     in if \<not> ok then s2
        else (act (encoder_request_keyframe enc) s2)\<lparr>sv_encoder_initialized := True\<rparr>)"

section \<open>Frames\<close>

definition request_frame :: "bool \<Rightarrow> server \<Rightarrow> server" where
  "request_frame made s = act (snd (capture_request_frame made (sv_capture s))) s"

text \<open>The clock is read when the frame arrives, after it was sent and at the end.\<close>

record frame_env =
  fe_now :: u64
  fe_sent :: u64
  fe_end :: u64
  fe_enc :: enc_answer
  fe_send :: frame_answer
  fe_made :: bool

definition adapted_interval :: "u32 \<Rightarrow> u64 \<Rightarrow> u32" where
  "adapted_interval interval encode_time =
    (let target = (ucast (encode_time * 2) :: u32);
         target = (if target < FRAME_INTERVAL_MIN_MS then FRAME_INTERVAL_MIN_MS else target);
         target = (if FRAME_INTERVAL_MAX_MS < target then FRAME_INTERVAL_MAX_MS else target)
     in (interval * 3 + target) div 4)"

text \<open>The frame that an encoder holds after it encoded an image.\<close>

definition encoded_frame :: "encoder \<Rightarrow> u32 \<Rightarrow> u32 \<Rightarrow> frame" where
  "encoded_frame enc width height =
    \<lparr>fr_data = (enc_out_buf enc \<noteq> None), fr_len = enc_out_len enc, fr_aux_len = enc_aux_len enc,
     fr_meta = Some (enc_h264_meta enc), fr_aux_meta = Some (enc_h264_aux_meta enc), fr_lc = enc_avc444_lc enc,
     fr_width = width, fr_height = height\<rparr>"

definition on_frame_ready :: "frame_env \<Rightarrow> u32 \<Rightarrow> u32 \<Rightarrow> u32 \<Rightarrow> server \<Rightarrow> server" where
  "on_frame_ready e width height stride s =
    (case sv_client s of
       None \<Rightarrow> s
     | Some st \<Rightarrow>
       if \<not> sv_client_active s \<or> \<not> sv_encoder_initialized s then s
       else if fe_now e - sv_last_frame_ms s < ucast (sv_frame_interval_ms s) then request_frame (fe_made e) s
       else
         (let (ok, enc, cs) = encoder_encode (fe_enc e) (sv_encoder s) stride;
              s1 = act cs (s\<lparr>sv_encoder := enc\<rparr>)
          in if \<not> ok then request_frame (fe_made e) s1
             else if enc_out_len enc = 0 \<and> enc_aux_len enc = 0 then request_frame (fe_made e) s1
             else
               (let (sent, ctx, cs2) = rdp_peer_send_frame (fe_send e) st (ss_ctx s1) (encoded_frame enc width height);
                    s2 = act cs2 (s1\<lparr>ss_ctx := ctx\<rparr>);
                    s3 = s2\<lparr>sv_frame_interval_ms := adapted_interval (sv_frame_interval_ms s2) (fe_sent e - fe_now e),
                            sv_last_frame_ms := fe_end e\<rparr>
                in request_frame (fe_made e) s3)))"

section \<open>Resizing\<close>

text \<open>
  \<open>printf\<close>'s \<open>%g\<close> of \<open>n / 100\<close>: six significant digits, no trailing zeros, and an exponent from a million
  on. (From \<open>n = 1000000\<close> on digits are lost; the rounding of an exact tie is that of the decimal number.)
\<close>

definition round_to_six :: "nat \<Rightarrow> nat" where
  "round_to_six n =
    (let d = length (dec_nat n) in
     if d \<le> 6 then n
     else (let b = 10 ^ (d - 6); q = n div b; r = n mod b
           in (if b < 2 * r \<or> (2 * r = b \<and> odd q) then q + 1 else q) * b))"

definition strip_zeros :: "string \<Rightarrow> string" where
  "strip_zeros s = take (strip_end (\<lambda>c. c = CHR ''0'') s (length s)) s"

definition percent_g :: "nat \<Rightarrow> string" where
  "percent_g n =
    (let m = round_to_six n; digits = dec_nat m in
     if length digits \<le> 8
     then (let frac = strip_zeros [digit_char (m div 10 mod 10), digit_char (m mod 10)]
           in dec_nat (m div 100) @ (if frac = [] then [] else CHR ''.'' # frac))
     else (let frac = strip_zeros (tl digits)
           in hd digits # (if frac = [] then [] else CHR ''.'' # frac)
              @ ''e+0'' @ dec_nat (length digits - 3)))"

record resize_env =
  rs_init :: init_answer
  rs_surface :: surface_answer

definition round16 :: "u32 \<Rightarrow> u32" where
  "round16 x = (x + 15) AND NOT 15"

definition resize_command :: "string \<Rightarrow> u32 \<Rightarrow> u32 \<Rightarrow> u32 \<Rightarrow> string" where
  "resize_command display width height scale =
    c_snprintf 512 (''WAYLAND_DISPLAY='' @ display @ '' wlr-randr --output HEADLESS-1 --custom-mode ''
      @ c_dec (sint width) @ ''x'' @ c_dec (sint height) @ '' --scale '' @ percent_g (unat scale)
      @ '' 2>/dev/null'')"

definition on_peer_resize :: "resize_env \<Rightarrow> u32 \<Rightarrow> u32 \<Rightarrow> u32 \<Rightarrow> server \<Rightarrow> server" where
  "on_peer_resize e width0 height0 scale s =
    (let width = round16 width0; height = round16 height0 in
     if sv_width s = width \<and> sv_height s = height then s
     else
       (let s1 = act [Sys (SysSystem (resize_command (co_display_name (sv_comp s)) width height scale))] s;
            s2 = s1\<lparr>sv_width := width, sv_height := height\<rparr>;
            s3 = (if sv_client s2 \<noteq> None
                  then (let (ctx, cs) = rdp_peer_update_size (rs_surface e) (ss_ctx s2) width height
                        in act cs (s2\<lparr>ss_ctx := ctx\<rparr>))
                  else s2);
            s4 = s3\<lparr>sv_input := input_update_size (sv_input s3) width height\<rparr>
        in if sv_encoder_initialized s4 then init_encoder_for_client (rs_init e) s4 else s4))"

definition resize_if :: "resize_env \<Rightarrow> resize_request \<Rightarrow> server \<Rightarrow> server" where
  "resize_if e req s = (case req of None \<Rightarrow> s | Some (w, h, sc) \<Rightarrow> on_peer_resize e w h sc s)"

section \<open>Audio and clipboard\<close>

definition on_audio_data :: "nat \<Rightarrow> bool \<Rightarrow> u32 \<Rightarrow> server \<Rightarrow> server" where
  "on_audio_data ms sent n_frames s =
    (if \<not> sv_client_active s \<or> sv_client s = None then s
     else act (snd (rdp_peer_send_audio ms sent (ss_ctx s) n_frames)) s)"

definition on_wl_clipboard_changed :: "server \<Rightarrow> server" where
  "on_wl_clipboard_changed s =
    (if \<not> sv_client_active s then s else act (clipboard_notify_rdp (ss_clip s)) s)"

section \<open>Clients come and go\<close>

text \<open>A status message to the daemon; its payload is the code of the status.\<close>

definition send_status :: "session_status \<Rightarrow> server \<Rightarrow> server" where
  "send_status status s =
    (if 0 \<le> sv_ipc_fd s
     then act (case ipc_send_msg (\<lambda>p. 0) (mk_msg WLRDP_MSG_STATUS (le32_bytes (status_code status))) (- 1) of
                 Inl f \<Rightarrow> [Crash f]
               | Inr (ok, pkt) \<Rightarrow> [Sys (SysIpcSend (sv_ipc_fd s) pkt)]) s
     else s)"

definition disconnect_client :: "server \<Rightarrow> server" where
  "disconnect_client s =
    (let s1 = (if 0 \<le> sv_vcm_fd s then (act [Sys (SysEpollDel (sv_vcm_fd s))] s)\<lparr>sv_vcm_fd := - 1\<rparr> else s);
         s2 = (if sv_client s1 \<noteq> None
               then (act [Peer PeerContextFree, Peer PeerFree] s1)\<lparr>sv_client := None, sv_client_active := False\<rparr>
               else s1)
     in send_status StatusDisconnected (close_encoder s2))"

text \<open>
  The set-up of a new peer, shared by both ways in which clients arrive: the context, the settings, the
  fields of the context, and the start of the connection. \<open>pn_settings\<close> are the peer's settings then.
\<close>

record peer_answer =
  pn_new :: bool
  pn_context :: bool
  pn_init :: peer_init_answer
  pn_initialize :: bool
  pn_settings :: rdp_settings

definition set_up_peer :: "peer_answer \<Rightarrow> server \<Rightarrow> bool \<times> server" where
  "set_up_peer a s =
    (let s1 = act [Peer PeerContextNew] s in
     if \<not> pn_context a then (False, act [Peer PeerFree] s1)
     else
       (let (ok, ctx, cs) = rdp_peer_init (pn_init a) (sv_cert_file s1) (sv_key_file s1) True zero_ctx;
            s2 = act cs s1 in
        if \<not> ok then (False, act [Peer PeerContextFree, Peer PeerFree] s2)
        else
          (let ctx1 = ctx\<lparr>pc_width := sv_width s2, pc_height := sv_height s2, pc_on_resize := True,
                          pc_clipboard := (sv_clipboard_active s2 \<or> pc_clipboard ctx),
                          pc_audio := (sv_audio_active s2 \<or> pc_audio ctx)\<rparr>;
               s3 = act [Peer PeerInitialize] s2
           in if \<not> pn_initialize a then (False, act [Peer PeerContextFree, Peer PeerFree] s3)
              else (True, s3\<lparr>ss_ctx := ctx1, sv_client := Some (pn_settings a)\<rparr>))))"

text \<open>\<open>msg0\<close> is the uninitialised message on the stack.\<close>

definition accept_ipc_client :: "recv_answer \<Rightarrow> ipc_msg \<Rightarrow> peer_answer \<Rightarrow> server \<Rightarrow> bool \<times> server" where
  "accept_ipc_client rx msg0 a s =
    (let (ok, msg, peer_fd) = ipc_recv_msg rx msg0 in
     if \<not> ok then (False, stop_running s)
     else if msg_type msg = WLRDP_MSG_SHUTDOWN then (False, stop_running s)
     else if msg_type msg \<noteq> WLRDP_MSG_NEW_CLIENT \<or> peer_fd < 0
     then (False, if 0 \<le> peer_fd then act [Sys (SysClose peer_fd)] s else s)
     else
       (let s1 = disconnect_client s in
        if \<not> pn_new a then (False, act [Sys (SysClose peer_fd)] s1)
        else set_up_peer a (act [Peer (PeerNew (nat peer_fd))] s1)))"

definition session_on_peer_accepted :: "peer_answer \<Rightarrow> server \<Rightarrow> bool \<times> server" where
  "session_on_peer_accepted a s =
    (if sv_client s \<noteq> None then (True, act [Peer PeerFree] s) else set_up_peer a s)"

section \<open>Polling\<close>

definition epoll_add_fd :: "int \<Rightarrow> server \<Rightarrow> server" where
  "epoll_add_fd fd s = act [Sys (SysEpollAdd fd)] s"

definition epoll_add_vcm :: "(handle \<Rightarrow> int option) \<Rightarrow> server \<Rightarrow> server" where
  "epoll_add_vcm fd_of s =
    (if sv_client s = None then s
     else (let fd = rdp_peer_get_vcm_fd fd_of (ss_ctx s) in
           if 0 \<le> fd \<and> fd \<noteq> sv_vcm_fd s then (epoll_add_fd fd s)\<lparr>sv_vcm_fd := fd\<rparr> else s))"

definition epoll_update_client :: "int list \<Rightarrow> (handle \<Rightarrow> int option) \<Rightarrow> server \<Rightarrow> server" where
  "epoll_update_client fds fd_of s =
    (if sv_client s = None then s
     else epoll_add_vcm fd_of (fold epoll_add_fd (filter (\<lambda>fd. 0 \<le> fd) fds) s))"

text \<open>
  Frames start once: after activation, and after the negotiation of the graphics channel if there is
  one. The three blocks of the code, in their order; \<open>a\<close> and \<open>made\<close> answer the encoder and the capture.
\<close>

definition start_frames :: "init_answer \<Rightarrow> bool \<Rightarrow> server \<Rightarrow> server" where
  "start_frames a made s =
    request_frame made (init_encoder_for_client a
      (s\<lparr>sv_client_active := True, sv_frame_interval_ms := FRAME_INTERVAL_DEFAULT_MS\<rparr>))"

definition start_client :: "init_answer \<Rightarrow> bool \<Rightarrow> server \<Rightarrow> server" where
  "start_client a made s =
    (let s1 = (if pc_activated (ss_ctx s) \<and> \<not> sv_client_active s
               then (if pc_gfx_vcm (ss_ctx s) = None \<or> pc_gfx_ready (ss_ctx s) then start_frames a made s else s)
               else s);
         s2 = (if pc_activated (ss_ctx s1) \<and> \<not> sv_client_active s1 \<and> pc_gfx_ready (ss_ctx s1)
               then start_frames a made s1 else s1)
     in if pc_activated (ss_ctx s2) \<and> \<not> sv_client_active s2 \<and> pc_gfx_vcm (ss_ctx s2) = None
          \<and> \<not> pc_gfx_ready (ss_ctx s2)
        then start_frames a made s2 else s2)"

end
