(* ===== verification/ServerLoop.thy ===== *)
theory ServerLoop
  imports Server
begin

text \<open>
  The session worker (\<open>src/session/main.c\<close>), second part: the events that reach the worker through its
  descriptors, the main loop, the options, start and shutdown. What happens in an iteration is data: the
  events that each library delivers, with the answers to the calls made while they are handled.
\<close>

section \<open>The callbacks of a connection\<close>

text \<open>Events that FreeRDP delivers while a peer or its channel manager is polled.\<close>

datatype peer_event =
    EvSettings rdp_settings
  | EvPostConnect vcm_answer
  | EvActivate resize_env
  | EvDesktopResize resize_env
  | EvRemoteMonitors resize_env "(i32 \<times> i32 \<times> i32 \<times> i32) list"
  | EvCaps caps_answer "capset list"
  | EvLayout resize_env "(u32 \<times> u32 \<times> u32) list"
  | EvSndActivated "audio_format list"
  | EvClipFormats "u32 list"
  | EvClipData "u8 list \<Rightarrow> nat \<Rightarrow> u8 list option" set_answer bool "u8 list option" u32
  | EvClipRequest "u8 list \<Rightarrow> nat option" u32
  | EvKey "u32 \<times> u32 \<times> u32 \<times> u32" u16 u8
  | EvMouse u16 u16 u16
  | EvExtendedMouse u16 u16 u16

text \<open>\<open>ctx->input\<close> points to the server's input.\<close>

definition peer_input :: "server \<Rightarrow> input option" where
  "peer_input s = (if pc_input (ss_ctx s) then Some (sv_input s) else None)"

definition with_ctx :: "peer_ctx \<Rightarrow> call list \<Rightarrow> server \<Rightarrow> server" where
  "with_ctx ctx cs s = act cs (s\<lparr>ss_ctx := ctx\<rparr>)"

fun handle_peer_event :: "rdp_settings \<Rightarrow> peer_event \<Rightarrow> server \<Rightarrow> server" where
  "handle_peer_event st (EvSettings st') s = s\<lparr>sv_client := Some st'\<rparr>"
| "handle_peer_event st (EvPostConnect a) s = (let (ctx, cs) = on_post_connect a st (ss_ctx s) in with_ctx ctx cs s)"
| "handle_peer_event st (EvActivate e) s =
     (let (ctx, cs, req) = on_activate st (ss_ctx s) in resize_if e req (with_ctx ctx cs s))"
| "handle_peer_event st (EvDesktopResize e) s = resize_if e (on_desktop_resize st (ss_ctx s)) s"
| "handle_peer_event st (EvRemoteMonitors e ms) s = resize_if e (on_remote_monitors st (ss_ctx s) ms) s"
| "handle_peer_event st (EvCaps a caps) s =
     (let (rc, ctx, clip, cs) = gfx_caps_advertise a st caps (ss_ctx s) (ss_clip s)
      in with_ctx ctx cs (s\<lparr>ss_clip := clip\<rparr>))"
| "handle_peer_event st (EvLayout e ms) s = resize_if e (on_disp_monitor_layout (ss_ctx s) ms) s"
| "handle_peer_event st (EvSndActivated fs) s = (let (ctx, cs) = on_rdpsnd_activated fs (ss_ctx s) in with_ctx ctx cs s)"
| "handle_peer_event st (EvClipFormats ids) s = act (on_cliprdr_client_format_list ids) s"
| "handle_peer_event st (EvClipData conv a ok bytes len) s =
     (let (clip, cs) = on_cliprdr_client_format_data_response conv a (ss_clip s) ok bytes len
      in act cs (s\<lparr>ss_clip := clip\<rparr>))"
| "handle_peer_event st (EvClipRequest conv fmt) s = act (on_cliprdr_client_format_data_request conv (ss_clip s) fmt) s"
| "handle_peer_event st (EvKey mods flags code) s = act (on_keyboard_event mods (peer_input s) flags code) s"
| "handle_peer_event st (EvMouse flags x y) s = act (on_mouse_event (peer_input s) flags x y) s"
| "handle_peer_event st (EvExtendedMouse flags x y) s = act (on_extended_mouse_event (peer_input s) flags x y) s"

text \<open>Events reach a client only as long as there is one.\<close>

fun run_peer_events :: "peer_event list \<Rightarrow> server \<Rightarrow> server" where
  "run_peer_events [] s = s"
| "run_peer_events (e # es) s =
     (case sv_client s of None \<Rightarrow> s | Some st \<Rightarrow> run_peer_events es (handle_peer_event st e s))"

record vcm_poll =
  vp_events :: "peer_event list"
  vp_ok :: bool
  vp_state :: drdynvc_state
  vp_open :: open_answer

definition check_vcm :: "vcm_poll \<Rightarrow> server \<Rightarrow> bool \<times> server" where
  "check_vcm v s = rdp_peer_check_vcm (\<lambda>s. (vp_ok v, run_peer_events (vp_events v) s)) (vp_state v) (vp_open v) s"

section \<open>The events of the Wayland connections and of PipeWire\<close>

definition capture_callback :: "frame_env \<Rightarrow> frame_event \<Rightarrow> server \<Rightarrow> server" where
  "capture_callback e ev s =
    (let (cap, cs, ready) = capture_event ev (sv_capture s); s1 = act cs (s\<lparr>sv_capture := cap\<rparr>)
     in case ready of None \<Rightarrow> s1 | Some (mapped, w, h, stride) \<Rightarrow> on_frame_ready e w h stride s1)"

datatype wl_clip_event =
    CvDataOffer bool handle
  | CvOffer handle string
  | CvSelection read_answer "handle option"
  | CvPrimary "handle option"
  | CvFinished handle
  | CvSend "nat \<Rightarrow> nat" string int
  | CvCancelled handle

definition with_clip :: "clipboard \<times> call list \<Rightarrow> server \<Rightarrow> server" where
  "with_clip r s = act (snd r) (s\<lparr>ss_clip := fst r\<rparr>)"

text \<open>
  The change callback runs before \<open>device_selection\<close> destroys the offer, its last call. Reading a selection
  may never return.
\<close>

fun clipboard_callback :: "wl_clip_event \<Rightarrow> server \<Rightarrow> server option" where
  "clipboard_callback (CvDataOffer ok h) s = Some (s\<lparr>ss_clip := device_data_offer ok (ss_clip s) h\<rparr>)"
| "clipboard_callback (CvOffer h mime) s = Some (s\<lparr>ss_clip := offer_offer (ss_clip s) h mime\<rparr>)"
| "clipboard_callback (CvSelection a h) s =
     (case device_selection a (ss_clip s) h of
        None \<Rightarrow> None
      | Some (clip, cs, note) \<Rightarrow>
          Some (if note = None then with_clip (clip, cs) s
                else act [last cs] (on_wl_clipboard_changed (with_clip (clip, butlast cs) s))))"
| "clipboard_callback (CvPrimary h) s = Some (with_clip (device_primary_selection (ss_clip s) h) s)"
| "clipboard_callback (CvFinished h) s = Some (with_clip (device_finished (ss_clip s) h) s)"
| "clipboard_callback (CvSend wr mime fd) s = Some (act (source_send wr (ss_clip s) mime fd) s)"
| "clipboard_callback (CvCancelled h) s = Some (with_clip (source_cancelled (ss_clip s) h) s)"

text \<open>
  A dequeued buffer of the audio stream, with the clock and the result of sending the samples. The buffer
  is queued again after the samples were sent.
\<close>

definition audio_callback :: "nat \<times> bool \<times> u32 option option \<Rightarrow> server \<Rightarrow> server" where
  "audio_callback x s =
    (case x of (ms, sent, buf) \<Rightarrow>
       (let (cs, n) = on_process (sv_audio s) buf
        in act cs (case n of None \<Rightarrow> s | Some k \<Rightarrow> on_audio_data ms sent k s)))"

section \<open>Dispatch by descriptor\<close>

text \<open>
  The local variables of \<open>main\<close>, and an event of \<open>epoll_wait\<close>: its descriptor and what its handler meets,
  whichever handler that is. \<open>ev_result\<close> is the result of the dispatch of a Wayland connection.
\<close>

record loop_fds =
  lf_standalone :: bool
  lf_capture :: int
  lf_input :: int
  lf_clipboard :: int
  lf_audio :: int

record fd_event =
  ev_fd :: int
  ev_result :: int
  ev_frames :: "(frame_env \<times> frame_event) list"
  ev_clip :: "wl_clip_event list"
  ev_audio :: "(nat \<times> bool \<times> u32 option option) list"
  ev_ipc :: "recv_answer \<times> ipc_msg \<times> peer_answer"
  ev_vcm :: vcm_poll
  ev_accepts :: "peer_answer list"
  ev_listener_ok :: bool

definition stop_if :: "bool \<Rightarrow> server \<Rightarrow> server" where
  "stop_if b s = (if b then stop_running s else s)"

text \<open>The value is \<open>None\<close> if the handler never returns.\<close>

definition dispatch_event :: "loop_fds \<Rightarrow> fd_event \<Rightarrow> server \<Rightarrow> server option" where
  "dispatch_event l ev s =
    (if ev_fd ev = lf_capture l
     then Some (stop_if (ev_result ev < 0) (fold (\<lambda>(e, x). capture_callback e x) (ev_frames ev) s))
     else if ev_fd ev = lf_input l then Some (stop_if (ev_result ev < 0) s)
     else if sv_clipboard_active s \<and> ev_fd ev = lf_clipboard l
     then (case run_all clipboard_callback (ev_clip ev) s of
             None \<Rightarrow> None
           | Some s1 \<Rightarrow> Some (if ev_result ev < 0 then s1\<lparr>sv_clipboard_active := False\<rparr> else s1))
     else if sv_audio_active s \<and> 0 \<le> lf_audio l \<and> ev_fd ev = lf_audio l
     then Some (fold audio_callback (ev_audio ev) s)
     else if \<not> lf_standalone l \<and> ev_fd ev = sv_ipc_fd s
     then Some (case ev_ipc ev of (rx, msg0, a) \<Rightarrow> snd (accept_ipc_client rx msg0 a s))
     else if 0 \<le> sv_vcm_fd s \<and> ev_fd ev = sv_vcm_fd s
     then Some (let (ok, s1) = check_vcm (ev_vcm ev) s in if \<not> ok then disconnect_client s1 else s1)
     else if lf_standalone l \<and> sv_listener s
     then Some (stop_if (\<not> ev_listener_ok ev)
       (fold (\<lambda>a s. snd (session_on_peer_accepted a s)) (ev_accepts ev) s))
     else Some s)"

section \<open>The main loop\<close>

record client_round =
  cr_events :: "peer_event list"
  cr_ok :: bool
  cr_fds :: "int list"
  cr_fd_of :: "handle \<Rightarrow> int option"
  cr_vcm :: vcm_poll
  cr_init :: init_answer
  cr_made :: bool

text \<open>The part of an iteration that looks after the client.\<close>

definition pump_client :: "client_round \<Rightarrow> server \<Rightarrow> server" where
  "pump_client c s =
    (if sv_client s = None then s
     else
       (let s1 = run_peer_events (cr_events c) s in
        if \<not> cr_ok c then disconnect_client s1
        else
          (let s2 = epoll_update_client (cr_fds c) (cr_fd_of c) (act (input_flush (sv_input s1)) s1);
               (ok, s3) = check_vcm (cr_vcm c) s2
           in if \<not> ok then disconnect_client s3 else start_client (cr_init c) (cr_made c) s3)))"

text \<open>
  \<open>sr_waitpid\<close> is the result of the \<open>waitpid\<close> after a SIGCHLD, \<open>sr_late\<close> the signals between it and the
  reset of the flag, \<open>sr_signals\<close> those during the rest of the iteration.
\<close>

record server_round =
  sr_waitpid :: int
  sr_late :: "signal list"
  sr_signals :: "signal list"
  sr_epoll :: "fd_event epoll_answer"
  sr_client :: client_round

definition signals :: "signal list \<Rightarrow> server \<Rightarrow> server" where
  "signals sigs s = s\<lparr>sv_flags := fold session_on_signal sigs (sv_flags s)\<rparr>"

text \<open>The flag is false if the loop is left by \<open>break\<close>; the value is \<open>None\<close> if a handler never returns.\<close>

definition server_iteration :: "loop_fds \<Rightarrow> server_round \<Rightarrow> server \<Rightarrow> (bool \<times> server) option" where
  "server_iteration l r s =
    (if g_child_exited (sv_flags s) \<and> sr_waitpid r = co_pid (sv_comp s) then Some (False, act [Sys (SysWaitpid (- 1))] s)
     else
       (let s1 = (if g_child_exited (sv_flags s)
                  then (let s0 = signals (sr_late r) (act [Sys (SysWaitpid (- 1))] s) in s0\<lparr>sv_flags := (sv_flags s0)\<lparr>g_child_exited := False\<rparr>\<rparr>)
                  else s);
            s2 = signals (sr_signals r) (act ([Wl WlFlush] @ input_flush (sv_input s1)
                   @ (if sv_clipboard_active s1 then [Wl WlFlush] else [])) s1)
        in case sr_epoll r of
             EpollIntr \<Rightarrow> Some (True, s2)
           | EpollError \<Rightarrow> Some (False, s2)
           | EpollEvents evs \<Rightarrow>
               (case run_all (dispatch_event l) evs s2 of
                  None \<Rightarrow> None
                | Some s3 \<Rightarrow> Some (True, pump_client (sr_client r) s3))))"

fun server_loop :: "loop_fds \<Rightarrow> server_round list \<Rightarrow> server \<Rightarrow> server progress" where
  "server_loop l [] s = (if g_running (sv_flags s) then Running s else Left s)"
| "server_loop l (r # rs) s =
    (if \<not> g_running (sv_flags s) then Left s
     else (case server_iteration l r s of
             None \<Rightarrow> Stuck
           | Some (go, s1) \<Rightarrow> if go then server_loop l rs s1 else Left s1))"

section \<open>Start and shutdown\<close>

definition initial_server :: server where
  "initial_server = \<lparr>ss_ctx = zero_ctx, ss_clip = zero_clipboard, ss_trace = [],
     sv_port = 3389, sv_width = 3840, sv_height = 2160, sv_desktop_cmd = ''foot'', sv_cert_file = None,
     sv_key_file = None, sv_ipc_fd = - 1, sv_comp = \<lparr>co_pid = 0, co_display_name = []\<rparr>,
     sv_capture = zero_capture, sv_input = zero_input, sv_encoder = zero_encoder, sv_clipboard_active = False,
     sv_audio = zero_audio, sv_audio_active = False, sv_listener = False, sv_client = None, sv_epoll_fd = 0,
     sv_vcm_fd = - 1, sv_client_active = False, sv_encoder_initialized = False, sv_last_frame_ms = 0,
     sv_frame_interval_ms = FRAME_INTERVAL_DEFAULT_MS, sv_flags = initial_flags\<rparr>"

definition session_long_opts :: "long_option list" where
  "session_long_opts =
    [(''port'', True, CHR ''p''), (''ipc-fd'', True, CHR ''i''), (''width'', True, CHR ''W''),
     (''height'', True, CHR ''H''), (''desktop-cmd'', True, CHR ''d''), (''cert'', True, CHR ''c''),
     (''key'', True, CHR ''k''), (''help'', False, CHR ''h'')]"

fun session_options :: "(char \<times> string) list \<Rightarrow> server \<Rightarrow> int + server" where
  "session_options [] s = Inr s"
| "session_options ((opt, optarg) # os) s =
    (if opt = CHR ''p'' then session_options os (s\<lparr>sv_port := c_atoi optarg\<rparr>)
     else if opt = CHR ''i'' then session_options os (s\<lparr>sv_ipc_fd := c_atoi optarg\<rparr>)
     else if opt = CHR ''W'' then session_options os (s\<lparr>sv_width := word_of_int (c_atoi optarg)\<rparr>)
     else if opt = CHR ''H'' then session_options os (s\<lparr>sv_height := word_of_int (c_atoi optarg)\<rparr>)
     else if opt = CHR ''d'' then session_options os (s\<lparr>sv_desktop_cmd := optarg\<rparr>)
     else if opt = CHR ''c'' then session_options os (s\<lparr>sv_cert_file := Some optarg\<rparr>)
     else if opt = CHR ''k'' then session_options os (s\<lparr>sv_key_file := Some optarg\<rparr>)
     else if opt = CHR ''h'' then Inl 0
     else Inl 1)"

definition session_certs :: "server \<Rightarrow> server" where
  "session_certs s =
    (if sv_ipc_fd s < 0 \<and> (sv_cert_file s = None \<or> sv_key_file s = None)
     then act (generate_self_signed_cert auto_cert auto_key)
       (s\<lparr>sv_cert_file := Some (case sv_cert_file s of None \<Rightarrow> auto_cert | Some f \<Rightarrow> f),
          sv_key_file := Some (case sv_key_file s of None \<Rightarrow> auto_key | Some f \<Rightarrow> f)\<rparr>)
     else s)"

text \<open>What the libraries and the kernel answer during the start, \<open>sm_waitpid\<close> also during the
  shutdown; \<open>sm_signals\<close> are the signals that arrive before the loop.
\<close>

record start_answer =
  sm_launch :: launch_answer
  sm_capture :: wl_answer
  sm_input :: wl_answer
  sm_devices :: "handle \<times> handle"
  sm_keymap :: keymap_answer
  sm_clipboard :: wl_answer
  sm_data_device :: handle
  sm_audio :: pw_answer
  sm_epoll :: int
  sm_capture_fd :: int
  sm_input_fd :: int
  sm_clipboard_fd :: int
  sm_audio_fd :: "handle \<Rightarrow> int"
  sm_listener :: bool
  sm_open :: bool
  sm_listener_fds :: "int list"
  sm_waitpid :: "nat \<Rightarrow> int"
  sm_signals :: "signal list"

text \<open>The tear-down of one part.\<close>

definition drop_compositor :: "(nat \<Rightarrow> int) \<Rightarrow> server \<Rightarrow> server" where
  "drop_compositor wp s = (let (comp, cs) = compositor_destroy wp (sv_comp s) in act cs (s\<lparr>sv_comp := comp\<rparr>))"

definition drop_capture :: "server \<Rightarrow> server" where
  "drop_capture s = (let (cap, cs) = capture_destroy (sv_capture s) in act cs (s\<lparr>sv_capture := cap\<rparr>))"

definition session_cleanup :: "(nat \<Rightarrow> int) \<Rightarrow> server \<Rightarrow> server" where
  "session_cleanup wp s =
    (let s1 = (if sv_client s \<noteq> None then act [Peer PeerContextFree, Peer PeerFree] s else s);
         s2 = (if sv_listener s1 then act [Lst ListenerClose, Lst ListenerFree] s1 else s1);
         s3 = (if 0 \<le> sv_ipc_fd s2
               then act [Sys (SysClose (sv_ipc_fd s2))] (send_status StatusTerminated s2) else s2);
         s4 = (if 0 \<le> sv_epoll_fd s3 then act [Sys (SysClose (sv_epoll_fd s3))] s3 else s3);
         s5 = (if sv_encoder_initialized s4
               then (let (enc, cs) = encoder_destroy (sv_encoder s4) in act cs (s4\<lparr>sv_encoder := enc\<rparr>)) else s4);
         s6 = (if sv_audio_active s5
               then (let (au, cs) = audio_destroy (sv_audio s5) in act cs (s5\<lparr>sv_audio := au\<rparr>)) else s5);
         s7 = (if sv_clipboard_active s6 then with_clip (clipboard_destroy (ss_clip s6)) s6 else s6);
         s8 = (let (inp, cs) = input_destroy (sv_input s7) in act cs (s7\<lparr>sv_input := inp\<rparr>));
         s9 = drop_capture s8
     in drop_compositor wp s9)"

text \<open>The descriptors of the connections, which epoll watches.\<close>

definition watch_fds :: "start_answer \<Rightarrow> server \<Rightarrow> loop_fds \<times> server" where
  "watch_fds a s =
    (let clip_fd = (if sv_clipboard_active s then sm_clipboard_fd a else - 1);
         aud_fd = (if sv_audio_active s then audio_get_fd (sm_audio_fd a) (sv_audio s) else - 1);
         s1 = epoll_add_fd (sm_input_fd a) (epoll_add_fd (sm_capture_fd a) s);
         s2 = (if sv_clipboard_active s1 then epoll_add_fd clip_fd s1 else s1);
         s3 = (if sv_audio_active s2 \<and> 0 \<le> aud_fd then epoll_add_fd aud_fd s2 else s2)
     in (\<lparr>lf_standalone = (sv_ipc_fd s < 0), lf_capture = sm_capture_fd a, lf_input = sm_input_fd a,
          lf_clipboard = clip_fd, lf_audio = aud_fd\<rparr>, s3))"

text \<open>\<open>Inl\<close> if \<open>main\<close> returns before its loop, with the exit code and the state then.\<close>

definition session_start :: "start_answer \<Rightarrow> string list \<Rightarrow> (int \<times> server) + (loop_fds \<times> server)" where
  "session_start a args =
    (case session_options (getopt_long session_long_opts args) initial_server of
       Inl code \<Rightarrow> Inl (code, initial_server)
     | Inr s0 \<Rightarrow>
       let s1 = session_certs s0;
           (ok1, comp, cs1) = compositor_launch (sm_launch a) (sv_desktop_cmd s1) (sint (sv_width s1))
                                (sint (sv_height s1)) (sv_comp s1);
           s2 = act cs1 (s1\<lparr>sv_comp := comp\<rparr>)
       in if \<not> ok1 then Inl (1, s2)
       else
         let (ok2, cap, cs2) = capture_init (sm_capture a) True; s3 = act cs2 (s2\<lparr>sv_capture := cap\<rparr>)
         in if \<not> ok2 then Inl (1, drop_compositor (sm_waitpid a) s3)
       else
         let (ok3, inp, cs3) = input_init (sm_input a) (sm_devices a) (sm_keymap a) (sv_width s3) (sv_height s3);
             s4 = act cs3 (s3\<lparr>sv_input := inp\<rparr>)
         in if \<not> ok3 then Inl (1, drop_compositor (sm_waitpid a) (drop_capture s4))
       else
         let (ok4, clip, cs4) = clipboard_init (sm_clipboard a) (sm_data_device a) True;
             s5 = (act cs4 (s4\<lparr>ss_clip := clip\<rparr>))\<lparr>sv_clipboard_active := ok4\<rparr>;
             (ok5, au, cs5) = audio_init (sm_audio a) True;
             s6 = (act cs5 (s5\<lparr>sv_audio := au\<rparr>))\<lparr>sv_audio_active := ok5, sv_epoll_fd := sm_epoll a\<rparr>
         in if sm_epoll a < 0 then Inl (0, session_cleanup (sm_waitpid a) s6)
       else
         let (l, s7) = watch_fds a s6 in
         if lf_standalone l
         then if \<not> sm_listener a then Inl (0, session_cleanup (sm_waitpid a) (act [Lst ListenerNew] s7))
              else
                let s8 = act [Lst ListenerNew, Lst (ListenerOpen (sv_port s7))] (s7\<lparr>sv_listener := True\<rparr>)
                in if \<not> sm_open a then Inl (0, session_cleanup (sm_waitpid a) s8)
                   else Inr (l, signals (sm_signals a) (fold epoll_add_fd (filter (\<lambda>fd. 0 \<le> fd) (sm_listener_fds a)) s8))
         else Inr (l, signals (sm_signals a) (send_status StatusReady (epoll_add_fd (sv_ipc_fd s7) s7))))"

definition session_main :: "start_answer \<Rightarrow> string list \<Rightarrow> server_round list \<Rightarrow> (int \<times> server) progress" where
  "session_main a args rounds =
    (case session_start a args of
       Inl r \<Rightarrow> Left r
     | Inr (l, s) \<Rightarrow> (case server_loop l rounds s of
                       Stuck \<Rightarrow> Stuck
                     | Running s' \<Rightarrow> Running (0, s')
                     | Left s' \<Rightarrow> Left (0, session_cleanup (sm_waitpid a) s')))"

end
