(* ===== verification/SessionMgr.thy ===== *)
theory SessionMgr
  imports Ipc
begin

text \<open>
  The daemon's session table (\<open>src/daemon/session_mgr.h\<close>, \<open>src/daemon/session_mgr.c\<close>): the array of
  50 entries, lookup, allocation, fork and reconnect, reaping and shutdown; the invariant that
  every operation keeps; the abstract registry (user name to worker process) that the table
  implements; and the order in which the forked child gives up root.
\<close>

section \<open>State\<close>

definition WLRDP_MAX_SESSIONS :: nat where "WLRDP_MAX_SESSIONS = 50"

record auth_result =
  auth_uid :: int
  auth_gid :: int
  auth_home :: string
  auth_shell :: string

record session_entry =
  se_active :: bool
  se_username :: string
  se_pid :: int
  se_ipc_fd :: int
  se_status :: u32

text \<open>\<open>memset(entry, 0, sizeof(*entry))\<close>\<close>

definition zero_entry :: session_entry where
  "zero_entry = \<lparr>se_active = False, se_username = [], se_pid = 0, se_ipc_fd = 0, se_status = 0\<rparr>"

record session_mgr =
  sessions :: "session_entry list"
  mgr_count :: int
  mgr_desktop_cmd :: string
  mgr_cert_file :: string
  mgr_key_file :: string
  mgr_default_width :: int
  mgr_default_height :: int

definition session_mgr_init :: "string \<Rightarrow> string \<Rightarrow> string \<Rightarrow> int \<Rightarrow> int \<Rightarrow> session_mgr" where
  "session_mgr_init cmd cert key w h =
     \<lparr>sessions = replicate WLRDP_MAX_SESSIONS zero_entry, mgr_count = 0, mgr_desktop_cmd = cmd,
      mgr_cert_file = cert, mgr_key_file = key, mgr_default_width = w, mgr_default_height = h\<rparr>"

text \<open>The system calls that the table's operations make, in order.\<close>

datatype sm_call =
    SmClose int
  | SmFork
  | SmSend int packet
  | SmKillTerm int
  | SmWaitpid int

section \<open>Lookup and allocation\<close>

definition find_session :: "session_mgr \<Rightarrow> string \<Rightarrow> nat option" where
  "find_session mgr username =
     first_index (\<lambda>e. se_active e \<and> se_username e = username) (sessions mgr)"

definition alloc_slot :: "session_mgr \<Rightarrow> nat option" where
  "alloc_slot mgr = first_index (\<lambda>e. \<not> se_active e) (sessions mgr)"

section \<open>Forking a worker\<close>

text \<open>
  The parent's view of \<open>fork_session\<close>. The results of \<open>socketpair\<close> and \<open>fork\<close> come from the kernel;
  \<open>i\<close> is the slot of \<open>entry\<close>.
\<close>

record fork_answer =
  fa_socketpair :: "(int \<times> int) option"
  fa_fork :: fork_result

definition fork_session ::
    "fork_answer \<Rightarrow> session_mgr \<Rightarrow> nat \<Rightarrow> bool \<times> session_mgr \<times> sm_call list" where
  "fork_session a mgr i =
    (case fa_socketpair a of
       None \<Rightarrow> (False, mgr, [])
     | Some (sv0, sv1) \<Rightarrow>
        (case fa_fork a of
           ForkFailed \<Rightarrow> (False, mgr, [SmFork, SmClose sv0, SmClose sv1])
         | ForkParent pid \<Rightarrow>
             (True,
              mgr\<lparr>sessions := (sessions mgr)[i := (sessions mgr ! i)
                     \<lparr>se_active := True, se_pid := pid, se_ipc_fd := sv0,
                      se_status := status_code StatusReady\<rparr>],
                  mgr_count := mgr_count mgr + 1\<rparr>,
              [SmFork, SmClose sv1])))"

text \<open>The child's view: it gives up root, sets its environment and becomes the worker.\<close>

datatype child_call =
    ChClose int
  | ChSetgid int
  | ChInitgroups string int
  | ChSetuid int
  | ChSetenv string string
  | ChExec "string list"
  | ChExit int

record child_answer =
  ca_setgid :: bool
  ca_initgroups :: bool
  ca_setuid :: bool

definition fork_session_child ::
    "child_answer \<Rightarrow> session_mgr \<Rightarrow> session_entry \<Rightarrow> auth_result \<Rightarrow> int \<Rightarrow> int \<Rightarrow> child_call list" where
  "fork_session_child a mgr e auth sv0 sv1 =
    [ChClose sv0, ChSetgid (auth_gid auth)] @
    (if \<not> ca_setgid a then [ChExit 1] else
     [ChInitgroups (se_username e) (auth_gid auth)] @
     (if \<not> ca_initgroups a then [ChExit 1] else
      [ChSetuid (auth_uid auth)] @
      (if \<not> ca_setuid a then [ChExit 1] else
       [ChSetenv ''HOME'' (auth_home auth),
        ChSetenv ''USER'' (se_username e),
        ChSetenv ''LOGNAME'' (se_username e),
        ChSetenv ''SHELL'' (auth_shell auth),
        ChSetenv ''XDG_RUNTIME_DIR'' (c_snprintf 128 (''/run/user/'' @ c_dec (auth_uid auth))),
        ChExec [''wlrdp-session'',
          ''--ipc-fd'', c_snprintf 16 (c_dec sv1),
          ''--width'', c_snprintf 16 (c_dec (mgr_default_width mgr)),
          ''--height'', c_snprintf 16 (c_dec (mgr_default_height mgr)),
          ''--desktop-cmd'', mgr_desktop_cmd mgr,
          ''--cert'', mgr_cert_file mgr,
          ''--key'', mgr_key_file mgr],
        ChExit 127])))"

section \<open>Find or create\<close>

text \<open>
  \<open>getpwuid\<close> (the passwd database) is a parameter that maps a uid to \<open>pw_name\<close>. The result is the
  slot of the entry returned, the table afterwards and the calls made.
\<close>

definition session_mgr_get_session ::
    "(int \<Rightarrow> string option) \<Rightarrow> fork_answer \<Rightarrow> session_mgr \<Rightarrow> auth_result
       \<Rightarrow> nat option \<times> session_mgr \<times> sm_call list" where
  "session_mgr_get_session getpwuid a mgr auth =
    (case getpwuid (auth_uid auth) of
       None \<Rightarrow> (None, mgr, [])
     | Some username \<Rightarrow>
        (case find_session mgr username of
           Some i \<Rightarrow> (Some i, mgr, [])
         | None \<Rightarrow>
            (case alloc_slot mgr of
               None \<Rightarrow> (None, mgr, [])
             | Some i \<Rightarrow>
                (let mgr1 = mgr\<lparr>sessions := (sessions mgr)[i := (sessions mgr ! i)
                               \<lparr>se_username := c_snprintf 64 username\<rparr>]\<rparr>;
                     (ok, mgr2, cs) = fork_session a mgr1 i
                 in if \<not> ok
                    then (None, mgr2\<lparr>sessions := (sessions mgr2)[i := zero_entry]\<rparr>, cs)
                    else (Some i, mgr2, cs)))))"

definition session_mgr_send_client ::
    "(int \<Rightarrow> packet \<Rightarrow> int) \<Rightarrow> session_entry \<Rightarrow> int \<Rightarrow> c_fault + bool \<times> packet" where
  "session_mgr_send_client sendmsg e peer_fd =
     ipc_send_msg (sendmsg (se_ipc_fd e)) (mk_msg WLRDP_MSG_NEW_CLIENT []) peer_fd"

section \<open>Reaping and shutdown\<close>

text \<open>One round of the outer loop: \<open>waitpid\<close> returned \<open>pid\<close>.\<close>

definition reap_pid :: "int \<Rightarrow> session_mgr \<Rightarrow> session_mgr \<times> sm_call list" where
  "reap_pid pid mgr =
    (case first_index (\<lambda>e. se_active e \<and> se_pid e = pid) (sessions mgr) of
       None \<Rightarrow> (mgr, [])
     | Some i \<Rightarrow>
        (mgr\<lparr>sessions := (sessions mgr)[i := zero_entry], mgr_count := mgr_count mgr - 1\<rparr>,
         [SmClose (se_ipc_fd (sessions mgr ! i))]))"

text \<open>The list holds the successive results of \<open>waitpid(-1, ..., WNOHANG)\<close>; a result that is not
  positive, or the end of the list, is the end of the loop.\<close>

fun session_mgr_reap :: "int list \<Rightarrow> session_mgr \<Rightarrow> session_mgr \<times> sm_call list" where
  "session_mgr_reap [] mgr = (mgr, [])"
| "session_mgr_reap (pid # pids) mgr =
     (if pid \<le> 0 then (mgr, [])
      else let (mgr1, cs1) = reap_pid pid mgr; (mgr2, cs2) = session_mgr_reap pids mgr1
           in (mgr2, cs1 @ cs2))"

definition shutdown_packet :: packet where
  "shutdown_packet = packet_of (mk_msg WLRDP_MSG_SHUTDOWN []) (-1)"

text \<open>\<open>ipc_send_msg\<close> with an empty payload cannot overrun; its result is not looked at.\<close>

definition send_calls :: "(int \<Rightarrow> packet \<Rightarrow> int) \<Rightarrow> int \<Rightarrow> ipc_msg \<Rightarrow> int \<Rightarrow> sm_call list" where
  "send_calls sendmsg sock m fd =
     (case ipc_send_msg (sendmsg sock) m fd of Inl _ \<Rightarrow> [] | Inr (_, p) \<Rightarrow> [SmSend sock p])"

fun destroy_signal :: "(int \<Rightarrow> packet \<Rightarrow> int) \<Rightarrow> session_entry list \<Rightarrow> sm_call list" where
  "destroy_signal sendmsg [] = []"
| "destroy_signal sendmsg (e # es) =
     (if se_active e
      then send_calls sendmsg (se_ipc_fd e) (mk_msg WLRDP_MSG_SHUTDOWN []) (-1)
             @ [SmKillTerm (se_pid e), SmClose (se_ipc_fd e)]
      else []) @ destroy_signal sendmsg es"

fun destroy_wait :: "session_entry list \<Rightarrow> sm_call list" where
  "destroy_wait [] = []"
| "destroy_wait (e # es) = (if se_active e then [SmWaitpid (se_pid e)] else []) @ destroy_wait es"

definition session_mgr_destroy ::
    "(int \<Rightarrow> packet \<Rightarrow> int) \<Rightarrow> session_mgr \<Rightarrow> session_mgr \<times> sm_call list" where
  "session_mgr_destroy sendmsg mgr =
     (session_mgr_init [] [] [] 0 0,
      destroy_signal sendmsg (sessions mgr) @ destroy_wait (sessions mgr))"

text \<open>The shutdown message is well formed, and the only thing that the destruction sends.\<close>

lemma destroy_sends:
  assumes "SmSend fd pkt \<in> set (snd (session_mgr_destroy sendmsg m))"
  shows "pkt = shutdown_packet"
proof -
  have send: "send_calls sendmsg s (mk_msg WLRDP_MSG_SHUTDOWN []) (- 1) = [SmSend s shutdown_packet]" for s
    by (simp add: send_calls_def shutdown_packet_def ipc_send_msg_wf mk_msg_wf)
  have "SmSend fd p \<in> set (destroy_signal sendmsg es) \<Longrightarrow> p = shutdown_packet" for p es
    by (induction es) (auto simp: send split: if_splits)
  moreover have "SmSend fd p \<notin> set (destroy_wait es)" for p es
    by (induction es) auto
  ultimately show ?thesis using assms by (auto simp: session_mgr_destroy_def)
qed

section \<open>The invariant of the table\<close>

text \<open>No two active entries agree on a key (the user name, the pid).\<close>

definition keyed_distinct :: "(session_entry \<Rightarrow> 'k) \<Rightarrow> session_entry list \<Rightarrow> bool" where
  "keyed_distinct k es \<longleftrightarrow>
     (\<forall>i < length es. \<forall>j < length es.
        se_active (es ! i) \<longrightarrow> se_active (es ! j) \<longrightarrow> k (es ! i) = k (es ! j) \<longrightarrow> i = j)"

definition entry_ok :: "session_entry \<Rightarrow> bool" where
  "entry_ok e \<longleftrightarrow>
     (if se_active e then 0 < se_pid e \<and> length (se_username e) < 64 else e = zero_entry)"

definition mgr_inv :: "session_mgr \<Rightarrow> bool" where
  "mgr_inv m \<longleftrightarrow>
     length (sessions m) = WLRDP_MAX_SESSIONS \<and>
     mgr_count m = int (count_if se_active (sessions m)) \<and>
     (\<forall>e \<in> set (sessions m). entry_ok e) \<and>
     keyed_distinct se_username (sessions m) \<and>
     keyed_distinct se_pid (sessions m)"

lemma keyed_distinctD:
  "keyed_distinct k es \<Longrightarrow> i < length es \<Longrightarrow> j < length es \<Longrightarrow> se_active (es ! i) \<Longrightarrow>
     se_active (es ! j) \<Longrightarrow> k (es ! i) = k (es ! j) \<Longrightarrow> i = j"
  by (simp add: keyed_distinct_def)

lemma keyed_distinct_off:
  "keyed_distinct k es \<Longrightarrow> \<not> se_active e \<Longrightarrow> keyed_distinct k (es[i := e])"
  unfolding keyed_distinct_def by (auto simp: nth_update_cases split: if_splits)

lemma keyed_distinct_new:
  assumes "keyed_distinct k es" "\<forall>x \<in> set es. se_active x \<longrightarrow> k x \<noteq> k e"
  shows "keyed_distinct k (es[i := e])"
  using assms unfolding keyed_distinct_def
  by (auto simp: nth_update_cases split: if_splits)

text \<open>\<open>fork\<close> never returns the pid of a child that was not waited for.\<close>

definition fresh_fork :: "session_mgr \<Rightarrow> fork_answer \<Rightarrow> bool" where
  "fresh_fork m a \<longleftrightarrow>
     (case fa_fork a of ForkFailed \<Rightarrow> True
      | ForkParent pid \<Rightarrow> 0 < pid \<and> (\<forall>e \<in> set (sessions m). se_active e \<longrightarrow> se_pid e \<noteq> pid))"

lemma zero_entry_inactive [simp]: "\<not> se_active zero_entry"
  by (simp add: zero_entry_def)

lemma entry_ok_zero [simp]: "entry_ok zero_entry"
  by (simp add: entry_ok_def)

lemma mgr_inv_init: "mgr_inv (session_mgr_init cmd cert key w h)"
  by (simp add: mgr_inv_def session_mgr_init_def count_if_def keyed_distinct_def entry_ok_def)

lemma mgr_inv_length [simp]: "mgr_inv m \<Longrightarrow> length (sessions m) = WLRDP_MAX_SESSIONS"
  by (simp add: mgr_inv_def)

lemma mgr_inv_count: "mgr_inv m \<Longrightarrow> 0 \<le> mgr_count m \<and> mgr_count m \<le> 50"
  using count_if_le [of se_active "sessions m"] by (simp add: mgr_inv_def WLRDP_MAX_SESSIONS_def)

lemma find_sessionD:
  "find_session m u = Some i \<Longrightarrow>
     i < length (sessions m) \<and> se_active (sessions m ! i) \<and> se_username (sessions m ! i) = u"
  by (simp add: find_session_def first_index_Some)

lemma mgr_inv_inactive:
  "mgr_inv m \<Longrightarrow> i < length (sessions m) \<Longrightarrow> \<not> se_active (sessions m ! i) \<Longrightarrow> sessions m ! i = zero_entry"
  by (metis entry_ok_def mgr_inv_def nth_mem)

lemma find_session_unique:
  assumes "mgr_inv m" "i < length (sessions m)" "se_active (sessions m ! i)"
  shows "find_session m (se_username (sessions m ! i)) = Some i"
proof -
  have "keyed_distinct se_username (sessions m)"
    using assms(1) by (simp add: mgr_inv_def)
  then have "\<not> (se_active (sessions m ! j) \<and> se_username (sessions m ! j) = se_username (sessions m ! i))"
    if "j < i" for j
    using keyed_distinctD [of se_username "sessions m" j i] assms(2,3) that by auto
  with assms(2,3) show ?thesis by (simp add: find_session_def first_index_Some)
qed

lemma find_session_iff:
  "mgr_inv m \<Longrightarrow> find_session m u = Some i \<longleftrightarrow>
     i < length (sessions m) \<and> se_active (sessions m ! i) \<and> se_username (sessions m ! i) = u"
  using find_sessionD find_session_unique by blast

lemma find_session_None:
  "find_session m u = None \<longleftrightarrow> (\<forall>e \<in> set (sessions m). se_active e \<longrightarrow> se_username e \<noteq> u)"
  by (auto simp: find_session_def first_index_None)

lemma alloc_slotD: "alloc_slot m = Some i \<Longrightarrow> i < length (sessions m) \<and> \<not> se_active (sessions m ! i)"
  by (simp add: alloc_slot_def first_index_Some)

lemma alloc_slot_full: "mgr_inv m \<Longrightarrow> alloc_slot m = None \<longleftrightarrow> mgr_count m = 50"
  unfolding alloc_slot_def by (simp add: count_if_full mgr_inv_def WLRDP_MAX_SESSIONS_def)

section \<open>What find-or-create returns\<close>

definition new_entry :: "string \<Rightarrow> int \<Rightarrow> int \<Rightarrow> session_entry" where
  "new_entry u pid fd = \<lparr>se_active = True, se_username = c_snprintf 64 u, se_pid = pid,
     se_ipc_fd = fd, se_status = status_code StatusReady\<rparr>"

lemma new_entry_eq:
  "e\<lparr>se_username := c_snprintf 64 u, se_active := True, se_pid := pid, se_ipc_fd := fd,
     se_status := 0\<rparr> = new_entry u pid fd"
  by (cases e) (simp add: new_entry_def)

lemma get_session_known:
  "getpwuid (auth_uid auth) = Some u \<Longrightarrow> find_session m u = Some i \<Longrightarrow>
     session_mgr_get_session getpwuid a m auth = (Some i, m, [])"
  by (simp add: session_mgr_get_session_def)

lemma get_session_full:
  "getpwuid (auth_uid auth) = Some u \<Longrightarrow> find_session m u = None \<Longrightarrow> alloc_slot m = None \<Longrightarrow>
     session_mgr_get_session getpwuid a m auth = (None, m, [])"
  by (simp add: session_mgr_get_session_def)

lemma get_session_new:
  assumes "getpwuid (auth_uid auth) = Some u" "find_session m u = None" "alloc_slot m = Some i"
    and "fa_socketpair a = Some (s0, s1)" "fa_fork a = ForkParent pid"
  shows "session_mgr_get_session getpwuid a m auth =
     (Some i, m\<lparr>sessions := (sessions m)[i := new_entry u pid s0], mgr_count := mgr_count m + 1\<rparr>,
      [SmFork, SmClose s1])"
  using assms alloc_slotD [of m i]
  by (simp add: session_mgr_get_session_def fork_session_def new_entry_eq)

text \<open>A failed fork leaves the table as it was: the slot was a zero entry and is zeroed again.\<close>

lemma get_session_fork_failed:
  assumes inv: "mgr_inv m"
    and pw: "getpwuid (auth_uid auth) = Some u" "find_session m u = None" "alloc_slot m = Some i"
    and bad: "fa_socketpair a = None \<or> fa_fork a = ForkFailed"
  shows "\<exists>cs. session_mgr_get_session getpwuid a m auth = (None, m, cs)"
proof -
  have i: "i < length (sessions m)" "sessions m ! i = zero_entry"
    using alloc_slotD [OF pw(3)] mgr_inv_inactive [OF inv] by blast+
  have "(sessions m)[i := zero_entry] = sessions m"
    using i by (metis list_update_id)
  with pw bad show ?thesis
    by (cases "fa_socketpair a")
      (auto simp: session_mgr_get_session_def fork_session_def Let_def split: prod.split)
qed

text \<open>The four outcomes, as one case rule.\<close>

lemma get_session_cases [case_names unknown known unchanged created]:
  assumes "mgr_inv m"
  obtains "getpwuid (auth_uid auth) = None"
      "session_mgr_get_session getpwuid a m auth = (None, m, [])"
  | u i where "getpwuid (auth_uid auth) = Some u" "find_session m u = Some i"
      "session_mgr_get_session getpwuid a m auth = (Some i, m, [])"
  | u cs where "getpwuid (auth_uid auth) = Some u" "find_session m u = None"
      "session_mgr_get_session getpwuid a m auth = (None, m, cs)"
  | u i s0 s1 pid where "getpwuid (auth_uid auth) = Some u" "find_session m u = None"
      "alloc_slot m = Some i" "fa_socketpair a = Some (s0, s1)" "fa_fork a = ForkParent pid"
      "session_mgr_get_session getpwuid a m auth =
         (Some i, m\<lparr>sessions := (sessions m)[i := new_entry u pid s0],
                    mgr_count := mgr_count m + 1\<rparr>, [SmFork, SmClose s1])"
proof (cases "getpwuid (auth_uid auth)")
  case None
  then show thesis by (intro that(1)) (simp_all add: session_mgr_get_session_def)
next
  case (Some u)
  show thesis
  proof (cases "find_session m u")
    case (Some i)
    with \<open>getpwuid (auth_uid auth) = Some u\<close> show thesis
      by (intro that(2)) (auto simp: get_session_known)
  next
    case None
    note u = \<open>getpwuid (auth_uid auth) = Some u\<close> None
    show thesis
    proof (cases "alloc_slot m")
      case None
      with u show thesis by (intro that(3)) (auto simp: get_session_full)
    next
      case (Some i)
      show thesis
      proof (cases "fa_socketpair a = None \<or> fa_fork a = ForkFailed")
        case True
        with assms u Some show thesis using get_session_fork_failed that(3) by metis
      next
        case False
        then obtain s0 s1 pid where "fa_socketpair a = Some (s0, s1)" "fa_fork a = ForkParent pid"
          by (cases "fa_fork a") auto
        with u Some show thesis by (intro that(4)) (auto simp: get_session_new)
      qed
    qed
  qed
qed

section \<open>Every operation keeps the invariant\<close>

lemma mgr_inv_create:
  assumes inv: "mgr_inv m" and i: "i < length (sessions m)" "\<not> se_active (sessions m ! i)"
    and e: "se_active e" "entry_ok e"
    and new: "\<forall>x \<in> set (sessions m). se_active x \<longrightarrow> se_username x \<noteq> se_username e"
      "\<forall>x \<in> set (sessions m). se_active x \<longrightarrow> se_pid x \<noteq> se_pid e"
  shows "mgr_inv (m\<lparr>sessions := (sessions m)[i := e], mgr_count := mgr_count m + 1\<rparr>)"
proof -
  have "\<forall>x \<in> set ((sessions m)[i := e]). entry_ok x"
    using inv e by (intro ball_update) (simp_all add: mgr_inv_def)
  moreover have "int (count_if se_active ((sessions m)[i := e])) = mgr_count m + 1"
    using inv i e by (simp add: count_if_update mgr_inv_def)
  ultimately show ?thesis
    using inv new by (simp add: mgr_inv_def keyed_distinct_new)
qed

lemma mgr_inv_delete:
  assumes inv: "mgr_inv m" and i: "i < length (sessions m)" "se_active (sessions m ! i)"
  shows "mgr_inv (m\<lparr>sessions := (sessions m)[i := zero_entry], mgr_count := mgr_count m - 1\<rparr>)"
proof -
  have "\<forall>x \<in> set ((sessions m)[i := zero_entry]). entry_ok x"
    using inv by (intro ball_update) (simp_all add: mgr_inv_def)
  moreover have "int (count_if se_active ((sessions m)[i := zero_entry])) = mgr_count m - 1"
    using inv i by (simp add: count_if_update mgr_inv_def)
  ultimately show ?thesis
    using inv by (simp add: mgr_inv_def keyed_distinct_off)
qed

lemma get_session_inv [inv_intros]:
  assumes inv: "mgr_inv m" and fresh: "fresh_fork m a"
    and short: "\<And>u. getpwuid (auth_uid auth) = Some u \<Longrightarrow> length u < 64"
  shows "mgr_inv (fst (snd (session_mgr_get_session getpwuid a m auth)))"
proof (cases rule: get_session_cases [OF inv, where getpwuid = getpwuid and auth = auth and a = a,
      case_names unknown known unchanged created])
  case (created u i s0 s1 pid)
  have "length u < 64" using created(1) by (rule short)
  moreover have "0 < pid" "\<forall>x \<in> set (sessions m). se_active x \<longrightarrow> se_pid x \<noteq> pid"
    using fresh created(5) by (simp_all add: fresh_fork_def)
  ultimately show ?thesis
    using created(2,6) alloc_slotD [OF created(3)] mgr_inv_create [OF inv, of i "new_entry u pid s0"]
    by (simp add: new_entry_def entry_ok_def find_session_None)
qed (use inv in simp_all)

lemma reap_pid_inv [inv_intros]: "mgr_inv m \<Longrightarrow> mgr_inv (fst (reap_pid pid m))"
  by (auto simp: reap_pid_def first_index_Some mgr_inv_delete split: option.split)

lemma session_mgr_reap_inv [inv_intros]: "mgr_inv m \<Longrightarrow> mgr_inv (fst (session_mgr_reap pids m))"
proof (induction pids m rule: session_mgr_reap.induct)
  case (2 pid pids m)
  then show ?case
    using reap_pid_inv [OF "2.prems", of pid] by (auto split: prod.split)
qed simp

lemma session_mgr_destroy_inv [inv_intros]: "mgr_inv (fst (session_mgr_destroy sendmsg m))"
  by (simp add: session_mgr_destroy_def mgr_inv_init)

section \<open>The registry that the table implements\<close>

text \<open>The abstract state: which worker (pid and IPC socket) serves which user.\<close>

definition registry_of :: "session_mgr \<Rightarrow> string \<Rightarrow> (int \<times> int) option" where
  "registry_of m u = map_option (\<lambda>i. (se_pid (sessions m ! i), se_ipc_fd (sessions m ! i))) (find_session m u)"

lemma registry_of_None:
  "registry_of m u = None \<longleftrightarrow> (\<forall>e \<in> set (sessions m). se_active e \<longrightarrow> se_username e \<noteq> u)"
  by (simp add: registry_of_def find_session_None)

lemma registry_of_init: "registry_of (session_mgr_init cmd cert key w h) u = None"
  by (simp add: registry_of_None session_mgr_init_def)

lemma find_session_create:
  assumes inv: "mgr_inv m" "mgr_inv m'" and i: "i < length (sessions m)" "\<not> se_active (sessions m ! i)"
    and e: "se_active e" and m': "sessions m' = (sessions m)[i := e]"
  shows "find_session m' u = (if u = se_username e then Some i else find_session m u)"
proof (cases "u = se_username e")
  case True
  then show ?thesis using i e by (simp add: find_session_iff [OF inv(2)] m')
next
  case False
  have "find_session m' u = Some j \<longleftrightarrow> find_session m u = Some j" for j
    using i e False
    by (auto simp: find_session_iff [OF inv(1)] find_session_iff [OF inv(2)] m' nth_update_cases
        split: if_splits)
  then have "find_session m' u = find_session m u"
    by (cases "find_session m u") (metis not_Some_eq)+
  with False show ?thesis by simp
qed

lemma find_session_delete:
  assumes inv: "mgr_inv m" "mgr_inv m'" and i: "i < length (sessions m)" "se_active (sessions m ! i)"
    and m': "sessions m' = (sessions m)[i := zero_entry]"
  shows "find_session m' u = (if u = se_username (sessions m ! i) then None else find_session m u)"
proof -
  have keep: "find_session m' u = Some j \<longleftrightarrow> find_session m u = Some j \<and> j \<noteq> i" for j
    using i
    by (auto simp: find_session_iff [OF inv(1)] find_session_iff [OF inv(2)] m' nth_update_cases
        split: if_splits)
  have at_i: "find_session m u = Some i \<longleftrightarrow> u = se_username (sessions m ! i)"
    using i by (auto simp: find_session_iff [OF inv(1)])
  show ?thesis
  proof (cases "find_session m u")
    case None
    then show ?thesis using keep at_i by (metis not_Some_eq)
  next
    case (Some j)
    then show ?thesis using keep at_i by (cases "j = i") (metis not_Some_eq option.inject)+
  qed
qed

lemma get_session_registry:
  assumes inv: "mgr_inv m" and fresh: "fresh_fork m a"
    and u: "getpwuid (auth_uid auth) = Some u" "length u < 64"
  shows "registry_of (fst (snd (session_mgr_get_session getpwuid a m auth))) v =
    (if v = u \<and> registry_of m u = None
        \<and> fst (session_mgr_get_session getpwuid a m auth) \<noteq> None
     then (case (fa_socketpair a, fa_fork a) of
             (Some (s0, s1), ForkParent pid) \<Rightarrow> Some (pid, s0) | _ \<Rightarrow> None)
     else registry_of m v)"
proof (cases rule: get_session_cases [OF inv, where getpwuid = getpwuid and auth = auth and a = a,
      case_names unknown known unchanged created])
  case (created u' i s0 s1 pid)
  let ?m = "m\<lparr>sessions := (sessions m)[i := new_entry u pid s0], mgr_count := mgr_count m + 1\<rparr>"
  have [simp]: "u' = u" using created(1) u(1) by simp
  have i: "i < length (sessions m)" "\<not> se_active (sessions m ! i)"
    using alloc_slotD [OF created(3)] by simp_all
  have "mgr_inv (fst (snd (session_mgr_get_session getpwuid a m auth)))"
    using inv fresh u by (intro get_session_inv) auto
  then have inv': "mgr_inv ?m" using created(6) by simp
  have "find_session ?m v = (if v = u then Some i else find_session m v)"
    using find_session_create [OF inv inv' i, of "new_entry u pid s0" v] u(2)
    by (simp add: new_entry_def)
  moreover have "sessions ?m ! j = sessions m ! j" if "find_session m v = Some j" for j
    using find_sessionD [OF that] i by (auto simp: nth_update_cases)
  ultimately show ?thesis
    using created i
    by (cases "find_session m v") (auto simp: registry_of_def new_entry_def split: option.split)
qed (use u in \<open>auto simp: registry_of_def\<close>)

lemma reap_pid_registry:
  assumes inv: "mgr_inv m"
  shows "registry_of (fst (reap_pid pid m)) u =
    (case registry_of m u of None \<Rightarrow> None | Some (p, f) \<Rightarrow> if p = pid then None else Some (p, f))"
proof (cases "first_index (\<lambda>e. se_active e \<and> se_pid e = pid) (sessions m)")
  case None
  have "se_pid (sessions m ! j) \<noteq> pid" if "find_session m u = Some j" for j
    using None find_sessionD [OF that] by (auto simp: first_index_None dest: nth_mem)
  with None show ?thesis
    by (auto simp: reap_pid_def registry_of_def split: option.split)
next
  case (Some i)
  let ?m = "m\<lparr>sessions := (sessions m)[i := zero_entry], mgr_count := mgr_count m - 1\<rparr>"
  have i: "i < length (sessions m)" "se_active (sessions m ! i)" "se_pid (sessions m ! i) = pid"
    using Some by (simp_all add: first_index_Some)
  have inv': "mgr_inv ?m" using inv i by (simp add: mgr_inv_delete)
  have f: "find_session ?m u = (if u = se_username (sessions m ! i) then None else find_session m u)"
    using find_session_delete [OF inv inv' i(1,2)] by simp
  have "keyed_distinct se_pid (sessions m)" using inv by (simp add: mgr_inv_def)
  then have "se_pid (sessions m ! j) \<noteq> pid" if "find_session m u = Some j" "j \<noteq> i" for j
    using find_sessionD [OF that(1)] that(2) i keyed_distinctD [of se_pid "sessions m" j i] by auto
  moreover have "u = se_username (sessions m ! i) \<Longrightarrow> find_session m u = Some i"
    using find_session_unique [OF inv i(1,2)] by simp
  moreover have "find_session m u = Some i \<Longrightarrow> u = se_username (sessions m ! i)"
    using find_sessionD by blast
  moreover have "u \<noteq> se_username (sessions m ! i) \<Longrightarrow> find_session m u = Some j \<Longrightarrow>
      (sessions m)[i := zero_entry] ! j = sessions m ! j" for j
    by (cases "j = i") (auto dest: find_sessionD)
  ultimately show ?thesis
    using f i Some by (cases "find_session m u") (auto simp: reap_pid_def registry_of_def)
qed

section \<open>The interface: find-or-create and expiry\<close>

text \<open>
  What the daemon relies on: attaching a user who has a worker changes nothing, attaching anyone
  leaves the other users' workers alone, and an exit removes exactly the worker that exited.
  The lemma of the interface is session persistence: a user's worker survives every
  sequence of requests of other users, reconnects and exits of other workers.
\<close>

datatype ('u, 'w, 'p) registry_op = Attach 'u 'w | Expire 'p

fun registry_run :: "('u \<Rightarrow> 'w \<Rightarrow> 'm \<Rightarrow> 'm) \<Rightarrow> ('p \<Rightarrow> 'm \<Rightarrow> 'm) \<Rightarrow> ('u, 'w, 'p) registry_op list \<Rightarrow> 'm \<Rightarrow> 'm"
where
  "registry_run att ex [] m = m"
| "registry_run att ex (Attach u w # os) m = registry_run att ex os (att u w m)"
| "registry_run att ex (Expire p # os) m = registry_run att ex os (ex p m)"

fun registry_ok :: "('u \<Rightarrow> 'w \<Rightarrow> 'm \<Rightarrow> 'm) \<Rightarrow> ('p \<Rightarrow> 'm \<Rightarrow> 'm) \<Rightarrow> ('u \<Rightarrow> 'w \<Rightarrow> 'm \<Rightarrow> bool)
    \<Rightarrow> ('u, 'w, 'p) registry_op list \<Rightarrow> 'm \<Rightarrow> bool"
where
  "registry_ok att ex ok [] m = True"
| "registry_ok att ex ok (Attach u w # os) m \<longleftrightarrow> ok u w m \<and> registry_ok att ex ok os (att u w m)"
| "registry_ok att ex ok (Expire p # os) m \<longleftrightarrow> registry_ok att ex ok os (ex p m)"

locale session_registry =
  fixes inv :: "'m \<Rightarrow> bool"
    and abs :: "'m \<Rightarrow> 'u \<Rightarrow> ('p \<times> 'f) option"
    and attach :: "'u \<Rightarrow> 'w \<Rightarrow> 'm \<Rightarrow> 'm"
    and expire :: "'p \<Rightarrow> 'm \<Rightarrow> 'm"
    and allowed :: "'u \<Rightarrow> 'w \<Rightarrow> 'm \<Rightarrow> bool"
  assumes attach_inv: "inv m \<Longrightarrow> allowed u w m \<Longrightarrow> inv (attach u w m)"
    and attach_known: "inv m \<Longrightarrow> allowed u w m \<Longrightarrow> abs m u = Some pf \<Longrightarrow> attach u w m = m"
    and attach_other: "inv m \<Longrightarrow> allowed u w m \<Longrightarrow> v \<noteq> u \<Longrightarrow> abs (attach u w m) v = abs m v"
    and expire_inv: "inv m \<Longrightarrow> inv (expire p m)"
    and expire_abs: "inv m \<Longrightarrow> abs (expire p m) v =
          (case abs m v of None \<Rightarrow> None | Some (q, f) \<Rightarrow> if q = p then None else Some (q, f))"
begin

lemma run_inv: "inv m \<Longrightarrow> registry_ok attach expire allowed os m \<Longrightarrow> inv (registry_run attach expire os m)"
proof (induction os arbitrary: m)
  case Nil
  then show ?case by simp
next
  case (Cons op ops)
  then show ?case by (cases op) (simp_all add: attach_inv expire_inv)
qed

lemma attach_keeps: "inv m \<Longrightarrow> allowed u w m \<Longrightarrow> abs m v = Some pf \<Longrightarrow> abs (attach u w m) v = Some pf"
  by (cases "v = u") (simp_all add: attach_known attach_other)

lemma persistence:
  assumes "inv m" "registry_ok attach expire allowed os m" "abs m v = Some (p, f)" "Expire p \<notin> set os"
  shows "abs (registry_run attach expire os m) v = Some (p, f)"
  using assms
proof (induction os arbitrary: m)
  case Nil
  then show ?case by simp
next
  case (Cons op ops)
  then show ?case
    by (cases op) (simp_all add: attach_inv attach_keeps expire_inv expire_abs)
qed

lemma reconnect:
  assumes "inv m" "registry_ok attach expire allowed os m" "abs m v = Some (p, f)" "Expire p \<notin> set os"
    and "allowed v w (registry_run attach expire os m)"
  shows "attach v w (registry_run attach expire os m) = registry_run attach expire os m"
  using assms by (meson attach_known persistence run_inv)

end

text \<open>The table's own operations, as the interface sees them.\<close>

definition attach_session :: "string \<Rightarrow> fork_answer \<Rightarrow> session_mgr \<Rightarrow> session_mgr" where
  "attach_session u a m = fst (snd (session_mgr_get_session (\<lambda>_. Some u) a m
     \<lparr>auth_uid = 0, auth_gid = 0, auth_home = [], auth_shell = []\<rparr>))"

definition attach_allowed :: "string \<Rightarrow> fork_answer \<Rightarrow> session_mgr \<Rightarrow> bool" where
  "attach_allowed u a m \<longleftrightarrow> length u < 64 \<and> fresh_fork m a"

interpretation table: session_registry mgr_inv registry_of attach_session
    "\<lambda>p m. fst (reap_pid p m)" attach_allowed
proof
  fix m u w v pf p
  assume inv: "mgr_inv m"
  show "mgr_inv (fst (reap_pid p m))" using inv by (rule reap_pid_inv)
  show "registry_of (fst (reap_pid p m)) v =
      (case registry_of m v of None \<Rightarrow> None | Some (q, f) \<Rightarrow> if q = p then None else Some (q, f))"
    using inv by (rule reap_pid_registry)
  assume ok: "attach_allowed u w m"
  show "mgr_inv (attach_session u w m)"
    using inv ok unfolding attach_session_def attach_allowed_def by (intro get_session_inv) auto
  show "registry_of m u = Some pf \<Longrightarrow> attach_session u w m = m"
    by (auto simp: attach_session_def registry_of_def get_session_known)
  show "v \<noteq> u \<Longrightarrow> registry_of (attach_session u w m) v = registry_of m v"
    using inv ok unfolding attach_session_def attach_allowed_def
    by (subst get_session_registry) auto
qed

section \<open>Properties\<close>

text \<open>The states of the table: the initial one, and those that logins and reaping lead to.\<close>

inductive mgr_reachable :: "session_mgr \<Rightarrow> bool" where
  start: "mgr_reachable (session_mgr_init cmd cert key w h)"
| login: "mgr_reachable m \<Longrightarrow> fresh_fork m a \<Longrightarrow>
     (\<And>u. getpwuid (auth_uid auth) = Some u \<Longrightarrow> length u < 64) \<Longrightarrow>
     mgr_reachable (fst (snd (session_mgr_get_session getpwuid a m auth)))"
| reap: "mgr_reachable m \<Longrightarrow> mgr_reachable (fst (session_mgr_reap pids m))"

lemma mgr_reachable_mgr_inv: "mgr_reachable m \<Longrightarrow> mgr_inv m"
  by (induction rule: mgr_reachable.induct) (auto intro: inv_intros mgr_inv_init)

text \<open>
  C1: in every reachable state of the daemon's table, \<open>count\<close> is the number of active entries
  and at most 50, and no two active entries have the same user or the same worker process, for user
  names that fit the 64-byte field.
\<close>

theorem session_table_invariant:
  assumes "mgr_reachable m"
  shows "mgr_count m = int (count_if se_active (sessions m)) \<and> mgr_count m \<le> 50 \<and>
     length (sessions m) = 50 \<and>
     (\<forall>i < 50. \<forall>j < 50. se_active (sessions m ! i) \<and> se_active (sessions m ! j) \<and> i \<noteq> j \<longrightarrow>
        se_username (sessions m ! i) \<noteq> se_username (sessions m ! j) \<and>
        se_pid (sessions m ! i) \<noteq> se_pid (sessions m ! j))"
proof -
  have inv: "mgr_inv m" using assms by (rule mgr_reachable_mgr_inv)
  then have "mgr_count m = int (count_if se_active (sessions m))" "length (sessions m) = 50"
    "keyed_distinct se_username (sessions m)" "keyed_distinct se_pid (sessions m)"
    by (simp_all add: mgr_inv_def WLRDP_MAX_SESSIONS_def)
  with mgr_inv_count [OF inv] show ?thesis
    by (auto dest: keyed_distinctD)
qed

text \<open>A table with one worker, for the witnesses.\<close>

definition demo_auth :: auth_result where
  "demo_auth = \<lparr>auth_uid = 1000, auth_gid = 1000, auth_home = ''/home/ann'', auth_shell = ''/bin/sh''\<rparr>"

definition demo_fork :: fork_answer where
  "demo_fork = \<lparr>fa_socketpair = Some (7, 8), fa_fork = ForkParent 4242\<rparr>"

definition demo_mgr :: session_mgr where
  "demo_mgr = fst (snd (session_mgr_get_session (\<lambda>_. Some ''ann'') demo_fork
     (session_mgr_init ''foot'' ''c'' ''k'' 800 600) demo_auth))"

lemma sessions_init_Cons:
  "sessions (session_mgr_init cmd cert key w h) = zero_entry # replicate 49 zero_entry"
  by (simp add: session_mgr_init_def WLRDP_MAX_SESSIONS_def numeral_eq_Suc)

lemma demo_mgr_sessions: "sessions demo_mgr = new_entry ''ann'' 4242 7 # replicate 49 zero_entry"
proof -
  have "session_mgr_get_session (\<lambda>_. Some ''ann'') demo_fork (session_mgr_init ''foot'' ''c'' ''k'' 800 600)
      demo_auth = (Some 0, (session_mgr_init ''foot'' ''c'' ''k'' 800 600)
        \<lparr>sessions := (sessions (session_mgr_init ''foot'' ''c'' ''k'' 800 600))[0 := new_entry ''ann'' 4242 7],
         mgr_count := mgr_count (session_mgr_init ''foot'' ''c'' ''k'' 800 600) + 1\<rparr>, [SmFork, SmClose 8])"
    by (rule get_session_new)
      (simp_all add: demo_fork_def find_session_None alloc_slot_def sessions_init_Cons)
  then show ?thesis by (simp add: demo_mgr_def sessions_init_Cons)
qed

lemma demo_mgr_reachable: "mgr_reachable demo_mgr"
  unfolding demo_mgr_def
  by (rule login [OF start]) (auto simp: fresh_fork_def demo_fork_def sessions_init_Cons)

lemma demo_mgr_registry: "registry_of demo_mgr ''ann'' = Some (4242, 7)"
  by (simp add: registry_of_def find_session_def demo_mgr_sessions new_entry_def)

theorem session_table_invariant_witness:
  "mgr_count demo_mgr = int (count_if se_active (sessions demo_mgr)) \<and> se_active (sessions demo_mgr ! 0)"
  using session_table_invariant [OF demo_mgr_reachable] by (simp add: demo_mgr_sessions new_entry_def)

text \<open>
  C2: find-or-create refines the abstract registry. For a user whose name fits, a returned slot
  holds an active entry of that user; a known user gets the existing worker and the table is not
  touched; a new user gets exactly the forked worker; every other user keeps theirs; and NULL leaves
  the whole registry as it was.
\<close>

theorem get_session_refines_registry:
  assumes "mgr_inv m" "fresh_fork m a" "getpwuid (auth_uid auth) = Some u" "length u < 64"
    and "session_mgr_get_session getpwuid a m auth = (r, m', cs)"
  shows "(\<forall>v. v \<noteq> u \<longrightarrow> registry_of m' v = registry_of m v) \<and>
     (registry_of m u \<noteq> None \<longrightarrow> r \<noteq> None \<and> m' = m \<and> cs = []) \<and>
     (r = None \<longrightarrow> m' = m) \<and>
     (\<forall>i. r = Some i \<longrightarrow> i < 50 \<and> se_active (sessions m' ! i) \<and> se_username (sessions m' ! i) = u \<and>
        registry_of m' u = Some (se_pid (sessions m' ! i), se_ipc_fd (sessions m' ! i))) \<and>
     (\<forall>pid s0 s1. registry_of m u = None \<and> r \<noteq> None \<and> fa_fork a = ForkParent pid \<and>
        fa_socketpair a = Some (s0, s1) \<longrightarrow> registry_of m' u = Some (pid, s0) \<and> SmClose s1 \<in> set cs)"
  (is "?other \<and> ?known \<and> ?none \<and> ?some \<and> ?new")
proof -
  have m': "m' = fst (snd (session_mgr_get_session getpwuid a m auth))"
    and r: "r = fst (session_mgr_get_session getpwuid a m auth)" using assms(5) by simp_all
  have inv': "mgr_inv m'" unfolding m' using assms(1-4) by (intro get_session_inv) auto
  have reg: "registry_of m' v = (if v = u \<and> registry_of m u = None \<and> r \<noteq> None
      then (case (fa_socketpair a, fa_fork a) of
             (Some (s0, s1), ForkParent pid) \<Rightarrow> Some (pid, s0) | _ \<Rightarrow> None)
      else registry_of m v)" for v
    unfolding m' r using assms(1-4) by (rule get_session_registry)
  have ?other using reg by simp
  moreover have ?known using assms(3,5) get_session_known [of getpwuid auth u m _ a]
    by (cases "find_session m u") (auto simp: registry_of_def)
  moreover have "?none \<and> ?some \<and> ?new"
  proof (cases rule: get_session_cases [OF assms(1), where getpwuid = getpwuid and auth = auth and a = a,
        case_names unknown known unchanged created])
    case (known v i)
    then show ?thesis
      using assms find_sessionD [OF known(2)] by (auto simp: registry_of_def WLRDP_MAX_SESSIONS_def)
  next
    case (created v i s0 s1 pid)
    then have "i < length (sessions m)" using alloc_slotD by blast
    moreover have "v = u" using created(1) assms(3) by simp
    ultimately show ?thesis
      using created assms reg [of u] by (auto simp: new_entry_def registry_of_def WLRDP_MAX_SESSIONS_def)
  qed (use assms in auto)
  ultimately show ?thesis by blast
qed

theorem get_session_refines_registry_witness:
  "registry_of demo_mgr ''bob'' = None"
  using get_session_refines_registry [of "session_mgr_init ''foot'' ''c'' ''k'' 800 600" demo_fork
      "\<lambda>_. Some ''ann''" demo_auth "''ann''"
      "fst (session_mgr_get_session (\<lambda>_. Some ''ann'') demo_fork
         (session_mgr_init ''foot'' ''c'' ''k'' 800 600) demo_auth)" demo_mgr
      "snd (snd (session_mgr_get_session (\<lambda>_. Some ''ann'') demo_fork
         (session_mgr_init ''foot'' ''c'' ''k'' 800 600) demo_auth))"]
  by (simp add: mgr_inv_init fresh_fork_def demo_fork_def sessions_init_Cons registry_of_init
      demo_mgr_def)

text \<open>
  C3: sessions persist. Once a user has a worker, any sequence of logins (of this and of other
  users) and of worker exits, as long as it is not this worker that exits, leaves the worker
  registered, and the user's next login returns to it without changing the table.
\<close>

theorem session_persistence:
  assumes "mgr_inv m" "registry_of m v = Some (p, f)"
    and "registry_ok attach_session (\<lambda>p m. fst (reap_pid p m)) attach_allowed ops m"
    and "Expire p \<notin> set ops"
    and "attach_allowed v w (registry_run attach_session (\<lambda>p m. fst (reap_pid p m)) ops m)"
  shows "registry_of (registry_run attach_session (\<lambda>p m. fst (reap_pid p m)) ops m) v = Some (p, f) \<and>
     attach_session v w (registry_run attach_session (\<lambda>p m. fst (reap_pid p m)) ops m) =
       registry_run attach_session (\<lambda>p m. fst (reap_pid p m)) ops m"
  using table.persistence [OF assms(1,3,2,4)] table.reconnect [OF assms(1,3,2,4,5)] by blast

theorem session_persistence_witness:
  "registry_of (fst (reap_pid 77 demo_mgr)) ''ann'' = Some (4242, 7)"
proof -
  have fresh: "fresh_fork m \<lparr>fa_socketpair = None, fa_fork = ForkFailed\<rparr>" for m
    by (simp add: fresh_fork_def)
  show ?thesis
    using session_persistence [of demo_mgr "''ann''" 4242 7 "[Expire 77]"
        "\<lparr>fa_socketpair = None, fa_fork = ForkFailed\<rparr>"]
      mgr_reachable_mgr_inv [OF demo_mgr_reachable] demo_mgr_registry fresh
    by (simp add: attach_allowed_def)
qed

lemma reap_list_registry:
  assumes "mgr_inv m"
  shows "mgr_inv (fst (session_mgr_reap pids m)) \<and>
     registry_of (fst (session_mgr_reap pids m)) u =
       (case registry_of m u of None \<Rightarrow> None
        | Some (p, f) \<Rightarrow> if p \<in> set (takeWhile (\<lambda>q. 0 < q) pids) then None else Some (p, f))"
  using assms
proof (induction pids m rule: session_mgr_reap.induct)
  case (1 m)
  then show ?case by (simp split: option.split prod.split)
next
  case (2 pid pids m)
  obtain m1 cs1 where one: "reap_pid pid m = (m1, cs1)" by (cases "reap_pid pid m")
  then have "mgr_inv m1" using reap_pid_inv [OF "2.prems", of pid] by simp
  moreover have "registry_of m1 u = (case registry_of m u of None \<Rightarrow> None
      | Some (p, f) \<Rightarrow> if p = pid then None else Some (p, f))"
    using reap_pid_registry [OF "2.prems", of pid u] one by simp
  ultimately show ?case
    using "2.IH" [OF _ one [symmetric]] "2.prems" one
    by (auto split: prod.split option.split)
qed

text \<open>
  C31: reaping removes from the registry exactly the workers that \<open>waitpid\<close> reported, and keeps the
  table's invariant.
\<close>

theorem session_mgr_reap_registry:
  assumes "mgr_inv m"
  shows "mgr_inv (fst (session_mgr_reap pids m)) \<and>
     registry_of (fst (session_mgr_reap pids m)) u =
       (case registry_of m u of None \<Rightarrow> None
        | Some (p, f) \<Rightarrow> if p \<in> set (takeWhile (\<lambda>q. 0 < q) pids) then None else Some (p, f))"
  using assms by (rule reap_list_registry)

theorem session_mgr_reap_registry_witness:
  "registry_of (fst (session_mgr_reap [4242, 0] demo_mgr)) ''ann'' = None"
  using session_mgr_reap_registry [OF mgr_reachable_mgr_inv [OF demo_mgr_reachable], of "[4242, 0]" "''ann''"]
    demo_mgr_registry by simp

text \<open>
  C33: a user name of 64 bytes or more is stored truncated and compared in full, so such a user
  never gets an existing session back: every successful call forks another worker.
\<close>

theorem long_name_never_reconnects:
  assumes "\<forall>e \<in> set (sessions m). length (se_username e) < 64"
    and "getpwuid (auth_uid auth) = Some u" "64 \<le> length u"
    and "session_mgr_get_session getpwuid a m auth = (Some i, m', cs)"
  shows "SmFork \<in> set cs \<and> mgr_count m' = mgr_count m + 1 \<and>
     (\<forall>e \<in> set (sessions m'). length (se_username e) < 64)"
proof -
  have "find_session m u = None"
    using assms(1,3) by (fastforce simp: find_session_None)
  moreover then obtain k where k: "alloc_slot m = Some k"
    using assms(2,4) by (auto simp: session_mgr_get_session_def split: option.splits)
  moreover obtain s0 s1 pid where "fa_socketpair a = Some (s0, s1)" "fa_fork a = ForkParent pid"
    using calculation assms(2,4)
    by (auto simp: session_mgr_get_session_def fork_session_def Let_def
        split: option.splits prod.splits fork_result.splits)
  ultimately have "(Some i, m', cs) = (Some k, m\<lparr>sessions := (sessions m)[k := new_entry u pid s0],
      mgr_count := mgr_count m + 1\<rparr>, [SmFork, SmClose s1])"
    using get_session_new [of getpwuid auth u m k a] assms(2,4) by simp
  moreover have "\<forall>e \<in> set ((sessions m)[k := new_entry u pid s0]). length (se_username e) < 64"
    using assms(1) by (rule ball_update) (simp add: new_entry_def c_snprintf_length)
  ultimately show ?thesis by simp
qed

theorem long_name_never_reconnects_witness:
  "\<exists>i m' cs. session_mgr_get_session (\<lambda>_. Some (replicate 64 CHR ''a'')) demo_fork
      (session_mgr_init ''foot'' ''c'' ''k'' 800 600) demo_auth = (Some i, m', cs) \<and> SmFork \<in> set cs"
proof -
  let ?m = "session_mgr_init ''foot'' ''c'' ''k'' 800 600"
  have eq: "session_mgr_get_session (\<lambda>_. Some (replicate 64 CHR ''a'')) demo_fork ?m demo_auth =
      (Some 0, ?m\<lparr>sessions := (sessions ?m)[0 := new_entry (replicate 64 CHR ''a'') 4242 7],
         mgr_count := mgr_count ?m + 1\<rparr>, [SmFork, SmClose 8])"
    by (rule get_session_new)
      (simp_all add: demo_fork_def find_session_None alloc_slot_def sessions_init_Cons)
  have "SmFork \<in> set [SmFork, SmClose 8]"
    using long_name_never_reconnects [OF _ _ _ eq] by (simp add: sessions_init_Cons zero_entry_def)
  with eq show ?thesis by blast
qed

text \<open>
  C15: the worker program is executed only after root was given up completely: every child that
  reaches \<open>exec\<close> has successfully set the user's gid, then the supplementary groups, then the uid,
  in this order, and makes no other change of identity.
\<close>

theorem exec_only_after_privilege_drop:
  assumes "ChExec args \<in> set (fork_session_child a m e auth sv0 sv1)"
  shows "ca_setgid a \<and> ca_initgroups a \<and> ca_setuid a \<and>
     filter (\<lambda>c. case c of ChSetgid _ \<Rightarrow> True | ChInitgroups _ _ \<Rightarrow> True | ChSetuid _ \<Rightarrow> True
                   | ChExec _ \<Rightarrow> True | _ \<Rightarrow> False) (fork_session_child a m e auth sv0 sv1) =
       [ChSetgid (auth_gid auth), ChInitgroups (se_username e) (auth_gid auth),
        ChSetuid (auth_uid auth), ChExec args]"
  using assms by (auto simp: fork_session_child_def split: if_splits)

text \<open>The child of the first session of \<open>ann\<close> (uid 1000, gid 1000), with the worker's arguments.\<close>

definition demo_child :: "child_call list" where
  "demo_child = fork_session_child \<lparr>ca_setgid = True, ca_initgroups = True, ca_setuid = True\<rparr>
     demo_mgr (sessions demo_mgr ! 0) demo_auth 7 8"

theorem exec_only_after_privilege_drop_witness:
  "\<exists>args. ChExec (''wlrdp-session'' # args) \<in> set demo_child \<and>
     filter (\<lambda>c. case c of ChSetgid _ \<Rightarrow> True | ChInitgroups _ _ \<Rightarrow> True | ChSetuid _ \<Rightarrow> True
                   | ChExec _ \<Rightarrow> True | _ \<Rightarrow> False) demo_child =
       [ChSetgid (auth_gid demo_auth), ChInitgroups ''ann'' (auth_gid demo_auth), ChSetuid (auth_uid demo_auth),
        ChExec (''wlrdp-session'' # args)]"
proof -
  have "se_username (sessions demo_mgr ! 0) = ''ann''"
    by (simp add: demo_mgr_sessions new_entry_def)
  moreover have "\<exists>args. ChExec (''wlrdp-session'' # args) \<in> set demo_child"
    by (simp add: demo_child_def fork_session_child_def)
  ultimately show ?thesis
    using exec_only_after_privilege_drop [of _ "\<lparr>ca_setgid = True, ca_initgroups = True, ca_setuid = True\<rparr>"
        demo_mgr "sessions demo_mgr ! 0" demo_auth 7 8, folded demo_child_def] by metis
qed

end
