(* ===== verification/PeerCaps.thy ===== *)
theory PeerCaps
  imports RdpPeer
begin

text \<open>
  What the capability negotiation decides: the send modes are ordered by preference, and the scan
  picks the best mode that the client offers (restricted to AVC420 for Apple clients), confirming the
  first capability set that gives it.
\<close>

section \<open>The preference order of the send modes\<close>

fun mode_rank :: "send_mode \<Rightarrow> int" where
  "mode_rank WLRDP_SEND_SURFACE_BITS = 0"
| "mode_rank WLRDP_SEND_GFX_PROGRESSIVE = 1"
| "mode_rank WLRDP_SEND_GFX_AVC420 = 2"
| "mode_rank WLRDP_SEND_GFX_AVC444 = 3"
| "mode_rank WLRDP_SEND_GFX_AVC444V2 = 4"

lemma mode_rank_inj [simp]: "mode_rank a = mode_rank b \<longleftrightarrow> a = b"
  by (cases a; cases b) auto

instantiation send_mode :: linorder
begin

definition less_eq_send_mode :: "send_mode \<Rightarrow> send_mode \<Rightarrow> bool" where
  "less_eq_send_mode a b \<longleftrightarrow> mode_rank a \<le> mode_rank b"

definition less_send_mode :: "send_mode \<Rightarrow> send_mode \<Rightarrow> bool" where
  "less_send_mode a b \<longleftrightarrow> mode_rank a < mode_rank b"

instance
proof
  fix a b c :: send_mode
  show "a < b \<longleftrightarrow> a \<le> b \<and> \<not> b \<le> a" by (auto simp: less_eq_send_mode_def less_send_mode_def)
  show "a \<le> a" by (simp add: less_eq_send_mode_def)
  show "a \<le> b \<Longrightarrow> b \<le> c \<Longrightarrow> a \<le> c" by (simp add: less_eq_send_mode_def)
  show "a \<le> b \<Longrightarrow> b \<le> a \<Longrightarrow> a = b" by (simp add: less_eq_send_mode_def flip: mode_rank_inj)
  show "a \<le> b \<or> b \<le> a" by (auto simp: less_eq_send_mode_def)
qed

end

text \<open>The mode that one capability set allows.\<close>

definition cap_mode :: "bool \<Rightarrow> capset \<Rightarrow> send_mode" where
  "cap_mode mac c = rank_mode (caps_rank mac c)"

lemma caps_rank_cases: "caps_rank mac c \<in> {0, 1, 2, 3, 4}"
  by (simp add: caps_rank_def)

lemma mode_rank_cap_mode [simp]: "mode_rank (cap_mode mac c) = caps_rank mac c"
  using caps_rank_cases [of mac c] by (auto simp: cap_mode_def rank_mode_def)

section \<open>The scan\<close>

lemma caps_scan_spec:
  assumes "caps_scan mac cs i best chosen = (best', chosen')"
  shows "best \<le> best' \<and> (\<forall>c \<in> set cs. caps_rank mac c \<le> best') \<and>
    (best' = best \<and> chosen' = chosen \<or>
     (\<exists>k < length cs. chosen' = i + k \<and> caps_rank mac (cs ! k) = best' \<and> best < best' \<and>
        (\<forall>j < k. caps_rank mac (cs ! j) < best')))"
  using assms
proof (induction cs arbitrary: i best chosen)
  case Nil
  then show ?case by simp
next
  case (Cons c cs)
  define best1 where "best1 = (if best < caps_rank mac c then caps_rank mac c else best)"
  define chosen1 where "chosen1 = (if best < caps_rank mac c then i else chosen)"
  have "caps_scan mac cs (Suc i) best1 chosen1 = (best', chosen')"
    using Cons.prems by (auto simp: best1_def chosen1_def Let_def split: if_splits)
  note IH = Cons.IH [OF this]
  then have le: "best1 \<le> best'" "\<forall>c \<in> set cs. caps_rank mac c \<le> best'" by auto
  from IH consider "best' = best1" "chosen' = chosen1"
    | k where "k < length cs" "chosen' = Suc i + k" "caps_rank mac (cs ! k) = best'" "best1 < best'"
        "\<forall>j < k. caps_rank mac (cs ! j) < best'"
    by blast
  then show ?case
  proof cases
    case 1
    then show ?thesis using le by (auto simp: best1_def chosen1_def split: if_splits intro: exI [of _ 0])
  next
    case 2
    have "\<forall>j < Suc k. caps_rank mac ((c # cs) ! j) < best'"
      using 2 by (auto simp: nth_Cons best1_def split: nat.splits if_splits)
    with 2 le show ?thesis by (auto simp: best1_def split: if_splits intro!: exI [of _ "Suc k"])
  qed
qed

text \<open>For a client that offers anything, the scan finds the first set of the best rank.\<close>

lemma caps_scan_nonempty:
  assumes "caps_scan mac caps 0 (- 1) 0 = (best, chosen)" "caps \<noteq> []"
  shows "chosen < length caps" "caps_rank mac (caps ! chosen) = best"
    "\<forall>j < chosen. caps_rank mac (caps ! j) < best" "\<forall>c \<in> set caps. caps_rank mac c \<le> best" "0 \<le> best"
proof -
  obtain c where c: "c \<in> set caps" using assms(2) by (cases caps) auto
  note spec = caps_scan_spec [OF assms(1)]
  have "0 \<le> caps_rank mac c" using caps_rank_cases [of mac c] by auto
  with spec c show "0 \<le> best" by fastforce
  with spec show "chosen < length caps" "caps_rank mac (caps ! chosen) = best"
    "\<forall>j < chosen. caps_rank mac (caps ! j) < best" "\<forall>c \<in> set caps. caps_rank mac c \<le> best"
    by auto
qed

lemma caps_scan_mode:
  assumes "caps_scan mac caps 0 (- 1) 0 = (best, chosen)" "caps \<noteq> []"
  shows "rank_mode best = Max (cap_mode mac ` set caps)" "cap_mode mac (caps ! chosen) = rank_mode best"
    "\<forall>j < chosen. cap_mode mac (caps ! j) < rank_mode best"
proof -
  note found = caps_scan_nonempty [OF assms]
  show chosen: "cap_mode mac (caps ! chosen) = rank_mode best"
    by (simp add: cap_mode_def found(2))
  show "rank_mode best = Max (cap_mode mac ` set caps)"
  proof (rule Max_eqI [symmetric])
    show "rank_mode best \<in> cap_mode mac ` set caps"
      using chosen found(1) by (metis image_eqI nth_mem)
    show "m \<le> rank_mode best" if "m \<in> cap_mode mac ` set caps" for m
      using that found(2,4) unfolding chosen [symmetric] by (auto simp: less_eq_send_mode_def)
  qed simp
  show "\<forall>j < chosen. cap_mode mac (caps ! j) < rank_mode best"
    using found(2,3) unfolding chosen [symmetric] by (auto simp: less_send_mode_def)
qed

section \<open>Properties\<close>

text \<open>
  C8: codec negotiation. For a client that offers capability sets, the server confirms the first set
  that allows the best mode, in the order AVC444v2, AVC444, AVC420, Progressive, SurfaceBits; if the
  confirmation and the creation of the surface succeed, this mode is the negotiated one and the
  pipeline is ready with surface 1 of the compositor's size; an Apple client never gets an AVC444
  mode.
\<close>

theorem caps_negotiation_best:
  assumes "caps \<noteq> []" "pc_gfx_context ctx = Some gfx" "pc_gfx_surface_id ctx = 0"
    and "cz_confirm a = 0" "su_create (cz_surface a)" "su_map (cz_surface a)"
    and "gfx_caps_advertise a st caps ctx clip = (rc, ctx', clip', cs)"
  shows "rc = 0 \<and> pc_gfx_ready ctx' \<and> pc_gfx_surface_id ctx' = 1 \<and> clip' = clip \<and>
     rdp_peer_get_send_mode ctx' = Max (cap_mode (is_macos_client (set_os_major st)) ` set caps) \<and>
     (\<exists>i < length caps.
        cap_mode (is_macos_client (set_os_major st)) (caps ! i) = rdp_peer_get_send_mode ctx' \<and>
        (\<forall>j < i. cap_mode (is_macos_client (set_os_major st)) (caps ! j) < rdp_peer_get_send_mode ctx') \<and>
        cs = [Gfx (GfxCapsConfirm (Some (caps ! i))),
              Gfx (GfxResetGraphics (pc_width ctx) (pc_height ctx) (pc_width ctx - 1) (pc_height ctx - 1)),
              Gfx (GfxCreateSurface 1 (pc_width ctx) (pc_height ctx)), Gfx (GfxMapSurface 1)]) \<and>
     (is_macos_client (set_os_major st) \<longrightarrow> rdp_peer_get_send_mode ctx' \<le> WLRDP_SEND_GFX_AVC420)"
proof -
  define mac where "mac = is_macos_client (set_os_major st)"
  obtain best chosen where scan: "caps_scan mac caps 0 (- 1) 0 = (best, chosen)" by (metis prod.collapse)
  note found = caps_scan_nonempty [OF scan assms(1)] and modes = caps_scan_mode [OF scan assms(1)]
  have r: "rc = 0" "pc_gfx_ready ctx'" "pc_gfx_surface_id ctx' = 1" "clip' = clip"
    "pc_send_mode ctx' = rank_mode best"
    "cs = [Gfx (GfxCapsConfirm (Some (caps ! chosen))),
       Gfx (GfxResetGraphics (pc_width ctx) (pc_height ctx) (pc_width ctx - 1) (pc_height ctx - 1)),
       Gfx (GfxCreateSurface 1 (pc_width ctx) (pc_height ctx)), Gfx (GfxMapSurface 1)]"
    using assms found(1,5) scan
    by (auto simp: gfx_caps_advertise_def gfx_create_surface_def Let_def mac_def)
  then have mode: "rdp_peer_get_send_mode ctx' = rank_mode best" by (simp add: rdp_peer_get_send_mode_def)
  have "rank_mode best \<le> WLRDP_SEND_GFX_AVC420" if mac
    using that modes(2) [symmetric] by (simp add: less_eq_send_mode_def caps_rank_def)
  then show ?thesis
    using r found(1) modes mode unfolding mac_def [symmetric] by (auto intro!: exI [of _ chosen])
qed

definition demo_surface :: surface_answer where
  "demo_surface = \<lparr>su_reset = True, su_create = True, su_map = True\<rparr>"

definition demo_settings :: rdp_settings where
  "demo_settings = \<lparr>set_desktop_width = 1920, set_desktop_height = 1080, set_scale = 0,
     set_color_depth = 32, set_nscodec = True, set_gfx_pipeline = True, set_os_major = 1\<rparr>"

definition demo_caps :: "capset list" where
  "demo_caps = [\<lparr>cap_version = 0x00080105, cap_flags = 0x10\<rparr>, \<lparr>cap_version = 0x000A0002, cap_flags = 0\<rparr>,
     \<lparr>cap_version = 0x000A0701, cap_flags = 0x20\<rparr>]"

theorem caps_negotiation_best_witness:
  "\<exists>ctx' clip' cs.
     gfx_caps_advertise \<lparr>cz_confirm = 0, cz_surface = demo_surface\<rparr> (demo_settings\<lparr>set_os_major := 6\<rparr>) demo_caps
       (zero_ctx\<lparr>pc_gfx_context := Some 1, pc_gfx_opened := True\<rparr>) zero_clipboard = (0, ctx', clip', cs) \<and>
     pc_gfx_ready ctx' \<and> rdp_peer_get_send_mode ctx' \<le> WLRDP_SEND_GFX_AVC420"
proof -
  let ?a = "\<lparr>cz_confirm = 0, cz_surface = demo_surface\<rparr>"
  let ?ctx = "zero_ctx\<lparr>pc_gfx_context := Some 1, pc_gfx_opened := True\<rparr>"
  let ?st = "demo_settings\<lparr>set_os_major := 6\<rparr>"
  obtain rc ctx' clip' cs where r: "gfx_caps_advertise ?a ?st demo_caps ?ctx zero_clipboard = (rc, ctx', clip', cs)"
    by (metis prod_cases4)
  have "demo_caps \<noteq> []" "pc_gfx_context ?ctx = Some 1" "pc_gfx_surface_id ?ctx = 0" "cz_confirm ?a = 0"
    "su_create (cz_surface ?a)" "su_map (cz_surface ?a)" "is_macos_client (set_os_major ?st)"
    by (simp_all add: demo_caps_def zero_ctx_def demo_surface_def is_macos_client_def OSMAJORTYPE_OSX_def)
  with caps_negotiation_best [OF this(1-6) r] r show ?thesis by auto
qed

text \<open>
  A client that offers no capability set at all gets a confirmation that points behind the
  (empty) list: the test that was meant for this case never holds, since any offered set has a
  rank of at least 0.
\<close>

theorem caps_empty_confirm:
  "(\<exists>rest. snd (snd (snd (gfx_caps_advertise a st [] ctx clip))) = Gfx (GfxCapsConfirm None) # rest) \<and>
   fst (caps_scan mac (c # cs) 0 (- 1) 0) \<ge> 0"
proof
  show "\<exists>rest. snd (snd (snd (gfx_caps_advertise a st [] ctx clip))) = Gfx (GfxCapsConfirm None) # rest"
    by (simp add: gfx_caps_advertise_def Let_def split_beta)
  show "fst (caps_scan mac (c # cs) 0 (- 1) 0) \<ge> 0"
    using caps_scan_nonempty(5) [of mac "c # cs"] by (metis list.distinct(1) prod.collapse)
qed

end
