(* ===== verification/PeerChannels.thy ===== *)
theory PeerChannels
  imports PeerCaps
begin

text \<open>
  The life of one connection's channels: the events of the peer as a step relation on the shared
  session state, the consistency of the context's pointers and flags, and the account of every
  library context that was allocated.
\<close>

section \<open>Invariant and ownership\<close>

text \<open>
  Each channel's flag and pointer agree, the channels live on the VCM, and the graphics pipeline is
  ready only with an open channel and surface 1. While the CLIPRDR channel is open, the clipboard's context
  is the peer's; before that, the clipboard may still point to the context of an earlier client.
\<close>

definition peer_inv :: "peer_ctx \<Rightarrow> clipboard \<Rightarrow> bool" where
  "peer_inv ctx clip \<longleftrightarrow>
     (pc_gfx_opened ctx \<longleftrightarrow> pc_gfx_context ctx \<noteq> None) \<and>
     (pc_disp_opened ctx \<longleftrightarrow> pc_disp_context ctx \<noteq> None) \<and>
     (pc_rdpsnd_opened ctx \<longleftrightarrow> pc_rdpsnd_context ctx \<noteq> None) \<and>
     (pc_rdpsnd_ready ctx \<longrightarrow> pc_rdpsnd_context ctx \<noteq> None) \<and>
     (pc_gfx_ready ctx \<longrightarrow> pc_gfx_surface_id ctx = 1) \<and>
     (pc_gfx_surface_id ctx \<noteq> 0 \<longrightarrow> pc_gfx_opened ctx \<and> pc_gfx_surface_id ctx = 1) \<and>
     (pc_gfx_opened ctx \<or> pc_disp_opened ctx \<or> pc_rdpsnd_opened ctx \<or> pc_cliprdr_opened ctx
        \<longrightarrow> pc_gfx_vcm ctx \<noteq> None) \<and>
     (pc_cliprdr_opened ctx \<longleftrightarrow> pc_cliprdr_context ctx \<noteq> None) \<and>
     (pc_cliprdr_opened ctx \<longrightarrow> pc_clipboard ctx \<and> cb_cliprdr clip = pc_cliprdr_context ctx)"

definition peer_owned :: "peer_ctx \<Rightarrow> resource set" where
  "peer_owned ctx =
     ResGfx ` set_option (pc_gfx_context ctx) \<union> ResDisp ` set_option (pc_disp_context ctx)
       \<union> ResSnd ` set_option (pc_rdpsnd_context ctx) \<union> ResClp ` set_option (pc_cliprdr_context ctx)
       \<union> ResVcm ` set_option (pc_gfx_vcm ctx)"

text \<open>Nothing but the VCM is open.\<close>

definition channels_closed :: "peer_ctx \<Rightarrow> bool" where
  "channels_closed ctx \<longleftrightarrow> pc_gfx_context ctx = None \<and> pc_disp_context ctx = None \<and>
     pc_rdpsnd_context ctx = None \<and> pc_cliprdr_context ctx = None"

section \<open>Cleaning up\<close>

text \<open>The parts of the clean-up as record updates, with what they release.\<close>

lemma cleanup_gfx_part:
  "\<exists>cs. cleanup_gfx ctx = (ctx\<lparr>pc_gfx_context := None\<rparr>, cs) \<and>
     (\<forall>R. held cs R = R - ResGfx ` set_option (pc_gfx_context ctx)) \<and> (\<forall>f. Crash f \<notin> set cs)"
  by (cases "pc_gfx_context ctx") (simp_all add: cleanup_gfx_def)

lemma cleanup_rdpsnd_part:
  "\<exists>cs b r. cleanup_rdpsnd ctx = (ctx\<lparr>pc_rdpsnd_context := None, pc_rdpsnd_opened := b, pc_rdpsnd_ready := r\<rparr>, cs) \<and>
     (pc_rdpsnd_context ctx \<noteq> None \<longrightarrow> \<not> b \<and> \<not> r) \<and>
     (pc_rdpsnd_context ctx = None \<longrightarrow> b = pc_rdpsnd_opened ctx \<and> r = pc_rdpsnd_ready ctx) \<and>
     (\<forall>R. held cs R = R - ResSnd ` set_option (pc_rdpsnd_context ctx)) \<and> (\<forall>f. Crash f \<notin> set cs)"
  by (cases "pc_rdpsnd_context ctx") (auto simp: cleanup_rdpsnd_def intro: exI [of _ "pc_rdpsnd_opened ctx"])

lemma cleanup_disp_part:
  "\<exists>cs. cleanup_disp ctx = (ctx\<lparr>pc_disp_context := None\<rparr>, cs) \<and>
     (\<forall>R. held cs R = R - ResDisp ` set_option (pc_disp_context ctx)) \<and> (\<forall>f. Crash f \<notin> set cs)"
  by (cases "pc_disp_context ctx") (simp_all add: cleanup_disp_def)

lemma cleanup_vcm_part:
  "\<exists>cs. cleanup_vcm ctx = (ctx\<lparr>pc_gfx_vcm := None, pc_gfx_opened := False, pc_gfx_ready := False,
       pc_gfx_surface_id := 0, pc_disp_opened := False\<rparr>, cs) \<and>
     (\<forall>R. held cs R = R - ResVcm ` set_option (pc_gfx_vcm ctx)) \<and> (\<forall>f. Crash f \<notin> set cs)"
  by (cases "pc_gfx_vcm ctx") (simp_all add: cleanup_vcm_def)

lemma cleanup_cliprdr_part:
  assumes "pc_cliprdr_opened ctx \<longleftrightarrow> pc_cliprdr_context ctx \<noteq> None"
    and "pc_cliprdr_opened ctx \<longrightarrow> pc_clipboard ctx \<and> cb_cliprdr clip = pc_cliprdr_context ctx"
  shows "\<exists>cs clip'. cleanup_cliprdr ctx clip =
       (ctx\<lparr>pc_cliprdr_context := None, pc_cliprdr_opened := False\<rparr>, clip', cs) \<and>
     (\<forall>R. held cs R = R - ResClp ` set_option (pc_cliprdr_context ctx)) \<and> (\<forall>f. Crash f \<notin> set cs)"
proof (cases "pc_cliprdr_opened ctx")
  case True
  then obtain h where "pc_cliprdr_context ctx = Some h" "cb_cliprdr clip = Some h" "pc_clipboard ctx"
    using assms by auto
  with True show ?thesis by (simp add: cleanup_cliprdr_def clipboard_close_cliprdr_def)
next
  case False
  then have "ctx = ctx\<lparr>pc_cliprdr_context := None, pc_cliprdr_opened := False\<rparr>" "pc_cliprdr_context ctx = None"
    using assms(1) by (cases ctx; simp)+
  with False show ?thesis
    by (intro exI [of _ "[]"] exI [of _ clip]) (simp add: cleanup_cliprdr_def)
qed

text \<open>The whole clean-up of a consistent context.\<close>

lemma gfx_cleanup_form:
  assumes "peer_inv ctx clip"
  shows "\<exists>cs clip'. gfx_cleanup ctx clip =
     (ctx\<lparr>pc_gfx_context := None, pc_rdpsnd_context := None, pc_rdpsnd_opened := False,
          pc_rdpsnd_ready := False, pc_cliprdr_context := None, pc_cliprdr_opened := False,
          pc_disp_context := None, pc_gfx_vcm := None, pc_gfx_opened := False, pc_gfx_ready := False,
          pc_gfx_surface_id := 0, pc_disp_opened := False\<rparr>, clip', cs) \<and>
     (\<forall>R. held cs R = R - peer_owned ctx) \<and> (\<forall>f. Crash f \<notin> set cs)"
proof -
  obtain cs1 where p1: "cleanup_gfx ctx = (ctx\<lparr>pc_gfx_context := None\<rparr>, cs1)"
    "\<forall>R. held cs1 R = R - ResGfx ` set_option (pc_gfx_context ctx)" "\<forall>f. Crash f \<notin> set cs1"
    using cleanup_gfx_part by blast
  define d1 where "d1 = ctx\<lparr>pc_gfx_context := None\<rparr>"
  obtain cs2 b r where p2: "cleanup_rdpsnd d1 = (d1\<lparr>pc_rdpsnd_context := None, pc_rdpsnd_opened := b,
      pc_rdpsnd_ready := r\<rparr>, cs2)"
    "pc_rdpsnd_context d1 \<noteq> None \<longrightarrow> \<not> b \<and> \<not> r"
    "pc_rdpsnd_context d1 = None \<longrightarrow> b = pc_rdpsnd_opened d1 \<and> r = pc_rdpsnd_ready d1"
    "\<forall>R. held cs2 R = R - ResSnd ` set_option (pc_rdpsnd_context d1)" "\<forall>f. Crash f \<notin> set cs2"
    using cleanup_rdpsnd_part [of d1] by (elim exE conjE, intro that) assumption+
  have same: "pc_rdpsnd_context d1 = pc_rdpsnd_context ctx" "pc_rdpsnd_opened d1 = pc_rdpsnd_opened ctx"
    "pc_rdpsnd_ready d1 = pc_rdpsnd_ready ctx"
    by (simp_all add: d1_def)
  have "pc_rdpsnd_context ctx = None \<longrightarrow> \<not> pc_rdpsnd_opened ctx \<and> \<not> pc_rdpsnd_ready ctx"
    using assms unfolding peer_inv_def by fastforce
  then have "\<not> b \<and> \<not> r"
    using p2(2,3) unfolding same by (cases "pc_rdpsnd_context ctx = None") simp_all
  then have br: "\<not> b" "\<not> r" by blast+
  define d2 where "d2 = d1\<lparr>pc_rdpsnd_context := None, pc_rdpsnd_opened := False, pc_rdpsnd_ready := False\<rparr>"
  have pre: "pc_cliprdr_opened d2 \<longleftrightarrow> pc_cliprdr_context d2 \<noteq> None"
    "pc_cliprdr_opened d2 \<longrightarrow> pc_clipboard d2 \<and> cb_cliprdr clip = pc_cliprdr_context d2"
    using assms by (auto simp: d2_def d1_def peer_inv_def)
  obtain cs3 clip' where p3: "cleanup_cliprdr d2 clip =
       (d2\<lparr>pc_cliprdr_context := None, pc_cliprdr_opened := False\<rparr>, clip', cs3)"
     "\<forall>R. held cs3 R = R - ResClp ` set_option (pc_cliprdr_context d2)" "\<forall>f. Crash f \<notin> set cs3"
    using cleanup_cliprdr_part [OF pre] by (elim exE conjE, intro that) assumption+
  define d3 where "d3 = d2\<lparr>pc_cliprdr_context := None, pc_cliprdr_opened := False\<rparr>"
  obtain cs4 where p4: "cleanup_disp d3 = (d3\<lparr>pc_disp_context := None\<rparr>, cs4)"
    "\<forall>R. held cs4 R = R - ResDisp ` set_option (pc_disp_context d3)" "\<forall>f. Crash f \<notin> set cs4"
    using cleanup_disp_part by blast
  define d4 where "d4 = d3\<lparr>pc_disp_context := None\<rparr>"
  obtain cs5 where p5: "cleanup_vcm d4 = (d4\<lparr>pc_gfx_vcm := None, pc_gfx_opened := False,
       pc_gfx_ready := False, pc_gfx_surface_id := 0, pc_disp_opened := False\<rparr>, cs5)"
     "\<forall>R. held cs5 R = R - ResVcm ` set_option (pc_gfx_vcm d4)" "\<forall>f. Crash f \<notin> set cs5"
    using cleanup_vcm_part by blast
  have "gfx_cleanup ctx clip = (d4\<lparr>pc_gfx_vcm := None, pc_gfx_opened := False, pc_gfx_ready := False,
      pc_gfx_surface_id := 0, pc_disp_opened := False\<rparr>, clip', cs1 @ cs2 @ cs3 @ cs4 @ cs5)"
    using p1(1) p2(1) p3(1) p4(1) p5(1) br
    by (simp add: gfx_cleanup_def d1_def d2_def d3_def d4_def)
  moreover have "held (cs1 @ cs2 @ cs3 @ cs4 @ cs5) R = R - peer_owned ctx" for R
    using p1(2) p2(4) p3(2) p4(2) p5(2) by (auto simp: peer_owned_def d1_def d2_def d3_def d4_def)
  ultimately show ?thesis
    using p1(3) p2(5) p3(3) p4(3) p5(3)
    by (intro exI [of _ "cs1 @ cs2 @ cs3 @ cs4 @ cs5"] exI [of _ clip']) (simp add: d1_def d2_def d3_def d4_def)
qed

lemma gfx_cleanup_facts:
  assumes "gfx_cleanup ctx clip = (ctx', clip', cs)" "peer_inv ctx clip"
  shows "peer_inv ctx' clip'" "held cs R = R - peer_owned ctx" "Crash f \<notin> set cs"
    "peer_owned ctx' = {}" "channels_closed ctx'"
    "rdp_peer_get_send_mode ctx' = WLRDP_SEND_SURFACE_BITS" "\<not> pc_gfx_ready ctx'" "pc_gfx_vcm ctx' = None"
    "\<not> pc_gfx_opened ctx'" "pc_activated ctx' = pc_activated ctx" "pc_input ctx' = pc_input ctx"
proof -
  have c: "ctx' = ctx\<lparr>pc_gfx_context := None, pc_rdpsnd_context := None, pc_rdpsnd_opened := False,
          pc_rdpsnd_ready := False, pc_cliprdr_context := None, pc_cliprdr_opened := False,
          pc_disp_context := None, pc_gfx_vcm := None, pc_gfx_opened := False, pc_gfx_ready := False,
          pc_gfx_surface_id := 0, pc_disp_opened := False\<rparr>"
      "held cs R = R - peer_owned ctx" "Crash f \<notin> set cs"
    using gfx_cleanup_form [OF assms(2)] assms(1) by auto
  then show "peer_inv ctx' clip'" "held cs R = R - peer_owned ctx" "Crash f \<notin> set cs"
    "peer_owned ctx' = {}" "channels_closed ctx'"
    "rdp_peer_get_send_mode ctx' = WLRDP_SEND_SURFACE_BITS" "\<not> pc_gfx_ready ctx'" "pc_gfx_vcm ctx' = None"
    "\<not> pc_gfx_opened ctx'" "pc_activated ctx' = pc_activated ctx" "pc_input ctx' = pc_input ctx"
    by (simp_all add: peer_inv_def peer_owned_def channels_closed_def rdp_peer_get_send_mode_def)
qed

section \<open>The operations keep the invariant and the account\<close>

lemma gfx_create_surface_frame:
  assumes "gfx_create_surface a ctx w h = (ok, ctx', cs)" "pc_gfx_context ctx \<noteq> None"
  shows "ctx' = ctx\<lparr>pc_gfx_surface_id := if ok then 1 else pc_gfx_surface_id ctx\<rparr>"
    "held cs R = R" "Crash f \<notin> set cs"
  using assms by (auto simp: gfx_create_surface_def Let_def split: option.splits if_splits)

lemma peer_inv_surface:
  "peer_inv ctx clip \<Longrightarrow> pc_gfx_context ctx \<noteq> None \<Longrightarrow>
     peer_inv (ctx\<lparr>pc_gfx_surface_id := if ok then 1 else pc_gfx_surface_id ctx\<rparr>) clip"
  by (auto simp: peer_inv_def)

lemma gfx_caps_advertise_keeps:
  assumes "gfx_caps_advertise a st caps ctx clip = (rc, ctx', clip', cs)" "peer_inv ctx clip"
    and "pc_gfx_context ctx \<noteq> None"
  shows "peer_inv ctx' clip'" "held cs (peer_owned ctx) = peer_owned ctx'" "Crash f \<notin> set cs"
    "pc_gfx_opened ctx' \<or> channels_closed ctx'"
proof -
  define mode where "mode = rank_mode (fst (caps_scan (is_macos_client (set_os_major st)) caps 0 (- 1) 0))"
  define ctx1 where "ctx1 = ctx\<lparr>pc_send_mode := mode\<rparr>"
  obtain ok ctx2 cs2 where su: "gfx_create_surface (cz_surface a) ctx1 (pc_width ctx1) (pc_height ctx1) = (ok, ctx2, cs2)"
    by (metis prod_cases3)
  obtain ctx3 clip3 cs3 where cl:
    "gfx_cleanup (ctx2\<lparr>pc_send_mode := WLRDP_SEND_SURFACE_BITS\<rparr>) clip = (ctx3, clip3, cs3)"
    by (metis prod_cases3)
  have inv1: "peer_inv ctx1 clip" "pc_gfx_context ctx1 \<noteq> None" "peer_owned ctx1 = peer_owned ctx"
    using assms(2,3) by (simp_all add: ctx1_def peer_inv_def peer_owned_def)
  note s = gfx_create_surface_frame [OF su inv1(2)]
  have inv2: "peer_inv (ctx2\<lparr>pc_send_mode := WLRDP_SEND_SURFACE_BITS\<rparr>) clip"
    "peer_owned (ctx2\<lparr>pc_send_mode := WLRDP_SEND_SURFACE_BITS\<rparr>) = peer_owned ctx"
    using inv1 s(1) by (auto simp: peer_inv_def peer_owned_def)
  note c = gfx_cleanup_facts [OF cl inv2(1)]
  have eq: "\<exists>k. (rc, ctx', clip', cs) =
     (if cz_confirm a \<noteq> 0 then (cz_confirm a, ctx1, clip, [Gfx (GfxCapsConfirm k)])
      else if pc_gfx_surface_id ctx1 = 0
      then (if ok then (0, ctx2\<lparr>pc_gfx_ready := True\<rparr>, clip, [Gfx (GfxCapsConfirm k)] @ cs2)
            else (0, ctx3, clip3, [Gfx (GfxCapsConfirm k)] @ cs2 @ cs3))
      else (0, ctx1, clip, [Gfx (GfxCapsConfirm k)]))"
    unfolding assms(1) [symmetric]
    using su cl by (auto simp: gfx_caps_advertise_def ctx1_def mode_def Let_def split_beta)
  have opened: "pc_gfx_opened ctx1" "pc_gfx_context ctx1 \<noteq> None"
    using inv1 by (auto simp: peer_inv_def)
  have ready: "peer_inv (ctx2\<lparr>pc_gfx_ready := True\<rparr>) clip" "pc_gfx_opened (ctx2\<lparr>pc_gfx_ready := True\<rparr>)"
      "peer_owned (ctx2\<lparr>pc_gfx_ready := True\<rparr>) = peer_owned ctx" if ok
    using that s(1) inv1 opened by (auto simp: peer_inv_def peer_owned_def)
  note keeps = inv1 s ready opened c(1-5) inv2(2)
  from eq obtain k where "(rc, ctx', clip', cs) =
     (if cz_confirm a \<noteq> 0 then (cz_confirm a, ctx1, clip, [Gfx (GfxCapsConfirm k)])
      else if pc_gfx_surface_id ctx1 = 0
      then (if ok then (0, ctx2\<lparr>pc_gfx_ready := True\<rparr>, clip, [Gfx (GfxCapsConfirm k)] @ cs2)
            else (0, ctx3, clip3, [Gfx (GfxCapsConfirm k)] @ cs2 @ cs3))
      else (0, ctx1, clip, [Gfx (GfxCapsConfirm k)]))" by blast
  with keeps show "peer_inv ctx' clip'" "held cs (peer_owned ctx) = peer_owned ctx'"
    "Crash f \<notin> set cs" "pc_gfx_opened ctx' \<or> channels_closed ctx'"
    by (auto split: if_splits)
qed

section \<open>Opening the channels\<close>

definition gfx_opens :: "open_answer \<Rightarrow> bool" where
  "gfx_opens a \<longleftrightarrow> ch_new (op_gfx a) \<noteq> None \<and> ch_open (op_gfx a)"

text \<open>What opening makes of the context and the clipboard.\<close>

definition opened_chan :: "chan_answer \<Rightarrow> handle option \<Rightarrow> handle option" where
  "opened_chan a old = (if ch_new a \<noteq> None \<and> ch_open a then ch_new a else old)"

definition opened_snd :: "snd_answer \<Rightarrow> handle option \<Rightarrow> handle option" where
  "opened_snd a old = (if sn_new a \<noteq> None \<and> sn_init a \<and> sn_start a then sn_new a else old)"

text \<open>The new holder set: an opened channel adds its context.\<close>

definition chan_ok :: "chan_answer \<Rightarrow> bool" where
  "chan_ok a \<longleftrightarrow> ch_new a \<noteq> None \<and> ch_open a"

definition snd_ok :: "snd_answer \<Rightarrow> bool" where
  "snd_ok a \<longleftrightarrow> sn_new a \<noteq> None \<and> sn_init a \<and> sn_start a"

lemma gfx_open_facts:
  assumes "gfx_open a ctx = (ok, ctx', cs)" "pc_gfx_context ctx = None" "\<not> pc_gfx_opened ctx"
    and "pc_gfx_surface_id ctx = 0"
  shows "ctx' = ctx\<lparr>pc_gfx_context := pc_gfx_context ctx', pc_gfx_frame_id := pc_gfx_frame_id ctx',
           pc_gfx_opened := ok, pc_gfx_surface_id := 0\<rparr>"
    "ok \<longleftrightarrow> chan_ok a" "pc_gfx_context ctx' = opened_chan a None"
    "(\<And>h. ch_new a = Some h \<Longrightarrow> ResGfx h \<notin> R) \<Longrightarrow> held cs R = R \<union> ResGfx ` set_option (opened_chan a None)"
    "Crash f \<notin> set cs"
  using assms by (auto simp: gfx_open_def chan_ok_def opened_chan_def Let_def split: option.splits if_splits)

lemma disp_open_facts:
  assumes "disp_open a ctx = (ok, ctx', cs)"
  shows "ctx' = ctx\<lparr>pc_disp_context := pc_disp_context ctx', pc_disp_opened := (ok \<or> pc_disp_opened ctx)\<rparr>"
    "ok \<longleftrightarrow> chan_ok a" "pc_disp_context ctx' = opened_chan a (pc_disp_context ctx)"
    "(\<And>h. ch_new a = Some h \<Longrightarrow> ResDisp h \<notin> R) \<Longrightarrow> held cs R = R \<union> ResDisp ` set_option (opened_chan a None)"
    "Crash f \<notin> set cs"
  using assms by (auto simp: disp_open_def chan_ok_def opened_chan_def Let_def split: option.splits if_splits)

lemma rdpsnd_open_facts:
  assumes "rdpsnd_open a ctx = (ok, ctx', cs)"
  shows "ctx' = ctx\<lparr>pc_rdpsnd_context := pc_rdpsnd_context ctx', pc_rdpsnd_opened := (ok \<or> pc_rdpsnd_opened ctx)\<rparr>"
    "ok \<longleftrightarrow> snd_ok a" "pc_rdpsnd_context ctx' = opened_snd a (pc_rdpsnd_context ctx)"
    "(\<And>h. sn_new a = Some h \<Longrightarrow> ResSnd h \<notin> R) \<Longrightarrow> held cs R = R \<union> ResSnd ` set_option (opened_snd a None)"
    "Crash f \<notin> set cs"
  using assms by (auto simp: rdpsnd_open_def snd_ok_def opened_snd_def Let_def split: option.splits if_splits)

lemma cliprdr_open_facts:
  assumes "clipboard_open_cliprdr a clip = (ok, clip', cs)"
  shows "ok \<longleftrightarrow> chan_ok a" "cb_cliprdr clip' = opened_chan a (cb_cliprdr clip)"
    "(\<And>h. ch_new a = Some h \<Longrightarrow> ResClp h \<notin> R) \<Longrightarrow> held cs R = R \<union> ResClp ` set_option (opened_chan a None)"
    "Crash f \<notin> set cs"
  using assms by (auto simp: clipboard_open_cliprdr_def chan_ok_def opened_chan_def split: option.splits if_splits)

text \<open>
  All channels together, from a peer whose graphics channel is closed: the fields of the new context
  one by one, and the four groups of calls.
\<close>

definition opened_clip :: "open_answer \<Rightarrow> bool \<Rightarrow> handle option \<Rightarrow> handle option" where
  "opened_clip a b old = (if b then opened_chan (op_clip a) old else old)"

lemma open_channels_fields:
  assumes "open_channels a ctx clip = (ctx', clip', cs)" "pc_gfx_context ctx = None"
    and "\<not> pc_gfx_opened ctx" "pc_gfx_surface_id ctx = 0"
  shows "pc_gfx_context ctx' = opened_chan (op_gfx a) None" "pc_gfx_opened ctx' = chan_ok (op_gfx a)"
    "pc_gfx_surface_id ctx' = 0" "pc_gfx_ready ctx' = pc_gfx_ready ctx" "pc_gfx_vcm ctx' = pc_gfx_vcm ctx"
    "pc_disp_context ctx' = opened_chan (op_disp a) (pc_disp_context ctx)"
    "pc_disp_opened ctx' = (chan_ok (op_disp a) \<or> pc_disp_opened ctx)"
    "pc_rdpsnd_context ctx' = opened_snd (op_snd a) (pc_rdpsnd_context ctx)"
    "pc_rdpsnd_opened ctx' = (snd_ok (op_snd a) \<or> pc_rdpsnd_opened ctx)"
    "pc_rdpsnd_ready ctx' = pc_rdpsnd_ready ctx" "pc_clipboard ctx' = pc_clipboard ctx"
    "pc_cliprdr_opened ctx' = (pc_clipboard ctx \<and> chan_ok (op_clip a) \<or> pc_cliprdr_opened ctx)"
    "pc_cliprdr_context ctx' = (if pc_clipboard ctx \<and> chan_ok (op_clip a) then cb_cliprdr clip'
       else pc_cliprdr_context ctx)"
    "cb_cliprdr clip' = opened_clip a (pc_clipboard ctx) (cb_cliprdr clip)"
    "pc_activated ctx' = pc_activated ctx" "pc_input ctx' = pc_input ctx"
proof -
  obtain ok1 c1 cs1 where o1: "gfx_open (op_gfx a) ctx = (ok1, c1, cs1)" by (metis prod_cases3)
  obtain ok2 c2 cs2 where o2: "disp_open (op_disp a) c1 = (ok2, c2, cs2)" by (metis prod_cases3)
  obtain okc clipc csc where oc: "clipboard_open_cliprdr (op_clip a) clip = (okc, clipc, csc)"
    by (metis prod_cases3)
  define c3 where "c3 = (if pc_clipboard c2 \<and> okc
    then c2\<lparr>pc_cliprdr_context := cb_cliprdr clipc, pc_cliprdr_opened := True\<rparr> else c2)"
  obtain ok4 c4 cs4 where o4: "rdpsnd_open (op_snd a) c3 = (ok4, c4, cs4)" by (metis prod_cases3)
  have eq: "ctx' = c4" "clip' = (if pc_clipboard c2 then clipc else clip)"
    using assms(1) o1 o2 oc o4 by (auto simp: open_channels_def c3_def split: if_splits)
  note f1 = gfx_open_facts [OF o1 assms(2-4)] and f2 = disp_open_facts [OF o2]
    and f4 = rdpsnd_open_facts [OF o4] and fc = cliprdr_open_facts [OF oc]
  obtain g n where c1: "c1 = ctx\<lparr>pc_gfx_context := g, pc_gfx_frame_id := n, pc_gfx_opened := ok1,
      pc_gfx_surface_id := 0\<rparr>" "g = opened_chan (op_gfx a) None"
    using f1(1,3) by metis
  obtain d where c2: "c2 = c1\<lparr>pc_disp_context := d, pc_disp_opened := (ok2 \<or> pc_disp_opened c1)\<rparr>"
      "d = opened_chan (op_disp a) (pc_disp_context c1)"
    using f2(1,3) by metis
  obtain r where c4: "c4 = c3\<lparr>pc_rdpsnd_context := r, pc_rdpsnd_opened := (ok4 \<or> pc_rdpsnd_opened c3)\<rparr>"
      "r = opened_snd (op_snd a) (pc_rdpsnd_context c3)"
    using f4(1,3) by metis
  show "pc_gfx_context ctx' = opened_chan (op_gfx a) None" "pc_gfx_opened ctx' = chan_ok (op_gfx a)"
    "pc_gfx_surface_id ctx' = 0" "pc_gfx_ready ctx' = pc_gfx_ready ctx" "pc_gfx_vcm ctx' = pc_gfx_vcm ctx"
    "pc_disp_context ctx' = opened_chan (op_disp a) (pc_disp_context ctx)"
    "pc_disp_opened ctx' = (chan_ok (op_disp a) \<or> pc_disp_opened ctx)"
    "pc_rdpsnd_context ctx' = opened_snd (op_snd a) (pc_rdpsnd_context ctx)"
    "pc_rdpsnd_opened ctx' = (snd_ok (op_snd a) \<or> pc_rdpsnd_opened ctx)"
    "pc_rdpsnd_ready ctx' = pc_rdpsnd_ready ctx" "pc_clipboard ctx' = pc_clipboard ctx"
    "pc_cliprdr_opened ctx' = (pc_clipboard ctx \<and> chan_ok (op_clip a) \<or> pc_cliprdr_opened ctx)"
    "pc_cliprdr_context ctx' = (if pc_clipboard ctx \<and> chan_ok (op_clip a) then cb_cliprdr clip'
       else pc_cliprdr_context ctx)"
    "cb_cliprdr clip' = opened_clip a (pc_clipboard ctx) (cb_cliprdr clip)"
    "pc_activated ctx' = pc_activated ctx" "pc_input ctx' = pc_input ctx"
    using f1(2) f2(2) f4(2) fc(1,2) by (simp_all add: eq c4 c3_def c2 c1 opened_clip_def) auto
qed

text \<open>The contexts that the libraries allocate during a poll, whether their channels open or not.\<close>

definition offered_contexts :: "open_answer \<Rightarrow> resource set" where
  "offered_contexts a = ResGfx ` set_option (ch_new (op_gfx a)) \<union> ResDisp ` set_option (ch_new (op_disp a))
     \<union> ResClp ` set_option (ch_new (op_clip a)) \<union> ResSnd ` set_option (sn_new (op_snd a))"

lemma open_channels_calls:
  assumes "open_channels a ctx clip = (ctx', clip', cs)" "pc_gfx_context ctx = None"
    and "\<not> pc_gfx_opened ctx" "pc_gfx_surface_id ctx = 0"
  shows "Crash f \<notin> set cs"
    "offered_contexts a \<inter> R = {} \<Longrightarrow> held cs R = R \<union> ResGfx ` set_option (opened_chan (op_gfx a) None)
       \<union> ResDisp ` set_option (opened_chan (op_disp a) None)
       \<union> ResClp ` set_option (opened_clip a (pc_clipboard ctx) None)
       \<union> ResSnd ` set_option (opened_snd (op_snd a) None)"
proof -
  obtain ok1 c1 cs1 where o1: "gfx_open (op_gfx a) ctx = (ok1, c1, cs1)" by (metis prod_cases3)
  obtain ok2 c2 cs2 where o2: "disp_open (op_disp a) c1 = (ok2, c2, cs2)" by (metis prod_cases3)
  obtain okc clipc csc where oc: "clipboard_open_cliprdr (op_clip a) clip = (okc, clipc, csc)"
    by (metis prod_cases3)
  define c3 where "c3 = (if pc_clipboard c2 \<and> okc
    then c2\<lparr>pc_cliprdr_context := cb_cliprdr clipc, pc_cliprdr_opened := True\<rparr> else c2)"
  define cs3 where "cs3 = (if pc_clipboard c2 then csc else [])"
  obtain ok4 c4 cs4 where o4: "rdpsnd_open (op_snd a) c3 = (ok4, c4, cs4)" by (metis prod_cases3)
  have eq: "cs = cs1 @ cs2 @ cs3 @ cs4"
    using assms(1) o1 o2 oc o4 by (auto simp: open_channels_def c3_def cs3_def split: if_splits)
  have same: "pc_clipboard c2 = pc_clipboard ctx"
    using arg_cong [where f = pc_clipboard, OF gfx_open_facts(1) [OF o1 assms(2-4)]]
      arg_cong [where f = pc_clipboard, OF disp_open_facts(1) [OF o2]] by simp
  show "Crash f \<notin> set cs"
    using gfx_open_facts(5) [OF o1 assms(2-4)] disp_open_facts(5) [OF o2] cliprdr_open_facts(4) [OF oc]
      rdpsnd_open_facts(5) [OF o4] by (simp add: eq cs3_def)
  show "held cs R = R \<union> ResGfx ` set_option (opened_chan (op_gfx a) None)
       \<union> ResDisp ` set_option (opened_chan (op_disp a) None)
       \<union> ResClp ` set_option (opened_clip a (pc_clipboard ctx) None)
       \<union> ResSnd ` set_option (opened_snd (op_snd a) None)" if fresh: "offered_contexts a \<inter> R = {}"
  proof -
    define R1 where "R1 = R \<union> ResGfx ` set_option (opened_chan (op_gfx a) None)"
    define R2 where "R2 = R1 \<union> ResDisp ` set_option (opened_chan (op_disp a) None)"
    define R3 where "R3 = R2 \<union> ResClp ` set_option (opened_clip a (pc_clipboard ctx) None)"
    have new: "ch_new (op_gfx a) = Some h \<Longrightarrow> ResGfx h \<notin> R" "ch_new (op_disp a) = Some h \<Longrightarrow> ResDisp h \<notin> R"
      "ch_new (op_clip a) = Some h \<Longrightarrow> ResClp h \<notin> R" "sn_new (op_snd a) = Some h \<Longrightarrow> ResSnd h \<notin> R" for h
      using fresh by (auto simp: offered_contexts_def)
    have h1: "held cs1 R = R1"
      unfolding R1_def by (rule gfx_open_facts(4) [OF o1 assms(2-4)]) (rule new)
    have h2: "held cs2 R1 = R2"
      unfolding R2_def by (rule disp_open_facts(4) [OF o2]) (use new in \<open>auto simp: R1_def\<close>)
    have "held csc R2 = R2 \<union> ResClp ` set_option (opened_chan (op_clip a) None)"
      by (rule cliprdr_open_facts(3) [OF oc]) (use new in \<open>auto simp: R1_def R2_def\<close>)
    then have h3: "held cs3 R2 = R3"
      by (simp add: cs3_def R3_def opened_clip_def same)
    have h4: "held cs4 R3 = R3 \<union> ResSnd ` set_option (opened_snd (op_snd a) None)"
      by (rule rdpsnd_open_facts(4) [OF o4]) (use new in \<open>auto simp: R1_def R2_def R3_def\<close>)
    show ?thesis by (simp add: eq h1 h2 h3 h4) (simp add: R1_def R2_def R3_def)
  qed
qed

lemma opened_None:
  "opened_chan c x = None \<longleftrightarrow> \<not> chan_ok c \<and> x = None"
  "opened_snd d x = None \<longleftrightarrow> \<not> snd_ok d \<and> x = None"
  "opened_clip a b x = None \<longleftrightarrow> \<not> (b \<and> chan_ok (op_clip a)) \<and> x = None"
  by (auto simp: opened_chan_def opened_snd_def opened_clip_def chan_ok_def snd_ok_def)

lemma opened_clip_same: "\<not> (b \<and> chan_ok (op_clip a)) \<Longrightarrow> opened_clip a b x = x"
  by (auto simp: opened_chan_def opened_clip_def chan_ok_def)

lemma open_channels_keeps:
  assumes "open_channels a ctx clip = (ctx', clip', cs)" "peer_inv ctx clip" "\<not> pc_gfx_opened ctx"
    and "pc_gfx_vcm ctx \<noteq> None"
  shows "peer_inv ctx' clip'" "pc_gfx_opened ctx' = chan_ok (op_gfx a)" "\<not> pc_gfx_ready ctx'"
    "channels_closed ctx \<Longrightarrow> held cs (peer_owned ctx) = peer_owned ctx'" "Crash f \<notin> set cs"
proof -
  have pre: "pc_gfx_context ctx = None" "pc_gfx_surface_id ctx = 0" "\<not> pc_gfx_ready ctx"
    using assms(2,3) unfolding peer_inv_def by auto
  note fields = open_channels_fields [OF assms(1) pre(1) assms(3) pre(2)]
  note calls = open_channels_calls [OF assms(1) pre(1) assms(3) pre(2)]
  show "pc_gfx_opened ctx' = chan_ok (op_gfx a)" "\<not> pc_gfx_ready ctx'" "Crash f \<notin> set cs"
    using fields(2,4) pre(3) calls(1) by simp_all
  show "peer_inv ctx' clip'"
  proof (cases "pc_clipboard ctx \<and> chan_ok (op_clip a)")
    case True
    then obtain h where cl: "opened_clip a True x = Some h" for x
      by (auto simp: chan_ok_def opened_clip_def opened_chan_def)
    with True show ?thesis
      using assms(2,4) unfolding peer_inv_def fields opened_None by (auto simp: pre simp del: not_None_eq)
  next
    case False
    then show ?thesis
      using assms(2,4) opened_clip_same [OF False]
      unfolding peer_inv_def fields opened_None by (auto simp: pre simp del: not_None_eq)
  qed
  show "held cs (peer_owned ctx) = peer_owned ctx'" if closed: "channels_closed ctx"
  proof -
    have none: "pc_disp_context ctx = None" "pc_rdpsnd_context ctx = None" "pc_cliprdr_context ctx = None"
      using closed by (auto simp: channels_closed_def)
    then have vcm: "peer_owned ctx = ResVcm ` set_option (pc_gfx_vcm ctx)"
      using pre by (simp add: peer_owned_def)
    then have "offered_contexts a \<inter> peer_owned ctx = {}" by (auto simp: offered_contexts_def)
    note held = calls(2) [OF this]
    have "opened_clip a (pc_clipboard ctx) None =
        (if pc_clipboard ctx \<and> chan_ok (op_clip a) then opened_clip a (pc_clipboard ctx) (cb_cliprdr clip) else None)"
      by (auto simp: opened_clip_def opened_chan_def chan_ok_def)
    then show ?thesis using none pre(1) unfolding held by (simp add: vcm peer_owned_def fields) auto
  qed
qed

section \<open>The events of a connection\<close>

text \<open>
  A callback takes the session state to the next one. FreeRDP calls PostConnect once per connection
  (before any channel exists), CapsAdvertise while the RDPGFX channel is open, and Activated on an
  existing RDPSND context. Meanwhile the clipboard may change, but not its CLIPRDR context, which only
  opening and closing the channel set.
\<close>

definition commit :: "'a sess_scheme \<Rightarrow> peer_ctx \<times> clipboard \<times> call list \<Rightarrow> 'a sess_scheme" where
  "commit s r = (case r of (ctx, clip, cs) \<Rightarrow>
     s\<lparr>ss_ctx := ctx, ss_clip := clip, ss_trace := ss_trace s @ cs\<rparr>)"

inductive peer_callback :: "sess \<Rightarrow> sess \<Rightarrow> bool" where
  post_connect: "pc_gfx_vcm (ss_ctx s) = None \<Longrightarrow> on_post_connect a st (ss_ctx s) = (ctx, cs) \<Longrightarrow>
     peer_callback s (commit s (ctx, ss_clip s, cs))"
| activate: "on_activate st (ss_ctx s) = (ctx, cs, req) \<Longrightarrow> peer_callback s (commit s (ctx, ss_clip s, cs))"
| caps_advertise: "pc_gfx_context (ss_ctx s) \<noteq> None \<Longrightarrow>
     gfx_caps_advertise c st caps (ss_ctx s) (ss_clip s) = (rc, ctx, clip, cs) \<Longrightarrow>
     peer_callback s (commit s (ctx, clip, cs))"
| rdpsnd_activated: "pc_rdpsnd_context (ss_ctx s) \<noteq> None \<Longrightarrow>
     on_rdpsnd_activated formats (ss_ctx s) = (ctx, cs) \<Longrightarrow> peer_callback s (commit s (ctx, ss_clip s, cs))"
| update_size: "rdp_peer_update_size su (ss_ctx s) w h = (ctx, cs) \<Longrightarrow>
     peer_callback s (commit s (ctx, ss_clip s, cs))"
| send_frame: "rdp_peer_send_frame fa st (ss_ctx s) f = (ok, ctx, cs) \<Longrightarrow>
     peer_callback s (commit s (ctx, ss_clip s, cs))"
| send_audio: "rdp_peer_send_audio ms sent (ss_ctx s) n = (ok, cs) \<Longrightarrow>
     peer_callback s (commit s (ss_ctx s, ss_clip s, cs))"
| clipboard: "cb_cliprdr clip = cb_cliprdr (ss_clip s) \<Longrightarrow> peer_callback s (commit s (ss_ctx s, clip, []))"

text \<open>What one callback has to guarantee, as a relation on the part of the state it works on.\<close>

definition keeps_account :: "peer_ctx \<Rightarrow> peer_ctx \<Rightarrow> clipboard \<Rightarrow> call list \<Rightarrow> bool" where
  "keeps_account ctx ctx' clip' cs \<longleftrightarrow>
     peer_inv ctx' clip' \<and> held cs (peer_owned ctx) = peer_owned ctx' \<and>
     (\<forall>f. Crash f \<notin> set cs) \<and>
     (pc_gfx_opened ctx' \<or> channels_closed ctx' \<or>
       \<not> pc_gfx_opened ctx \<and> (channels_closed ctx \<longrightarrow> channels_closed ctx')) \<and>
     (\<not> pc_gfx_opened ctx \<longrightarrow> \<not> pc_gfx_opened ctx') \<and>
     (\<not> pc_gfx_opened ctx \<and> pc_gfx_vcm ctx \<noteq> None \<longrightarrow> pc_gfx_vcm ctx' \<noteq> None)"

text \<open>A callback that changes neither a context nor a flag of a channel.\<close>

definition same_channels :: "peer_ctx \<Rightarrow> peer_ctx \<Rightarrow> bool" where
  "same_channels ctx ctx' \<longleftrightarrow>
     pc_gfx_context ctx' = pc_gfx_context ctx \<and> pc_gfx_opened ctx' = pc_gfx_opened ctx \<and>
     pc_gfx_ready ctx' = pc_gfx_ready ctx \<and>
     (pc_gfx_surface_id ctx' = pc_gfx_surface_id ctx \<or> pc_gfx_surface_id ctx' = 1 \<and> pc_gfx_context ctx \<noteq> None) \<and>
     pc_gfx_vcm ctx' = pc_gfx_vcm ctx \<and>
     pc_disp_context ctx' = pc_disp_context ctx \<and> pc_disp_opened ctx' = pc_disp_opened ctx \<and>
     pc_rdpsnd_context ctx' = pc_rdpsnd_context ctx \<and> pc_rdpsnd_opened ctx' = pc_rdpsnd_opened ctx \<and>
     (pc_rdpsnd_ready ctx' \<longrightarrow> pc_rdpsnd_ready ctx \<or> pc_rdpsnd_context ctx \<noteq> None) \<and>
     pc_cliprdr_context ctx' = pc_cliprdr_context ctx \<and> pc_cliprdr_opened ctx' = pc_cliprdr_opened ctx \<and>
     pc_clipboard ctx' = pc_clipboard ctx"

definition neutral :: "call list \<Rightarrow> bool" where
  "neutral cs \<longleftrightarrow> (\<forall>c \<in> set cs. acquires c = None \<and> releases c = None) \<and> (\<forall>f. Crash f \<notin> set cs)"

lemma same_channels_inv:
  assumes "same_channels ctx ctx'" "peer_inv ctx clip" "cb_cliprdr clip' = cb_cliprdr clip"
  shows "peer_inv ctx' clip'" "peer_owned ctx' = peer_owned ctx" "channels_closed ctx' = channels_closed ctx"
proof -
  have eqs: "pc_gfx_context ctx' = pc_gfx_context ctx" "pc_gfx_opened ctx' = pc_gfx_opened ctx"
    "pc_gfx_ready ctx' = pc_gfx_ready ctx" "pc_gfx_vcm ctx' = pc_gfx_vcm ctx"
    "pc_disp_context ctx' = pc_disp_context ctx" "pc_disp_opened ctx' = pc_disp_opened ctx"
    "pc_rdpsnd_context ctx' = pc_rdpsnd_context ctx" "pc_rdpsnd_opened ctx' = pc_rdpsnd_opened ctx"
    "pc_cliprdr_context ctx' = pc_cliprdr_context ctx" "pc_cliprdr_opened ctx' = pc_cliprdr_opened ctx"
    "pc_clipboard ctx' = pc_clipboard ctx"
    using assms(1) unfolding same_channels_def by blast+
  have changed: "pc_gfx_surface_id ctx' = pc_gfx_surface_id ctx \<or> pc_gfx_surface_id ctx' = 1 \<and> pc_gfx_context ctx \<noteq> None"
    "pc_rdpsnd_ready ctx' \<longrightarrow> pc_rdpsnd_ready ctx \<or> pc_rdpsnd_context ctx \<noteq> None"
    using assms(1) unfolding same_channels_def by blast+
  show "peer_inv ctx' clip'"
    using assms(2) changed unfolding peer_inv_def eqs assms(3) by metis
  show "peer_owned ctx' = peer_owned ctx" "channels_closed ctx' = channels_closed ctx"
    using eqs by (simp_all add: peer_owned_def channels_closed_def)
qed

lemma same_channels_keeps:
  assumes "same_channels ctx ctx'" "peer_inv ctx clip" "cb_cliprdr clip' = cb_cliprdr clip" "neutral cs"
  shows "keeps_account ctx ctx' clip' cs"
proof -
  have "held cs R = R" for R
    using assms(4) unfolding neutral_def by (intro held_neutral) blast
  then show ?thesis
    using same_channels_inv [OF assms(1-3)] assms(1,4)
    by (auto simp: keeps_account_def neutral_def same_channels_def)
qed

lemma post_connect_keeps:
  assumes "pc_gfx_vcm ctx = None" "peer_inv ctx clip" "on_post_connect a st ctx = (ctx', cs)"
  shows "keeps_account ctx ctx' clip cs"
proof -
  have none: "pc_gfx_context ctx = None" "pc_disp_context ctx = None" "pc_rdpsnd_context ctx = None"
    "pc_cliprdr_context ctx = None" "\<not> pc_gfx_opened ctx" "\<not> pc_cliprdr_opened ctx"
    using assms(1,2) unfolding peer_inv_def by auto
  obtain v where ctx': "ctx' = ctx\<lparr>pc_pixel_format := depth_format (set_color_depth st), pc_gfx_vcm := v\<rparr>"
    and held: "held cs {} = ResVcm ` set_option v" and crash: "\<forall>f. Crash f \<notin> set cs"
  proof (cases "set_gfx_pipeline st")
    case False
    then have "ctx' = ctx\<lparr>pc_pixel_format := depth_format (set_color_depth st), pc_gfx_vcm := None\<rparr>"
      using assms(1,3) by (cases ctx) (auto simp: on_post_connect_def)
    with False assms(3) that [of None] show ?thesis by (simp add: on_post_connect_def)
  next
    case True
    then show ?thesis
      using assms(1,3) that [of "pc_gfx_vcm ctx'"]
      by (cases ctx) (auto simp: on_post_connect_def vcm_init_def Let_def split: option.splits if_splits)
  qed
  have "peer_inv ctx' clip"
    using assms(1,2) unfolding ctx' peer_inv_def by (auto simp del: not_None_eq)
  moreover have "peer_owned ctx = {}" "peer_owned ctx' = ResVcm ` set_option v" "channels_closed ctx'"
    using none assms(1) by (simp_all add: peer_owned_def channels_closed_def ctx')
  ultimately show ?thesis
    using held crash assms(1) none(5) by (simp add: keeps_account_def ctx')
qed

lemma send_gfx_command_facts:
  assumes "send_gfx_command a ctx cmd = (ok, ctx', cs)"
  shows "ctx' = ctx\<lparr>pc_gfx_frame_id := pc_gfx_frame_id ctx + 1\<rparr>"
    "\<forall>c \<in> set cs. acquires c = None \<and> releases c = None"
    "pc_gfx_context ctx \<noteq> None \<Longrightarrow> Crash f \<notin> set cs"
  using assms by (auto simp: send_gfx_command_def Let_def split: option.splits if_splits)

lemma send_frame_facts:
  assumes "rdp_peer_send_frame a st ctx f = (ok, ctx', cs)"
  shows "\<exists>n. ctx' = ctx\<lparr>pc_gfx_frame_id := n\<rparr>" "\<forall>c \<in> set cs. acquires c = None \<and> releases c = None"
    "pc_gfx_ready ctx \<longrightarrow> pc_gfx_context ctx \<noteq> None \<Longrightarrow> Crash x \<notin> set cs"
proof -
  have self: "\<exists>n. ctx = ctx\<lparr>pc_gfx_frame_id := n\<rparr>" by (intro exI [of _ "pc_gfx_frame_id ctx"]) simp
  note facts = send_gfx_command_facts [of a ctx _ ok ctx' cs]
  consider "ctx' = ctx" "cs = []" | cmd where "send_gfx_command a ctx cmd = (ok, ctx', cs)" "pc_gfx_ready ctx"
    | c where "ctx' = ctx" "cs = [Peer (PeerSurfaceBits c)]"
    using assms
    by (auto simp: rdp_peer_send_frame_def send_gfx_avc420_def send_gfx_avc444_def send_gfx_progressive_def
        send_surface_bits_def Let_def split: send_mode.splits if_splits)
  then have "(\<exists>n. ctx' = ctx\<lparr>pc_gfx_frame_id := n\<rparr>) \<and>
      (\<forall>c \<in> set cs. acquires c = None \<and> releases c = None) \<and>
      ((pc_gfx_ready ctx \<longrightarrow> pc_gfx_context ctx \<noteq> None) \<longrightarrow> Crash x \<notin> set cs)"
  proof cases
    case 1
    then show ?thesis using self by auto
  next
    case 2
    then show ?thesis using facts by blast
  next
    case 3
    then show ?thesis using self by auto
  qed
  then show "\<exists>n. ctx' = ctx\<lparr>pc_gfx_frame_id := n\<rparr>" "\<forall>c \<in> set cs. acquires c = None \<and> releases c = None"
    "pc_gfx_ready ctx \<longrightarrow> pc_gfx_context ctx \<noteq> None \<Longrightarrow> Crash x \<notin> set cs"
    by blast+
qed

text \<open>All callbacks but PostConnect and CapsAdvertise leave the channels alone.\<close>

definition idle :: "sess \<Rightarrow> sess \<Rightarrow> bool" where
  "idle s s' \<longleftrightarrow> same_channels (ss_ctx s) (ss_ctx s') \<and> cb_cliprdr (ss_clip s') = cb_cliprdr (ss_clip s) \<and>
     (\<exists>cs. ss_trace s' = ss_trace s @ cs \<and> neutral cs)"

lemma idle_commit:
  "same_channels (ss_ctx s) ctx \<Longrightarrow> cb_cliprdr clip = cb_cliprdr (ss_clip s) \<Longrightarrow> neutral cs \<Longrightarrow>
     idle s (commit s (ctx, clip, cs))"
  by (auto simp: idle_def commit_def)

lemma callback_cases:
  assumes "peer_callback s s'" "peer_inv (ss_ctx s) (ss_clip s)"
  obtains (idle) "idle s s'"
    | (post_connect) a st ctx cs where "pc_gfx_vcm (ss_ctx s) = None"
        "on_post_connect a st (ss_ctx s) = (ctx, cs)" "s' = commit s (ctx, ss_clip s, cs)"
    | (caps) c st caps rc ctx clip cs where "pc_gfx_context (ss_ctx s) \<noteq> None"
        "gfx_caps_advertise c st caps (ss_ctx s) (ss_clip s) = (rc, ctx, clip, cs)" "s' = commit s (ctx, clip, cs)"
  using assms(1)
proof cases
  case (activate st ctx cs req)
  have "idle s s'"
    using activate(2) unfolding activate(1)
    by (intro idle_commit) (auto simp: on_activate_def same_channels_def neutral_def)
  then show ?thesis by (rule that(1))
next
  case (rdpsnd_activated formats ctx cs)
  have "idle s s'"
    using rdpsnd_activated(2,3) unfolding rdpsnd_activated(1)
    by (intro idle_commit) (auto simp: on_rdpsnd_activated_def same_channels_def neutral_def split: option.splits)
  then show ?thesis by (rule that(1))
next
  case (update_size su w h ctx cs)
  have "idle s s'"
    using update_size(2) unfolding update_size(1)
    by (intro idle_commit) (auto simp: rdp_peer_update_size_def gfx_create_surface_def same_channels_def neutral_def
        Let_def split: option.splits if_splits)
  then show ?thesis by (rule that(1))
next
  case (send_frame fa st f ok ctx cs)
  note facts = send_frame_facts [OF send_frame(2)]
  have "pc_gfx_ready (ss_ctx s) \<longrightarrow> pc_gfx_context (ss_ctx s) \<noteq> None"
    using assms(2) unfolding peer_inv_def by (metis zero_neq_one)
  with facts have "neutral cs" unfolding neutral_def by blast
  moreover have "same_channels (ss_ctx s) ctx" using facts(1) by (auto simp: same_channels_def)
  ultimately have "idle s s'" unfolding send_frame(1) by (intro idle_commit) simp_all
  then show ?thesis by (rule that(1))
next
  case (send_audio ms sent n ok cs)
  have "idle s s'"
    using send_audio(2) unfolding send_audio(1)
    by (intro idle_commit) (auto simp: rdp_peer_send_audio_def same_channels_def neutral_def split: if_splits)
  then show ?thesis by (rule that(1))
next
  case (clipboard clip)
  have "idle s s'"
    using clipboard(2) unfolding clipboard(1) by (intro idle_commit) (auto simp: same_channels_def neutral_def)
  then show ?thesis by (rule that(1))
qed (blast intro: that)+

lemma callback_keeps:
  assumes "peer_callback s s'" "peer_inv (ss_ctx s) (ss_clip s)"
  shows "\<exists>cs. ss_trace s' = ss_trace s @ cs \<and> keeps_account (ss_ctx s) (ss_ctx s') (ss_clip s') cs"
  using assms
proof (cases rule: callback_cases)
  case idle
  then show ?thesis using same_channels_keeps [OF _ assms(2)] unfolding idle_def by blast
next
  case (post_connect a st ctx cs)
  then show ?thesis using post_connect_keeps [OF _ assms(2)] by (simp add: commit_def)
next
  case (caps c st caps rc ctx clip cs)
  note keeps = gfx_caps_advertise_keeps [OF caps(2) assms(2) caps(1)]
  have "pc_gfx_opened (ss_ctx s)" using assms(2) caps(1) by (simp add: peer_inv_def)
  then show ?thesis using keeps caps(3) by (auto simp: commit_def keeps_account_def)
qed

text \<open>A run of the VCM's pump: any number of callbacks.\<close>

definition pumps :: "sess \<Rightarrow> sess \<Rightarrow> bool" where
  "pumps s s' = rtranclp peer_callback s s'"

lemma pumps_refl [simp]: "pumps s s"
  by (simp add: pumps_def rtranclp.rtrancl_refl)

lemma pumps_keep:
  assumes "pumps s s'" "peer_inv (ss_ctx s) (ss_clip s)" "\<forall>f. Crash f \<notin> set (ss_trace s)"
  shows "peer_inv (ss_ctx s') (ss_clip s') \<and> (\<forall>f. Crash f \<notin> set (ss_trace s')) \<and>
     (held (ss_trace s) {} = peer_owned (ss_ctx s) \<longrightarrow>
        held (ss_trace s') {} = peer_owned (ss_ctx s')) \<and>
     ((pc_gfx_opened (ss_ctx s) \<or> channels_closed (ss_ctx s)) \<longrightarrow>
        pc_gfx_opened (ss_ctx s') \<or> channels_closed (ss_ctx s')) \<and>
     (\<not> pc_gfx_opened (ss_ctx s) \<and> pc_gfx_vcm (ss_ctx s) \<noteq> None \<longrightarrow>
        \<not> pc_gfx_opened (ss_ctx s') \<and> pc_gfx_vcm (ss_ctx s') \<noteq> None)"
  using assms(1) unfolding pumps_def
proof (induction rule: rtranclp_induct)
  case base
  then show ?case using assms by blast
next
  case (step s1 s2)
  have inv: "peer_inv (ss_ctx s1) (ss_clip s1)" using step.IH by blast
  obtain cs where cs: "ss_trace s2 = ss_trace s1 @ cs"
      "keeps_account (ss_ctx s1) (ss_ctx s2) (ss_clip s2) cs"
    using callback_keeps [OF step.hyps(2) inv] by blast
  show ?case using step.IH cs unfolding keeps_account_def by (auto simp del: not_None_eq)
qed

section \<open>Reachable states\<close>

text \<open>
  The states of a connection: it starts as \<open>rdp_peer_init\<close> and \<open>set_up_peer\<close> set it up, over the clipboard
  as the worker's earlier clients left it, then callbacks and polls of the VCM follow in any order. The
  trace holds the calls of this connection. \<open>may_fail\<close> tells whether opening the RDPGFX channel may fail; all
  other answers are arbitrary.
\<close>

inductive peer_reach :: "bool \<Rightarrow> sess \<Rightarrow> bool" for may_fail where
  start: "ss_ctx s = zero_ctx\<lparr>pc_input := i, pc_width := w, pc_height := h, pc_on_resize := True,
       pc_clipboard := c, pc_audio := au\<rparr> \<Longrightarrow> ss_trace s = [] \<Longrightarrow>
     peer_reach may_fail s"
| callback: "peer_reach may_fail s \<Longrightarrow> peer_callback s s' \<Longrightarrow> peer_reach may_fail s'"
| poll: "peer_reach may_fail s \<Longrightarrow> pump s = (ok, s1) \<Longrightarrow> pumps s s1 \<Longrightarrow> chan_ok (op_gfx a) \<or> may_fail \<Longrightarrow>
     rdp_peer_check_vcm pump state a s = (res, s') \<Longrightarrow> peer_reach may_fail s'"

inductive_cases peer_callbackE: "peer_callback s s'"

definition peer_good :: "bool \<Rightarrow> sess \<Rightarrow> bool" where
  "peer_good may_fail s \<longleftrightarrow>
     peer_inv (ss_ctx s) (ss_clip s) \<and> (\<forall>f. Crash f \<notin> set (ss_trace s)) \<and>
     (\<not> may_fail \<longrightarrow> held (ss_trace s) {} = peer_owned (ss_ctx s) \<and>
        (pc_gfx_opened (ss_ctx s) \<or> channels_closed (ss_ctx s)))"

lemma peer_good_pumps [inv_intros]: "pumps s s' \<Longrightarrow> peer_good mf s \<Longrightarrow> peer_good mf s'"
  using pumps_keep [of s s'] unfolding peer_good_def by blast

lemma peer_good_poll [inv_intros]:
  assumes "rdp_peer_check_vcm pump state a s = (res, s')" "pump s = (ok, s1)" "pumps s s1"
    and "chan_ok (op_gfx a) \<or> mf" "peer_good mf s"
  shows "peer_good mf s'"
proof (cases "pc_gfx_vcm (ss_ctx s) = None")
  case True
  then show ?thesis using assms(1,5) by (simp add: rdp_peer_check_vcm_def)
next
  case vcm: False
  note good1 = peer_good_pumps [OF assms(3,5)]
  show ?thesis
  proof (cases "pc_gfx_opened (ss_ctx s) \<or> pc_gfx_ready (ss_ctx s)")
    case True
    then show ?thesis using assms(1,2) vcm good1 by (simp add: rdp_peer_check_vcm_def)
  next
    case False
    have closed1: "\<not> pc_gfx_opened (ss_ctx s1)" "pc_gfx_vcm (ss_ctx s1) \<noteq> None"
      using pumps_keep [OF assms(3)] assms(5) False vcm unfolding peer_good_def by blast+
    obtain c1 l1 k1 where cl: "gfx_cleanup (ss_ctx s1) (ss_clip s1) = (c1, l1, k1)" by (metis prod_cases3)
    obtain c2 l2 k2 where op: "open_channels a (ss_ctx s1) (ss_clip s1) = (c2, l2, k2)" by (metis prod_cases3)
    have inv1: "peer_inv (ss_ctx s1) (ss_clip s1)" using good1 by (simp add: peer_good_def)
    note cleaned = gfx_cleanup_facts [OF cl inv1] and opened = open_channels_keeps [OF op inv1 closed1]
    have "s' = (if \<not> ok \<or> state = DRDYNVC_STATE_FAILED then commit s1 (c1, l1, k1)
       else if state \<noteq> DRDYNVC_STATE_READY then s1 else commit s1 (c2, l2, k2))"
      using assms(1,2) vcm False cl op by (auto simp: rdp_peer_check_vcm_def commit_def split: if_splits)
    moreover have "peer_good mf (commit s1 (c1, l1, k1))"
      using good1 cleaned by (simp add: peer_good_def commit_def)
    moreover have "peer_good mf (commit s1 (c2, l2, k2))"
      using good1 opened closed1 assms(4) by (auto simp: peer_good_def commit_def)
    ultimately show ?thesis using good1 by simp
  qed
qed

lemma peer_reach_good: "peer_reach mf s \<Longrightarrow> peer_good mf s"
proof (induction rule: peer_reach.induct)
  case (start s i w h c au)
  then show ?case
    by (simp add: peer_good_def peer_inv_def peer_owned_def channels_closed_def zero_ctx_def)
next
  case (callback s s')
  then show ?case
    using peer_good_pumps [of s s'] r_into_rtranclp [of peer_callback s s'] unfolding pumps_def by blast
next
  case (poll s pump ok s1 a state res s')
  then show ?case using peer_good_poll by blast
qed

section \<open>Properties\<close>

text \<open>
  C5: the channel state of a peer is consistent in every reachable state, whatever the client, the
  network and the libraries do and whatever earlier clients have left in the clipboard: every flag agrees with its pointer, the pipeline is ready only with
  an open graphics channel and surface 1, audio only with an RDPSND context, every channel lives on an
  open VCM, and no callback dereferences a missing context.
\<close>

theorem peer_channel_invariant:
  assumes "peer_reach True s"
  shows "peer_inv (ss_ctx s) (ss_clip s) \<and> (\<forall>f. Crash f \<notin> set (ss_trace s))"
  using peer_reach_good [OF assms] by (simp add: peer_good_def)

text \<open>
  C6: what a connection holds. As long as the RDPGFX channel opens whenever the channels are opened (C32
  is about the other case), the library contexts that the connection allocated and did not free are exactly
  those that its peer context points to, in every reachable state; the clean-up then frees every one of
  them, leaves the peer in SurfaceBits mode and gives up the VCM.
\<close>

theorem peer_contexts_accounted:
  assumes "peer_reach False s" "gfx_cleanup (ss_ctx s) (ss_clip s) = (ctx', clip', cs)"
  shows "held (ss_trace s) {} = peer_owned (ss_ctx s) \<and>
     held (ss_trace s @ cs) {} = {} \<and> peer_owned ctx' = {} \<and>
     rdp_peer_get_send_mode ctx' = WLRDP_SEND_SURFACE_BITS \<and> pc_gfx_vcm ctx' = None"
proof -
  have good: "peer_good False s" by (rule peer_reach_good) fact
  then have inv: "peer_inv (ss_ctx s) (ss_clip s)" by (simp add: peer_good_def)
  show ?thesis using gfx_cleanup_facts [OF assms(2) inv] good by (simp add: peer_good_def)
qed

definition demo_sess :: sess where
  "demo_sess = \<lparr>ss_ctx = zero_ctx\<lparr>pc_input := True, pc_width := 1920, pc_height := 1080,
       pc_on_resize := True, pc_clipboard := True\<rparr>,
     ss_clip = zero_clipboard, ss_trace = []\<rparr>"

definition demo_open :: open_answer where
  "demo_open = \<lparr>op_gfx = \<lparr>ch_new = Some 31, ch_open = True\<rparr>, op_disp = \<lparr>ch_new = Some 32, ch_open = True\<rparr>,
     op_clip = \<lparr>ch_new = Some 33, ch_open = True\<rparr>, op_snd = \<lparr>sn_new = Some 34, sn_init = True, sn_start = True\<rparr>\<rparr>"

text \<open>A connection after PostConnect and a poll that opened all channels.\<close>

definition demo_connected :: sess where
  "demo_connected = (let (ctx, cs) = on_post_connect \<lparr>va_open = Some 30, va_manager = True\<rparr> demo_settings (ss_ctx demo_sess)
     in commit demo_sess (ctx, ss_clip demo_sess, cs))"

definition demo_opened :: sess where
  "demo_opened = snd (rdp_peer_check_vcm (\<lambda>s. (True, s)) DRDYNVC_STATE_READY demo_open demo_connected)"

lemma demo_connected_reach: "peer_reach mf demo_connected"
proof -
  have s0: "peer_reach mf demo_sess"
    by (rule peer_reach.start [where i = True and w = 1920 and h = 1080 and c = True and au = False])
      (simp_all add: demo_sess_def zero_ctx_def)
  obtain ctx cs where pc: "on_post_connect \<lparr>va_open = Some 30, va_manager = True\<rparr> demo_settings (ss_ctx demo_sess) = (ctx, cs)"
    by (metis prod.collapse)
  have "peer_callback demo_sess (commit demo_sess (ctx, ss_clip demo_sess, cs))"
    by (rule peer_callback.post_connect [OF _ pc]) (simp add: demo_sess_def zero_ctx_def)
  then show ?thesis
    using peer_reach.callback [OF s0] pc by (simp add: demo_connected_def)
qed

lemma demo_opened_reach: "peer_reach mf demo_opened"
proof -
  obtain res s2 where ck: "rdp_peer_check_vcm (\<lambda>s. (True, s)) DRDYNVC_STATE_READY demo_open demo_connected = (res, s2)"
    by (metis prod.collapse)
  have pump: "(\<lambda>s. (True, s)) demo_connected = (True, demo_connected)" by simp
  have "peer_reach mf s2"
    by (rule peer_reach.poll [OF demo_connected_reach pump pumps_refl _ ck]) (simp add: demo_open_def chan_ok_def)
  then show ?thesis using ck by (simp add: demo_opened_def)
qed

theorem peer_channel_invariant_witness: "peer_inv (ss_ctx demo_opened) (ss_clip demo_opened)"
  using peer_channel_invariant [OF demo_opened_reach] by simp

lemma demo_opened_value:
  "peer_owned (ss_ctx demo_opened) = {ResGfx 31, ResDisp 32, ResSnd 34, ResClp 33, ResVcm 30}"
  by (auto simp: demo_opened_def demo_connected_def demo_sess_def demo_open_def zero_ctx_def zero_clipboard_def
      on_post_connect_def vcm_init_def commit_def rdp_peer_check_vcm_def open_channels_def gfx_open_def
      disp_open_def rdpsnd_open_def clipboard_open_cliprdr_def demo_settings_def Let_def peer_owned_def)

theorem peer_contexts_accounted_witness:
  "held (ss_trace demo_opened) {} = {ResGfx 31, ResDisp 32, ResSnd 34, ResClp 33, ResVcm 30} \<and>
   held (ss_trace demo_opened @ snd (snd (gfx_cleanup (ss_ctx demo_opened) (ss_clip demo_opened)))) {} = {}"
proof -
  obtain ctx' clip' cs where c: "gfx_cleanup (ss_ctx demo_opened) (ss_clip demo_opened) = (ctx', clip', cs)"
    by (metis prod_cases3)
  from peer_contexts_accounted [OF demo_opened_reach c] c demo_opened_value show ?thesis by (simp del: held_append)
qed

text \<open>
  A failed handshake falls back. If the VCM's pump fails or DRDYNVC reports failure while no
  channel is open, the poll closes the VCM, frees everything and returns to SurfaceBits, so that the
  condition for starting frames (no VCM, or pipeline ready) holds.
\<close>

theorem drdynvc_failure_falls_back:
  assumes "peer_reach True s" "pc_gfx_vcm (ss_ctx s) \<noteq> None" "\<not> pc_gfx_opened (ss_ctx s)"
    and "pump s = (ok, s1)" "pumps s s1" "\<not> ok \<or> state = DRDYNVC_STATE_FAILED"
    and "rdp_peer_check_vcm pump state a s = (res, s')"
  shows "res \<and> pc_gfx_vcm (ss_ctx s') = None \<and> peer_owned (ss_ctx s') = {} \<and>
     rdp_peer_get_send_mode (ss_ctx s') = WLRDP_SEND_SURFACE_BITS"
proof -
  have good: "peer_good True s" by (rule peer_reach_good) fact
  then have "\<not> pc_gfx_ready (ss_ctx s)"
    using assms(3) unfolding peer_good_def peer_inv_def by (metis zero_neq_one)
  obtain c1 l1 k1 where cl: "gfx_cleanup (ss_ctx s1) (ss_clip s1) = (c1, l1, k1)" by (metis prod_cases3)
  have inv: "peer_inv (ss_ctx s1) (ss_clip s1)"
    using peer_good_pumps [OF assms(5) good] by (simp add: peer_good_def)
  have "res" "ss_ctx s' = c1" "ss_clip s' = l1"
    using assms \<open>\<not> pc_gfx_ready (ss_ctx s)\<close> cl by (auto simp: rdp_peer_check_vcm_def)
  then show ?thesis using gfx_cleanup_facts [OF cl inv] by simp
qed

theorem drdynvc_failure_falls_back_witness:
  "pc_gfx_vcm (ss_ctx (snd (rdp_peer_check_vcm (\<lambda>s. (True, s)) DRDYNVC_STATE_FAILED demo_open demo_connected))) = None"
proof -
  have st: "pc_gfx_vcm (ss_ctx demo_connected) \<noteq> None" "\<not> pc_gfx_opened (ss_ctx demo_connected)"
    by (simp_all add: demo_connected_def on_post_connect_def vcm_init_def demo_settings_def demo_sess_def
        commit_def zero_ctx_def)
  obtain res s' where ck: "rdp_peer_check_vcm (\<lambda>s. (True, s)) DRDYNVC_STATE_FAILED demo_open demo_connected = (res, s')"
    by (metis prod.collapse)
  have pump: "(\<lambda>s. (True, s)) demo_connected = (True, demo_connected)" by simp
  show ?thesis
    using drdynvc_failure_falls_back [OF demo_connected_reach st pump pumps_refl _ ck] ck by simp
qed

section \<open>A graphics channel that does not open\<close>

text \<open>
  Polls of a peer whose RDPGFX channel cannot be opened, be it that its context cannot be allocated or
  that \<open>Open\<close> fails, with callbacks before, between and after them. An allocation returns an object that is
  not in use. The list holds the answers of the polls.
\<close>

inductive gfx_retries :: "sess \<Rightarrow> open_answer list \<Rightarrow> sess \<Rightarrow> bool" for s where
  start: "gfx_retries s [] s"
| callback: "gfx_retries s qs s1 \<Longrightarrow> peer_callback s1 s2 \<Longrightarrow> gfx_retries s qs s2"
| poll: "gfx_retries s qs s1 \<Longrightarrow> pump s1 = (True, s2) \<Longrightarrow> pumps s1 s2 \<Longrightarrow> \<not> chan_ok (op_gfx a) \<Longrightarrow>
     offered_contexts a \<inter> held (ss_trace s2) {} = {} \<Longrightarrow>
     rdp_peer_check_vcm pump DRDYNVC_STATE_READY a s1 = (res, s3) \<Longrightarrow> gfx_retries s (qs @ [a]) s3"

text \<open>The contexts that the polls opened for one channel, in their order.\<close>

definition opened_by :: "(open_answer \<Rightarrow> handle option) \<Rightarrow> open_answer list \<Rightarrow> handle list" where
  "opened_by f qs = concat (map (\<lambda>a. case f a of None \<Rightarrow> [] | Some h \<Rightarrow> [h]) qs)"

definition disp_contexts :: "open_answer list \<Rightarrow> handle list" where
  "disp_contexts = opened_by (\<lambda>a. opened_chan (op_disp a) None)"

definition clip_contexts :: "bool \<Rightarrow> open_answer list \<Rightarrow> handle list" where
  "clip_contexts b = opened_by (\<lambda>a. opened_clip a b None)"

definition snd_contexts :: "open_answer list \<Rightarrow> handle list" where
  "snd_contexts = opened_by (\<lambda>a. opened_snd (op_snd a) None)"

lemma opened_by_simps [simp]:
  "opened_by f [] = []"
  "opened_by f (qs @ [a]) = opened_by f qs @ (case f a of None \<Rightarrow> [] | Some h \<Rightarrow> [h])"
  by (simp_all add: opened_by_def)

text \<open>One channel: its contexts are held, they differ, and the peer points to the last one.\<close>

definition piled_up :: "(handle \<Rightarrow> resource) \<Rightarrow> handle list \<Rightarrow> handle option \<Rightarrow> resource set \<Rightarrow> bool" where
  "piled_up res hs ptr R \<longleftrightarrow> res ` set hs \<subseteq> R \<and> distinct hs \<and> (hs \<noteq> [] \<longrightarrow> ptr = Some (last hs))"

lemma piled_up_mono: "piled_up res hs ptr R \<Longrightarrow> R \<subseteq> R' \<Longrightarrow> piled_up res hs ptr R'"
  by (auto simp: piled_up_def)

lemma piled_up_next:
  assumes "piled_up res hs ptr R" "\<And>h. x = Some h \<Longrightarrow> res h \<notin> R" "R \<union> res ` set_option x \<subseteq> R'"
    and "ptr' = (if x = None then ptr else x)"
  shows "piled_up res (hs @ (case x of None \<Rightarrow> [] | Some h \<Rightarrow> [h])) ptr' R'"
proof (cases x)
  case None
  then show ?thesis using assms by (auto simp: piled_up_def)
next
  case (Some k)
  then have "k \<notin> set hs" using assms(1) assms(2) [of k] by (auto simp: piled_up_def)
  then show ?thesis using assms Some by (auto simp: piled_up_def)
qed

text \<open>While the graphics channel is closed, a pump is idle.\<close>

definition waiting :: "sess \<Rightarrow> bool" where
  "waiting s \<longleftrightarrow> peer_inv (ss_ctx s) (ss_clip s) \<and> pc_gfx_vcm (ss_ctx s) \<noteq> None \<and> \<not> pc_gfx_opened (ss_ctx s)"

lemma idle_keeps:
  assumes "idle s s'" "waiting s"
  shows "waiting s'" "held (ss_trace s') R = held (ss_trace s) R" "pc_clipboard (ss_ctx s') = pc_clipboard (ss_ctx s)"
    "pc_disp_context (ss_ctx s') = pc_disp_context (ss_ctx s)"
    "pc_rdpsnd_context (ss_ctx s') = pc_rdpsnd_context (ss_ctx s)"
    "pc_cliprdr_context (ss_ctx s') = pc_cliprdr_context (ss_ctx s)"
proof -
  have same: "same_channels (ss_ctx s) (ss_ctx s')" "cb_cliprdr (ss_clip s') = cb_cliprdr (ss_clip s)"
    and "\<exists>cs. ss_trace s' = ss_trace s @ cs \<and> neutral cs"
    using assms(1) unfolding idle_def by blast+
  then obtain cs where cs: "ss_trace s' = ss_trace s @ cs" "neutral cs" by blast
  have "held cs Q = Q" for Q
    using cs(2) unfolding neutral_def by (intro held_neutral) blast
  then show "held (ss_trace s') R = held (ss_trace s) R" using cs(1) by simp
  show "waiting s'"
    using assms(2) same_channels_inv(1) [OF same(1) _ same(2)] same(1) unfolding waiting_def same_channels_def by metis
  show "pc_clipboard (ss_ctx s') = pc_clipboard (ss_ctx s)"
    "pc_disp_context (ss_ctx s') = pc_disp_context (ss_ctx s)"
    "pc_rdpsnd_context (ss_ctx s') = pc_rdpsnd_context (ss_ctx s)"
    "pc_cliprdr_context (ss_ctx s') = pc_cliprdr_context (ss_ctx s)"
    using same(1) unfolding same_channels_def by blast+
qed

lemma waiting_callback: "peer_callback s s' \<Longrightarrow> waiting s \<Longrightarrow> idle s s'"
  by (erule callback_cases) (auto simp: waiting_def peer_inv_def)

text \<open>What the retries have opened so far.\<close>

definition piles :: "bool \<Rightarrow> open_answer list \<Rightarrow> sess \<Rightarrow> bool" where
  "piles b qs s \<longleftrightarrow> waiting s \<and> pc_clipboard (ss_ctx s) = b \<and>
     piled_up ResDisp (disp_contexts qs) (pc_disp_context (ss_ctx s)) (held (ss_trace s) {}) \<and>
     piled_up ResClp (clip_contexts b qs) (pc_cliprdr_context (ss_ctx s)) (held (ss_trace s) {}) \<and>
     piled_up ResSnd (snd_contexts qs) (pc_rdpsnd_context (ss_ctx s)) (held (ss_trace s) {})"

lemma piles_idle: "idle s s' \<Longrightarrow> piles b qs s \<Longrightarrow> piles b qs s'"
  using idle_keeps [of s s'] unfolding piles_def by simp

lemma piles_pumps:
  assumes "pumps s s'" "piles b qs s"
  shows "piles b qs s'"
  using assms(1) unfolding pumps_def
proof (induction rule: rtranclp_induct)
  case (step s1 s2)
  then show ?case using waiting_callback [of s1 s2] piles_idle unfolding piles_def by blast
qed (rule assms(2))

lemma piles_poll:
  assumes "piles b qs s" "\<not> chan_ok (op_gfx a)" "offered_contexts a \<inter> held (ss_trace s) {} = {}"
    and "open_channels a (ss_ctx s) (ss_clip s) = (ctx, clip, cs)"
  shows "piles b (qs @ [a]) (commit s (ctx, clip, cs))"
proof -
  have wait: "peer_inv (ss_ctx s) (ss_clip s)" "\<not> pc_gfx_opened (ss_ctx s)" "pc_gfx_vcm (ss_ctx s) \<noteq> None"
    and b: "pc_clipboard (ss_ctx s) = b"
    using assms(1) by (simp_all add: piles_def waiting_def)
  then have pre: "pc_gfx_context (ss_ctx s) = None" "pc_gfx_surface_id (ss_ctx s) = 0"
    unfolding peer_inv_def by auto
  note fields = open_channels_fields [OF assms(4) pre(1) wait(2) pre(2)]
    and keeps = open_channels_keeps [OF assms(4) wait]
    and calls = open_channels_calls(2) [OF assms(4) pre(1) wait(2) pre(2) assms(3)]
  define R where "R = held (ss_trace s) {}"
  have R': "held (ss_trace (commit s (ctx, clip, cs))) {} = held cs R" by (simp add: commit_def R_def)
  note held = calls [folded R_def, unfolded b]
  have new: "opened_chan (op_disp a) None = Some h \<Longrightarrow> ResDisp h \<notin> R"
    "opened_clip a b None = Some h \<Longrightarrow> ResClp h \<notin> R" "opened_snd (op_snd a) None = Some h \<Longrightarrow> ResSnd h \<notin> R" for h
    using assms(3)
    by (auto simp: R_def offered_contexts_def opened_chan_def opened_clip_def opened_snd_def split: if_splits)
  have old: "piled_up ResDisp (disp_contexts qs) (pc_disp_context (ss_ctx s)) R"
    "piled_up ResClp (clip_contexts b qs) (pc_cliprdr_context (ss_ctx s)) R"
    "piled_up ResSnd (snd_contexts qs) (pc_rdpsnd_context (ss_ctx s)) R"
    using assms(1) by (simp_all add: piles_def R_def)
  have "piled_up ResDisp (disp_contexts (qs @ [a])) (pc_disp_context ctx) (held cs R)"
    unfolding disp_contexts_def opened_by_simps
    by (rule piled_up_next [OF old(1) [unfolded disp_contexts_def] new(1)])
      (unfold held fields, auto simp: opened_chan_def)
  moreover have "piled_up ResClp (clip_contexts b (qs @ [a])) (pc_cliprdr_context ctx) (held cs R)"
    unfolding clip_contexts_def opened_by_simps
    by (rule piled_up_next [OF old(2) [unfolded clip_contexts_def] new(2)])
      (unfold held fields b, auto simp: opened_clip_def opened_chan_def chan_ok_def)
  moreover have "piled_up ResSnd (snd_contexts (qs @ [a])) (pc_rdpsnd_context ctx) (held cs R)"
    unfolding snd_contexts_def opened_by_simps
    by (rule piled_up_next [OF old(3) [unfolded snd_contexts_def] new(3)])
      (unfold held fields, auto simp: opened_snd_def)
  moreover have "waiting (commit s (ctx, clip, cs))"
    using keeps(1,2) assms(2) wait(3) fields(5) by (simp add: waiting_def commit_def)
  ultimately show ?thesis
    unfolding piles_def R' using b fields(11) by (simp add: commit_def)
qed

lemma gfx_retries_piles:
  assumes "gfx_retries s qs s'" "waiting s"
  shows "piles (pc_clipboard (ss_ctx s)) qs s'"
  using assms(1)
proof induction
  case start
  then show ?case
    using assms(2) by (simp add: piles_def piled_up_def disp_contexts_def clip_contexts_def snd_contexts_def)
next
  case (callback qs s1 s2)
  then show ?case using waiting_callback [of s1 s2] piles_idle unfolding piles_def by blast
next
  case (poll qs s1 pump s2 a res s3)
  have p2: "piles (pc_clipboard (ss_ctx s)) qs s2" by (rule piles_pumps) (use poll in blast)+
  have w1: "pc_gfx_vcm (ss_ctx s1) \<noteq> None" "\<not> pc_gfx_opened (ss_ctx s1)" "\<not> pc_gfx_ready (ss_ctx s1)"
    using poll.IH unfolding piles_def waiting_def peer_inv_def by auto
  obtain ctx clip cs where op: "open_channels a (ss_ctx s2) (ss_clip s2) = (ctx, clip, cs)" by (metis prod_cases3)
  have "s3 = commit s2 (ctx, clip, cs)"
    using poll.hyps w1 op by (auto simp: rdp_peer_check_vcm_def commit_def)
  then show ?case using piles_poll [OF p2 _ _ op] poll.hyps by simp
qed

lemma piled_up_lost: "piled_up res hs ptr R \<Longrightarrow> res ` set (butlast hs) \<subseteq> R \<and> (\<forall>h \<in> set (butlast hs). ptr \<noteq> Some h)"
  by (cases hs rule: rev_cases) (auto simp: piled_up_def)

text \<open>
  C32: a graphics channel that cannot be opened does not fall back, and leaks. The VCM stays open and the
  pipeline is never ready, so that frames never start, however often the peer is polled; and every poll opens
  the DISP, CLIPRDR and RDPSND channels again, over the contexts of the polls before, so that all but the last
  context of each channel are still allocated, nothing of the peer points to them, and the clean-up does not
  free them either.
\<close>

theorem gfx_open_failure_leaks:
  assumes "peer_reach True s" "pc_gfx_vcm (ss_ctx s) \<noteq> None" "\<not> pc_gfx_opened (ss_ctx s)" "gfx_retries s qs s'"
    and "lost = ResDisp ` set (butlast (disp_contexts qs)) \<union> ResSnd ` set (butlast (snd_contexts qs))
       \<union> ResClp ` set (butlast (clip_contexts (pc_clipboard (ss_ctx s)) qs))"
    and "gfx_cleanup (ss_ctx s') (ss_clip s') = (ctx', clip', cs)"
  shows "pc_gfx_vcm (ss_ctx s') \<noteq> None \<and> \<not> pc_gfx_ready (ss_ctx s') \<and>
    distinct (disp_contexts qs) \<and> distinct (snd_contexts qs) \<and>
    distinct (clip_contexts (pc_clipboard (ss_ctx s)) qs) \<and>
    lost \<subseteq> held (ss_trace s') {} - peer_owned (ss_ctx s') \<and> lost \<subseteq> held (ss_trace s' @ cs) {}"
proof -
  have "waiting s"
    using peer_reach_good [OF assms(1)] assms(2,3) by (simp add: peer_good_def waiting_def)
  then have p: "piles (pc_clipboard (ss_ctx s)) qs s'" by (rule gfx_retries_piles [OF assms(4)])
  then have w: "peer_inv (ss_ctx s') (ss_clip s')" "pc_gfx_vcm (ss_ctx s') \<noteq> None" "\<not> pc_gfx_ready (ss_ctx s')"
    unfolding piles_def waiting_def peer_inv_def by auto
  have d: "piled_up ResDisp (disp_contexts qs) (pc_disp_context (ss_ctx s')) (held (ss_trace s') {})"
    and c: "piled_up ResClp (clip_contexts (pc_clipboard (ss_ctx s)) qs) (pc_cliprdr_context (ss_ctx s')) (held (ss_trace s') {})"
    and n: "piled_up ResSnd (snd_contexts qs) (pc_rdpsnd_context (ss_ctx s')) (held (ss_trace s') {})"
    using p by (simp_all add: piles_def)
  have "lost \<subseteq> held (ss_trace s') {} - peer_owned (ss_ctx s')"
    using piled_up_lost [OF d] piled_up_lost [OF c] piled_up_lost [OF n]
    unfolding assms(5) peer_owned_def by auto
  moreover have "held (ss_trace s' @ cs) {} = held (ss_trace s') {} - peer_owned (ss_ctx s')"
    using gfx_cleanup_facts(2) [OF assms(6) w(1)] by simp
  ultimately show ?thesis using w d c n unfolding piled_up_def by simp
qed

definition demo_refusal :: "handle \<Rightarrow> open_answer" where
  "demo_refusal h = \<lparr>op_gfx = \<lparr>ch_new = None, ch_open = False\<rparr>, op_disp = \<lparr>ch_new = Some h, ch_open = True\<rparr>,
     op_clip = \<lparr>ch_new = Some h, ch_open = True\<rparr>, op_snd = \<lparr>sn_new = Some h, sn_init = True, sn_start = True\<rparr>\<rparr>"

definition demo_polled :: "handle \<Rightarrow> sess \<Rightarrow> sess" where
  "demo_polled h s = snd (rdp_peer_check_vcm (\<lambda>s. (True, s)) DRDYNVC_STATE_READY (demo_refusal h) s)"

text \<open>Two polls: the three contexts of the first are lost.\<close>

theorem gfx_open_failure_leaks_witness:
  "{ResDisp 40, ResSnd 40, ResClp 40} \<subseteq> held (ss_trace (demo_polled 41 (demo_polled 40 demo_connected))) {}
     - peer_owned (ss_ctx (demo_polled 41 (demo_polled 40 demo_connected)))"
proof -
  have st: "pc_gfx_vcm (ss_ctx demo_connected) \<noteq> None" "\<not> pc_gfx_opened (ss_ctx demo_connected)"
      "pc_clipboard (ss_ctx demo_connected)"
    by (simp_all add: demo_connected_def on_post_connect_def vcm_init_def demo_settings_def demo_sess_def
        commit_def zero_ctx_def)
  have poll: "gfx_retries s (qs @ [demo_refusal h]) (demo_polled h s1)"
    if "gfx_retries s qs s1" "offered_contexts (demo_refusal h) \<inter> held (ss_trace s1) {} = {}" for s qs s1 h
    unfolding demo_polled_def
    by (rule gfx_retries.poll [where pump = "\<lambda>s. (True, s)", OF that(1) _ pumps_refl _ that(2) prod.collapse [symmetric]])
      (simp_all add: demo_refusal_def chan_ok_def)
  note unfold = demo_polled_def demo_refusal_def demo_connected_def demo_sess_def zero_ctx_def
    on_post_connect_def vcm_init_def commit_def rdp_peer_check_vcm_def open_channels_def gfx_open_def
    disp_open_def rdpsnd_open_def clipboard_open_cliprdr_def demo_settings_def Let_def offered_contexts_def
  have "gfx_retries demo_connected ([] @ [demo_refusal 40]) (demo_polled 40 demo_connected)"
    by (rule poll [OF gfx_retries.start]) (simp add: unfold)
  then have r: "gfx_retries demo_connected (([] @ [demo_refusal 40]) @ [demo_refusal 41])
      (demo_polled 41 (demo_polled 40 demo_connected))"
    by (rule poll) (simp add: unfold)
  obtain ctx' clip' cs where "gfx_cleanup (ss_ctx (demo_polled 41 (demo_polled 40 demo_connected)))
      (ss_clip (demo_polled 41 (demo_polled 40 demo_connected))) = (ctx', clip', cs)" by (metis prod_cases3)
  from gfx_open_failure_leaks [OF demo_connected_reach st(1,2) r refl this]
  show ?thesis
    using st(3) by (simp add: disp_contexts_def snd_contexts_def clip_contexts_def opened_by_def demo_refusal_def
        opened_chan_def opened_snd_def opened_clip_def del: held.simps)
qed

end
