(* ===== verification/FrameStream.thy ===== *)
theory FrameStream
  imports PeerChannels
begin

text \<open>
  The stream of frames on the graphics pipeline. The senders of \<open>src/session/rdp_peer.c\<close> share one
  contract, stated as a locale; what follows from it for any sequence of frames is proved once and
  used for the dispatcher \<open>rdp_peer_send_frame\<close>.
\<close>

section \<open>Streams\<close>

fun send_run :: "(frame_answer \<Rightarrow> peer_ctx \<Rightarrow> frame \<Rightarrow> bool \<times> peer_ctx \<times> call list)
    \<Rightarrow> (frame_answer \<times> frame) list \<Rightarrow> peer_ctx \<Rightarrow> bool list \<times> peer_ctx \<times> call list" where
  "send_run send [] ctx = ([], ctx, [])"
| "send_run send ((a, f) # fs) ctx =
     (let (ok, ctx1, cs1) = send a ctx f; (oks, ctx2, cs2) = send_run send fs ctx1
      in (ok # oks, ctx2, cs1 @ cs2))"

text \<open>The ids of the frames that were started, and the three calls of a complete frame.\<close>

fun started_ids :: "call list \<Rightarrow> u32 list" where
  "started_ids [] = []"
| "started_ids (Gfx (GfxStartFrame n) # cs) = n # started_ids cs"
| "started_ids (_ # cs) = started_ids cs"

definition frame_calls :: "u32 \<Rightarrow> surface_cmd \<Rightarrow> call list" where
  "frame_calls n cmd = [Gfx (GfxStartFrame n), Gfx (GfxSurfaceCommand cmd), Gfx (GfxEndFrame n)]"

text \<open>A stream of complete frames of one codec, numbered on from \<open>n\<close>.\<close>

fun bracketed :: "codec_id \<Rightarrow> u32 \<Rightarrow> call list \<Rightarrow> bool" where
  "bracketed codec n [] \<longleftrightarrow> True"
| "bracketed codec n (Gfx (GfxStartFrame m) # Gfx (GfxSurfaceCommand cmd) # Gfx (GfxEndFrame e) # cs) \<longleftrightarrow>
     m = n + 1 \<and> e = n + 1 \<and> cmd_codec cmd = codec \<and> bracketed codec (n + 1) cs"
| "bracketed codec n _ \<longleftrightarrow> False"

lemma started_ids_append [simp]: "started_ids (xs @ ys) = started_ids xs @ started_ids ys"
  by (induction xs rule: started_ids.induct) auto

lemma started_ids_frame:
  "0 < k \<Longrightarrow> started_ids (take k (frame_calls n cmd)) = [n]"
  by (cases k; cases "k - 1"; cases "k - 2") (auto simp: frame_calls_def take_Cons split: nat.splits)

lemma bracketed_frame:
  "cmd_codec cmd = codec \<Longrightarrow> bracketed codec (n + 1) cs \<Longrightarrow> bracketed codec n (frame_calls (n + 1) cmd @ cs)"
  by (simp add: frame_calls_def)

section \<open>The contract of a sender\<close>

text \<open>
  In a state where the sender is ready, a frame is either skipped without any effect, or it takes the
  next frame id and issues a non-empty prefix of the three calls, all of them if it reports success.
\<close>

locale gfx_sender =
  fixes send :: "frame_answer \<Rightarrow> peer_ctx \<Rightarrow> frame \<Rightarrow> bool \<times> peer_ctx \<times> call list"
    and ready :: "peer_ctx \<Rightarrow> bool"
    and codec :: codec_id
  assumes sends: "ready ctx \<Longrightarrow> send a ctx f = (ok, ctx', cs) \<Longrightarrow>
      (ok \<and> ctx' = ctx \<and> cs = []) \<or>
      (\<exists>cmd k. ctx' = ctx\<lparr>pc_gfx_frame_id := pc_gfx_frame_id ctx + 1\<rparr> \<and> 0 < k \<and>
         cs = take k (frame_calls (pc_gfx_frame_id ctx + 1) cmd) \<and> (ok \<longrightarrow> k = 3) \<and>
         cmd_codec cmd = codec)"
    and ready_id: "ready (ctx\<lparr>pc_gfx_frame_id := n\<rparr>) = ready ctx"
begin

lemma run_ids:
  assumes "ready ctx" "send_run send fs ctx = (oks, ctx', cs)"
  shows "started_ids cs = map (\<lambda>i. pc_gfx_frame_id ctx + 1 + of_nat i) [0..<length (started_ids cs)] \<and>
    pc_gfx_frame_id ctx' = pc_gfx_frame_id ctx + of_nat (length (started_ids cs)) \<and> ready ctx'"
  using assms
proof (induction fs arbitrary: ctx oks cs)
  case Nil
  then show ?case by simp
next
  case (Cons x fs)
  obtain a f where x: "x = (a, f)" by (cases x)
  obtain ok ctx1 cs1 where s: "send a ctx f = (ok, ctx1, cs1)" by (metis prod_cases3)
  obtain oks2 cs2 where r: "send_run send fs ctx1 = (oks2, ctx', cs2)" "cs = cs1 @ cs2"
    using Cons.prems(2) x s by (auto split: prod.splits)
  from sends [OF Cons.prems(1) s] show ?case
  proof (elim disjE exE conjE)
    assume "ctx1 = ctx" "cs1 = []"
    with Cons.IH [OF _ r(1)] Cons.prems(1) r(2) show ?thesis by simp
  next
    fix cmd k
    assume c: "ctx1 = ctx\<lparr>pc_gfx_frame_id := pc_gfx_frame_id ctx + 1\<rparr>" "0 < k"
      "cs1 = take k (frame_calls (pc_gfx_frame_id ctx + 1) cmd)"
    then have ids: "started_ids cs = (pc_gfx_frame_id ctx + 1) # started_ids cs2"
      using r(2) started_ids_frame [of k] by simp
    have "ready ctx1" using Cons.prems(1) c(1) ready_id by simp
    from Cons.IH [OF this r(1)] c(1)
    have IH: "started_ids cs2 = map (\<lambda>i. pc_gfx_frame_id ctx + 1 + 1 + of_nat i) [0..<length (started_ids cs2)]"
      "pc_gfx_frame_id ctx' = pc_gfx_frame_id ctx + 1 + of_nat (length (started_ids cs2))" "ready ctx'"
      by simp_all
    have "map (\<lambda>i. pc_gfx_frame_id ctx + 1 + of_nat i) [0..<Suc (length (started_ids cs2))] =
        (pc_gfx_frame_id ctx + 1) # map (\<lambda>i. pc_gfx_frame_id ctx + 1 + 1 + of_nat i) [0..<length (started_ids cs2)]"
      by (simp add: upt_conv_Cons map_Suc_upt [symmetric] add.assoc del: upt_Suc)
    with IH show ?thesis by (simp add: ids del: upt_Suc)
  qed
qed

lemma run_bracketed:
  assumes "ready ctx" "send_run send fs ctx = (oks, ctx', cs)" "False \<notin> set oks"
  shows "bracketed codec (pc_gfx_frame_id ctx) cs"
  using assms
proof (induction fs arbitrary: ctx oks cs)
  case Nil
  then show ?case by simp
next
  case (Cons x fs)
  obtain a f where x: "x = (a, f)" by (cases x)
  obtain ok ctx1 cs1 where s: "send a ctx f = (ok, ctx1, cs1)" by (metis prod_cases3)
  obtain oks2 cs2 where r: "send_run send fs ctx1 = (oks2, ctx', cs2)" "cs = cs1 @ cs2" "oks = ok # oks2"
    using Cons.prems(2) x s by (auto split: prod.splits)
  then have oks: ok "False \<notin> set oks2" using Cons.prems(3) by simp_all
  from sends [OF Cons.prems(1) s] show ?case
  proof (elim disjE exE conjE)
    assume "ctx1 = ctx" "cs1 = []"
    with Cons.IH [OF _ r(1) oks(2)] Cons.prems(1) r(2) show ?thesis by simp
  next
    fix cmd k
    assume c: "ctx1 = ctx\<lparr>pc_gfx_frame_id := pc_gfx_frame_id ctx + 1\<rparr>" "ok \<longrightarrow> k = 3"
      "cs1 = take k (frame_calls (pc_gfx_frame_id ctx + 1) cmd)" "cmd_codec cmd = codec"
    have "ready ctx1" using Cons.prems(1) c(1) ready_id by simp
    from Cons.IH [OF this r(1) oks(2)] c oks(1) show ?thesis
      by (simp add: r(2) bracketed_frame frame_calls_def)
  qed
qed

end

section \<open>The senders of the program\<close>

definition gfx_pipe :: "peer_ctx \<Rightarrow> bool" where
  "gfx_pipe ctx \<longleftrightarrow> pc_gfx_context ctx \<noteq> None"

lemma send_gfx_command_sends:
  assumes "gfx_pipe ctx" "send_gfx_command a ctx cmd = (ok, ctx', cs)"
  shows "\<exists>k. ctx' = ctx\<lparr>pc_gfx_frame_id := pc_gfx_frame_id ctx + 1\<rparr> \<and> 0 < k \<and>
     cs = take k (frame_calls (pc_gfx_frame_id ctx + 1) cmd) \<and> (ok \<longrightarrow> k = 3)"
proof -
  let ?k = "if \<not> fa_start a then 1 else if \<not> fa_command a then 2 else 3 :: nat"
  have "ctx' = ctx\<lparr>pc_gfx_frame_id := pc_gfx_frame_id ctx + 1\<rparr> \<and> 0 < ?k \<and>
      cs = take ?k (frame_calls (pc_gfx_frame_id ctx + 1) cmd) \<and> (ok \<longrightarrow> ?k = 3)"
    using assms
    by (auto simp: send_gfx_command_def gfx_pipe_def frame_calls_def Let_def split: option.splits if_splits)
  then show ?thesis by blast
qed

lemma gfx_pipe_id: "gfx_pipe (ctx\<lparr>pc_gfx_frame_id := n\<rparr>) = gfx_pipe ctx"
  by (simp add: gfx_pipe_def)

lemma sender_from_command:
  assumes "\<And>a ctx f. send a ctx f = (if skip f then (True, ctx, []) else send_gfx_command a ctx (mk ctx f))"
    and "\<And>ctx f. cmd_codec (mk ctx f) = codec"
  shows "gfx_sender send gfx_pipe codec"
proof
  fix ctx a f ok ctx' cs
  assume "gfx_pipe ctx" "send a ctx f = (ok, ctx', cs)"
  then show "(ok \<and> ctx' = ctx \<and> cs = []) \<or>
      (\<exists>cmd k. ctx' = ctx\<lparr>pc_gfx_frame_id := pc_gfx_frame_id ctx + 1\<rparr> \<and> 0 < k \<and>
         cs = take k (frame_calls (pc_gfx_frame_id ctx + 1) cmd) \<and> (ok \<longrightarrow> k = 3) \<and> cmd_codec cmd = codec)"
    using send_gfx_command_sends [of ctx a "mk ctx f"] assms(2) [of ctx f] unfolding assms(1)
    by (cases "skip f") auto
next
  fix ctx n
  show "gfx_pipe (ctx\<lparr>pc_gfx_frame_id := n\<rparr>) = gfx_pipe ctx" by (rule gfx_pipe_id)
qed

interpretation avc420: gfx_sender send_gfx_avc420 gfx_pipe CodecAVC420
  by (rule sender_from_command [OF send_gfx_avc420_def]) simp

interpretation avc444: gfx_sender "send_gfx_avc444 v2" gfx_pipe "if v2 then CodecAVC444v2 else CodecAVC444" for v2
  by (rule sender_from_command [OF send_gfx_avc444_def]) simp

interpretation progressive: gfx_sender send_gfx_progressive gfx_pipe CodecProgressive
  by (rule sender_from_command [OF send_gfx_progressive_def]) simp

text \<open>The dispatcher in a fixed graphics mode; SurfaceBits is not a mode of the pipeline.\<close>

fun mode_codec :: "send_mode \<Rightarrow> codec_id" where
  "mode_codec WLRDP_SEND_GFX_AVC444V2 = CodecAVC444v2"
| "mode_codec WLRDP_SEND_GFX_AVC444 = CodecAVC444"
| "mode_codec WLRDP_SEND_GFX_AVC420 = CodecAVC420"
| "mode_codec WLRDP_SEND_GFX_PROGRESSIVE = CodecProgressive"
| "mode_codec WLRDP_SEND_SURFACE_BITS = CodecNone"

definition pipe_in_mode :: "send_mode \<Rightarrow> peer_ctx \<Rightarrow> bool" where
  "pipe_in_mode m ctx \<longleftrightarrow> gfx_pipe ctx \<and> pc_gfx_ready ctx \<and> pc_send_mode ctx = m \<and> m \<noteq> WLRDP_SEND_SURFACE_BITS"

lemma send_frame_dispatch:
  assumes "pipe_in_mode m ctx"
  shows "rdp_peer_send_frame a st ctx f =
    (case m of WLRDP_SEND_GFX_AVC420 \<Rightarrow> send_gfx_avc420 a ctx f
     | WLRDP_SEND_GFX_PROGRESSIVE \<Rightarrow> send_gfx_progressive a ctx f
     | _ \<Rightarrow> send_gfx_avc444 (m = WLRDP_SEND_GFX_AVC444V2) a ctx f)"
  using assms by (cases m) (simp_all add: pipe_in_mode_def rdp_peer_send_frame_def Let_def)

interpretation dispatch: gfx_sender "\<lambda>a ctx f. rdp_peer_send_frame a st ctx f" "pipe_in_mode m" "mode_codec m"
  for st m
proof
  fix ctx a f ok ctx' cs
  assume p: "pipe_in_mode m ctx" and s: "rdp_peer_send_frame a st ctx f = (ok, ctx', cs)"
  then have g: "gfx_pipe ctx" by (simp add: pipe_in_mode_def)
  show "(ok \<and> ctx' = ctx \<and> cs = []) \<or>
      (\<exists>cmd k. ctx' = ctx\<lparr>pc_gfx_frame_id := pc_gfx_frame_id ctx + 1\<rparr> \<and> 0 < k \<and>
         cs = take k (frame_calls (pc_gfx_frame_id ctx + 1) cmd) \<and> (ok \<longrightarrow> k = 3) \<and> cmd_codec cmd = mode_codec m)"
    using s p avc420.sends [OF g, of a f] progressive.sends [OF g, of a f]
      avc444.sends [OF g, of True a f] avc444.sends [OF g, of False a f]
    unfolding send_frame_dispatch [OF p]
    by (cases m) (simp_all add: pipe_in_mode_def)
next
  fix ctx n
  show "pipe_in_mode m (ctx\<lparr>pc_gfx_frame_id := n\<rparr>) = pipe_in_mode m ctx"
    by (simp add: pipe_in_mode_def gfx_pipe_id)
qed

section \<open>Properties\<close>

text \<open>
  C9: the frame stream. Whatever frames the encoder produces and whichever calls fail, the graphics
  frames are started with strictly consecutive ids; and if no frame is reported as failed, the calls
  are complete frames (start, one surface command in the negotiated codec, end with the same id), one
  after the other.
\<close>

theorem frame_stream:
  assumes "pc_gfx_context ctx \<noteq> None" "pc_gfx_ready ctx" "pc_send_mode ctx \<noteq> WLRDP_SEND_SURFACE_BITS"
    and "send_run (\<lambda>a ctx f. rdp_peer_send_frame a st ctx f) fs ctx = (oks, ctx', cs)"
  shows "started_ids cs = map (\<lambda>i. pc_gfx_frame_id ctx + 1 + of_nat i) [0..<length (started_ids cs)] \<and>
     (False \<notin> set oks \<longrightarrow> bracketed (mode_codec (pc_send_mode ctx)) (pc_gfx_frame_id ctx) cs)"
proof -
  have p: "pipe_in_mode (pc_send_mode ctx) ctx" using assms by (simp add: pipe_in_mode_def gfx_pipe_def)
  show ?thesis using dispatch.run_ids [OF p assms(4)] dispatch.run_bracketed [OF p assms(4)] by blast
qed

definition demo_frame :: frame where
  "demo_frame = \<lparr>fr_data = True, fr_len = 100, fr_aux_len = 0, fr_meta = Some \<lparr>numRegionRects = 1\<rparr>,
     fr_aux_meta = None, fr_lc = 0, fr_width = 1920, fr_height = 1080\<rparr>"

theorem frame_stream_witness:
  "\<exists>ctx' cs. send_run (\<lambda>a ctx f. rdp_peer_send_frame a demo_settings ctx f)
      [(\<lparr>fa_start = True, fa_command = True, fa_end = True, fa_bits = True\<rparr>, demo_frame),
       (\<lparr>fa_start = True, fa_command = True, fa_end = True, fa_bits = True\<rparr>, demo_frame)]
      (zero_ctx\<lparr>pc_gfx_context := Some 1, pc_gfx_ready := True, pc_send_mode := WLRDP_SEND_GFX_AVC420\<rparr>) =
      ([True, True], ctx', cs) \<and> bracketed CodecAVC420 0 cs \<and> started_ids cs = [1, 2]"
proof -
  let ?ctx = "zero_ctx\<lparr>pc_gfx_context := Some 1, pc_gfx_ready := True, pc_send_mode := WLRDP_SEND_GFX_AVC420\<rparr>"
  let ?fa = "\<lparr>fa_start = True, fa_command = True, fa_end = True, fa_bits = True\<rparr>"
  obtain oks ctx' cs where r: "send_run (\<lambda>a ctx f. rdp_peer_send_frame a demo_settings ctx f)
      [(?fa, demo_frame), (?fa, demo_frame)] ?ctx = (oks, ctx', cs)" by (metis prod_cases3)
  have "oks = [True, True]" "started_ids cs = [1, 2]"
    using r by (auto simp: rdp_peer_send_frame_def send_gfx_avc420_def send_gfx_command_def zero_ctx_def
        demo_frame_def Let_def)
  moreover have "pc_gfx_context ?ctx \<noteq> None" "pc_gfx_ready ?ctx" "pc_send_mode ?ctx \<noteq> WLRDP_SEND_SURFACE_BITS"
    by simp_all
  ultimately show ?thesis
    using frame_stream [OF _ _ _ r] r by (simp add: zero_ctx_def)
qed

end
