(* ===== verification/Auth.thy ===== *)
theory Auth
  imports SessionMgr
begin

text \<open>
  Authentication (\<open>src/daemon/auth.h\<close>, \<open>src/daemon/auth.c\<close>): the PAM conversation, which answers every
  password prompt, and the check of a user's credentials. The PAM library and the passwd database are
  answers; the calls made into them are traced.
\<close>

section \<open>The conversation\<close>

definition PAM_SUCCESS :: int where "PAM_SUCCESS = 0"
definition PAM_BUF_ERR :: int where "PAM_BUF_ERR = 5"
definition PAM_PROMPT_ECHO_OFF :: int where "PAM_PROMPT_ECHO_OFF = 1"
definition PAM_PROMPT_ECHO_ON :: int where "PAM_PROMPT_ECHO_ON = 2"

definition is_prompt :: "int \<Rightarrow> bool" where
  "is_prompt style \<longleftrightarrow> style = PAM_PROMPT_ECHO_OFF \<or> style = PAM_PROMPT_ECHO_ON"

text \<open>
  The loop over the messages: \<open>dup i\<close> tells whether the \<open>strdup\<close> for message \<open>i\<close> succeeds. The flag of the
  result is false if one failed; the replies are those filled in so far.
\<close>

fun fill_replies :: "(nat \<Rightarrow> bool) \<Rightarrow> string \<Rightarrow> nat \<Rightarrow> int list \<Rightarrow> bool \<times> string option list" where
  "fill_replies dup password i [] = (True, [])"
| "fill_replies dup password i (style # styles) =
    (if is_prompt style \<and> \<not> dup i then (False, [])
     else (let (ok, rs) = fill_replies dup password (Suc i) styles
           in (ok, (if is_prompt style then Some password else None) # rs)))"

text \<open>
  The result: the return code, \<open>*resp\<close> if it was set, and the duplicates of the password that were made
  and are not reachable any more (\<open>free(replies)\<close> frees the array only).
\<close>

definition pam_conversation ::
    "bool \<Rightarrow> (nat \<Rightarrow> bool) \<Rightarrow> string \<Rightarrow> int list \<Rightarrow> int \<times> string option list option \<times> string list" where
  "pam_conversation calloc dup password styles =
    (if \<not> calloc then (PAM_BUF_ERR, None, [])
     else (let (ok, rs) = fill_replies dup password 0 styles in
           if ok then (PAM_SUCCESS, Some rs, [])
           else (PAM_BUF_ERR, None, map the (filter (\<lambda>r. r \<noteq> None) rs))))"

section \<open>The check\<close>

datatype auth_call =
    PamStart string
  | PamAuthenticate
  | PamAcctMgmt
  | PamEnd int
  | Getpwnam string

text \<open>An entry of the passwd database.\<close>

record passwd =
  pw_uid :: int
  pw_gid :: int
  pw_dir :: string
  pw_shell :: string

text \<open>
  The answers. \<open>pam_authenticate\<close> runs the stack of modules, which prompts through the conversation
  function that it was started with.
\<close>

type_synonym conversation = "int list \<Rightarrow> int \<times> string option list option \<times> string list"

record pam_answer =
  pam_start :: "string \<Rightarrow> int"
  pam_calloc :: bool
  pam_strdup :: "nat \<Rightarrow> bool"
  pam_authenticate :: "string \<Rightarrow> conversation \<Rightarrow> int"
  pam_acct_mgmt :: "string \<Rightarrow> int"
  pam_getpwnam :: "string \<Rightarrow> passwd option"

definition auth_check_credentials ::
    "pam_answer \<Rightarrow> string \<Rightarrow> string \<Rightarrow> auth_result \<Rightarrow> bool \<times> auth_result \<times> auth_call list" where
  "auth_check_credentials a username password res =
    (let cs0 = [PamStart username] in
     if pam_start a username \<noteq> PAM_SUCCESS then (False, res, cs0)
     else
       let rc = pam_authenticate a username (pam_conversation (pam_calloc a) (pam_strdup a) password);
           cs1 = cs0 @ [PamAuthenticate]
       in if rc \<noteq> PAM_SUCCESS then (False, res, cs1 @ [PamEnd rc])
       else
         let rc = pam_acct_mgmt a username; cs2 = cs1 @ [PamAcctMgmt] in
         if rc \<noteq> PAM_SUCCESS then (False, res, cs2 @ [PamEnd rc])
         else
           let cs3 = cs2 @ [PamEnd PAM_SUCCESS, Getpwnam username] in
           case pam_getpwnam a username of
             None \<Rightarrow> (False, res, cs3)
           | Some pw \<Rightarrow>
               (True, \<lparr>auth_uid = pw_uid pw, auth_gid = pw_gid pw, auth_home = c_snprintf 256 (pw_dir pw),
                       auth_shell = c_snprintf 256 (pw_shell pw)\<rparr>, cs3))"

section \<open>Properties\<close>

lemma fill_replies_ok:
  "fill_replies dup p i styles = (True, rs) \<Longrightarrow> rs = map (\<lambda>s. if is_prompt s then Some p else None) styles"
  by (induction dup p i styles arbitrary: rs rule: fill_replies.induct) (auto split: if_splits prod.splits)

lemma fill_replies_all: "(\<And>i. dup i) \<Longrightarrow> fst (fill_replies dup p i styles)"
  by (induction dup p i styles rule: fill_replies.induct) (auto split: prod.splits)

text \<open>
  The conversation answers message by message: every prompt with the password, every other message with
  nothing; it fails only if the allocator does.
\<close>

lemma pam_conversation_answers:
  assumes "pam_conversation calloc dup p styles = (rc, replies, leaked)"
  shows "rc = PAM_SUCCESS \<Longrightarrow> replies = Some (map (\<lambda>s. if is_prompt s then Some p else None) styles) \<and> leaked = []"
    and "calloc \<Longrightarrow> (\<And>i. dup i) \<Longrightarrow> rc = PAM_SUCCESS"
  using assms fill_replies_all [of dup p 0 styles]
  by (auto simp: pam_conversation_def PAM_SUCCESS_def PAM_BUF_ERR_def dest: fill_replies_ok
      split: if_splits prod.splits)

lemma auth_check_facts:
  assumes "auth_check_credentials a u p res = (ok, res', cs)"
  shows "(ok \<longleftrightarrow> pam_start a u = 0 \<and>
       pam_authenticate a u (pam_conversation (pam_calloc a) (pam_strdup a) p) = 0 \<and>
       pam_acct_mgmt a u = 0 \<and> pam_getpwnam a u \<noteq> None) \<and>
    (if ok then \<exists>pw. pam_getpwnam a u = Some pw \<and> auth_uid res' = pw_uid pw \<and> auth_gid res' = pw_gid pw \<and>
                   length (auth_home res') < 256 \<and> length (auth_shell res') < 256
     else res' = res) \<and>
    length (filter (\<lambda>c. \<exists>rc. c = PamEnd rc) cs) = (if pam_start a u = 0 then 1 else 0) \<and>
    (Getpwnam u \<in> set cs \<longrightarrow> PamEnd 0 \<in> set cs)"
  using assms c_snprintf_length [of 256]
  by (auto simp: auth_check_credentials_def PAM_SUCCESS_def Let_def split: if_splits option.splits)

lemma auth_check_ends:
  assumes "auth_check_credentials a u p res = (ok, res', cs)"
  shows "pam_start a u = 0 \<longrightarrow>
    (let rc = pam_authenticate a u (pam_conversation (pam_calloc a) (pam_strdup a) p)
     in PamEnd (if rc = 0 then pam_acct_mgmt a u else rc) \<in> set cs)"
  using assms by (auto simp: auth_check_credentials_def PAM_SUCCESS_def Let_def split: if_splits option.splits)

text \<open>
  C14: a user is authenticated only by PAM: the check succeeds exactly if the transaction could be started,
  the modules accepted the user with the conversation that answers each prompt with the given password,
  the account is valid, and the passwd database knows the user, whose numbers the result then holds. Every
  transaction that was started is ended exactly once, with the last return code; a failed check leaves the
  caller's result alone.
\<close>

theorem auth_check_spec:
  assumes "auth_check_credentials a u p res = (ok, res', cs)"
  shows "(ok \<longleftrightarrow> pam_start a u = 0 \<and>
       pam_authenticate a u (pam_conversation (pam_calloc a) (pam_strdup a) p) = 0 \<and>
       pam_acct_mgmt a u = 0 \<and> pam_getpwnam a u \<noteq> None) \<and>
    (if ok then \<exists>pw. pam_getpwnam a u = Some pw \<and> auth_uid res' = pw_uid pw \<and> auth_gid res' = pw_gid pw \<and>
                   length (auth_home res') < 256 \<and> length (auth_shell res') < 256
     else res' = res) \<and>
    length (filter (\<lambda>c. \<exists>rc. c = PamEnd rc) cs) = (if pam_start a u = 0 then 1 else 0) \<and>
    (Getpwnam u \<in> set cs \<longrightarrow> PamEnd 0 \<in> set cs) \<and>
    (pam_start a u = 0 \<longrightarrow>
       (let rc = pam_authenticate a u (pam_conversation (pam_calloc a) (pam_strdup a) p)
        in PamEnd (if rc = 0 then pam_acct_mgmt a u else rc) \<in> set cs))"
  using auth_check_facts [OF assms] auth_check_ends [OF assms] by blast

text \<open>A PAM stack that accepts the user \<open>ann\<close> with the password \<open>secret\<close>.\<close>

definition demo_pam :: pam_answer where
  "demo_pam = \<lparr>pam_start = (\<lambda>u. 0), pam_calloc = True, pam_strdup = (\<lambda>i. True),
     pam_authenticate = (\<lambda>u conv. if u = ''ann'' \<and> fst (snd (conv [PAM_PROMPT_ECHO_OFF])) = Some [Some ''secret'']
                                  then 0 else 7),
     pam_acct_mgmt = (\<lambda>u. 0),
     pam_getpwnam = (\<lambda>u. if u = ''ann'' then Some \<lparr>pw_uid = 1000, pw_gid = 100, pw_dir = ''/home/ann'',
                                                 pw_shell = ''/bin/sh''\<rparr> else None)\<rparr>"

lemma demo_pam_conversation:
  "pam_conversation True (\<lambda>i. True) p [PAM_PROMPT_ECHO_OFF] = (0, Some [Some p], [])"
  by (simp add: pam_conversation_def is_prompt_def PAM_SUCCESS_def)

theorem auth_check_spec_witness:
  "fst (auth_check_credentials demo_pam ''ann'' ''secret'' demo_auth) \<and>
   \<not> fst (auth_check_credentials demo_pam ''ann'' ''guess'' demo_auth)"
proof -
  have "fst (auth_check_credentials demo_pam ''ann'' p demo_auth) \<longleftrightarrow> p = ''secret''" for p
    using auth_check_spec [of demo_pam "''ann''" p demo_auth
        "fst (auth_check_credentials demo_pam ''ann'' p demo_auth)"
        "fst (snd (auth_check_credentials demo_pam ''ann'' p demo_auth))"
        "snd (snd (auth_check_credentials demo_pam ''ann'' p demo_auth))"]
    by (simp add: demo_pam_def demo_pam_conversation)
  then show ?thesis by simp
qed

end
