(* ===== verification/Daemon.thy ===== *)
theory Daemon
  imports Auth Options Calls
begin

text \<open>
  The daemon's main program (\<open>src/daemon/main.c\<close>): options, signals, the logon callback, the accept callback
  with its inline handshake loop, the event loop with the reaping of workers, start and shutdown. An
  iteration takes what the kernel and FreeRDP report in it as data; the callbacks run inside.
\<close>

section \<open>State\<close>

datatype daemon_call = DcSm sm_call | DcAuth auth_call | DcCall call

text \<open>\<open>struct daemon_state\<close> with the signal flags and the calls made so far.\<close>

record daemon =
  dm_port :: int
  dm_width :: int
  dm_height :: int
  dm_desktop_cmd :: string
  dm_cert_file :: "string option"
  dm_key_file :: "string option"
  dm_listener :: bool
  dm_mgr :: session_mgr
  dm_epoll_fd :: int
  dm_flags :: sig_flags
  dm_trace :: "daemon_call list"

definition emit :: "daemon_call list \<Rightarrow> daemon \<Rightarrow> daemon" where
  "emit cs d = d\<lparr>dm_trace := dm_trace d @ cs\<rparr>"

section \<open>Signals\<close>

definition on_signal :: "signal \<Rightarrow> sig_flags \<Rightarrow> sig_flags" where
  "on_signal sig fl =
    (if sig = SIGINT \<or> sig = SIGTERM then fl\<lparr>g_running := False\<rparr>
     else if sig = SIGCHLD then fl\<lparr>g_child_exited := True\<rparr> else fl)"

definition deliver :: "signal list \<Rightarrow> daemon \<Rightarrow> daemon" where
  "deliver sigs d = d\<lparr>dm_flags := fold on_signal sigs (dm_flags d)\<rparr>"

section \<open>Logon\<close>

text \<open>A logon: the identity that the client sent, and what PAM, the passwd database and the kernel answer.\<close>

record logon =
  lg_user :: "string option"
  lg_password :: "string option"
  lg_pam :: pam_answer
  lg_getpwuid :: "int \<Rightarrow> string option"
  lg_fork :: fork_answer
  lg_stack :: auth_result

text \<open>\<open>lg_stack\<close> is the uninitialised \<open>struct wlrdp_auth_result\<close> on the stack.\<close>

definition on_peer_logon :: "logon \<Rightarrow> daemon \<Rightarrow> bool \<times> daemon" where
  "on_peer_logon l d =
    (case (lg_user l, lg_password l) of
       (Some username, Some password) \<Rightarrow>
         (let (ok, auth, cs) = auth_check_credentials (lg_pam l) username password (lg_stack l);
              d1 = emit (map DcAuth cs) d
          in if \<not> ok then (False, d1)
             else (let (entry, mgr, cs2) = session_mgr_get_session (lg_getpwuid l) (lg_fork l) (dm_mgr d1) auth
                   in (entry \<noteq> None, emit (map DcSm cs2) (d1\<lparr>dm_mgr := mgr\<rparr>))))
     | _ \<Rightarrow> (False, d))"

section \<open>Accepting a peer\<close>

text \<open>
  One round of the handshake loop: the logon callbacks that \<open>CheckFileDescriptor\<close> runs, its result, and
  the signals that arrive during the round.
\<close>

record handshake_round =
  hs_logons :: "logon list"
  hs_ok :: bool
  hs_signals :: "signal list"

fun run_logons :: "logon list \<Rightarrow> daemon \<Rightarrow> daemon" where
  "run_logons [] d = d"
| "run_logons (l # ls) d = run_logons ls (snd (on_peer_logon l d))"

definition handshake_step :: "handshake_round \<Rightarrow> daemon \<Rightarrow> daemon" where
  "handshake_step r d = deliver (hs_signals r) (run_logons (hs_logons r) d)"

text \<open>The loop may not end: then its value is \<open>None\<close>.\<close>

partial_function (option) handshake :: "(nat \<Rightarrow> handshake_round) \<Rightarrow> nat \<Rightarrow> daemon \<Rightarrow> daemon option" where
  "handshake rounds i d =
    (if \<not> g_running (dm_flags d) then Some d
     else (let d1 = handshake_step (rounds i) d in
           if \<not> hs_ok (rounds i) then Some d1 else handshake rounds (Suc i) d1))"

record accept_answer =
  ac_context :: bool
  ac_cert :: bool
  ac_key :: bool
  ac_init :: bool
  ac_rounds :: "nat \<Rightarrow> handshake_round"

definition daemon_settings :: "daemon_call list" where
  "daemon_settings = map (\<lambda>(n, b). DcCall (Peer (PeerSetBool n b)))
    [(''TlsSecurity'', True), (''NlaSecurity'', False), (''RdpSecurity'', False),
     (''SurfaceCommandsEnabled'', True)]"

abbreviation free_peer :: "daemon_call list" where
  "free_peer \<equiv> [DcCall (Peer PeerContextFree), DcCall (Peer PeerFree)]"

definition on_peer_accepted :: "accept_answer \<Rightarrow> daemon \<Rightarrow> (bool \<times> daemon) option" where
  "on_peer_accepted a d =
    (let d1 = emit [DcCall (Peer PeerContextNew)] d in
     if \<not> ac_context a then Some (False, emit [DcCall (Peer PeerFree)] d1)
     else
       let d2 = emit [DcCall (Peer (PeerLoadCertificate (dm_cert_file d1)))] d1 in
       if \<not> ac_cert a then Some (False, emit free_peer d2)
       else
         let d3 = emit [DcCall (Peer PeerSetCertificate), DcCall (Peer (PeerLoadKey (dm_key_file d2)))] d2 in
         if \<not> ac_key a then Some (False, emit free_peer d3)
         else
           let d4 = emit (DcCall (Peer PeerSetKey) # daemon_settings @ [DcCall (Peer PeerInitialize)]) d3 in
           if \<not> ac_init a then Some (False, emit free_peer d4)
           else (case handshake (ac_rounds a) 0 d4 of
                   None \<Rightarrow> None
                 | Some d5 \<Rightarrow> Some (True, emit free_peer d5)))"

section \<open>The event loop\<close>

text \<open>\<open>CheckFileDescriptor\<close> of the listener accepts peers through the callback and reports its result.\<close>

record listener_check =
  lc_accepts :: "accept_answer list"
  lc_ok :: bool

fun accept_all :: "accept_answer list \<Rightarrow> daemon \<Rightarrow> daemon option" where
  "accept_all [] d = Some d"
| "accept_all (a # as) d = (case on_peer_accepted a d of None \<Rightarrow> None | Some (ok, d1) \<Rightarrow> accept_all as d1)"

fun listener_checks :: "listener_check list \<Rightarrow> daemon \<Rightarrow> daemon option" where
  "listener_checks [] d = Some d"
| "listener_checks (c # cs) d =
    (case accept_all (lc_accepts c) d of
       None \<Rightarrow> None
     | Some d1 \<Rightarrow>
         listener_checks cs (if lc_ok c then d1 else d1\<lparr>dm_flags := (dm_flags d1)\<lparr>g_running := False\<rparr>\<rparr>))"

text \<open>
  An iteration: what \<open>waitpid\<close> reports while reaping, the signals that arrive after the last \<open>waitpid\<close> and
  before the flag is cleared, the answer of \<open>epoll_wait\<close> and the signals during it.
\<close>

record daemon_round =
  dr_reaped :: "int list"
  dr_late :: "signal list"
  dr_signals :: "signal list"
  dr_epoll :: "listener_check epoll_answer"

definition daemon_reap :: "int list \<Rightarrow> signal list \<Rightarrow> daemon \<Rightarrow> daemon" where
  "daemon_reap pids late d =
    (if g_child_exited (dm_flags d)
     then (let (mgr, cs) = session_mgr_reap pids (dm_mgr d);
               d1 = deliver late (emit (map DcSm cs) (d\<lparr>dm_mgr := mgr\<rparr>))
           in d1\<lparr>dm_flags := (dm_flags d1)\<lparr>g_child_exited := False\<rparr>\<rparr>)
     else d)"

text \<open>The flag of the result is false if the loop is left by \<open>break\<close>.\<close>

definition daemon_iteration :: "daemon_round \<Rightarrow> daemon \<Rightarrow> (bool \<times> daemon) option" where
  "daemon_iteration r d =
    (let d1 = deliver (dr_signals r) (daemon_reap (dr_reaped r) (dr_late r) d) in
     case dr_epoll r of
       EpollIntr \<Rightarrow> Some (True, d1)
     | EpollError \<Rightarrow> Some (False, d1)
     | EpollEvents cs \<Rightarrow> (case listener_checks cs d1 of None \<Rightarrow> None | Some d2 \<Rightarrow> Some (True, d2)))"

text \<open>The loop over the iterations that are given.\<close>

fun daemon_loop :: "daemon_round list \<Rightarrow> daemon \<Rightarrow> daemon progress" where
  "daemon_loop rs d =
    (if \<not> g_running (dm_flags d) then Left d
     else (case rs of
             [] \<Rightarrow> Running d
           | r # rs' \<Rightarrow>
             (case daemon_iteration r d of
                None \<Rightarrow> Stuck
              | Some (go, d1) \<Rightarrow> if go then daemon_loop rs' d1 else Left d1)))"

declare daemon_loop.simps [simp del]

section \<open>Start and shutdown\<close>

definition WLRDP_DEFAULT_PORT :: int where "WLRDP_DEFAULT_PORT = 3389"
definition WLRDP_DEFAULT_WIDTH :: int where "WLRDP_DEFAULT_WIDTH = 800"
definition WLRDP_DEFAULT_HEIGHT :: int where "WLRDP_DEFAULT_HEIGHT = 600"

definition initial_daemon :: daemon where
  "initial_daemon = \<lparr>dm_port = WLRDP_DEFAULT_PORT, dm_width = WLRDP_DEFAULT_WIDTH, dm_height = WLRDP_DEFAULT_HEIGHT,
     dm_desktop_cmd = ''foot'', dm_cert_file = None, dm_key_file = None, dm_listener = False,
     dm_mgr = session_mgr_init [] [] [] 0 0, dm_epoll_fd = 0, dm_flags = initial_flags, dm_trace = []\<rparr>"

definition daemon_long_opts :: "long_option list" where
  "daemon_long_opts =
    [(''port'', True, CHR ''p''), (''width'', True, CHR ''W''), (''height'', True, CHR ''H''),
     (''desktop-cmd'', True, CHR ''d''), (''cert'', True, CHR ''c''), (''key'', True, CHR ''k''),
     (''help'', False, CHR ''h'')]"

text \<open>\<open>Inl\<close> is the exit code of a program that printed its usage.\<close>

fun daemon_options :: "(char \<times> string) list \<Rightarrow> daemon \<Rightarrow> int + daemon" where
  "daemon_options [] d = Inr d"
| "daemon_options ((opt, optarg) # os) d =
    (if opt = CHR ''p'' then daemon_options os (d\<lparr>dm_port := c_atoi optarg\<rparr>)
     else if opt = CHR ''W'' then daemon_options os (d\<lparr>dm_width := c_atoi optarg\<rparr>)
     else if opt = CHR ''H'' then daemon_options os (d\<lparr>dm_height := c_atoi optarg\<rparr>)
     else if opt = CHR ''d'' then daemon_options os (d\<lparr>dm_desktop_cmd := optarg\<rparr>)
     else if opt = CHR ''c'' then daemon_options os (d\<lparr>dm_cert_file := Some optarg\<rparr>)
     else if opt = CHR ''k'' then daemon_options os (d\<lparr>dm_key_file := Some optarg\<rparr>)
     else if opt = CHR ''h'' then Inl 0
     else Inl 1)"

text \<open>A missing file name is replaced; the files are generated even if only one name is missing.\<close>

definition daemon_certs :: "daemon \<Rightarrow> daemon" where
  "daemon_certs d =
    (if dm_cert_file d = None \<or> dm_key_file d = None
     then emit (map DcCall (generate_self_signed_cert auto_cert auto_key))
       (d\<lparr>dm_cert_file := Some (case dm_cert_file d of None \<Rightarrow> auto_cert | Some f \<Rightarrow> f),
          dm_key_file := Some (case dm_key_file d of None \<Rightarrow> auto_key | Some f \<Rightarrow> f)\<rparr>)
     else d)"

text \<open>What the libraries and the kernel answer; \<open>da_signals\<close> are the signals that arrive before the loop.\<close>

record daemon_answer =
  da_listener :: bool
  da_open :: bool
  da_epoll :: int
  da_fds :: "int list"
  da_signals :: "signal list"

definition daemon_cleanup :: "(int \<Rightarrow> packet \<Rightarrow> int) \<Rightarrow> daemon \<Rightarrow> daemon" where
  "daemon_cleanup sendmsg d =
    (let (mgr, cs) = session_mgr_destroy sendmsg (dm_mgr d) in
     emit (map DcSm cs
         @ (if dm_listener d then [DcCall (Lst ListenerClose), DcCall (Lst ListenerFree)] else [])
         @ (if 0 \<le> dm_epoll_fd d then [DcCall (Sys (SysClose (dm_epoll_fd d)))] else []))
       (d\<lparr>dm_mgr := mgr\<rparr>))"

text \<open>
  From the options to the event loop: \<open>Inl\<close> if the program returns before the loop, with its exit code
  and its state.
\<close>

definition daemon_setup ::
    "daemon_answer \<Rightarrow> (int \<Rightarrow> packet \<Rightarrow> int) \<Rightarrow> string list \<Rightarrow> (int \<times> daemon) + daemon" where
  "daemon_setup a sendmsg args =
    (case daemon_options (getopt_long daemon_long_opts args) initial_daemon of
       Inl code \<Rightarrow> Inl (code, initial_daemon)
     | Inr d0 \<Rightarrow>
       let d1 = daemon_certs d0;
           d2 = emit [DcCall (Lst ListenerNew)] (d1\<lparr>dm_mgr := session_mgr_init (dm_desktop_cmd d1) (the (dm_cert_file d1))
                        (the (dm_key_file d1)) (dm_width d1) (dm_height d1)\<rparr>)
       in if \<not> da_listener a then Inl (1, d2)
       else
         let d3 = emit [DcCall (Lst (ListenerOpen (dm_port d2)))] (d2\<lparr>dm_listener := True\<rparr>) in
         if \<not> da_open a then Inl (1, emit [DcCall (Lst ListenerFree)] d3)
         else
           let d4 = d3\<lparr>dm_epoll_fd := da_epoll a\<rparr> in
           if da_epoll a < 0 then Inl (0, daemon_cleanup sendmsg d4)
           else Inr (deliver (da_signals a)
             (emit (map (\<lambda>fd. DcCall (Sys (SysEpollAdd fd))) (filter (\<lambda>fd. 0 \<le> fd) (da_fds a))) d4)))"

definition daemon_main ::
    "daemon_answer \<Rightarrow> (int \<Rightarrow> packet \<Rightarrow> int) \<Rightarrow> string list \<Rightarrow> daemon_round list \<Rightarrow> (int \<times> daemon) progress" where
  "daemon_main a sendmsg args rounds =
    (case daemon_setup a sendmsg args of
       Inl r \<Rightarrow> Left r
     | Inr d \<Rightarrow> (case daemon_loop rounds d of
                  Stuck \<Rightarrow> Stuck
                | Running d' \<Rightarrow> Running (0, d')
                | Left d' \<Rightarrow> Left (0, daemon_cleanup sendmsg d')))"

lemma daemon_loop_Nil [simp]: "daemon_loop [] d = (if g_running (dm_flags d) then Running d else Left d)"
  by (subst daemon_loop.simps) simp

lemma daemon_loop_Cons [simp]:
  "daemon_loop (r # rs) d =
    (if \<not> g_running (dm_flags d) then Left d
     else (case daemon_iteration r d of
             None \<Rightarrow> Stuck | Some (go, d1) \<Rightarrow> if go then daemon_loop rs d1 else Left d1))"
  by (subst daemon_loop.simps) simp

section \<open>What the operations leave alone\<close>

lemma emit_frame [simp]:
  "dm_flags (emit cs d) = dm_flags d" "dm_mgr (emit cs d) = dm_mgr d"
  "dm_trace (emit cs d) = dm_trace d @ cs" "dm_cert_file (emit cs d) = dm_cert_file d"
  "dm_key_file (emit cs d) = dm_key_file d"
  by (simp_all add: emit_def)

lemma deliver_frame [simp]: "dm_mgr (deliver sigs d) = dm_mgr d" "dm_trace (deliver sigs d) = dm_trace d"
  by (simp_all add: deliver_def)

lemma deliver_Nil [simp]: "deliver [] d = d"
  by (simp add: deliver_def)

lemma on_peer_logon_flags [simp]: "dm_flags (snd (on_peer_logon l d)) = dm_flags d"
  by (simp add: on_peer_logon_def Let_def split: option.split prod.split)

lemma run_logons_flags [simp]: "dm_flags (run_logons ls d) = dm_flags d"
  by (induction ls d rule: run_logons.induct) simp_all

lemma running_signals:
  "g_running (fold on_signal sigs fl) \<longleftrightarrow> g_running fl \<and> SIGINT \<notin> set sigs \<and> SIGTERM \<notin> set sigs"
  by (induction sigs arbitrary: fl) (auto simp: on_signal_def)

lemma handshake_step_running:
  "g_running (dm_flags (handshake_step r d)) \<longleftrightarrow>
     g_running (dm_flags d) \<and> SIGINT \<notin> set (hs_signals r) \<and> SIGTERM \<notin> set (hs_signals r)"
  by (simp add: handshake_step_def deliver_def running_signals)

section \<open>Logons\<close>

text \<open>
  C7: a logon succeeds only for a user that gave a name and a password, whom PAM authenticated and whose
  account is valid, and then the session table holds a worker for the name that the passwd database has
  for this user; a logon that fails leaves the table as it was. The table's invariant is kept.
\<close>

theorem logon_grants_session:
  assumes "mgr_inv (dm_mgr d)" "fresh_fork (dm_mgr d) (lg_fork l)"
    and "\<And>uid u. lg_getpwuid l uid = Some u \<Longrightarrow> length u < 64"
    and "on_peer_logon l d = (ok, d')"
  shows "mgr_inv (dm_mgr d') \<and>
    (if ok
     then \<exists>n p pw u. lg_user l = Some n \<and> lg_password l = Some p \<and> pam_start (lg_pam l) n = 0 \<and>
       pam_authenticate (lg_pam l) n (pam_conversation (pam_calloc (lg_pam l)) (pam_strdup (lg_pam l)) p) = 0 \<and>
       pam_acct_mgmt (lg_pam l) n = 0 \<and> pam_getpwnam (lg_pam l) n = Some pw \<and>
       lg_getpwuid l (pw_uid pw) = Some u \<and> registry_of (dm_mgr d') u \<noteq> None
     else dm_mgr d' = dm_mgr d)"
proof (cases "lg_user l = None \<or> lg_password l = None")
  case True
  then show ?thesis using assms(1,4) by (auto simp: on_peer_logon_def split: option.splits)
next
  case False
  then obtain n p where np: "lg_user l = Some n" "lg_password l = Some p" by auto
  obtain okc auth cs where c: "auth_check_credentials (lg_pam l) n p (lg_stack l) = (okc, auth, cs)"
    by (metis prod_cases3)
  show ?thesis
  proof (cases okc)
    case False
    then show ?thesis using assms(1,4) np c by (auto simp: on_peer_logon_def Let_def)
  next
    case True
    obtain e m cs2 where g: "session_mgr_get_session (lg_getpwuid l) (lg_fork l) (dm_mgr d) auth = (e, m, cs2)"
      by (metis prod_cases3)
    have d': "ok = (e \<noteq> None)" "dm_mgr d' = m"
      using assms(4) np c g True by (auto simp: on_peer_logon_def Let_def)
    obtain pw where pw: "pam_start (lg_pam l) n = 0"
        "pam_authenticate (lg_pam l) n (pam_conversation (pam_calloc (lg_pam l)) (pam_strdup (lg_pam l)) p) = 0"
        "pam_acct_mgmt (lg_pam l) n = 0" "pam_getpwnam (lg_pam l) n = Some pw" "auth_uid auth = pw_uid pw"
      using auth_check_facts [OF c] True by auto
    have inv: "mgr_inv m"
      using get_session_inv [OF assms(1) assms(2), of "lg_getpwuid l" auth] g assms(3) by auto
    show ?thesis
    proof (cases rule: get_session_cases [OF assms(1), where getpwuid = "lg_getpwuid l" and auth = auth
          and a = "lg_fork l", case_names unknown known unchanged created])
      case (known u i)
      then show ?thesis using d' inv np pw g by (auto simp: registry_of_def)
    next
      case (created u i s0 s1 pid)
      have "registry_of m u = Some (pid, s0)"
        using get_session_registry [OF assms(1) assms(2), where getpwuid = "lg_getpwuid l" and auth = auth
            and u = u and v = u] assms(3) [OF created(1)] created g
        by (auto simp: registry_of_def)
      then show ?thesis using d' inv np pw g created by auto
    qed (use d' inv g in auto)
  qed
qed

definition demo_daemon :: daemon where
  "demo_daemon = initial_daemon\<lparr>dm_mgr := session_mgr_init ''foot'' ''c'' ''k'' 800 600\<rparr>"

definition demo_logon :: logon where
  "demo_logon = \<lparr>lg_user = Some ''ann'', lg_password = Some ''secret'', lg_pam = demo_pam,
     lg_getpwuid = (\<lambda>uid. if uid = 1000 then Some ''ann'' else None), lg_fork = demo_fork, lg_stack = demo_auth\<rparr>"

theorem logon_grants_session_witness:
  "mgr_inv (dm_mgr (snd (on_peer_logon demo_logon demo_daemon)))"
proof -
  have "fresh_fork (dm_mgr demo_daemon) (lg_fork demo_logon)"
    by (simp add: demo_daemon_def demo_logon_def demo_fork_def fresh_fork_def sessions_init_Cons)
  moreover have "mgr_inv (dm_mgr demo_daemon)" by (simp add: demo_daemon_def mgr_inv_init)
  moreover have "length u < 64" if "lg_getpwuid demo_logon uid = Some u" for uid u
    using that by (auto simp: demo_logon_def split: if_splits)
  moreover obtain ok d' where "on_peer_logon demo_logon demo_daemon = (ok, d')" by fastforce
  ultimately show ?thesis using logon_grants_session by (metis snd_conv)
qed

section \<open>The handshake loop\<close>

lemma handshake_stops:
  assumes "\<not> hs_ok (rounds n) \<or> SIGINT \<in> set (hs_signals (rounds n)) \<or> SIGTERM \<in> set (hs_signals (rounds n))"
    and "i \<le> n"
  shows "handshake rounds i d \<noteq> None"
  using assms(2)
proof (induction "n - i" arbitrary: i d)
  case 0
  then have "i = n" by simp
  with assms(1) show ?case
    by (subst handshake.simps) (auto simp: Let_def handshake_step_running handshake.simps [of _ "Suc n"])
next
  case (Suc k)
  then have "handshake rounds (Suc i) d1 \<noteq> None" for d1 by simp
  then show ?case by (subst handshake.simps) (simp add: Let_def)
qed

definition endless :: "(nat \<Rightarrow> handshake_round) \<Rightarrow> bool" where
  "endless rounds \<longleftrightarrow> (\<forall>n. hs_ok (rounds n) \<and> SIGINT \<notin> set (hs_signals (rounds n)) \<and>
     SIGTERM \<notin> set (hs_signals (rounds n)))"

lemma endless_step:
  "endless rounds \<Longrightarrow> hs_ok (rounds i) \<and>
     (g_running (dm_flags (handshake_step (rounds i) d)) \<longleftrightarrow> g_running (dm_flags d))"
  by (simp add: endless_def handshake_step_running)

lemma handshake_endless:
  assumes "handshake rounds i d = Some d'"
  shows "endless rounds \<longrightarrow> \<not> g_running (dm_flags d)"
proof (rule handshake.raw_induct [OF _ assms, where P = "\<lambda>rounds i d d'. endless rounds \<longrightarrow> \<not> g_running (dm_flags d)"])
  fix hs rounds i d d'
  assume IH: "\<And>rounds i d d'. hs rounds i d = Some d' \<Longrightarrow> endless rounds \<longrightarrow> \<not> g_running (dm_flags d)"
    and body: "(if \<not> g_running (dm_flags d) then Some d
       else let d1 = handshake_step (rounds i) d in
            if \<not> hs_ok (rounds i) then Some d1 else hs rounds (Suc i) d1) = Some d'"
  show "endless rounds \<longrightarrow> \<not> g_running (dm_flags d)"
  proof (intro impI notI)
    assume *: "endless rounds" "g_running (dm_flags d)"
    then have "hs rounds (Suc i) (handshake_step (rounds i) d) = Some d'"
      using body endless_step [OF *(1)] by (simp add: Let_def)
    then show False using IH * endless_step [OF *(1)] by blast
  qed
qed

lemma handshake_None: "handshake rounds 0 d = None \<longleftrightarrow> g_running (dm_flags d) \<and> endless rounds"
proof
  assume none: "handshake rounds 0 d = None"
  then have "g_running (dm_flags d)" by (subst (asm) handshake.simps) (simp split: if_splits)
  moreover have "endless rounds"
    using handshake_stops [of rounds _ 0 d] none unfolding endless_def by blast
  ultimately show "g_running (dm_flags d) \<and> endless rounds" by simp
next
  assume "g_running (dm_flags d) \<and> endless rounds"
  then show "handshake rounds 0 d = None" using handshake_endless by (metis not_Some_eq)
qed

lemma accept_cases:
  "on_peer_accepted a d = None \<longleftrightarrow>
     ac_context a \<and> ac_cert a \<and> ac_key a \<and> ac_init a \<and> g_running (dm_flags d) \<and> endless (ac_rounds a)"
proof -
  let ?d = "emit (DcCall (Peer PeerSetKey) # daemon_settings @ [DcCall (Peer PeerInitialize)])
    (emit [DcCall (Peer PeerSetCertificate), DcCall (Peer (PeerLoadKey (dm_key_file d)))]
      (emit [DcCall (Peer (PeerLoadCertificate (dm_cert_file d)))] (emit [DcCall (Peer PeerContextNew)] d)))"
  show ?thesis
    using handshake_None [of "ac_rounds a" ?d]
    by (cases "handshake (ac_rounds a) 0 ?d") (auto simp: on_peer_accepted_def Let_def)
qed

text \<open>
  C26: the daemon is at the mercy of each client. Accepting a peer never returns exactly if the peer could
  be set up, the daemon is running, and from then on every poll of the peer succeeds while no SIGINT or
  SIGTERM arrives: as long as a client keeps its connection open the event loop, with the acceptance of
  other clients and the reaping of workers, stands still. If some poll fails or such a signal arrives, it
  returns.
\<close>

theorem accept_blocks_iff:
  "on_peer_accepted a d = None \<longleftrightarrow>
     ac_context a \<and> ac_cert a \<and> ac_key a \<and> ac_init a \<and> g_running (dm_flags d) \<and> endless (ac_rounds a)"
  by (rule accept_cases)

section \<open>No client is handed over\<close>

text \<open>The worker's end of a socket is sent something.\<close>

definition sends_nothing :: "daemon_call list \<Rightarrow> bool" where
  "sends_nothing cs \<longleftrightarrow> (\<forall>fd p. DcSm (SmSend fd p) \<notin> set cs)"

lemma sends_nothing_append [simp]: "sends_nothing (xs @ ys) \<longleftrightarrow> sends_nothing xs \<and> sends_nothing ys"
  by (auto simp: sends_nothing_def)

lemma sends_nothing_other [simp]:
  "sends_nothing []" "sends_nothing (map DcAuth as)" "sends_nothing (map DcCall cs)"
  "sends_nothing (DcCall c # ds) \<longleftrightarrow> sends_nothing ds"
  by (auto simp: sends_nothing_def)

lemma get_session_sends_nothing:
  "session_mgr_get_session getpwuid a m auth = (e, m', cs) \<Longrightarrow> sends_nothing (map DcSm cs)"
  by (auto simp: sends_nothing_def session_mgr_get_session_def fork_session_def Let_def
      split: option.splits fork_result.splits prod.splits if_splits)

lemma reap_sends_nothing: "sends_nothing (map DcSm (snd (session_mgr_reap pids m)))"
proof (induction pids m rule: session_mgr_reap.induct)
  case (2 pid pids m)
  obtain m1 cs1 where one: "reap_pid pid m = (m1, cs1)" by fastforce
  then have "sends_nothing (map DcSm cs1)"
    by (auto simp: reap_pid_def sends_nothing_def split: option.splits)
  then show ?case using 2 one by (auto split: prod.split)
qed simp

lemma on_peer_logon_quiet:
  "sends_nothing (dm_trace (snd (on_peer_logon l d))) \<longleftrightarrow> sends_nothing (dm_trace d)"
  by (auto simp: on_peer_logon_def Let_def split: option.split prod.split dest: get_session_sends_nothing)

lemma handshake_step_quiet: "sends_nothing (dm_trace (handshake_step r d)) \<longleftrightarrow> sends_nothing (dm_trace d)"
proof -
  have "sends_nothing (dm_trace (run_logons ls d)) \<longleftrightarrow> sends_nothing (dm_trace d)" for ls
    by (induction ls d rule: run_logons.induct) (simp_all add: on_peer_logon_quiet)
  then show ?thesis by (simp add: handshake_step_def)
qed

lemma handshake_quiet:
  assumes "handshake rounds i d = Some d'"
  shows "sends_nothing (dm_trace d') \<longleftrightarrow> sends_nothing (dm_trace d)"
  by (rule handshake.raw_induct [OF _ assms,
        where P = "\<lambda>rounds i d d'. sends_nothing (dm_trace d') \<longleftrightarrow> sends_nothing (dm_trace d)"])
    (auto simp: Let_def handshake_step_quiet split: if_splits)

lemma on_peer_accepted_quiet:
  "on_peer_accepted a d = Some (ok, d') \<Longrightarrow> sends_nothing (dm_trace d') \<longleftrightarrow> sends_nothing (dm_trace d)"
  by (auto simp: on_peer_accepted_def daemon_settings_def Let_def dest!: handshake_quiet
      split: if_splits option.splits)

lemma accept_all_quiet:
  "accept_all as d = Some d' \<Longrightarrow> sends_nothing (dm_trace d') \<longleftrightarrow> sends_nothing (dm_trace d)"
  by (induction as d rule: accept_all.induct) (auto dest: on_peer_accepted_quiet split: option.splits prod.splits)

lemma listener_checks_quiet:
  "listener_checks cs d = Some d' \<Longrightarrow> sends_nothing (dm_trace d') \<longleftrightarrow> sends_nothing (dm_trace d)"
  by (induction cs d rule: listener_checks.induct) (auto dest: accept_all_quiet split: option.splits if_splits)

lemma daemon_iteration_quiet:
  assumes "daemon_iteration r d = Some (go, d')"
  shows "sends_nothing (dm_trace d') \<longleftrightarrow> sends_nothing (dm_trace d)"
proof -
  have "sends_nothing (dm_trace (daemon_reap pids late d)) \<longleftrightarrow> sends_nothing (dm_trace d)" for pids late
    using reap_sends_nothing [of pids "dm_mgr d"] by (simp add: daemon_reap_def Let_def split_beta)
  then show ?thesis
    using assms by (auto simp: daemon_iteration_def Let_def dest: listener_checks_quiet
        split: epoll_answer.splits option.splits)
qed

lemma daemon_options_trace: "daemon_options os d = Inr d' \<Longrightarrow> dm_trace d' = dm_trace d"
  by (induction os d rule: daemon_options.induct) (auto split: if_splits)

lemma daemon_setup_quiet: "daemon_setup a sendmsg args = Inr d \<Longrightarrow> sends_nothing (dm_trace d)"
  by (auto simp: daemon_setup_def daemon_certs_def initial_daemon_def generate_self_signed_cert_def Let_def
      sends_nothing_def dest!: daemon_options_trace split: sum.splits if_splits)

interpretation quiet_loop: event_loop "\<lambda>d. g_running (dm_flags d)" daemon_iteration daemon_loop
    "\<lambda>d. sends_nothing (dm_trace d)"
  by unfold_locales (simp_all add: daemon_iteration_quiet)

lemma cleanup_sends:
  assumes "DcSm (SmSend fd pkt) \<in> set (dm_trace (daemon_cleanup sendmsg d))" "sends_nothing (dm_trace d)"
  shows "pkt = shutdown_packet"
  using assms destroy_sends [of fd pkt sendmsg "dm_mgr d"]
  by (auto simp: daemon_cleanup_def sends_nothing_def split: prod.splits if_splits)

lemma failed_setup_sends:
  assumes "daemon_setup a sendmsg args = Inl (code, d)" "DcSm (SmSend fd pkt) \<in> set (dm_trace d)"
  shows "pkt = shutdown_packet"
proof (cases "daemon_options (getopt_long daemon_long_opts args) initial_daemon")
  case (Inl c)
  then have "d = initial_daemon" using assms(1) by (simp add: daemon_setup_def)
  then show ?thesis using assms(2) by (simp add: initial_daemon_def)
next
  case (Inr d0)
  have "sends_nothing (dm_trace (daemon_certs d0))"
    using daemon_options_trace [OF Inr]
    by (auto simp: daemon_certs_def initial_daemon_def generate_self_signed_cert_def sends_nothing_def)
  then show ?thesis
    using assms Inr cleanup_sends [of fd pkt sendmsg]
    by (auto simp: daemon_setup_def sends_nothing_def Let_def split: if_splits)
qed

text \<open>
  C27: no client ever reaches its worker. In no run of the daemon, from its start to the end of its clean-up,
  whatever clients connect and whoever logs on, is a descriptor passed to a worker: while the event loop runs
  the daemon sends nothing over the sockets of its workers, and all that it sends during the clean-up are
  shutdown messages. The descriptor of the client's connection, which \<open>session_mgr_send_client\<close> is there to pass on,
  stays in the daemon.
\<close>

theorem daemon_never_hands_over:
  assumes "daemon_main a sendmsg args rounds = p" "p = Running (code, d) \<or> p = Left (code, d)"
  shows "\<forall>fd pkt. DcSm (SmSend fd pkt) \<in> set (dm_trace d) \<longrightarrow>
    p = Left (code, d) \<and> pkt = shutdown_packet \<and> pkt_fd pkt = None"
proof -
  have none: "pkt_fd shutdown_packet = None" by (simp add: shutdown_packet_def packet_of_def)
  show ?thesis
  proof (cases "daemon_setup a sendmsg args")
    case (Inl r)
    then show ?thesis using assms failed_setup_sends [of a sendmsg args code d] none by (auto simp: daemon_main_def)
  next
    case (Inr d0)
    have quiet: "sends_nothing (dm_trace d1)" if "daemon_loop rounds d0 = Running d1 \<or> daemon_loop rounds d0 = Left d1" for d1
      using quiet_loop.run_good [OF daemon_setup_quiet [OF Inr]] that by blast
    show ?thesis
    proof (cases "daemon_loop rounds d0")
      case (Running d1)
      then show ?thesis using assms Inr quiet [of d1] by (auto simp: daemon_main_def sends_nothing_def)
    next
      case (Left d1)
      then show ?thesis
        using assms Inr quiet [of d1] cleanup_sends [of _ _ sendmsg d1] none by (auto simp: daemon_main_def)
    next
      case Stuck
      then show ?thesis using assms Inr by (simp add: daemon_main_def)
    qed
  qed
qed

text \<open>A daemon that starts, and a client that logs on as \<open>ann\<close> and goes away.\<close>

definition demo_daemon_answer :: daemon_answer where
  "demo_daemon_answer = \<lparr>da_listener = True, da_open = True, da_epoll = 5, da_fds = [6], da_signals = []\<rparr>"

definition demo_accept :: accept_answer where
  "demo_accept = \<lparr>ac_context = True, ac_cert = True, ac_key = True, ac_init = True,
     ac_rounds = (\<lambda>i. \<lparr>hs_logons = (if i = 0 then [demo_logon] else []), hs_ok = i < 1, hs_signals = []\<rparr>)\<rparr>"

definition demo_round :: daemon_round where
  "demo_round = \<lparr>dr_reaped = [], dr_late = [], dr_signals = [],
     dr_epoll = EpollEvents [\<lparr>lc_accepts = [demo_accept], lc_ok = True\<rparr>]\<rparr>"

lemma handshake_flags:
  assumes "handshake rounds i d = Some d'"
  shows "(\<forall>n. hs_signals (rounds n) = []) \<longrightarrow> dm_flags d' = dm_flags d"
proof (rule handshake.raw_induct [OF _ assms,
      where P = "\<lambda>rounds i d d'. (\<forall>n. hs_signals (rounds n) = []) \<longrightarrow> dm_flags d' = dm_flags d"])
  fix hs rounds i d d'
  assume IH: "\<And>rounds i d d'. hs rounds i d = Some d' \<Longrightarrow>
        (\<forall>n. hs_signals (rounds n) = []) \<longrightarrow> dm_flags d' = dm_flags d"
    and body: "(if \<not> g_running (dm_flags d) then Some d
       else let d1 = handshake_step (rounds i) d in
            if \<not> hs_ok (rounds i) then Some d1 else hs rounds (Suc i) d1) = Some d'"
  have "(\<forall>n. hs_signals (rounds n) = []) \<Longrightarrow> dm_flags (handshake_step (rounds i) d) = dm_flags d"
    by (simp add: handshake_step_def deliver_def)
  then show "(\<forall>n. hs_signals (rounds n) = []) \<longrightarrow> dm_flags d' = dm_flags d"
    using body IH [of rounds "Suc i" "handshake_step (rounds i) d" d']
    by (auto simp: Let_def split: if_splits)
qed

lemma running_after_accept:
  assumes "on_peer_accepted demo_accept d = Some (ok, d1)"
  shows "dm_flags d1 = dm_flags d"
proof -
  have "dm_flags d3 = dm_flags d2" if "handshake (ac_rounds demo_accept) 0 d2 = Some d3" for d2 d3
    using handshake_flags [OF that] by (simp add: demo_accept_def)
  then show ?thesis using assms by (force simp: on_peer_accepted_def Let_def split: if_splits option.splits)
qed

lemma demo_setup: "\<exists>d. daemon_setup demo_daemon_answer (\<lambda>s p. 0) [''--port'', ''4000''] = Inr d \<and> dm_flags d = initial_flags"
  by (simp add: daemon_setup_def daemon_long_opts_def find_long_def demo_daemon_answer_def initial_daemon_def
      daemon_certs_def initial_flags_def Let_def)

theorem daemon_never_hands_over_witness:
  "\<exists>d. daemon_main demo_daemon_answer (\<lambda>s p. 0) [''--port'', ''4000''] [demo_round] = Running (0, d) \<and>
     (\<forall>fd pkt. DcSm (SmSend fd pkt) \<notin> set (dm_trace d))"
proof -
  obtain d where d: "daemon_setup demo_daemon_answer (\<lambda>s p. 0) [''--port'', ''4000''] = Inr d" "dm_flags d = initial_flags"
    using demo_setup by blast
  have "\<not> endless (ac_rounds demo_accept)" by (auto simp: endless_def demo_accept_def)
  then obtain ok d1 where acc: "on_peer_accepted demo_accept d = Some (ok, d1)"
    using accept_cases [of demo_accept d] by (metis surj_pair not_None_eq)
  have "g_running (dm_flags d1)" using acc d(2) running_after_accept by (simp add: initial_flags_def)
  then have r: "daemon_loop [demo_round] d = Running d1"
    using d(2) acc
    by (simp add: daemon_iteration_def demo_round_def daemon_reap_def initial_flags_def)
  then have "daemon_main demo_daemon_answer (\<lambda>s p. 0) [''--port'', ''4000''] [demo_round] = Running (0, d1)"
    using d(1) by (simp add: daemon_main_def)
  from this daemon_never_hands_over [OF this] show ?thesis by blast
qed

section \<open>A lost notification\<close>

text \<open>An iteration in which nothing happens: no signal and no event.\<close>

definition idle_round :: "daemon_round \<Rightarrow> bool" where
  "idle_round r \<longleftrightarrow> dr_signals r = [] \<and> dr_epoll r = EpollEvents []"

lemma idle_loop:
  "\<lbrakk>list_all idle_round rs; g_running (dm_flags d); \<not> g_child_exited (dm_flags d)\<rbrakk> \<Longrightarrow> daemon_loop rs d = Running d"
  by (induction rs) (auto simp: idle_round_def daemon_iteration_def daemon_reap_def)

text \<open>
  An exit can be missed. The flag is cleared after the workers were reaped; if a worker exits between
  the last \<open>waitpid\<close> and that, its notification is thrown away: however many iterations follow in which
  nothing else happens, the worker is not waited for, and the table still gives its user the dead process.
\<close>

theorem missed_exit_keeps_worker:
  assumes "mgr_inv (dm_mgr d)" "registry_of (dm_mgr d) u = Some (pid, fd)" "pid \<notin> set reaped"
    and "dm_flags d = \<lparr>g_running = True, g_child_exited = True\<rparr>" "list_all idle_round rs"
  shows "\<exists>d'. daemon_loop rs (daemon_reap reaped [SIGCHLD] d) = Running d' \<and>
     registry_of (dm_mgr d') u = Some (pid, fd) \<and> \<not> g_child_exited (dm_flags d')"
proof -
  obtain m cs where r: "session_mgr_reap reaped (dm_mgr d) = (m, cs)" by fastforce
  have "pid \<notin> set (takeWhile (\<lambda>q. 0 < q) reaped)" using assms(3) by (auto dest: set_takeWhileD)
  then have "registry_of m u = Some (pid, fd)"
    using reap_list_registry [OF assms(1), of reaped u] r assms(2) by simp
  moreover have "dm_mgr (daemon_reap reaped [SIGCHLD] d) = m"
    "dm_flags (daemon_reap reaped [SIGCHLD] d) = \<lparr>g_running = True, g_child_exited = False\<rparr>"
    using r assms(4) by (simp_all add: daemon_reap_def deliver_def on_signal_def)
  ultimately show ?thesis using idle_loop [OF assms(5)] by simp
qed

theorem missed_exit_keeps_worker_witness:
  "\<exists>d'. daemon_loop [] (daemon_reap [0] [SIGCHLD] (initial_daemon\<lparr>dm_mgr := demo_mgr,
       dm_flags := \<lparr>g_running = True, g_child_exited = True\<rparr>\<rparr>)) = Running d' \<and>
     registry_of (dm_mgr d') ''ann'' = Some (4242, 7)"
  using missed_exit_keeps_worker [of "initial_daemon\<lparr>dm_mgr := demo_mgr,
       dm_flags := \<lparr>g_running = True, g_child_exited = True\<rparr>\<rparr>" "''ann''" 4242 7 "[0]" "[]"]
    mgr_reachable_mgr_inv [OF demo_mgr_reachable] demo_mgr_registry
  by (auto simp del: daemon_loop_Nil)

end
