(* ===== verification/ServerProps.thy ===== *)
theory ServerProps
  imports ServerLoop SessionMgr FrameStream PeerChannels Daemon
begin

text \<open>
  Properties of the session worker: the invariant of its state over every run of the main loop, the
  pacing of frames, the choice of the codec, resizing, the start of frames, what a disconnection
  leaves behind, and the two interfaces between daemon and worker, the argument vector and the messages.
\<close>

section \<open>The invariant\<close>

text \<open>The fields that decide what the worker does with a client.\<close>

definition core :: "server \<Rightarrow> rdp_settings option \<times> bool \<times> int \<times> bool \<times> encoder \<times> u32" where
  "core s = (sv_client s, sv_client_active s, sv_vcm_fd s, sv_encoder_initialized s, sv_encoder s,
     sv_frame_interval_ms s)"

definition server_inv :: "server \<Rightarrow> bool" where
  "server_inv s \<longleftrightarrow>
     (sv_client_active s \<longrightarrow> sv_client s \<noteq> None) \<and>
     (0 \<le> sv_vcm_fd s \<longrightarrow> sv_client s \<noteq> None) \<and>
     (sv_encoder_initialized s \<longrightarrow> sv_client_active s \<and> enc_wf (sv_encoder s)) \<and>
     FRAME_INTERVAL_MIN_MS \<le> sv_frame_interval_ms s \<and> sv_frame_interval_ms s \<le> FRAME_INTERVAL_MAX_MS"

lemma server_inv_core: "core s = core s' \<Longrightarrow> server_inv s = server_inv s'"
  by (simp add: core_def server_inv_def)

lemma act_frame [simp]:
  "ss_ctx (act cs s) = ss_ctx s" "ss_clip (act cs s) = ss_clip s" "ss_trace (act cs s) = ss_trace s @ cs"
  "sv_width (act cs s) = sv_width s" "sv_height (act cs s) = sv_height s" "sv_ipc_fd (act cs s) = sv_ipc_fd s"
  "sv_comp (act cs s) = sv_comp s" "sv_capture (act cs s) = sv_capture s" "sv_input (act cs s) = sv_input s"
  "sv_encoder (act cs s) = sv_encoder s" "sv_clipboard_active (act cs s) = sv_clipboard_active s"
  "sv_audio (act cs s) = sv_audio s" "sv_audio_active (act cs s) = sv_audio_active s"
  "sv_listener (act cs s) = sv_listener s" "sv_client (act cs s) = sv_client s"
  "sv_epoll_fd (act cs s) = sv_epoll_fd s" "sv_vcm_fd (act cs s) = sv_vcm_fd s"
  "sv_client_active (act cs s) = sv_client_active s"
  "sv_encoder_initialized (act cs s) = sv_encoder_initialized s"
  "sv_last_frame_ms (act cs s) = sv_last_frame_ms s" "sv_frame_interval_ms (act cs s) = sv_frame_interval_ms s"
  "sv_flags (act cs s) = sv_flags s" "core (act cs s) = core s"
  by (simp_all add: act_def core_def)

lemma request_frame_frame [simp]: "core (request_frame made s) = core s"
  by (simp add: request_frame_def)

lemma core_updates [simp]:
  "core (s\<lparr>ss_ctx := c\<rparr>) = core s" "core (s\<lparr>ss_clip := k\<rparr>) = core s" "core (s\<lparr>ss_trace := t\<rparr>) = core s"
  "core (s\<lparr>sv_input := i\<rparr>) = core s" "core (s\<lparr>sv_capture := p\<rparr>) = core s" "core (s\<lparr>sv_flags := f\<rparr>) = core s"
  "core (s\<lparr>sv_clipboard_active := b\<rparr>) = core s"
  by (simp_all add: core_def)

lemma send_status_core [simp]: "core (send_status st s) = core s"
  by (simp add: send_status_def)

text \<open>A status message is well formed, so that sending it cannot overrun its buffer.\<close>

lemma send_status_eq:
  "send_status st s =
    (if 0 \<le> sv_ipc_fd s
     then act [Sys (SysIpcSend (sv_ipc_fd s) (packet_of (mk_msg WLRDP_MSG_STATUS (le32_bytes (status_code st))) (- 1)))] s
     else s)"
  by (simp add: send_status_def ipc_send_msg_wf mk_msg_wf payload_size_def)

lemma close_encoder_facts:
  "sv_client (close_encoder s) = sv_client s" "sv_client_active (close_encoder s) = sv_client_active s"
  "sv_vcm_fd (close_encoder s) = sv_vcm_fd s" "\<not> sv_encoder_initialized (close_encoder s)"
  "sv_frame_interval_ms (close_encoder s) = sv_frame_interval_ms s" "ss_ctx (close_encoder s) = ss_ctx s"
  "sv_width (close_encoder s) = sv_width s" "sv_height (close_encoder s) = sv_height s"
  by (simp_all add: close_encoder_def split: prod.split)

lemma disconnect_client_inv [inv_intros]:
  "server_inv s \<Longrightarrow> server_inv (disconnect_client s)"
  "sv_client (disconnect_client s) = None" "\<not> 0 \<le> sv_vcm_fd (disconnect_client s)"
proof -
  define s1 where "s1 = (if 0 \<le> sv_vcm_fd s then (act [Sys (SysEpollDel (sv_vcm_fd s))] s)\<lparr>sv_vcm_fd := - 1\<rparr> else s)"
  define s2 where "s2 = (if sv_client s1 \<noteq> None
    then (act [Peer PeerContextFree, Peer PeerFree] s1)\<lparr>sv_client := None, sv_client_active := False\<rparr> else s1)"
  have d: "disconnect_client s = send_status StatusDisconnected (close_encoder s2)"
    by (simp add: disconnect_client_def s1_def s2_def Let_def)
  have c: "core (disconnect_client s) = core (close_encoder s2)" by (simp add: d)
  note cl = close_encoder_facts [of s2]
  have vcm: "\<not> 0 \<le> sv_vcm_fd s2" "sv_client s2 = None" by (simp_all add: s1_def s2_def)
  show "sv_client (disconnect_client s) = None" "\<not> 0 \<le> sv_vcm_fd (disconnect_client s)"
    using c cl vcm by (simp_all add: core_def)
  assume inv: "server_inv s"
  then have "\<not> sv_client_active s2" "sv_frame_interval_ms s2 = sv_frame_interval_ms s"
    by (auto simp: s1_def s2_def server_inv_def)
  then have "server_inv (close_encoder s2)"
    using inv cl vcm by (auto simp: server_inv_def)
  then show "server_inv (disconnect_client s)" using server_inv_core [OF c] by simp
qed

lemma init_encoder_inv [inv_intros]:
  assumes "server_inv s" "sv_client_active s"
  shows "server_inv (init_encoder_for_client a s)"
proof -
  obtain mode v f where m: "encoder_choice (close_encoder s) = (mode, v, f)" by (metis prod_cases3)
  obtain ok enc cs where e: "encoder_init a mode (sv_width s) (sv_height s) v f = (ok, enc, cs)" by (metis prod_cases3)
  note facts = encoder_init_facts [OF e]
  show ?thesis
    using assms m e facts(1,2) close_encoder_facts [of s]
    by (auto simp: init_encoder_for_client_def server_inv_def)
qed

section \<open>Pacing\<close>

lemma adapted_interval_eq:
  assumes "interval \<le> 100"
  shows "unat (adapted_interval interval t) =
    (unat interval * 3 + min 100 (max 16 (unat (ucast (t * 2) :: u32)))) div 4"
proof -
  define tg where "tg = (if FRAME_INTERVAL_MAX_MS < (if (ucast (t * 2) :: u32) < FRAME_INTERVAL_MIN_MS
    then FRAME_INTERVAL_MIN_MS else ucast (t * 2)) then FRAME_INTERVAL_MAX_MS
    else (if (ucast (t * 2) :: u32) < FRAME_INTERVAL_MIN_MS then FRAME_INTERVAL_MIN_MS else ucast (t * 2)))"
  have tg: "unat tg = min 100 (max 16 (unat (ucast (t * 2) :: u32)))" "unat tg \<le> 100"
    by (auto simp: tg_def FRAME_INTERVAL_MAX_MS_def FRAME_INTERVAL_MIN_MS_def word_less_nat_alt)
  have i: "unat interval \<le> 100" using assms(1) by (simp add: word_le_nat_alt)
  have "adapted_interval interval t = (interval * 3 + tg) div 4"
    by (simp add: adapted_interval_def tg_def Let_def)
  moreover have "unat (interval * 3 + tg) = unat interval * 3 + unat tg"
    using i tg(2) by (simp add: unat_word_ariths)
  ultimately show ?thesis using tg(1) by (simp add: unat_div)
qed

lemma adapted_interval_bounds [inv_intros]:
  assumes "FRAME_INTERVAL_MIN_MS \<le> interval" "interval \<le> FRAME_INTERVAL_MAX_MS"
  shows "FRAME_INTERVAL_MIN_MS \<le> adapted_interval interval t" "adapted_interval interval t \<le> FRAME_INTERVAL_MAX_MS"
proof -
  have "16 \<le> unat interval" "unat interval \<le> 100"
    using assms by (simp_all add: FRAME_INTERVAL_MIN_MS_def FRAME_INTERVAL_MAX_MS_def word_le_nat_alt)
  moreover obtain m :: nat where "16 \<le> m" "m \<le> 100"
    "unat (adapted_interval interval t) = (unat interval * 3 + m) div 4"
  proof
    show "unat (adapted_interval interval t) = (unat interval * 3 + min 100 (max 16 (unat (ucast (t * 2) :: u32)))) div 4"
      using assms(2) by (intro adapted_interval_eq) (simp add: FRAME_INTERVAL_MAX_MS_def)
  qed simp_all
  moreover have "64 div 4 \<le> (unat interval * 3 + m) div 4" "(unat interval * 3 + m) div 4 \<le> 400 div 4"
    if "16 \<le> m" "m \<le> 100" "16 \<le> unat interval" "unat interval \<le> 100" for m
    using that by (intro div_le_mono; simp)+
  ultimately have "16 \<le> unat (adapted_interval interval t) \<and> unat (adapted_interval interval t) \<le> 100"
    by fastforce
  then show "FRAME_INTERVAL_MIN_MS \<le> adapted_interval interval t" "adapted_interval interval t \<le> FRAME_INTERVAL_MAX_MS"
    by (simp_all add: FRAME_INTERVAL_MIN_MS_def FRAME_INTERVAL_MAX_MS_def word_le_nat_alt)
qed

lemma inv_act [simp]: "server_inv (act cs s) = server_inv s"
  by (rule server_inv_core) simp

lemma inv_updates [simp]:
  "server_inv (s\<lparr>ss_ctx := c\<rparr>) = server_inv s" "server_inv (s\<lparr>ss_clip := k\<rparr>) = server_inv s"
  "server_inv (s\<lparr>ss_trace := t\<rparr>) = server_inv s" "server_inv (s\<lparr>sv_capture := p\<rparr>) = server_inv s"
  "server_inv (s\<lparr>sv_flags := f\<rparr>) = server_inv s" "server_inv (s\<lparr>sv_clipboard_active := b\<rparr>) = server_inv s"
  by (rule server_inv_core; simp)+

lemma inv_request [simp]: "server_inv (request_frame made s) = server_inv s"
  by (rule server_inv_core) simp

lemma inv_encoder: "server_inv s \<Longrightarrow> enc_wf enc \<Longrightarrow> server_inv (s\<lparr>sv_encoder := enc\<rparr>)"
  by (simp add: server_inv_def)

lemma inv_paced:
  "server_inv s \<Longrightarrow>
     server_inv (s\<lparr>sv_frame_interval_ms := adapted_interval (sv_frame_interval_ms s) t, sv_last_frame_ms := u\<rparr>)"
  using adapted_interval_bounds [of "sv_frame_interval_ms s" t] by (simp add: server_inv_def)

lemma on_frame_ready_inv [inv_intros]:
  assumes "server_inv s"
  shows "server_inv (on_frame_ready e w h stride s)"
proof (cases "sv_client s")
  case None
  then show ?thesis using assms by (simp add: on_frame_ready_def)
next
  case (Some st)
  obtain ok enc cs where e: "encoder_encode (fe_enc e) (sv_encoder s) stride = (ok, enc, cs)" by (metis prod_cases3)
  obtain sent ctx cs2 where snd: "rdp_peer_send_frame (fe_send e) st (ss_ctx s) (encoded_frame enc w h) = (sent, ctx, cs2)"
    by (metis prod_cases3)
  let ?s1 = "act cs (s\<lparr>sv_encoder := enc\<rparr>)"
  let ?s2 = "act cs2 (?s1\<lparr>ss_ctx := ctx\<rparr>)"
  let ?s3 = "?s2\<lparr>sv_frame_interval_ms := adapted_interval (sv_frame_interval_ms ?s2) (fe_sent e - fe_now e),
    sv_last_frame_ms := fe_end e\<rparr>"
  have "on_frame_ready e w h stride s \<in> {s, request_frame (fe_made e) s} \<or>
      sv_encoder_initialized s \<and>
      on_frame_ready e w h stride s \<in> {request_frame (fe_made e) ?s1, request_frame (fe_made e) ?s3}"
    using Some e snd by (simp add: on_frame_ready_def Let_def)
  moreover have "server_inv ?s1" "server_inv ?s3" if "sv_encoder_initialized s"
  proof -
    have "enc_wf enc" using that e assms enc_wf_encode by (auto simp: server_inv_def)
    then have "server_inv (s\<lparr>sv_encoder := enc\<rparr>)" using assms inv_encoder by blast
    then show "server_inv ?s1" by simp
    then have "server_inv ?s2" by simp
    then show "server_inv ?s3" by (rule inv_paced)
  qed
  ultimately show ?thesis using assms by auto
qed

text \<open>A resize that changes something: the state before the encoder is started again.\<close>

lemma on_peer_resize_steps:
  assumes "\<not> (sv_width s = round16 w \<and> sv_height s = round16 h)"
  obtains s4 ctx cs where "core s4 = core s"
    "on_peer_resize e w h sc s = (if sv_encoder_initialized s then init_encoder_for_client (rs_init e) s4 else s4)"
    "sv_width s4 = round16 w" "sv_height s4 = round16 h" "sv_comp s4 = sv_comp s"
    "sv_input s4 = input_update_size (sv_input s) (round16 w) (round16 h)"
    "ss_trace s4 = ss_trace s @ Sys (SysSystem (resize_command (co_display_name (sv_comp s)) (round16 w) (round16 h) sc)) # cs"
    "sv_client s \<noteq> None \<longrightarrow> pc_width (ss_ctx s4) = round16 w \<and> pc_height (ss_ctx s4) = round16 h"
    "rdp_peer_update_size (rs_surface e) (ss_ctx s) (round16 w) (round16 h) = (ctx, cs) \<and>
       ss_ctx s4 = ctx \<or> cs = [] \<and> ss_ctx s4 = ss_ctx s"
proof -
  let ?w = "round16 w" and ?h = "round16 h"
  define s2 where "s2 = (act [Sys (SysSystem (resize_command (co_display_name (sv_comp s)) ?w ?h sc))] s)
    \<lparr>sv_width := ?w, sv_height := ?h\<rparr>"
  obtain ctx cs where u: "rdp_peer_update_size (rs_surface e) (ss_ctx s2) ?w ?h = (ctx, cs)" by fastforce
  have ctx: "pc_width ctx = ?w \<and> pc_height ctx = ?h"
    using u by (auto simp: rdp_peer_update_size_def gfx_create_surface_def Let_def
        split: if_splits prod.splits option.splits)
  define s3 where "s3 = (if sv_client s2 \<noteq> None then act cs (s2\<lparr>ss_ctx := ctx\<rparr>) else s2)"
  define s4 where "s4 = s3\<lparr>sv_input := input_update_size (sv_input s3) ?w ?h\<rparr>"
  have "core s2 = core s" by (simp add: s2_def core_def)
  then have core: "core s4 = core s" by (simp add: s4_def s3_def)
  moreover have "on_peer_resize e w h sc s = (if sv_encoder_initialized s4 then init_encoder_for_client (rs_init e) s4 else s4)"
    using assms u by (auto simp: on_peer_resize_def s2_def s3_def s4_def Let_def)
  moreover have "sv_encoder_initialized s4 = sv_encoder_initialized s" using core by (simp add: core_def)
  ultimately show thesis
    using ctx u by (intro that [of s4 "if sv_client s2 \<noteq> None then cs else []" ctx]) (auto simp: s4_def s3_def s2_def)
qed

lemma on_peer_resize_inv [inv_intros]:
  assumes "server_inv s"
  shows "server_inv (on_peer_resize e w h sc s)"
proof (cases "sv_width s = round16 w \<and> sv_height s = round16 h")
  case True
  then show ?thesis using assms by (simp add: on_peer_resize_def)
next
  case False
  then obtain s4 ctx cs where s4: "core s4 = core s"
      "on_peer_resize e w h sc s = (if sv_encoder_initialized s then init_encoder_for_client (rs_init e) s4 else s4)"
    by (rule on_peer_resize_steps)
  then have "server_inv s4" using assms server_inv_core by blast
  then show ?thesis using s4 init_encoder_inv [of s4 "rs_init e"] by (auto simp: core_def server_inv_def)
qed

lemma resize_if_inv [inv_intros]: "server_inv s \<Longrightarrow> server_inv (resize_if e req s)"
  by (auto simp: resize_if_def on_peer_resize_inv split: option.split)

section \<open>Every event keeps the invariant\<close>

lemma handle_peer_event_inv [inv_intros]:
  assumes "server_inv s"
  shows "server_inv (handle_peer_event st e s)"
proof (cases e)
  case (EvSettings st')
  then show ?thesis using assms by (auto simp: server_inv_def)
qed (use assms in \<open>auto simp: with_ctx_def resize_if_inv split: prod.split\<close>)

lemma run_peer_events_inv [inv_intros]: "server_inv s \<Longrightarrow> server_inv (run_peer_events es s)"
  by (induction es s rule: run_peer_events.induct) (auto simp: handle_peer_event_inv split: option.split)

lemma check_vcm_inv [inv_intros]:
  assumes "server_inv s" "check_vcm v s = (ok, s')"
  shows "server_inv s'"
  using assms run_peer_events_inv [OF assms(1), of "vp_events v"]
  by (auto simp: check_vcm_def rdp_peer_check_vcm_def split: if_splits prod.splits)

lemma on_wl_clipboard_changed_inv: "server_inv s \<Longrightarrow> server_inv (on_wl_clipboard_changed s)"
  by (simp add: on_wl_clipboard_changed_def)

lemma clipboard_callback_inv [inv_intros]: "server_inv s \<Longrightarrow> clipboard_callback e s = Some s' \<Longrightarrow> server_inv s'"
  by (cases e) (auto simp: with_clip_def on_wl_clipboard_changed_inv split: prod.splits option.splits if_splits)

lemma capture_callback_inv [inv_intros]: "server_inv s \<Longrightarrow> server_inv (capture_callback e ev s)"
  by (auto simp: capture_callback_def on_frame_ready_inv Let_def split: prod.split option.split)

lemma audio_callback_inv [inv_intros]: "server_inv s \<Longrightarrow> server_inv (audio_callback x s)"
  by (auto simp: audio_callback_def on_audio_data_def Let_def split: prod.split option.split)

lemma set_up_peer_inv [inv_intros]:
  assumes "server_inv s" "sv_client s = None" "set_up_peer a s = (ok, s')"
  shows "server_inv s'"
proof -
  have "server_inv (x\<lparr>sv_client := Some st\<rparr>)" if "server_inv x" for x :: server and st
    using that by (auto simp: server_inv_def)
  then show ?thesis using assms by (auto simp: set_up_peer_def Let_def split: if_splits prod.splits)
qed

lemma accept_ipc_client_inv [inv_intros]:
  assumes "server_inv s"
  shows "server_inv (snd (accept_ipc_client rx m a s))"
proof -
  have "server_inv (snd (set_up_peer a (act [Peer (PeerNew fd)] (disconnect_client s))))" for fd
    using set_up_peer_inv [OF _ _ prod.collapse [symmetric], of "act [Peer (PeerNew fd)] (disconnect_client s)" a]
      disconnect_client_inv [of s] assms
    by simp
  then show ?thesis
    using assms disconnect_client_inv(1) [of s]
    by (auto simp: accept_ipc_client_def stop_running_def Let_def split: prod.split)
qed

lemma session_on_peer_accepted_inv [inv_intros]:
  "server_inv s \<Longrightarrow> server_inv (snd (session_on_peer_accepted a s))"
  using set_up_peer_inv [of s a "fst (set_up_peer a s)" "snd (set_up_peer a s)"]
  by (simp add: session_on_peer_accepted_def)

text \<open>A peer that was set up is in a first state of \<open>peer_reach\<close>, whatever earlier clients left behind.\<close>

lemma set_up_peer_reach:
  assumes "set_up_peer a s = (True, s')"
  shows "peer_reach mf (sess.truncate (s'\<lparr>ss_trace := []\<rparr>))" "ss_clip s' = ss_clip s"
proof -
  obtain b d where ctx: "ss_ctx s' = zero_ctx\<lparr>pc_input := True, pc_width := sv_width s, pc_height := sv_height s,
      pc_on_resize := True, pc_clipboard := b, pc_audio := d\<rparr>"
    using assms
    by (auto simp: set_up_peer_def rdp_peer_init_def zero_ctx_def Let_def split: if_splits prod.splits)
  show "peer_reach mf (sess.truncate (s'\<lparr>ss_trace := []\<rparr>))"
    by (rule peer_reach.start) (simp_all add: ctx sess.defs)
  show "ss_clip s' = ss_clip s"
    using assms by (auto simp: set_up_peer_def rdp_peer_init_def Let_def split: if_splits prod.splits)
qed

lemma fold_inv: "(\<And>x s. server_inv s \<Longrightarrow> server_inv (f x s)) \<Longrightarrow> server_inv s \<Longrightarrow> server_inv (fold f xs s)"
  by (induction xs arbitrary: s) auto

lemma dispatch_event_inv [inv_intros]:
  assumes "server_inv s" "dispatch_event l ev s = Some s'"
  shows "server_inv s'"
proof -
  have stop: "server_inv (stop_if b x) = server_inv x" for b x
    by (simp add: stop_if_def stop_running_def)
  have "server_inv (fold (\<lambda>(e, x). capture_callback e x) (ev_frames ev) s)"
    "server_inv (fold audio_callback (ev_audio ev) s)"
    "server_inv (fold (\<lambda>a s. snd (session_on_peer_accepted a s)) (ev_accepts ev) s)"
    by (rule fold_inv [OF _ assms(1)];
      auto intro: capture_callback_inv audio_callback_inv session_on_peer_accepted_inv)+
  moreover have "server_inv s1" if "run_all clipboard_callback (ev_clip ev) s = Some s1" for s1
    using that assms(1) by (rule run_all_inv) (rule clipboard_callback_inv)
  moreover have "server_inv (if \<not> ok then disconnect_client s1 else s1)" if "check_vcm (ev_vcm ev) s = (ok, s1)" for ok s1
    using check_vcm_inv [OF assms(1) that] disconnect_client_inv(1) by simp
  ultimately show ?thesis
    using assms accept_ipc_client_inv
    by (auto simp: dispatch_event_def stop Let_def split: prod.splits option.splits if_splits)
qed

lemma epoll_add_fd_core [simp]: "core (epoll_add_fd fd s) = core s"
  by (simp add: epoll_add_fd_def)

lemma epoll_update_client_inv [inv_intros]:
  assumes "server_inv s"
  shows "server_inv (epoll_update_client fds fd_of s)"
proof -
  have "core (fold epoll_add_fd xs x) = core x" for xs x
    by (induction xs arbitrary: x) simp_all
  then have f: "core (fold epoll_add_fd (filter (\<lambda>fd. 0 \<le> fd) fds) s) = core s" by blast
  have vcm: "server_inv (epoll_add_vcm fd_of x)" if "server_inv x" for x
    using that by (auto simp: epoll_add_vcm_def epoll_add_fd_def server_inv_def Let_def)
  show ?thesis
    using assms vcm server_inv_core [OF f] by (simp add: epoll_update_client_def)
qed

lemma start_frames_inv [inv_intros]:
  assumes "server_inv s" "sv_client s \<noteq> None"
  shows "server_inv (start_frames a made s)"
proof -
  let ?s = "s\<lparr>sv_client_active := True, sv_frame_interval_ms := FRAME_INTERVAL_DEFAULT_MS\<rparr>"
  have "server_inv ?s"
    using assms by (auto simp: server_inv_def FRAME_INTERVAL_DEFAULT_MS_def FRAME_INTERVAL_MIN_MS_def FRAME_INTERVAL_MAX_MS_def)
  then have "server_inv (init_encoder_for_client a ?s)" by (rule init_encoder_inv) simp
  then show ?thesis unfolding start_frames_def using server_inv_core [OF request_frame_frame] by blast
qed

section \<open>The client stays while it is served\<close>

lemma init_encoder_client [simp]: "sv_client (init_encoder_for_client a s) = sv_client s"
  using close_encoder_facts [of s] by (simp add: init_encoder_for_client_def Let_def split: prod.split)

lemma init_encoder_active [simp]: "sv_client_active (init_encoder_for_client a s) = sv_client_active s"
  using close_encoder_facts [of s] by (simp add: init_encoder_for_client_def Let_def split: prod.split)

lemma on_peer_resize_client [simp]: "sv_client (on_peer_resize e w h sc s) = sv_client s"
  by (auto simp: on_peer_resize_def Let_def split: prod.split)

lemma handle_peer_event_client: "sv_client s \<noteq> None \<Longrightarrow> sv_client (handle_peer_event st e s) \<noteq> None"
  by (cases e) (auto simp: with_ctx_def resize_if_def split: prod.split option.split)

lemma run_peer_events_client: "sv_client s \<noteq> None \<Longrightarrow> sv_client (run_peer_events es s) \<noteq> None"
proof (induction es s rule: run_peer_events.induct)
  case (2 e es s)
  obtain st where "sv_client s = Some st" using "2.prems" by auto
  then show ?case using "2.IH" [of st] handle_peer_event_client [of s st e] by simp
qed simp

lemma check_vcm_client: "check_vcm v s = (ok, s') \<Longrightarrow> sv_client s \<noteq> None \<Longrightarrow> sv_client s' \<noteq> None"
  using run_peer_events_client [of s "vp_events v"]
  by (auto simp: check_vcm_def rdp_peer_check_vcm_def simp del: not_None_eq split: if_splits prod.splits)

lemma epoll_update_client_client [simp]: "sv_client (epoll_update_client fds fd_of s) = sv_client s"
proof -
  have "core (fold epoll_add_fd xs x) = core x" for xs x
    by (induction xs arbitrary: x) simp_all
  then have "sv_client (fold epoll_add_fd xs x) = sv_client x" for xs x
    by (simp add: core_def)
  then show ?thesis by (simp add: epoll_update_client_def epoll_add_vcm_def epoll_add_fd_def Let_def)
qed

lemma start_frames_active [simp]: "sv_client_active (start_frames a made s)"
  by (simp add: start_frames_def request_frame_def)

lemma start_client_eq:
  "start_client a made s =
    (if pc_activated (ss_ctx s) \<and> \<not> sv_client_active s \<and> (pc_gfx_vcm (ss_ctx s) = None \<or> pc_gfx_ready (ss_ctx s))
     then start_frames a made s else s)"
  by (simp add: start_client_def Let_def)

lemma pump_client_inv [inv_intros]:
  assumes "server_inv s"
  shows "server_inv (pump_client c s)"
proof (cases "sv_client s = None \<or> \<not> cr_ok c")
  case True
  then show ?thesis
    using assms run_peer_events_inv [OF assms, of "cr_events c"] disconnect_client_inv(1)
    by (auto simp: pump_client_def Let_def)
next
  case False
  define s1 where "s1 = run_peer_events (cr_events c) s"
  define s2 where "s2 = epoll_update_client (cr_fds c) (cr_fd_of c) (act (input_flush (sv_input s1)) s1)"
  obtain ok s3 where v: "check_vcm (cr_vcm c) s2 = (ok, s3)" by fastforce
  have "server_inv s1" unfolding s1_def by (rule run_peer_events_inv [OF assms])
  then have "server_inv s2" unfolding s2_def by (intro epoll_update_client_inv) simp
  then have inv3: "server_inv s3" using check_vcm_inv v by blast
  have "sv_client s1 \<noteq> None" using False run_peer_events_client unfolding s1_def by blast
  then have "sv_client s2 \<noteq> None" unfolding s2_def by simp
  then have "sv_client s3 \<noteq> None" using check_vcm_client [OF v] by blast
  then have "server_inv (start_client (cr_init c) (cr_made c) s3)"
    using inv3 start_frames_inv by (simp add: start_client_eq)
  then show ?thesis
    using False v assms inv3 disconnect_client_inv(1) [OF inv3]
    by (simp add: pump_client_def s1_def s2_def Let_def)
qed

lemma server_iteration_inv [inv_intros]:
  assumes "server_iteration l r s = Some (go, s')" "server_inv s"
  shows "server_inv s'"
proof -
  have "server_inv (signals sigs x) = server_inv x" for sigs x
    by (simp add: signals_def)
  moreover have "server_inv y" if "run_all (dispatch_event l) evs x = Some y" "server_inv x" for evs x y
    using that by (rule run_all_inv) (rule dispatch_event_inv)
  ultimately show ?thesis
    using assms pump_client_inv
    by (auto simp: server_iteration_def Let_def split: if_splits epoll_answer.splits option.splits)
qed

interpretation inv_loop: event_loop "\<lambda>s. g_running (sv_flags s)" "server_iteration l"
    "server_loop l" server_inv for l
  by unfold_locales (auto intro: server_iteration_inv)

section \<open>From the start on\<close>

lemma more_updates [simp]:
  "core (s\<lparr>sv_comp := c\<rparr>) = core s" "core (s\<lparr>sv_audio := x\<rparr>) = core s" "core (s\<lparr>sv_audio_active := b\<rparr>) = core s"
  "core (s\<lparr>sv_epoll_fd := n\<rparr>) = core s" "core (s\<lparr>sv_listener := b\<rparr>) = core s"
  by (simp_all add: core_def)

lemma session_options_core: "session_options os s = Inr s' \<Longrightarrow> core s' = core s"
  by (induction os s rule: session_options.induct) (auto simp: core_def split: if_splits)

lemma watch_fds_core: "watch_fds a s = (l, s') \<Longrightarrow> core s' = core s"
  by (auto simp: watch_fds_def Let_def)

lemma initial_server_inv: "server_inv initial_server"
  by (simp add: server_inv_def initial_server_def FRAME_INTERVAL_DEFAULT_MS_def FRAME_INTERVAL_MIN_MS_def
      FRAME_INTERVAL_MAX_MS_def)

lemma session_start_inv [inv_intros]:
  assumes "session_start a args = Inr (l, s)"
  shows "server_inv s"
proof -
  have f: "core (fold epoll_add_fd xs x) = core x" for xs x
    by (induction xs arbitrary: x) simp_all
  have "core (session_certs x) = core x" for x
    by (simp add: session_certs_def core_def act_def)
  moreover have "core (signals sigs x) = core x" for sigs x
    by (simp add: signals_def)
  ultimately have "core s = core initial_server"
    using assms
    by (auto simp: session_start_def Let_def f dest!: session_options_core watch_fds_core
        split: sum.splits prod.splits if_splits)
  then show ?thesis using initial_server_inv server_inv_core by blast
qed

text \<open>
  C4: the worker's invariant. In every state that a started worker reaches, whatever its libraries,
  clients and daemon do: only a connected client is active or has a channel descriptor to be polled (so
  that no callback works on a missing peer), an initialised encoder belongs to an active client and has
  exactly the codec contexts of its mode, and the frame interval is between 16 and 100 milliseconds.
\<close>

theorem server_invariant:
  assumes "session_start a args = Inr (l, s)" "server_loop l rounds s = p" "p = Running s' \<or> p = Left s'"
  shows "(sv_client_active s' \<longrightarrow> sv_client s' \<noteq> None) \<and> (0 \<le> sv_vcm_fd s' \<longrightarrow> sv_client s' \<noteq> None) \<and>
    (sv_encoder_initialized s' \<longrightarrow> sv_client_active s' \<and> enc_wf (sv_encoder s')) \<and>
    16 \<le> sv_frame_interval_ms s' \<and> sv_frame_interval_ms s' \<le> 100"
  using inv_loop.run_good [OF session_start_inv [OF assms(1)], of l rounds s'] assms(2,3)
  by (auto simp: server_inv_def FRAME_INTERVAL_MIN_MS_def FRAME_INTERVAL_MAX_MS_def)

text \<open>A start in which nothing fails, as the daemon's worker.\<close>

definition demo_start :: start_answer where
  "demo_start = \<lparr>sm_launch = \<lparr>la_xdg = Some ''/run/user/1000'', la_uid = 1000, la_pid = 42, la_fork = ForkParent 43,
       la_access = (\<lambda>p i. True), la_contents = Some ''wayland-0'', la_waitpid = (\<lambda>i. 0)\<rparr>,
     sm_capture = \<lparr>wa_display = Some 10, wa_registry = 11, wa_globals = [(1, ''zwlr_screencopy_manager_v1''),
       (2, ''wl_output''), (3, ''wl_shm'')], wa_bind = (\<lambda>n. unat n + 100)\<rparr>,
     sm_input = demo_wl_input, sm_devices = (20, 21), sm_keymap = demo_keymap,
     sm_clipboard = \<lparr>wa_display = None, wa_registry = 0, wa_globals = [], wa_bind = (\<lambda>n. 0)\<rparr>, sm_data_device = 0,
     sm_audio = demo_pw, sm_epoll = 5, sm_capture_fd = 6, sm_input_fd = 7, sm_clipboard_fd = - 1,
     sm_audio_fd = (\<lambda>h. 8), sm_listener = True, sm_open = True, sm_listener_fds = [], sm_waitpid = (\<lambda>i. 43), sm_signals = []\<rparr>"

definition demo_args :: "string list" where
  "demo_args = [''--ipc-fd'', ''9'', ''--width'', ''800'', ''--height'', ''600'', ''--cert'', ''c'', ''--key'', ''k'']"

lemma demo_starts: "(case session_start demo_start demo_args of Inl x \<Rightarrow> False | Inr (l, s) \<Rightarrow>
    g_running (sv_flags s) \<and> sv_ipc_fd s = 9 \<and> sv_client s = None \<and> \<not> lf_standalone l)"
  by code_simp

theorem server_invariant_witness:
  "\<exists>l s. session_start demo_start demo_args = Inr (l, s) \<and> server_loop l [] s = Running s \<and>
     sv_frame_interval_ms s \<le> 100"
proof -
  obtain l s where s: "session_start demo_start demo_args = Inr (l, s)" "g_running (sv_flags s)"
    using demo_starts by (auto split: sum.splits)
  then have "server_loop l [] s = Running s" by simp
  then show ?thesis using s server_invariant [OF s(1), of "[]" "Running s" s] by simp
qed

end
