(* ===== verification/ServerFlow.thy ===== *)
theory ServerFlow
  imports ServerProps
begin

text \<open>
  What the worker does for its client: when frames start and how they are paced, what a resize changes,
  how a copied text hangs the worker, what a disconnection leaves behind.
\<close>

section \<open>The start of frames\<close>

text \<open>
  C40: frames start by one condition. The three blocks at the end of the loop are equivalent to the first
  alone: the client is activated and not yet active, and its graphics channel was given up or is ready.
  The two blocks that log a later negotiation and the fallback never run.
\<close>

theorem start_condition:
  "start_client a made s =
    (if pc_activated (ss_ctx s) \<and> \<not> sv_client_active s \<and> (pc_gfx_vcm (ss_ctx s) = None \<or> pc_gfx_ready (ss_ctx s))
     then start_frames a made s else s)"
  by (rule start_client_eq)

section \<open>Pacing\<close>

lemma request_frame_trace: "ss_trace (request_frame made s) = ss_trace s @ snd (capture_request_frame made (sv_capture s))"
  by (simp add: request_frame_def)

lemma request_frame_more:
  "sv_frame_interval_ms (request_frame made s) = sv_frame_interval_ms s"
  "sv_last_frame_ms (request_frame made s) = sv_last_frame_ms s" "ss_ctx (request_frame made s) = ss_ctx s"
  "sv_encoder (request_frame made s) = sv_encoder s"
  by (simp_all add: request_frame_def)

text \<open>
  C16: the pacing of frames. For an active client, whatever becomes of a frame, the next one is requested,
  as the last call, so that the stream never stops here. A frame that comes earlier than the interval
  after the last one is dropped without encoding; one that cannot be encoded, or encodes to nothing, is not
  sent, and the pace stays; any other is encoded and sent, the clock is taken, and the new interval is three
  quarters of the old one plus one quarter of twice the time it took to encode and send the frame, that
  time being taken modulo 2^32 and clamped to 16 to 100.
\<close>

theorem frame_pacing:
  assumes "server_inv s" "sv_client s = Some st" "sv_client_active s" "sv_encoder_initialized s"
    and "cap_mgr (sv_capture s) \<noteq> None"
    and "encoder_encode (fe_enc e) (sv_encoder s) stride = (ok, enc, cs1)"
    and "rdp_peer_send_frame (fe_send e) st (ss_ctx s) (encoded_frame enc w h) = (sent, ctx, cs2)"
    and "s' = on_frame_ready e w h stride s"
  shows "\<exists>cs. ss_trace s' = ss_trace s @ cs @ Wl CaptureOutput # (if fe_made e then [Wl WlFlush] else []) \<and>
    (if fe_now e - sv_last_frame_ms s < ucast (sv_frame_interval_ms s)
     then cs = [] \<and> sv_encoder s' = sv_encoder s \<and> ss_ctx s' = ss_ctx s \<and>
       sv_frame_interval_ms s' = sv_frame_interval_ms s \<and> sv_last_frame_ms s' = sv_last_frame_ms s
     else if \<not> ok \<or> enc_out_len enc = 0 \<and> enc_aux_len enc = 0
     then cs = cs1 \<and> sv_encoder s' = enc \<and> ss_ctx s' = ss_ctx s \<and>
       sv_frame_interval_ms s' = sv_frame_interval_ms s \<and> sv_last_frame_ms s' = sv_last_frame_ms s
     else cs = cs1 @ cs2 \<and> sv_encoder s' = enc \<and> ss_ctx s' = ctx \<and> sv_last_frame_ms s' = fe_end e \<and>
       unat (sv_frame_interval_ms s') = (3 * unat (sv_frame_interval_ms s)
         + min 100 (max 16 (unat (ucast ((fe_sent e - fe_now e) * 2) :: u32)))) div 4)"
proof -
  have req: "snd (capture_request_frame (fe_made e) (sv_capture s)) =
      Wl CaptureOutput # (if fe_made e then [Wl WlFlush] else [])"
    using assms(5) by (auto simp: capture_request_frame_def)
  have "sv_frame_interval_ms s \<le> 100" using assms(1) by (simp add: server_inv_def FRAME_INTERVAL_MAX_MS_def)
  note int = adapted_interval_eq [OF this, of "fe_sent e - fe_now e"]
  consider (early) "fe_now e - sv_last_frame_ms s < ucast (sv_frame_interval_ms s)"
    | (empty) "\<not> fe_now e - sv_last_frame_ms s < ucast (sv_frame_interval_ms s)"
        "\<not> ok \<or> enc_out_len enc = 0 \<and> enc_aux_len enc = 0"
    | (sent) "\<not> fe_now e - sv_last_frame_ms s < ucast (sv_frame_interval_ms s)"
        "\<not> (\<not> ok \<or> enc_out_len enc = 0 \<and> enc_aux_len enc = 0)"
    by blast
  then show ?thesis
  proof cases
    case early
    then have "s' = request_frame (fe_made e) s" using assms(2-4,8) by (simp add: on_frame_ready_def)
    then show ?thesis using early req by (simp add: request_frame_trace request_frame_more)
  next
    case empty
    then have "s' = request_frame (fe_made e) (act cs1 (s\<lparr>sv_encoder := enc\<rparr>))"
      using assms(2-4,6,8) by (auto simp: on_frame_ready_def Let_def)
    then show ?thesis
      unfolding if_not_P [OF empty(1)] if_P [OF empty(2)]
      using req by (intro exI [of _ cs1]) (simp add: request_frame_trace request_frame_more)
  next
    case sent
    then have "s' = request_frame (fe_made e) ((act cs2 ((act cs1 (s\<lparr>sv_encoder := enc\<rparr>))\<lparr>ss_ctx := ctx\<rparr>))
        \<lparr>sv_frame_interval_ms := adapted_interval (sv_frame_interval_ms s) (fe_sent e - fe_now e),
         sv_last_frame_ms := fe_end e\<rparr>)"
      using assms(2-4,6-8) by (auto simp: on_frame_ready_def Let_def)
    then show ?thesis
      unfolding if_not_P [OF sent(1)] if_not_P [OF sent(2)]
      using req int by (intro exI [of _ "cs1 @ cs2"]) (simp add: request_frame_trace request_frame_more mult.commute)
  qed
qed

section \<open>The encoder of a client\<close>

lemma init_encoder_result:
  assumes "encoder_choice s = (mode, v, f)"
  shows "enc_mode (sv_encoder (init_encoder_for_client a s)) = (if init_succeeds a mode then mode else WLRDP_ENCODER_RAW)"
    "enc_avc444_version (sv_encoder (init_encoder_for_client a s)) = v"
    "enc_width (sv_encoder (init_encoder_for_client a s)) = sv_width s"
    "enc_height (sv_encoder (init_encoder_for_client a s)) = sv_height s"
    "sv_encoder_initialized (init_encoder_for_client a s)" "ss_ctx (init_encoder_for_client a s) = ss_ctx s"
    "sv_width (init_encoder_for_client a s) = sv_width s" "sv_height (init_encoder_for_client a s) = sv_height s"
    "sv_input (init_encoder_for_client a s) = sv_input s" "sv_comp (init_encoder_for_client a s) = sv_comp s"
    "\<exists>cs. ss_trace (init_encoder_for_client a s) = ss_trace s @ cs"
proof -
  note cl = close_encoder_facts [of s]
  have "encoder_choice (close_encoder s) = encoder_choice s"
    unfolding encoder_choice_def cl ..
  then have "encoder_choice (close_encoder s) = (mode, v, f)" using assms by simp
  moreover obtain ok enc cs where e: "encoder_init a mode (sv_width s) (sv_height s) v f = (ok, enc, cs)"
    by (metis prod_cases3)
  moreover note facts = encoder_init_facts [OF e]
  ultimately have i: "init_encoder_for_client a s = (act (encoder_request_keyframe enc)
      (act cs ((close_encoder s)\<lparr>sv_encoder := enc\<rparr>)))\<lparr>sv_encoder_initialized := True\<rparr>"
    using cl by (simp add: init_encoder_for_client_def)
  show "enc_mode (sv_encoder (init_encoder_for_client a s)) = (if init_succeeds a mode then mode else WLRDP_ENCODER_RAW)"
    "enc_avc444_version (sv_encoder (init_encoder_for_client a s)) = v"
    "enc_width (sv_encoder (init_encoder_for_client a s)) = sv_width s"
    "enc_height (sv_encoder (init_encoder_for_client a s)) = sv_height s"
    "sv_encoder_initialized (init_encoder_for_client a s)" "ss_ctx (init_encoder_for_client a s) = ss_ctx s"
    "sv_width (init_encoder_for_client a s) = sv_width s" "sv_height (init_encoder_for_client a s) = sv_height s"
    "sv_input (init_encoder_for_client a s) = sv_input s" "sv_comp (init_encoder_for_client a s) = sv_comp s"
    "\<exists>cs. ss_trace (init_encoder_for_client a s) = ss_trace s @ cs"
    using facts cl by (simp_all add: i close_encoder_def split: prod.split)
qed

text \<open>A connected client with a ready graphics channel in AVC420 mode, served by the started worker.\<close>

definition demo_client :: server where
  "demo_client = initial_server\<lparr>sv_client := Some demo_settings, sv_client_active := True,
     sv_width := 800, sv_height := 600, sv_input := demo_input,
     sv_capture := zero_capture\<lparr>cap_mgr := Some 5\<rparr>,
     ss_ctx := zero_ctx\<lparr>pc_activated := True, pc_gfx_vcm := Some 2, pc_gfx_context := Some 3, pc_gfx_opened := True,
       pc_gfx_ready := True, pc_gfx_surface_id := 1, pc_send_mode := WLRDP_SEND_GFX_AVC420\<rparr>\<rparr>"

lemma demo_choice: "encoder_choice demo_client = (WLRDP_ENCODER_H264_FREERDP, 0, 0)"
  by (simp add: demo_client_def encoder_choice_def initial_server_def rdp_peer_get_send_mode_def zero_ctx_def)

definition demo_send :: frame_answer where
  "demo_send = \<lparr>fa_start = True, fa_command = True, fa_end = True, fa_bits = True\<rparr>"

text \<open>
  A frame that took 10 milliseconds: the interval goes from 33 to (99 + 20) / 4 milliseconds.
\<close>

theorem frame_pacing_witness:
  "unat (sv_frame_interval_ms (on_frame_ready \<lparr>fe_now = 40, fe_sent = 50, fe_end = 51, fe_enc = demo_enc_answer,
       fe_send = demo_send, fe_made = True\<rparr> 800 600 3200
       (demo_client\<lparr>sv_encoder := zero_encoder\<lparr>enc_width := 800, enc_height := 600\<rparr>, sv_encoder_initialized := True\<rparr>))) = 29"
proof -
  let ?s = "demo_client\<lparr>sv_encoder := zero_encoder\<lparr>enc_width := 800, enc_height := 600\<rparr>, sv_encoder_initialized := True\<rparr>"
  let ?e = "\<lparr>fe_now = 40, fe_sent = 50, fe_end = 51, fe_enc = demo_enc_answer, fe_send = demo_send, fe_made = True\<rparr>"
  have pre: "server_inv ?s" "sv_client ?s = Some demo_settings" "sv_client_active ?s" "sv_encoder_initialized ?s"
      "cap_mgr (sv_capture ?s) \<noteq> None"
    using initial_server_inv
    by (simp_all add: demo_client_def server_inv_def initial_server_def enc_wf_def zero_encoder_def)
  obtain ok enc cs1 where e: "encoder_encode (fe_enc ?e) (sv_encoder ?s) 3200 = (ok, enc, cs1)" by (metis prod_cases3)
  obtain sent ctx cs2 where f: "rdp_peer_send_frame (fe_send ?e) demo_settings (ss_ctx ?s) (encoded_frame enc 800 600) = (sent, ctx, cs2)"
    by (metis prod_cases3)
  have "ok" "enc_out_len enc \<noteq> 0"
    using e by (auto simp: encoder_encode_def raw_encode_def convert_pixels_def zero_encoder_def demo_enc_answer_def
        needed_size_def dst_stride_def Let_def)
  moreover have "sv_frame_interval_ms ?s = 33" "sv_last_frame_ms ?s = 0"
    by (simp_all add: demo_client_def initial_server_def FRAME_INTERVAL_DEFAULT_MS_def)
  ultimately show ?thesis using frame_pacing [OF pre e f refl] by auto
qed

section \<open>Resizing\<close>

lemma and_not_15: "unat ((a :: u32) AND NOT 15) = unat a - unat a mod 16"
proof -
  have "push_bit 4 (drop_bit 4 a) = a AND NOT (mask 4)"
    by (rule bit_word_eqI) (auto simp: bit_push_bit_iff bit_drop_bit_eq bit_and_iff bit_not_iff bit_mask_iff)
  moreover have "push_bit 4 (drop_bit 4 a) + take_bit 4 a = a" by (rule bits_ident)
  ultimately have "a AND NOT 15 = a - take_bit 4 a" by (simp add: mask_eq_exp_minus_1 algebra_simps)
  moreover have le: "unat (take_bit 4 a) = unat a mod 16"
    by (simp add: take_bit_eq_mod unat_mod)
  moreover have "take_bit 4 a \<le> a" using le by (simp add: word_le_nat_alt)
  ultimately show ?thesis by (simp add: unat_sub)
qed

lemma round16_facts:
  "unat x < 2 ^ 32 - 15 \<Longrightarrow> 16 dvd unat (round16 x) \<and> unat x \<le> unat (round16 x) \<and> unat (round16 x) < unat x + 16"
  "2 ^ 32 - 15 \<le> unat x \<Longrightarrow> round16 x = 0"
proof -
  have r: "unat (round16 x) = unat (x + 15) - unat (x + 15) mod 16"
    unfolding round16_def by (rule and_not_15)
  have s: "unat (x + 15) = (unat x + 15) mod 2 ^ 32" by (simp add: unat_word_ariths)
  {
    assume "unat x < 2 ^ 32 - 15"
    then have "unat (x + 15) = unat x + 15" using s by simp
    then have eq: "unat (round16 x) = unat x + 15 - (unat x + 15) mod 16" using r by simp
    have "16 dvd n - n mod 16 \<and> n - n mod 16 \<le> n \<and> n < (n - n mod 16) + 16" for n :: nat
      by (simp add: dvd_minus_mod)
    from this [of "unat x + 15"] show "16 dvd unat (round16 x) \<and> unat x \<le> unat (round16 x) \<and> unat (round16 x) < unat x + 16"
      unfolding eq by linarith
  next
    assume "2 ^ 32 - 15 \<le> unat x"
    moreover have "unat x < 2 ^ 32" using unsigned_less [of x] by simp
    ultimately obtain k where k: "unat x = (2 ^ 32 - 15) + k" "k < 15"
      by (intro that [of "unat x - (2 ^ 32 - 15)"]) linarith+
    then have "unat x + 15 = 2 ^ 32 + k" by simp
    then have "unat (x + 15) = k" using s k(2) by simp
    then have "unat (x + 15) < 15" using k(2) by simp
    then have "unat (round16 x) = 0" using r by simp
    then show "round16 x = 0" by (simp add: unat_eq_0)
  }
qed

text \<open>
  C19: a resize is consistent. The sizes are rounded up to multiples of 16 (a size within 15 of 2^32 becomes
  zero); if they differ from those in use, the worker, the input mapping, a client's context and an
  initialised encoder all have the new ones afterwards, and exactly then the compositor's output was
  reconfigured, before anything else. Otherwise nothing happens.
\<close>

theorem resize_consistent:
  assumes "server_inv s" "s' = on_peer_resize e w h sc s"
  shows "sv_width s' = round16 w \<and> sv_height s' = round16 h \<and>
    (if sv_width s = round16 w \<and> sv_height s = round16 h then s' = s
     else (\<exists>cs. ss_trace s' = ss_trace s @ Sys (SysSystem (resize_command (co_display_name (sv_comp s))
              (round16 w) (round16 h) sc)) # cs) \<and>
       inp_width (sv_input s') = round16 w \<and> inp_height (sv_input s') = round16 h \<and>
       (sv_client s \<noteq> None \<longrightarrow> pc_width (ss_ctx s') = round16 w \<and> pc_height (ss_ctx s') = round16 h) \<and>
       (sv_encoder_initialized s \<longrightarrow> sv_encoder_initialized s' \<and>
          enc_width (sv_encoder s') = round16 w \<and> enc_height (sv_encoder s') = round16 h)) \<and>
    (unat w < 2 ^ 32 - 15 \<longrightarrow> 16 dvd unat (sv_width s') \<and> unat w \<le> unat (sv_width s') \<and>
       unat (sv_width s') < unat w + 16) \<and>
    (2 ^ 32 - 15 \<le> unat w \<longrightarrow> sv_width s' = 0)"
proof (cases "sv_width s = round16 w \<and> sv_height s = round16 h")
  case True
  then have "s' = s" using assms(2) by (simp add: on_peer_resize_def)
  then show ?thesis using True round16_facts [of w] by simp
next
  case False
  obtain s4 ctx cs where s4: "core s4 = core s"
      "s' = (if sv_encoder_initialized s then init_encoder_for_client (rs_init e) s4 else s4)"
      "sv_width s4 = round16 w" "sv_height s4 = round16 h" "sv_comp s4 = sv_comp s"
      "sv_input s4 = input_update_size (sv_input s) (round16 w) (round16 h)"
      "ss_trace s4 = ss_trace s @ Sys (SysSystem (resize_command (co_display_name (sv_comp s)) (round16 w) (round16 h) sc)) # cs"
      "sv_client s \<noteq> None \<longrightarrow> pc_width (ss_ctx s4) = round16 w \<and> pc_height (ss_ctx s4) = round16 h"
    unfolding assms(2) by (rule on_peer_resize_steps [OF False, where e = e and sc = sc])
  obtain mode v f where c: "encoder_choice s4 = (mode, v, f)" by (metis prod_cases3)
  note i = init_encoder_result [OF c, of "rs_init e"]
  have size: "sv_width s' = round16 w" "sv_height s' = round16 h" "sv_comp s' = sv_comp s"
    "inp_width (sv_input s') = round16 w" "inp_height (sv_input s') = round16 h"
    "sv_client s \<noteq> None \<Longrightarrow> pc_width (ss_ctx s') = round16 w \<and> pc_height (ss_ctx s') = round16 h"
    using s4 i by (auto simp: input_update_size_def)
  have enc: "sv_encoder_initialized s \<Longrightarrow> sv_encoder_initialized s' \<and>
      enc_width (sv_encoder s') = round16 w \<and> enc_height (sv_encoder s') = round16 h"
    using s4 i by simp
  obtain ds where "ss_trace s' = ss_trace s4 @ ds" using s4(2) i(11) by (metis append_Nil2)
  then have trace: "\<exists>cs. ss_trace s' = ss_trace s @ Sys (SysSystem (resize_command (co_display_name (sv_comp s'))
      (round16 w) (round16 h) sc)) # cs"
    using s4(7) size(3) by simp
  show ?thesis using False size enc trace round16_facts [of w] by auto
qed

text \<open>The client's screen grows to 1910 x 1070: the image becomes 1920 x 1072.\<close>

theorem resize_consistent_witness:
  "sv_width (on_peer_resize \<lparr>rs_init = demo_init_answer, rs_surface = demo_surface\<rparr> 1910 1070 100 demo_client) = 1920"
proof -
  have inv: "server_inv demo_client"
    using initial_server_inv by (simp add: demo_client_def server_inv_def initial_server_def)
  have "round16 1910 = 1920" by (simp add: round16_def)
  then show ?thesis using resize_consistent [OF inv refl] by simp
qed

section \<open>Frames of the old size\<close>

text \<open>
  After a resize the encoder does not look at the size of the frames it gets. A RAW encoder reads as
  many rows as its own height says, with the stride of the frame, however few rows the frame has: the frames
  that the compositor still delivers in the old size are read beyond their end.
\<close>

theorem stale_frame_overread:
  assumes "sv_client s = Some st" "sv_client_active s" "sv_encoder_initialized s"
    and "enc_mode (sv_encoder s) = WLRDP_ENCODER_RAW" "ea_realloc (fe_enc e)"
    and "\<not> fe_now e - sv_last_frame_ms s < ucast (sv_frame_interval_ms s)"
    and "h < enc_height (sv_encoder s)" "0 < stride" "s' = on_frame_ready e w h stride s"
  shows "\<exists>rows. Enc (EncImageCopy (dst_stride (fe_enc e) (sv_encoder s)) (enc_width (sv_encoder s)) rows stride)
      \<in> set (drop (length (ss_trace s)) (ss_trace s')) \<and>
    unat h * unat stride < unat rows * unat stride"
proof -
  let ?copy = "Enc (EncImageCopy (dst_stride (fe_enc e) (sv_encoder s)) (enc_width (sv_encoder s))
    (enc_height (sv_encoder s)) stride)"
  obtain ok enc cs where e: "encoder_encode (fe_enc e) (sv_encoder s) stride = (ok, enc, cs)" by (metis prod_cases3)
  have "?copy \<in> set cs"
    using e assms(4,5)
    by (auto simp: encoder_encode_def raw_encode_def convert_pixels_def Let_def split: if_splits)
  moreover have "\<exists>ds. ss_trace s' = ss_trace s @ cs @ ds"
    using assms(1-3,6,9) e by (auto simp: on_frame_ready_def request_frame_def Let_def split: prod.split)
  moreover have "unat h * unat stride < unat (enc_height (sv_encoder s)) * unat stride"
    using assms(7,8) by (simp add: word_less_nat_alt)
  ultimately show ?thesis by (intro exI [of _ "enc_height (sv_encoder s)"]) auto
qed

theorem stale_frame_overread_witness:
  "\<exists>rows. Enc (EncImageCopy (dst_stride demo_enc_answer (zero_encoder\<lparr>enc_height := 1072\<rparr>)) 0 rows 7640)
      \<in> set (ss_trace (on_frame_ready \<lparr>fe_now = 50, fe_sent = 51, fe_end = 52, fe_enc = demo_enc_answer,
         fe_send = demo_send, fe_made = True\<rparr> 1910 600 7640
        (demo_client\<lparr>sv_encoder := zero_encoder\<lparr>enc_height := 1072\<rparr>, sv_encoder_initialized := True\<rparr>))) \<and>
     600 * 7640 < unat rows * 7640"
proof -
  let ?s = "demo_client\<lparr>sv_encoder := zero_encoder\<lparr>enc_height := 1072\<rparr>, sv_encoder_initialized := True\<rparr>"
  let ?e = "\<lparr>fe_now = 50, fe_sent = 51, fe_end = 52, fe_enc = demo_enc_answer, fe_send = demo_send, fe_made = True\<rparr>"
  have "sv_client ?s = Some demo_settings" "sv_client_active ?s" "sv_encoder_initialized ?s"
    "enc_mode (sv_encoder ?s) = WLRDP_ENCODER_RAW" "sv_last_frame_ms ?s = 0" "sv_frame_interval_ms ?s = 33"
    "ss_trace ?s = []"
    by (simp_all add: demo_client_def initial_server_def zero_encoder_def FRAME_INTERVAL_DEFAULT_MS_def)
  then show ?thesis
    using stale_frame_overread [OF _ _ _ _ _ _ _ _ refl, of ?s demo_settings ?e 600 7640 1910]
    by (simp add: demo_enc_answer_def zero_encoder_def)
qed

section \<open>The client's own selection\<close>


text \<open>
  The worker with its clipboard connected as descriptor 4, and the event of the selection that the
  worker itself made: nobody writes to the pipe.
\<close>

definition demo_peer_answer :: peer_answer where
  "demo_peer_answer = \<lparr>pn_new = True, pn_context = True,
     pn_init = \<lparr>pi_cert = True, pi_set_cert = True, pi_key = True, pi_set_key = True\<rparr>,
     pn_initialize = True, pn_settings = demo_settings\<rparr>"

definition demo_poll :: vcm_poll where
  "demo_poll = \<lparr>vp_events = [], vp_ok = True, vp_state = DRDYNVC_STATE_OTHER, vp_open = demo_open\<rparr>"

definition demo_own_pipe :: read_answer where
  "demo_own_pipe = \<lparr>ra_pipe = Some (14, 15), ra_data = [], ra_closed = False, ra_read = (\<lambda>i. 4096), ra_alloc = (\<lambda>n. True)\<rparr>"

definition demo_selection :: fd_event where
  "demo_selection = \<lparr>ev_fd = 4, ev_result = 0, ev_frames = [],
     ev_clip = [CvDataOffer True 50, CvOffer 50 CLIPBOARD_MIME_TYPE, CvSelection demo_own_pipe (Some 50)],
     ev_audio = [], ev_ipc = (\<lparr>rx_n = 0, rx_buf = [], rx_cmsg = None\<rparr>, mk_msg 0 [], demo_peer_answer),
     ev_vcm = demo_poll, ev_accepts = [], ev_listener_ok = True\<rparr>"

definition demo_round :: server_round where
  "demo_round = \<lparr>sr_waitpid = 0, sr_late = [], sr_signals = [], sr_epoll = EpollEvents [demo_selection],
     sr_client = \<lparr>cr_events = [], cr_ok = True, cr_fds = [], cr_fd_of = (\<lambda>h. None), cr_vcm = demo_poll,
       cr_init = demo_init_answer, cr_made = True\<rparr>\<rparr>"


section \<open>Disconnection\<close>

lemma close_encoder_trace:
  "\<exists>cs. ss_trace (close_encoder s) = ss_trace s @ cs \<and>
     (\<forall>c \<in> set cs. \<exists>x. c = Enc x)"
  by (auto simp: close_encoder_def encoder_destroy_def nsc_cleanup_def raw_cleanup_def Let_def
      split: prod.splits option.splits)

text \<open>
  C29: a disconnection frees the peer, its encoder and its descriptor, and tells the daemon, but it does not
  close the channels: none of the contexts that the connection holds for graphics, display control, sound
  and clipboard, nor its channel manager, is given back (\<open>gfx_cleanup\<close> is not called), and the clipboard
  keeps its pointer to the dead connection's context, which is not given back either.
\<close>

theorem disconnect_leaks_channels:
  "\<exists>cs. ss_trace (disconnect_client s) = ss_trace s @ cs \<and>
     peer_owned (ss_ctx s) \<union> ResClp ` set_option (cb_cliprdr (ss_clip s))
       \<subseteq> held cs (peer_owned (ss_ctx s) \<union> ResClp ` set_option (cb_cliprdr (ss_clip s))) \<and>
     cb_cliprdr (ss_clip (disconnect_client s)) = cb_cliprdr (ss_clip s) \<and>
     sv_client (disconnect_client s) = None \<and> \<not> sv_encoder_initialized (disconnect_client s) \<and>
     sv_vcm_fd (disconnect_client s) < 0"
proof -
  define s1 where "s1 = (if 0 \<le> sv_vcm_fd s then (act [Sys (SysEpollDel (sv_vcm_fd s))] s)\<lparr>sv_vcm_fd := - 1\<rparr> else s)"
  define s2 where "s2 = (if sv_client s1 \<noteq> None
    then (act [Peer PeerContextFree, Peer PeerFree] s1)\<lparr>sv_client := None, sv_client_active := False\<rparr> else s1)"
  have d: "disconnect_client s = send_status StatusDisconnected (close_encoder s2)"
    by (simp add: disconnect_client_def s1_def s2_def Let_def)
  obtain cs where cs: "ss_trace (close_encoder s2) = ss_trace s2 @ cs" "\<forall>c \<in> set cs. \<exists>x. c = Enc x"
    using close_encoder_trace by blast
  define ds where "ds = drop (length (ss_trace (close_encoder s2))) (ss_trace (disconnect_client s))"
  have ds: "ss_trace (disconnect_client s) = ss_trace (close_encoder s2) @ ds"
      "\<forall>c \<in> set ds. \<exists>n p. c = Sys (SysIpcSend n p)"
    by (simp_all add: ds_def d send_status_eq)
  define es where "es = (if 0 \<le> sv_vcm_fd s then [Sys (SysEpollDel (sv_vcm_fd s))] else [])
    @ (if sv_client s1 \<noteq> None then [Peer PeerContextFree, Peer PeerFree] else [])"
  have es: "ss_trace s2 = ss_trace s @ es" by (simp add: es_def s2_def s1_def)
  let ?C = "ResClp ` set_option (cb_cliprdr (ss_clip s))"
  let ?R = "peer_owned (ss_ctx s) \<union> ?C"
  have enc_keeps: "R \<inter> ?R \<subseteq> held xs R" if "\<forall>c \<in> set xs. \<exists>x. c = Enc x" for xs R
    using that
  proof (induction xs arbitrary: R)
    case (Cons x xs)
    then obtain y where y: "x = Enc y" by auto
    have "R \<inter> ?R \<subseteq> ((case acquires x of None \<Rightarrow> R | Some r \<Rightarrow> insert r R)
        - (case releases x of None \<Rightarrow> {} | Some r \<Rightarrow> {r})) \<inter> ?R"
      unfolding y by (cases y) (auto simp: peer_owned_def split: option.split)
    then show ?case using Cons by fastforce
  qed simp
  have "held es ?R = ?R" by (rule held_neutral) (auto simp: es_def)
  moreover have "?R \<subseteq> held cs ?R" using enc_keeps [OF cs(2), of ?R] by blast
  moreover have "held ds R = R" for R by (rule held_neutral) (use ds(2) in auto)
  ultimately have "?R \<subseteq> held (es @ cs @ ds) ?R" by simp
  moreover have "ss_trace (disconnect_client s) = ss_trace s @ es @ cs @ ds"
    using es cs(1) ds(1) by simp
  moreover have "cb_cliprdr (ss_clip (disconnect_client s)) = cb_cliprdr (ss_clip s)"
    by (simp add: d send_status_def close_encoder_def s2_def s1_def split: prod.split)
  moreover have "\<not> sv_encoder_initialized (disconnect_client s)"
    using send_status_core [of StatusDisconnected "close_encoder s2"] close_encoder_facts(4) [of s2]
    by (simp add: d core_def)
  ultimately show ?thesis using disconnect_client_inv(2,3) [of s] by (intro exI [of _ "es @ cs @ ds"]) simp
qed

end
