(* ===== verification/DaemonWorker.thy ===== *)
theory DaemonWorker
  imports ServerFlow
begin

text \<open>
  The two interfaces between the daemon and its workers: the argument vector with which
  \<open>src/daemon/session_mgr.c\<close> starts \<open>src/session/main.c\<close>, and the messages over their socket.
\<close>

section \<open>The argument vector\<close>

lemma long_opts_maps:
  "map_of session_long_opts ''ipc-fd'' = Some (True, CHR ''i'')" "map_of session_long_opts ''width'' = Some (True, CHR ''W'')"
  "map_of session_long_opts ''height'' = Some (True, CHR ''H'')"
  "map_of session_long_opts ''desktop-cmd'' = Some (True, CHR ''d'')"
  "map_of session_long_opts ''cert'' = Some (True, CHR ''c'')" "map_of session_long_opts ''key'' = Some (True, CHR ''k'')"
  by (simp_all add: session_long_opts_def)

lemma getopt_worker_args:
  "getopt_long session_long_opts [''--ipc-fd'', v1, ''--width'', v2, ''--height'', v3, ''--desktop-cmd'', v4,
       ''--cert'', v5, ''--key'', v6] =
     [(CHR ''i'', v1), (CHR ''W'', v2), (CHR ''H'', v3), (CHR ''d'', v4), (CHR ''c'', v5), (CHR ''k'', v6)]"
  using getopt_long_pair [OF long_opts_maps(1), of v1] getopt_long_pair [OF long_opts_maps(2), of v2]
    getopt_long_pair [OF long_opts_maps(3), of v3] getopt_long_pair [OF long_opts_maps(4), of v4]
    getopt_long_pair [OF long_opts_maps(5), of v5] getopt_long_pair [OF long_opts_maps(6), of v6]
  by simp

text \<open>
  C11: the argument vector. A child that gives up root successfully executes the worker with arguments from
  which the worker's option parsing recovers the descriptor of its socket, the size, the desktop command
  and the certificate files of the daemon, whatever these strings are.
\<close>

theorem worker_arguments_roundtrip:
  assumes "ca_setgid a" "ca_initgroups a" "ca_setuid a"
    and "- (2 ^ 31) \<le> sv1" "sv1 < 2 ^ 31" "- (2 ^ 31) \<le> mgr_default_width m" "mgr_default_width m < 2 ^ 31"
    and "- (2 ^ 31) \<le> mgr_default_height m" "mgr_default_height m < 2 ^ 31"
  shows "\<exists>args s. ChExec (''wlrdp-session'' # args) \<in> set (fork_session_child a m e auth sv0 sv1) \<and>
    session_options (getopt_long session_long_opts args) initial_server = Inr s \<and>
    sv_ipc_fd s = sv1 \<and> sint (sv_width s) = mgr_default_width m \<and> sint (sv_height s) = mgr_default_height m \<and>
    sv_desktop_cmd s = mgr_desktop_cmd m \<and> sv_cert_file s = Some (mgr_cert_file m) \<and>
    sv_key_file s = Some (mgr_key_file m)"
proof -
  let ?args = "[''--ipc-fd'', c_dec sv1, ''--width'', c_dec (mgr_default_width m), ''--height'', c_dec (mgr_default_height m),
    ''--desktop-cmd'', mgr_desktop_cmd m, ''--cert'', mgr_cert_file m, ''--key'', mgr_key_file m]"
  have id: "c_snprintf 16 (c_dec sv1) = c_dec sv1" "c_snprintf 16 (c_dec (mgr_default_width m)) = c_dec (mgr_default_width m)"
    "c_snprintf 16 (c_dec (mgr_default_height m)) = c_dec (mgr_default_height m)"
    using assms(4-9) by (simp_all add: length_c_dec)
  have "ChExec (''wlrdp-session'' # ?args) \<in> set (fork_session_child a m e auth sv0 sv1)"
    using assms(1-3) by (simp add: fork_session_child_def id)
  moreover have "sint (word_of_int x :: i32) = x" if "- (2 ^ 31) \<le> x" "x < 2 ^ 31" for x
    using that by (simp add: sint_sbintrunc' signed_take_bit_int_eq_self)
  moreover obtain s where "session_options (getopt_long session_long_opts ?args) initial_server = Inr s"
    "sv_ipc_fd s = sv1" "sv_width s = word_of_int (mgr_default_width m)"
    "sv_height s = word_of_int (mgr_default_height m)" "sv_desktop_cmd s = mgr_desktop_cmd m"
    "sv_cert_file s = Some (mgr_cert_file m)" "sv_key_file s = Some (mgr_key_file m)"
    unfolding getopt_worker_args by simp
  ultimately show ?thesis using assms(4-9) by (intro exI [of _ ?args] exI [of _ s]) simp
qed

theorem worker_arguments_roundtrip_witness:
  "\<exists>args s. session_options (getopt_long session_long_opts args) initial_server = Inr s \<and>
     sv_ipc_fd s = 8 \<and> sv_desktop_cmd s = ''--help''"
proof -
  let ?m = "session_mgr_init ''--help'' ''c'' ''k'' 800 600"
  let ?a = "\<lparr>ca_setgid = True, ca_initgroups = True, ca_setuid = True\<rparr>"
  have "mgr_default_width ?m = 800" "mgr_default_height ?m = 600" "mgr_desktop_cmd ?m = ''--help''"
    by (simp_all add: session_mgr_init_def)
  then show ?thesis
    using worker_arguments_roundtrip [of ?a 8 ?m "new_entry ''ann'' 1 7" demo_auth 7] by auto
qed

section \<open>Messages to the worker\<close>

lemma recv_packet:
  assumes "msg_wf m" "delivers (packet_of m fd) rx"
  shows "\<exists>msg. ipc_recv_msg rx m0 = (True, msg, if 0 \<le> fd then fd else - 1) \<and> msg_type msg = msg_type m"
  using recv_packet_of [OF assms, of m0] by simp

text \<open>
  A shutdown of the daemon reaches its workers. What \<open>session_mgr_destroy\<close> sends to a worker makes that
  worker leave its loop: the message is delivered as a shutdown, and nothing else is changed.
\<close>

theorem shutdown_stops_worker:
  assumes "e \<in> set (sessions m)" "se_active e" "SmSend (se_ipc_fd e) pkt \<in> set (snd (session_mgr_destroy sendmsg m))"
    and "delivers pkt rx"
  shows "accept_ipc_client rx msg0 a s = (False, stop_running s) \<and>
    server_loop l (r # rs) (stop_running s) = Left (stop_running s)"
proof -
  have "pkt = shutdown_packet" using assms(3) by (rule destroy_sends)
  then obtain msg where "ipc_recv_msg rx msg0 = (True, msg, - 1)" "msg_type msg = WLRDP_MSG_SHUTDOWN"
    using recv_packet [of "mk_msg WLRDP_MSG_SHUTDOWN []" "- 1" rx msg0] assms(4)
    by (auto simp: shutdown_packet_def mk_msg_wf)
  then show ?thesis by (simp add: accept_ipc_client_def stop_running_def)
qed

lemma disconnect_trace:
  "\<exists>cs. ss_trace (disconnect_client s) = ss_trace s @ cs \<and> (sv_client s \<noteq> None \<longrightarrow> Peer PeerFree \<in> set cs)"
proof -
  define s2 where "s2 = (let s1 = (if 0 \<le> sv_vcm_fd s then (act [Sys (SysEpollDel (sv_vcm_fd s))] s)\<lparr>sv_vcm_fd := - 1\<rparr> else s)
    in if sv_client s1 \<noteq> None
       then (act [Peer PeerContextFree, Peer PeerFree] s1)\<lparr>sv_client := None, sv_client_active := False\<rparr> else s1)"
  have d: "disconnect_client s = send_status StatusDisconnected (close_encoder s2)"
    by (simp add: disconnect_client_def s2_def Let_def)
  obtain cs where "ss_trace (close_encoder s2) = ss_trace s2 @ cs" using close_encoder_trace by blast
  then show ?thesis by (auto simp: d send_status_eq s2_def Let_def)
qed

text \<open>
  C10: handing a client over. If a worker receives what \<open>session_mgr_send_client\<close> sent, it drops the client that
  it had and serves the new one on the descriptor that came with the message, not active yet and with the
  size of its desktop, provided that the peer can be set up; if not, it is left without a client.
\<close>

theorem hand_over_replaces_client:
  assumes "session_mgr_send_client sendmsg e fd = Inr (True, pkt)" "0 \<le> fd" "delivers pkt rx"
    and "accept_ipc_client rx msg0 a s = (ok, s')" "server_inv s"
  shows "(ok \<longleftrightarrow> pn_new a \<and> pn_context a \<and> fst (rdp_peer_init (pn_init a) (sv_cert_file s) (sv_key_file s) True zero_ctx) \<and> pn_initialize a) \<and>
    sv_client s' = (if ok then Some (pn_settings a) else None) \<and> \<not> sv_client_active s' \<and>
    (ok \<longrightarrow> Peer (PeerNew (nat fd)) \<in> set (ss_trace s') \<and> pc_width (ss_ctx s') = sv_width s \<and>
       pc_height (ss_ctx s') = sv_height s \<and> \<not> pc_activated (ss_ctx s')) \<and>
    (sv_client s \<noteq> None \<longrightarrow> Peer PeerFree \<in> set (drop (length (ss_trace s)) (ss_trace s')))"
proof -
  have pkt: "pkt = packet_of (mk_msg WLRDP_MSG_NEW_CLIENT []) fd"
    using assms(1) by (auto simp: session_mgr_send_client_def ipc_send_msg_wf mk_msg_wf)
  obtain msg where r: "ipc_recv_msg rx msg0 = (True, msg, fd)" "msg_type msg = WLRDP_MSG_NEW_CLIENT"
    using recv_packet [of "mk_msg WLRDP_MSG_NEW_CLIENT []" fd rx msg0] assms(2,3)
    by (auto simp: pkt mk_msg_wf)
  have d: "accept_ipc_client rx msg0 a s =
      (let s1 = disconnect_client s in
       if \<not> pn_new a then (False, act [Sys (SysClose fd)] s1)
       else set_up_peer a (act [Peer (PeerNew (nat fd))] s1))"
    using r assms(2) by (simp add: accept_ipc_client_def msg_type_defs)
  note dis = disconnect_client_inv [of s]
  have inactive: "\<not> sv_client_active (disconnect_client s)"
    using dis(1) [OF assms(5)] dis(2) by (simp add: server_inv_def)
  have size: "sv_width (disconnect_client s) = sv_width s" "sv_height (disconnect_client s) = sv_height s"
    by (simp_all add: disconnect_client_def send_status_eq close_encoder_facts Let_def)
  obtain cs where tr: "ss_trace (disconnect_client s) = ss_trace s @ cs" "sv_client s \<noteq> None \<Longrightarrow> Peer PeerFree \<in> set cs"
    using disconnect_trace by blast
  show ?thesis
    using assms(4) d dis(2) inactive size tr
    by (cases "pn_new a"; cases "pn_context a"; cases "pn_initialize a")
      (auto simp: set_up_peer_def rdp_peer_init_def zero_ctx_def Let_def split: if_splits)
qed

text \<open>The daemon's worker for \<open>ann\<close> and messages delivered to it.\<close>

definition delivered :: "packet \<Rightarrow> recv_answer" where
  "delivered p = \<lparr>rx_n = int (length (pkt_bytes p)), rx_buf = pkt_bytes p,
     rx_cmsg = map_option (CMsg SOL_SOCKET SCM_RIGHTS) (pkt_fd p)\<rparr>"

lemma delivers_delivered: "delivers p (delivered p)"
  by (simp add: delivers_def delivered_def)

theorem shutdown_stops_worker_witness:
  "\<exists>rx. accept_ipc_client rx (mk_msg 0 []) demo_peer_answer demo_client = (False, stop_running demo_client)"
proof -
  let ?e = "new_entry ''ann'' 4242 7"
  have in_m: "?e \<in> set (sessions demo_mgr)" "se_active ?e" "se_ipc_fd ?e = 7"
    by (simp_all add: demo_mgr_sessions new_entry_def)
  have "SmSend 7 shutdown_packet \<in> set (snd (session_mgr_destroy (\<lambda>s p. 0) demo_mgr))"
    by (simp add: session_mgr_destroy_def demo_mgr_sessions new_entry_def send_calls_def shutdown_packet_def
        ipc_send_msg_wf mk_msg_wf)
  then have "accept_ipc_client (delivered shutdown_packet) (mk_msg 0 []) demo_peer_answer demo_client =
      (False, stop_running demo_client)"
    using shutdown_stops_worker [OF in_m(1,2) _ delivers_delivered, of shutdown_packet "\<lambda>s p. 0"]
    unfolding in_m(3) by blast
  then show ?thesis by (rule exI)
qed

theorem hand_over_replaces_client_witness:
  "\<exists>rx s'. accept_ipc_client rx (mk_msg 0 []) demo_peer_answer demo_client = (True, s') \<and>
     sv_client s' = Some demo_settings \<and> Peer (PeerNew 12) \<in> set (ss_trace s')"
proof -
  let ?p = "packet_of (mk_msg WLRDP_MSG_NEW_CLIENT []) 12"
  have send: "session_mgr_send_client (\<lambda>s p. 8) (new_entry ''ann'' 4242 7) 12 = Inr (True, ?p)"
    by (simp add: session_mgr_send_client_def ipc_send_msg_wf mk_msg_wf)
  have inv: "server_inv demo_client"
    using initial_server_inv by (simp add: demo_client_def server_inv_def initial_server_def)
  obtain ok s' where r: "accept_ipc_client (delivered ?p) (mk_msg 0 []) demo_peer_answer demo_client = (ok, s')"
    by fastforce
  have "fst (rdp_peer_init (pn_init demo_peer_answer) cert key True zero_ctx)" for cert key
    by (simp add: rdp_peer_init_def demo_peer_answer_def)
  then have "ok \<and> sv_client s' = Some demo_settings \<and> Peer (PeerNew 12) \<in> set (ss_trace s')"
    using hand_over_replaces_client [OF send _ delivers_delivered r inv] by (simp add: demo_peer_answer_def)
  then show ?thesis using r by (intro exI [of _ "delivered ?p"] exI [of _ s']) simp
qed

end
