(* ===== verification/CodecLabels.thy ===== *)
theory CodecLabels
  imports ServerFlow
begin

text \<open>
  Which codec the frames of a client are in, and which codec the commands that send them name: over every
  run of frames, events and polls between two negotiations, and what a second negotiation does.
\<close>

section \<open>Codecs and labels\<close>

text \<open>The codec of what an encoder puts out.\<close>

definition encoder_codec :: "encoder \<Rightarrow> codec_id" where
  "encoder_codec enc =
    (case enc_mode enc of
       WLRDP_ENCODER_H264_FREERDP \<Rightarrow>
         if enc_avc444_version enc = 2 then CodecAVC444v2
         else if enc_avc444_version enc = 1 then CodecAVC444 else CodecAVC420
     | WLRDP_ENCODER_PROGRESSIVE \<Rightarrow> CodecProgressive
     | WLRDP_ENCODER_NSAC \<Rightarrow> CodecNSCodec
     | _ \<Rightarrow> CodecNone)"

text \<open>The codecs that the commands of a trace name.\<close>

fun surface_codec :: "call \<Rightarrow> codec_id option" where
  "surface_codec (Gfx (GfxSurfaceCommand cmd)) = Some (cmd_codec cmd)"
| "surface_codec (Peer (PeerSurfaceBits cmd)) = Some (cmd_codec cmd)"
| "surface_codec _ = None"

definition named_codecs :: "call list \<Rightarrow> codec_id set" where
  "named_codecs cs = {k. \<exists>c \<in> set cs. surface_codec c = Some k}"

lemma named_codecs_simps [simp]:
  "named_codecs [] = {}" "named_codecs (xs @ ys) = named_codecs xs \<union> named_codecs ys"
  "named_codecs (c # cs) = set_option (surface_codec c) \<union> named_codecs cs"
  by (auto simp: named_codecs_def)

text \<open>The codec that frames are labelled with.\<close>

definition mode_label :: "rdp_settings \<Rightarrow> peer_ctx \<Rightarrow> codec_id" where
  "mode_label st ctx =
    (case rdp_peer_get_send_mode ctx of
       WLRDP_SEND_SURFACE_BITS \<Rightarrow> if set_nscodec st then CodecNSCodec else CodecNone
     | m \<Rightarrow> mode_codec m)"

lemma send_gfx_command_codecs:
  "send_gfx_command a ctx cmd = (ok, ctx', cs) \<Longrightarrow> named_codecs cs \<subseteq> {cmd_codec cmd}"
  by (auto simp: send_gfx_command_def Let_def split: option.splits if_splits)

lemma send_frame_codecs:
  assumes "rdp_peer_send_frame a st ctx f = (ok, ctx', cs)"
  shows "named_codecs cs \<subseteq> {mode_label st ctx}"
  using assms
  by (auto simp: rdp_peer_send_frame_def send_gfx_avc420_def send_gfx_avc444_def send_gfx_progressive_def
      send_surface_bits_def mode_label_def rdp_peer_get_send_mode_def Let_def
      dest!: send_gfx_command_codecs split: if_splits send_mode.splits)

lemma choice_codec:
  assumes "sv_client s = Some st" "encoder_choice s = (mode, v, f)" "enc_mode enc = mode" "enc_avc444_version enc = v"
  shows "encoder_codec enc = mode_label st (ss_ctx s)"
  using assms
  by (cases "rdp_peer_get_send_mode (ss_ctx s)") (auto simp: encoder_codec_def encoder_choice_def mode_label_def)

section \<open>Serving a client\<close>

text \<open>
  What happens between two negotiations: frames of the capture, events of the peer, and polls of its channel
  manager, whose pump delivers events too.
\<close>

datatype serve_step =
    ServeFrame frame_env u32 u32 u32
  | ServeEvents "peer_event list"
  | ServePoll vcm_poll

fun serve :: "serve_step \<Rightarrow> server \<Rightarrow> server" where
  "serve (ServeFrame e w h stride) s = on_frame_ready e w h stride s"
| "serve (ServeEvents es) s = run_peer_events es s"
| "serve (ServePoll v) s = snd (check_vcm v s)"

fun step_events :: "serve_step \<Rightarrow> peer_event list" where
  "step_events (ServeFrame e w h stride) = []"
| "step_events (ServeEvents es) = es"
| "step_events (ServePoll v) = vp_events v"

text \<open>Events that neither negotiate nor belong to the start of a connection.\<close>

fun keeps_mode :: "peer_event \<Rightarrow> bool" where
  "keeps_mode (EvCaps a caps) = False"
| "keeps_mode (EvSettings st) = False"
| "keeps_mode (EvPostConnect a) = False"
| "keeps_mode e = True"

text \<open>What the codecs answer if an event makes the worker start the encoder again.\<close>

fun restart_answers :: "peer_event \<Rightarrow> init_answer set" where
  "restart_answers (EvActivate e) = {rs_init e}"
| "restart_answers (EvDesktopResize e) = {rs_init e}"
| "restart_answers (EvRemoteMonitors e ms) = {rs_init e}"
| "restart_answers (EvLayout e ms) = {rs_init e}"
| "restart_answers e = {}"

text \<open>The fields of the context that decide the codec.\<close>

definition mode_core :: "peer_ctx \<Rightarrow> handle option \<times> bool \<times> send_mode \<times> u32" where
  "mode_core ctx = (pc_gfx_vcm ctx, pc_gfx_ready ctx, pc_send_mode ctx, pc_pixel_format ctx)"

text \<open>
  The state of a served client: \<open>s0\<close> is the state in which the encoder was started, \<open>t\<close> its trace. \<open>ok\<close> tells
  whether the codecs have always answered well.
\<close>

definition labelled :: "rdp_settings \<Rightarrow> server \<Rightarrow> call list \<Rightarrow> bool \<Rightarrow> server \<Rightarrow> bool" where
  "labelled st s0 t ok s \<longleftrightarrow>
     sv_client s = Some st \<and> mode_core (ss_ctx s) = mode_core (ss_ctx s0) \<and> enc_wf (sv_encoder s) \<and>
     (\<exists>cs. ss_trace s = t @ cs \<and> named_codecs cs \<subseteq> {mode_label st (ss_ctx s0)}) \<and>
     encoder_codec (sv_encoder s) \<in> {mode_label st (ss_ctx s0), CodecNone} \<and>
     (ok \<longrightarrow> encoder_codec (sv_encoder s) = mode_label st (ss_ctx s0))"

lemma mode_core_facts:
  assumes "mode_core ctx = mode_core ctx'"
  shows "mode_label st ctx = mode_label st ctx'" "rdp_peer_get_send_mode ctx = rdp_peer_get_send_mode ctx'"
    "pc_pixel_format ctx = pc_pixel_format ctx'"
    "pc_gfx_vcm ctx = None \<or> pc_gfx_ready ctx \<longleftrightarrow> pc_gfx_vcm ctx' = None \<or> pc_gfx_ready ctx'"
  using assms by (simp_all add: mode_core_def mode_label_def rdp_peer_get_send_mode_def)

lemma labelled_next:
  assumes "labelled st s0 t ok s" "sv_client s' = sv_client s" "mode_core (ss_ctx s') = mode_core (ss_ctx s)"
    and "sv_encoder s' = sv_encoder s" "ss_trace s' = ss_trace s @ cs" "named_codecs cs \<subseteq> {mode_label st (ss_ctx s0)}"
  shows "labelled st s0 t ok s'"
  using assms by (auto simp: labelled_def)

lemma labelled_act: "labelled st s0 t ok s \<Longrightarrow> named_codecs cs = {} \<Longrightarrow> labelled st s0 t ok (act cs s)"
  by (erule labelled_next [where cs = cs]) simp_all

section \<open>Every step keeps the label\<close>

lemma encoder_calls:
  "named_codecs (snd (encoder_destroy enc)) = {}" "named_codecs (encoder_request_keyframe enc) = {}"
  "encoder_init a mode w h v f = (ok, enc', cs) \<Longrightarrow> named_codecs cs = {}"
  by (auto simp: encoder_destroy_def nsc_cleanup_def raw_cleanup_def encoder_request_keyframe_def enc_init_defs
      split: option.splits if_splits)

lemma quiet_named: "list_all quiet cs \<Longrightarrow> named_codecs cs = {}"
proof (induction cs)
  case (Cons c cs)
  then show ?case by (cases c) auto
qed simp

lemma request_frame_labelled: "labelled st s0 t ok s \<Longrightarrow> labelled st s0 t ok (request_frame made s)"
  unfolding request_frame_def
  by (rule labelled_act) (auto simp: capture_request_frame_def split: option.split)

lemma frame_labelled:
  assumes "labelled st s0 t ok s"
  shows "labelled st s0 t ok (on_frame_ready e w h stride s)"
proof -
  have st: "sv_client s = Some st" and wf: "enc_wf (sv_encoder s)" using assms by (simp_all add: labelled_def)
  obtain eok enc cs where e: "encoder_encode (fe_enc e) (sv_encoder s) stride = (eok, enc, cs)" by (metis prod_cases3)
  obtain sent ctx cs2 where f: "rdp_peer_send_frame (fe_send e) st (ss_ctx s) (encoded_frame enc w h) = (sent, ctx, cs2)"
    by (metis prod_cases3)
  note enc = encoder_encode_frame [OF e wf]
  let ?s1 = "act cs (s\<lparr>sv_encoder := enc\<rparr>)"
  let ?s2 = "act cs2 (?s1\<lparr>ss_ctx := ctx\<rparr>)"
  have "encoder_codec enc = encoder_codec (sv_encoder s)" "enc_wf enc"
    using enc(1) wf by (simp_all add: same_codec_def encoder_codec_def enc_wf_def)
  then have s1: "labelled st s0 t ok ?s1"
    using assms quiet_named [OF enc(2)] by (auto simp: labelled_def)
  have "mode_core (ss_ctx s) = mode_core (ss_ctx s0)" using assms by (simp add: labelled_def)
  note label = mode_core_facts(1) [OF this, of st]
  have "mode_core ctx = mode_core (ss_ctx s)"
    using send_frame_facts(1) [OF f] by (auto simp: mode_core_def)
  then have "labelled st s0 t ok ?s2"
    using send_frame_codecs [OF f] label by (intro labelled_next [OF s1]) simp_all
  then have s3: "labelled st s0 t ok (?s2\<lparr>sv_frame_interval_ms := i, sv_last_frame_ms := l\<rparr>)" for i l
    by (rule labelled_next [where cs = "[]"]) simp_all
  let ?s3 = "?s2\<lparr>sv_frame_interval_ms := adapted_interval (sv_frame_interval_ms ?s2) (fe_sent e - fe_now e),
      sv_last_frame_ms := fe_end e\<rparr>"
  have "on_frame_ready e w h stride s \<in>
      {s, request_frame (fe_made e) s, request_frame (fe_made e) ?s1, request_frame (fe_made e) ?s3}"
    using st e f by (simp add: on_frame_ready_def Let_def)
  moreover have "labelled st s0 t ok (request_frame (fe_made e) ?s3)"
    by (rule request_frame_labelled [OF s3])
  ultimately show ?thesis
    using assms request_frame_labelled [OF assms, of "fe_made e"] request_frame_labelled [OF s1, of "fe_made e"]
    by (elim insertE emptyE) (simp_all only:)
qed

lemma close_encoder_named: "\<exists>cs. ss_trace (close_encoder s) = ss_trace s @ cs \<and> named_codecs cs = {}"
  using encoder_calls(1) [of "sv_encoder s"]
  by (auto simp: close_encoder_def split: prod.splits)

lemma init_encoder_labelled:
  assumes "sv_client s = Some st" "mode_core (ss_ctx s) = mode_core (ss_ctx s0)" "encoder_choice s0 = (mode, v, f)"
    and "sv_client s0 = Some st" "\<exists>cs. ss_trace s = t @ cs \<and> named_codecs cs \<subseteq> {mode_label st (ss_ctx s0)}"
    and "ok \<longrightarrow> init_succeeds a mode"
  shows "labelled st s0 t ok (init_encoder_for_client a s)"
proof -
  have choice: "encoder_choice s = (mode, v, f)"
    using assms(1-4) mode_core_facts(2,3) [OF assms(2)] by (simp add: encoder_choice_def)
  have label: "mode_label st (ss_ctx s) = mode_label st (ss_ctx s0)" using assms(2) by (rule mode_core_facts(1))
  have ch: "encoder_choice (close_encoder s) = (mode, v, f)"
    using choice unfolding encoder_choice_def close_encoder_facts .
  obtain ok2 enc cs2 where e: "encoder_init a mode (sv_width s) (sv_height s) v f = (ok2, enc, cs2)" by (metis prod_cases3)
  note facts = encoder_init_facts [OF e]
  have i: "init_encoder_for_client a s = (act (encoder_request_keyframe enc)
      (act cs2 ((close_encoder s)\<lparr>sv_encoder := enc\<rparr>)))\<lparr>sv_encoder_initialized := True\<rparr>"
    using e ch facts(1) close_encoder_facts [of s] by (simp add: init_encoder_for_client_def)
  have codec: "encoder_codec enc = (if init_succeeds a mode then mode_label st (ss_ctx s0) else CodecNone)"
    using choice_codec [OF assms(1) choice, of enc] facts(7,8) label by (simp add: encoder_codec_def)
  obtain cs where "ss_trace (close_encoder s) = ss_trace s @ cs" "named_codecs cs = {}"
    using close_encoder_named by blast
  then have "\<exists>cs. ss_trace (init_encoder_for_client a s) = t @ cs \<and> named_codecs cs \<subseteq> {mode_label st (ss_ctx s0)}"
    using assms(5) encoder_calls(2) [of enc] encoder_calls(3) [OF e] by (auto simp: i)
  then show ?thesis
    using assms(1,2,6) close_encoder_facts [of s] facts(2) codec by (auto simp: labelled_def i)
qed

text \<open>The run is good as long as the codecs of all restarts answer well.\<close>

lemma resize_labelled:
  assumes "labelled st s0 t ok s" "encoder_choice s0 = (mode, v, f)" "sv_client s0 = Some st"
    and "ok' \<longrightarrow> ok \<and> init_succeeds (rs_init e) mode"
  shows "labelled st s0 t ok' (on_peer_resize e w h sc s)"
proof (cases "sv_width s = round16 w \<and> sv_height s = round16 h")
  case True
  then show ?thesis using assms(1,4) by (auto simp: on_peer_resize_def labelled_def)
next
  case False
  then obtain s4 ctx cs where s4: "core s4 = core s"
      "on_peer_resize e w h sc s = (if sv_encoder_initialized s then init_encoder_for_client (rs_init e) s4 else s4)"
      "ss_trace s4 = ss_trace s @ Sys (SysSystem (resize_command (co_display_name (sv_comp s)) (round16 w) (round16 h) sc)) # cs"
      "rdp_peer_update_size (rs_surface e) (ss_ctx s) (round16 w) (round16 h) = (ctx, cs) \<and> ss_ctx s4 = ctx \<or>
         cs = [] \<and> ss_ctx s4 = ss_ctx s"
    by (rule on_peer_resize_steps [where e = e and sc = sc])
  have u: "mode_core (ss_ctx s4) = mode_core (ss_ctx s)" "named_codecs cs = {}"
    using s4(4)
    by (auto simp: rdp_peer_update_size_def gfx_create_surface_def mode_core_def Let_def split: if_splits option.splits)
  have "labelled st s0 t ok s4"
    by (rule labelled_next [OF assms(1) _ u(1) _ s4(3)]) (use s4(1) u(2) in \<open>simp_all add: core_def\<close>)
  then have l4: "sv_client s4 = Some st" "mode_core (ss_ctx s4) = mode_core (ss_ctx s0)"
      "\<exists>cs. ss_trace s4 = t @ cs \<and> named_codecs cs \<subseteq> {mode_label st (ss_ctx s0)}" "labelled st s0 t ok' s4"
    using assms(4) by (auto simp: labelled_def)
  have "labelled st s0 t ok' (init_encoder_for_client (rs_init e) s4)"
    by (rule init_encoder_labelled [OF l4(1,2) assms(2,3) l4(3)]) (use assms(4) in blast)
  then show ?thesis using s4(2) l4(4) by simp
qed

lemma resize_if_labelled:
  assumes "labelled st s0 t ok s" "encoder_choice s0 = (mode, v, f)" "sv_client s0 = Some st"
    and "ok' \<longrightarrow> ok \<and> init_succeeds (rs_init e) mode"
  shows "labelled st s0 t ok' (resize_if e req s)"
  using resize_labelled [OF assms] assms(1,4)
  by (auto simp: resize_if_def labelled_def split: option.split)

lemma input_calls_named:
  "named_codecs (on_keyboard_event mods inp flags code) = {}" "named_codecs (on_mouse_event inp flags x y) = {}"
  "named_codecs (on_extended_mouse_event inp flags x y) = {}"
  by (auto simp: on_keyboard_event_def on_mouse_event_def on_extended_mouse_event_def button_if_def
      input_keyboard_key_def input_pointer_motion_def input_pointer_button_def input_pointer_axis_def on_proxy_def
      split: option.splits if_splits prod.splits)

lemma clip_calls_named:
  "named_codecs (on_cliprdr_client_format_list ids) = {}"
  "named_codecs (on_cliprdr_client_format_data_request conv clip fmt) = {}"
  "named_codecs (snd (on_cliprdr_client_format_data_response dec a clip ok bytes len)) = {}"
  by (auto simp: on_cliprdr_client_format_list_def on_cliprdr_client_format_data_request_def
      on_cliprdr_client_format_data_response_def clipboard_set_text_def destroy_opt_def Let_def
      split: option.splits if_splits)

lemma with_ctx_labelled:
  assumes "labelled st s0 t ok s" "mode_core ctx = mode_core (ss_ctx s)" "named_codecs cs = {}"
  shows "labelled st s0 t ok (with_ctx ctx cs s)"
  by (rule labelled_next [OF assms(1), of _ cs]) (use assms(2,3) in \<open>simp_all add: with_ctx_def\<close>)

lemma event_labelled:
  assumes "labelled st s0 t ok s" "encoder_choice s0 = (mode, v, f)" "sv_client s0 = Some st"
    and "keeps_mode ev" "ok' \<longrightarrow> ok \<and> (\<forall>b \<in> restart_answers ev. init_succeeds b mode)"
  shows "labelled st s0 t ok' (handle_peer_event st ev s)"
proof -
  have weak: "labelled st s0 t ok' s"
    using assms(1,5) by (auto simp: labelled_def)
  note resize = resize_if_labelled [OF _ assms(2,3)]
  show ?thesis
  proof (cases ev)
    case (EvActivate e)
    obtain ctx cs req where a: "on_activate st (ss_ctx s) = (ctx, cs, req)" by (metis prod_cases3)
    then have "labelled st s0 t ok (with_ctx ctx cs s)"
      by (intro with_ctx_labelled [OF assms(1)]) (auto simp: on_activate_def mode_core_def)
    from resize [OF this, of ok' e req] show ?thesis using a EvActivate assms(5) by simp
  next
    case (EvDesktopResize e)
    then show ?thesis using resize [OF assms(1), of ok' e] assms(5) by simp
  next
    case (EvRemoteMonitors e ms)
    then show ?thesis using resize [OF assms(1), of ok' e] assms(5) by simp
  next
    case (EvLayout e ms)
    then show ?thesis using resize [OF assms(1), of ok' e] assms(5) by simp
  next
    case (EvSndActivated fs)
    obtain ctx cs where a: "on_rdpsnd_activated fs (ss_ctx s) = (ctx, cs)" by fastforce
    then have "labelled st s0 t ok' (with_ctx ctx cs s)"
      by (intro with_ctx_labelled [OF weak]) (auto simp: on_rdpsnd_activated_def mode_core_def split: option.splits)
    then show ?thesis using a EvSndActivated by simp
  next
    case (EvClipData conv a cok bytes len)
    obtain clip cs where c: "on_cliprdr_client_format_data_response conv a (ss_clip s) cok bytes len = (clip, cs)"
      by fastforce
    have "named_codecs cs = {}" using clip_calls_named(3) [of conv a "ss_clip s" cok bytes len] c by simp
    then have "labelled st s0 t ok' (act cs (s\<lparr>ss_clip := clip\<rparr>))"
      by (intro labelled_next [OF weak, of _ cs]) simp_all
    then show ?thesis using c EvClipData by simp
  qed (use weak assms(4) in \<open>auto intro!: labelled_act simp: input_calls_named clip_calls_named\<close>)
qed

lemma events_labelled:
  assumes "labelled st s0 t ok s" "encoder_choice s0 = (mode, v, f)" "sv_client s0 = Some st"
    and "list_all keeps_mode es" "ok' \<longrightarrow> ok \<and> (\<forall>ev \<in> set es. \<forall>b \<in> restart_answers ev. init_succeeds b mode)"
  shows "labelled st s0 t ok' (run_peer_events es s)"
  using assms(1,4,5)
proof (induction es arbitrary: s ok)
  case Nil
  then show ?case by (auto simp: labelled_def)
next
  case (Cons ev es)
  define ok1 where "ok1 \<longleftrightarrow> ok \<and> (\<forall>b \<in> restart_answers ev. init_succeeds b mode)"
  have "labelled st s0 t ok1 (handle_peer_event st ev s)"
    using event_labelled [OF Cons.prems(1) assms(2,3)] Cons.prems(2) by (simp add: ok1_def)
  then have "labelled st s0 t ok' (run_peer_events es (handle_peer_event st ev s))"
    by (rule Cons.IH) (use Cons.prems(2,3) in \<open>auto simp: ok1_def\<close>)
  moreover have "sv_client s = Some st" using Cons.prems(1) by (simp add: labelled_def)
  ultimately show ?case by simp
qed

lemma poll_labelled:
  assumes "labelled st s0 t ok s" "encoder_choice s0 = (mode, v, f)" "sv_client s0 = Some st"
    and "pc_gfx_vcm (ss_ctx s0) = None \<or> pc_gfx_ready (ss_ctx s0)"
    and "list_all keeps_mode (vp_events p)"
    and "ok' \<longrightarrow> ok \<and> (\<forall>ev \<in> set (vp_events p). \<forall>b \<in> restart_answers ev. init_succeeds b mode)"
  shows "labelled st s0 t ok' (snd (check_vcm p s))"
proof -
  have "mode_core (ss_ctx s) = mode_core (ss_ctx s0)" using assms(1) by (simp add: labelled_def)
  then have "pc_gfx_vcm (ss_ctx s) = None \<or> pc_gfx_ready (ss_ctx s)" using mode_core_facts(4) assms(4) by blast
  then have "snd (check_vcm p s) = s \<or> snd (check_vcm p s) = run_peer_events (vp_events p) s"
    by (auto simp: check_vcm_def rdp_peer_check_vcm_def)
  moreover have "labelled st s0 t ok' s" using assms(1,6) by (auto simp: labelled_def)
  ultimately show ?thesis using events_labelled [OF assms(1-3,5,6)] by metis
qed

lemma serve_labelled:
  assumes "labelled st s0 t ok s" "encoder_choice s0 = (mode, v, f)" "sv_client s0 = Some st"
    and "pc_gfx_vcm (ss_ctx s0) = None \<or> pc_gfx_ready (ss_ctx s0)"
    and "\<forall>x \<in> set steps. list_all keeps_mode (step_events x)"
    and "ok' \<longrightarrow> ok \<and> (\<forall>x \<in> set steps. \<forall>ev \<in> set (step_events x). \<forall>b \<in> restart_answers ev. init_succeeds b mode)"
  shows "labelled st s0 t ok' (fold serve steps s)"
  using assms(1,5,6)
proof (induction steps arbitrary: s ok)
  case Nil
  then show ?case by (auto simp: labelled_def)
next
  case (Cons x xs)
  define ok1 where "ok1 \<longleftrightarrow> ok \<and> (\<forall>ev \<in> set (step_events x). \<forall>b \<in> restart_answers ev. init_succeeds b mode)"
  have "labelled st s0 t ok1 (serve x s)"
  proof (cases x)
    case (ServeFrame e w h stride)
    then show ?thesis using frame_labelled [OF Cons.prems(1)] by (simp add: ok1_def)
  next
    case (ServeEvents es)
    then show ?thesis
      using events_labelled [OF Cons.prems(1) assms(2,3)] Cons.prems(2) by (simp add: ok1_def)
  next
    case (ServePoll p)
    then show ?thesis
      using poll_labelled [OF Cons.prems(1) assms(2-4)] Cons.prems(2) by (simp add: ok1_def)
  qed
  then have "labelled st s0 t ok' (fold serve xs (serve x s))"
    by (rule Cons.IH) (use Cons.prems(2,3) in \<open>auto simp: ok1_def\<close>)
  then show ?case by simp
qed

section \<open>The label is the codec, until the client negotiates again\<close>

text \<open>The peer advertises its capabilities again while its pipeline is ready.\<close>

lemma renegotiation:
  assumes "cz_confirm ca = 0" "pc_gfx_surface_id (ss_ctx s) \<noteq> 0"
  shows "sv_encoder (handle_peer_event st (EvCaps ca caps) s) = sv_encoder s \<and>
    ss_ctx (handle_peer_event st (EvCaps ca caps) s) =
      (ss_ctx s)\<lparr>pc_send_mode := rank_mode (fst (caps_scan (is_macos_client (set_os_major st)) caps 0 (- 1) 0))\<rparr>"
  using assms by (simp add: with_ctx_def gfx_caps_advertise_def Let_def split: prod.split)

text \<open>
  C18: frames are labelled with their codec as long as the client does not negotiate again. From the start
  of the encoder on, over any run of frames, events and polls without a new CapsAdvertise, every command that
  sends a frame names the negotiated codec; that is the codec of the encoder's output if the codecs could be
  started each time (also after a resize), and otherwise the encoder has fallen back to RAW, which the
  commands do not name. A further CapsAdvertise changes the label to the new best codec, but leaves the encoder as
  it is.
\<close>

theorem frames_labelled:
  assumes "sv_client s = Some st" "encoder_choice s = (mode, v, f)"
    and "pc_gfx_vcm (ss_ctx s) = None \<or> pc_gfx_ready (ss_ctx s)"
    and "s1 = init_encoder_for_client a s" "s2 = fold serve steps s1" "label = mode_label st (ss_ctx s)"
    and "\<forall>x \<in> set steps. list_all keeps_mode (step_events x)"
    and "s3 = handle_peer_event st (EvCaps ca caps) s2"
  shows "(\<exists>cs. ss_trace s2 = ss_trace s1 @ cs \<and> named_codecs cs \<subseteq> {label}) \<and>
    encoder_codec (sv_encoder s1) = (if init_succeeds a mode then label else CodecNone) \<and>
    encoder_codec (sv_encoder s2) \<in> {label, CodecNone} \<and>
    (init_succeeds a mode \<and> (\<forall>x \<in> set steps. \<forall>ev \<in> set (step_events x). \<forall>b \<in> restart_answers ev. init_succeeds b mode)
       \<longrightarrow> encoder_codec (sv_encoder s2) = label) \<and>
    (cz_confirm ca = 0 \<and> pc_gfx_surface_id (ss_ctx s2) \<noteq> 0 \<longrightarrow>
       sv_encoder s3 = sv_encoder s2 \<and> mode_label st (ss_ctx s3) = mode_label st ((ss_ctx s2)\<lparr>pc_send_mode :=
         rank_mode (fst (caps_scan (is_macos_client (set_os_major st)) caps 0 (- 1) 0))\<rparr>))"
proof -
  have start: "labelled st s (ss_trace s1) ok s1" if "ok \<longrightarrow> init_succeeds a mode" for ok
  proof -
    have "labelled st s (ss_trace s) ok s1"
      unfolding assms(4) by (rule init_encoder_labelled [OF assms(1) refl assms(2,1) _ that]) auto
    then show ?thesis by (auto simp: labelled_def)
  qed
  have run: "labelled st s (ss_trace s1) ok s2" if "ok \<longrightarrow> init_succeeds a mode \<and>
      (\<forall>x \<in> set steps. \<forall>ev \<in> set (step_events x). \<forall>b \<in> restart_answers ev. init_succeeds b mode)" for ok
    unfolding assms(5)
    by (rule serve_labelled [OF start [of "init_succeeds a mode"] assms(2,1,3,7)]) (use that in auto)
  have s1: "encoder_codec (sv_encoder s1) = (if init_succeeds a mode then label else CodecNone)"
    using start [of "init_succeeds a mode"] init_encoder_result(1) [OF assms(2), of a] assms(4,6)
    by (auto simp: labelled_def encoder_codec_def)
  show ?thesis
    using run [of False] run [of True] s1 renegotiation [of ca s2 st caps]
    unfolding assms(6,8) labelled_def by auto
qed

text \<open>
  The H.264 codec starts and a frame is sent; then the client advertises only Progressive, and the frames of
  the H.264 encoder are labelled as Progressive.
\<close>

theorem frames_labelled_witness:
  "\<exists>s2 s3. s2 = fold serve [ServeFrame \<lparr>fe_now = 40, fe_sent = 50, fe_end = 51, fe_enc = demo_enc_answer, fe_send = demo_send,
       fe_made = True\<rparr> 800 600 3200] (init_encoder_for_client (demo_init_answer\<lparr>ei_h264_reset := True\<rparr>) demo_client) \<and>
     s3 = handle_peer_event demo_settings (EvCaps \<lparr>cz_confirm = 0, cz_surface = demo_surface\<rparr>
       [\<lparr>cap_version = RDPGFX_CAPVERSION_81, cap_flags = 0\<rparr>]) s2 \<and>
     encoder_codec (sv_encoder s2) = CodecAVC420 \<and> encoder_codec (sv_encoder s3) = CodecAVC420 \<and>
     mode_label demo_settings (ss_ctx s3) = CodecProgressive"
proof -
  let ?a = "demo_init_answer\<lparr>ei_h264_reset := True\<rparr>"
  let ?ca = "\<lparr>cz_confirm = 0, cz_surface = demo_surface\<rparr>"
  let ?caps = "[\<lparr>cap_version = RDPGFX_CAPVERSION_81, cap_flags = 0\<rparr>]"
  let ?steps = "[ServeFrame \<lparr>fe_now = 40, fe_sent = 50, fe_end = 51, fe_enc = demo_enc_answer, fe_send = demo_send,
    fe_made = True\<rparr> 800 600 3200]"
  define s1 where "s1 = init_encoder_for_client ?a demo_client"
  define s2 where "s2 = fold serve ?steps s1"
  define s3 where "s3 = handle_peer_event demo_settings (EvCaps ?ca ?caps) s2"
  have pre: "sv_client demo_client = Some demo_settings"
    "pc_gfx_vcm (ss_ctx demo_client) = None \<or> pc_gfx_ready (ss_ctx demo_client)"
    by (simp_all add: demo_client_def)
  have s2: "pc_gfx_surface_id (ss_ctx s2) \<noteq> 0" "pc_gfx_ready (ss_ctx s2)"
    unfolding s2_def s1_def by code_simp+
  have best: "fst (caps_scan (is_macos_client (set_os_major demo_settings)) ?caps 0 (- 1) 0) = 1"
    by code_simp
  have "\<forall>x \<in> set ?steps. list_all keeps_mode (step_events x)" by simp
  note labels = frames_labelled [OF pre(1) demo_choice pre(2) s1_def s2_def refl this s3_def]
  note codec = labels [THEN conjunct2, THEN conjunct2, THEN conjunct2, THEN conjunct1]
    and again = labels [THEN conjunct2, THEN conjunct2, THEN conjunct2, THEN conjunct2]
  have "init_succeeds ?a WLRDP_ENCODER_H264_FREERDP" by (simp add: init_succeeds_def demo_init_answer_def)
  then have "encoder_codec (sv_encoder s2) = mode_label demo_settings (ss_ctx demo_client)"
    by (intro mp [OF codec]) simp
  also have "\<dots> = CodecAVC420"
    by (simp add: mode_label_def demo_client_def rdp_peer_get_send_mode_def)
  finally have "encoder_codec (sv_encoder s2) = CodecAVC420" .
  moreover have "sv_encoder s3 = sv_encoder s2" "mode_label demo_settings (ss_ctx s3) = CodecProgressive"
    using mp [OF again] s2 unfolding best by (simp_all add: mode_label_def rdp_peer_get_send_mode_def rank_mode_def)
  ultimately show ?thesis using s1_def s2_def s3_def by auto
qed

end
