(* ===== verification/Spec2Isabelle.thy ===== *)
theory Spec2Isabelle
  imports DaemonWorker CodecLabels
begin

text \<open>
  wlrdp, an RDP terminal server for Wayland desktops: a model of its daemon, its session worker and the
  message layer between them, translated from the C sources under \<open>src/\<close>.

  The program. The daemon (\<open>daemon/main.c\<close>) listens for RDP clients, authenticates them with PAM
  (\<open>daemon/auth.c\<close>) and keeps a table with one worker process per user (\<open>daemon/session_mgr.c\<close>). A worker
  (\<open>session/main.c\<close>) launches a headless compositor (\<open>session/compositor.c\<close>), captures its output
  (\<open>session/capture.c\<close>), encodes the frames (\<open>session/encoder.c\<close>) and sends them to its client through the
  RDP peer (\<open>session/rdp_peer.c\<close>); it injects the client's input (\<open>session/input.c\<close>), bridges the
  clipboard (\<open>session/clipboard.c\<close>) and forwards sound (\<open>session/audio.c\<close>). Daemon and worker exchange
  messages with an optional descriptor over a socket (\<open>common/ipc.c\<close>).

  Conventions. Structs are records whose fields carry a prefix of the struct (\<open>se_\<close> session entry, \<open>mgr_\<close>
  manager, \<open>pc_\<close> peer context, \<open>cb_\<close> clipboard, \<open>inp_\<close> input, \<open>enc_\<close> encoder, \<open>cap_\<close> capture, \<open>aud_\<close>
  audio, \<open>co_\<close> compositor, \<open>sv_\<close> worker, \<open>dm_\<close> daemon); functions keep their C names, with \<open>session_\<close> in front
  where daemon and worker have a static function of the same name. Integers that can wrap are words of
  their width. What the kernel and the libraries (FreeRDP, Wayland, PipeWire, PAM, xkbcommon) answer is an
  argument, usually a record named \<open>..._answer\<close>, and no theorem assumes more of it than its hypotheses say.
  The calls made into them are the result's trace (type \<open>call\<close> in \<open>Calls\<close>); a dereferenced NULL is the
  pseudo-call \<open>Crash\<close>. Object lifetimes are read off the trace by \<open>held\<close>: the resources allocated and not
  yet released.

  The theories and what their lemmas show:

  \<open>Prelude\<close>: machine integers, C strings (\<open>snprintf\<close>, \<open>%d\<close>, \<open>atoi\<close>), little-endian words, searches in
  tables, signals, and the locale \<open>event_loop\<close>, which lifts an invariant of an iteration to all runs.

  \<open>Ipc\<close> (\<open>common/ipc.h\<close>, \<open>ipc.c\<close>): sending and receiving; round trip, bounds, the short record.

  \<open>SessionMgr\<close> (\<open>daemon/session_mgr.h\<close>, \<open>session_mgr.c\<close>): the table, \<open>fork\<close> as the two continuations of
  parent and child, find-or-create, reaping, shutdown. The table's invariant; the refinement of a
  registry from users to workers (locale \<open>session_registry\<close>); persistence of sessions; the order in which
  privileges are dropped.

  \<open>Auth\<close> (\<open>daemon/auth.c\<close>): the PAM conversation and the check, and when exactly it succeeds.

  \<open>Options\<close>: \<open>getopt_long\<close> as both programs use it, and the generated certificate. \<open>Daemon\<close>
  (\<open>daemon/main.c\<close>): logon and accept callbacks, the handshake loop (a partial function, since it need not
  return), the event loop. What a logon grants, when accepting a client blocks for ever, and that from its start
  to its clean-up the daemon hands no client to a worker.

  \<open>Calls\<close>: the calls, resources (\<open>held\<close>; \<open>conv_alloc\<close> for the size of the encoder's buffer), and the locale \<open>global_binder\<close> for the Wayland registry callbacks.

  \<open>Input\<close>, \<open>PeerInput\<close> (\<open>session/input.c\<close>, the input callbacks of \<open>rdp_peer.c\<close>): the keymap upload with
  all failure paths, keys and the wheel.

  \<open>Clipboard\<close> (\<open>session/clipboard.c\<close>): both directions, with the read and write loops as total functions
  over the kernel's choices; a selection is read in blocking mode, and a read that never returns is the value
  \<open>None\<close>. Bounds; when the loops end with everything transferred; the selection that the worker itself has made.

  \<open>RdpPeer\<close>, \<open>PeerCaps\<close>, \<open>PeerChannels\<close>, \<open>FrameStream\<close> (\<open>session/rdp_peer.c\<close>): the peer context with every
  operation; which capability set is negotiated; the reachable states of a connection (inductive
  predicates \<open>peer_callback\<close> and \<open>peer_reach\<close>, which starts where \<open>set_up_peer\<close> ends, over the clipboard of earlier
  clients) with the invariant of the channels and the account of the allocated contexts; the retries of a
  graphics channel that does not open (\<open>gfx_retries\<close>), which leak; the stream of graphics frames (locale \<open>gfx_sender\<close>, one interpretation per codec).

  \<open>Encoder\<close> (\<open>session/encoder.c\<close>): the four codecs, their life cycle with all that they allocate, and the pixel
  conversion, within the memory that was allocated for it below 2^32 bytes and beyond it from there on. \<open>Capture\<close> (\<open>session/capture.c\<close>): buffers and frame
  events, with and without failing allocations. \<open>Audio\<close> (\<open>session/audio.c\<close>): the chain of PipeWire objects.
  \<open>Compositor\<close> (\<open>session/compositor.c\<close>): launch and termination with their blocking times.

  \<open>Server\<close>, \<open>ServerLoop\<close> (\<open>session/main.c\<close>): the callbacks of the worker, then the loop: every iteration
  takes the signals, the events of all libraries and the answers to the calls made while they are handled.
  \<open>ServerProps\<close>: the invariant of every run. \<open>ServerFlow\<close>: pacing, resizing, start of frames, the hang after a
  copy in the client, what a disconnection leaves behind. \<open>CodecLabels\<close>: the codec and the label of the frames
  between two negotiations, and what a second one does. \<open>DaemonWorker\<close>: the argument vector and the messages by which daemon
  and worker cooperate.

  Bounds and fuel. No definition has fuel. Loops of the code that always end are total functions with a
  measure (reading and writing the clipboard: the data left, where a read that blocks for ever ends the recursion
  with \<open>None\<close> and the worker's run with \<open>Stuck\<close>; polling for a file: the time left; polling a
  child: the 20 rounds of the code). The event loops run over a list of iterations of any length and tell
  whether the program still runs, has left the loop, or hangs in a callback; the handshake loop runs over an
  infinite sequence of rounds and its value is \<open>None\<close> if it never ends.

  Not modelled. The bytes that the codecs produce, pixels and samples (their sizes are); the insides of the
  libraries; time stamps of injected input; text that is only logged or printed; the Wayland dispatch
  wrappers (\<open>..._get_fd\<close>, \<open>..._dispatch\<close>, \<open>..._flush\<close>), which only forward to the library, and empty event
  handlers; concurrency inside PipeWire and FreeRDP (their callbacks run inside the polls, as in the
  program); the worker's variant without PipeWire, in which \<open>audio_init\<close> fails (\<open>sv_audio_active\<close> is false);
  the protocol descriptions, build files and packaging. Signals are delivered between the steps of an
  iteration at the places where the flags are read or written.
\<close>

end
